(* ===== verification/Prelude.thy ===== *)
theory Prelude
  imports Complex_Main "HOL-Library.Char_ord" "HOL-Library.List_Lexorder"
    "HOL-Library.Product_Lexorder" "HOL-Library.Sublist" "HOL-Library.AList"
begin

text \<open>
  Shared vocabulary of the development: the Python built-ins the rasa sources use
  (\<open>str(int)\<close>, \<open>str.endswith\<close>, \<open>list.index\<close>, \<open>collections.Counter\<close>,
  a dict built from \<open>enumerate\<close>, \<open>sorted(set(...))\<close>), each as an executable HOL
  function, with the lemmas the component theories share. The collection
  \<open>py_simps\<close> gathers the rewrite rules that evaluate these built-ins.
\<close>

named_theorems py_simps "rewrite rules for the modelled Python built-ins"

section \<open>Decimal strings: \<open>str(n)\<close> and \<open>int(s)\<close>\<close>

definition digit_char :: "nat \<Rightarrow> char" where
  "digit_char d = char_of (48 + d)"

definition is_digit :: "char \<Rightarrow> bool" where
  "is_digit c \<longleftrightarrow> (48::nat) \<le> of_char c \<and> of_char c \<le> (57::nat)"

fun nat_str :: "nat \<Rightarrow> string" where
  "nat_str n = (if n < 10 then [digit_char n] else nat_str (n div 10) @ [digit_char (n mod 10)])"

declare nat_str.simps [simp del]

definition str_to_nat :: "string \<Rightarrow> nat" where
  "str_to_nat s = foldl (\<lambda>acc c. 10 * acc + (of_char c - 48)) 0 s"

lemma of_char_digit_char [simp]: "d < 10 \<Longrightarrow> of_char (digit_char d) = 48 + d"
  by (simp add: digit_char_def)

lemma is_digit_digit_char [simp]: "d < 10 \<Longrightarrow> is_digit (digit_char d)"
  by (simp add: is_digit_def)

lemma underscore_not_digit [simp]: "\<not> is_digit (CHR ''_'')"
  by (simp add: is_digit_def)

lemma nat_str_digits: "c \<in> set (nat_str n) \<Longrightarrow> is_digit c"
proof (induction n rule: nat_str.induct)
  case (1 n)
  then show ?case
    by (cases "n < 10") (auto simp: nat_str.simps [of n])
qed

lemma nat_str_nonempty [simp]: "nat_str n \<noteq> []"
  by (subst nat_str.simps) simp

lemma str_to_nat_snoc: "str_to_nat (s @ [c]) = 10 * str_to_nat s + (of_char c - 48)"
  by (simp add: str_to_nat_def)

text \<open>Round trip: \<open>int(str(n)) == n\<close>.\<close>

lemma str_to_nat_nat_str [simp]: "str_to_nat (nat_str n) = n"
proof (induction n rule: nat_str.induct)
  case (1 n)
  show ?case
  proof (cases "n < 10")
    case True
    then show ?thesis by (simp add: nat_str.simps [of n] str_to_nat_def)
  next
    case False
    then have "str_to_nat (nat_str n) = 10 * str_to_nat (nat_str (n div 10)) + n mod 10"
      by (simp add: nat_str.simps [of n] str_to_nat_snoc)
    with False "1.IH" show ?thesis by simp
  qed
qed

lemma nat_str_inj [simp]: "nat_str a = nat_str b \<longleftrightarrow> a = b"
  by (metis str_to_nat_nat_str)

text \<open>
  A run of digits followed by an underscore is recognised uniquely: the two ways
  the naming schemes \<open>policy_{i}_{Class}\<close> and \<open>slot_{name}_{i}\<close> glue a
  number to a name can be split back.
\<close>

lemma digits_underscore_split:
  assumes "\<forall>c\<in>set ds1. is_digit c" "\<forall>c\<in>set ds2. is_digit c"
    and "ds1 @ CHR ''_'' # x = ds2 @ CHR ''_'' # y"
  shows "ds1 = ds2 \<and> x = y"
  using assms
proof (induction ds1 arbitrary: ds2)
  case Nil
  then show ?case by (cases ds2) auto
next
  case (Cons c ds1)
  then show ?case by (cases ds2) auto
qed

lemma nat_str_underscore_split:
  "nat_str i @ CHR ''_'' # x = nat_str j @ CHR ''_'' # y \<longleftrightarrow> i = j \<and> x = y"
  using digits_underscore_split [of "nat_str i" "nat_str j" x y] nat_str_digits by auto

lemma underscore_nat_str_split:
  "x @ CHR ''_'' # nat_str i = y @ CHR ''_'' # nat_str j \<longleftrightarrow> x = y \<and> i = j"
proof
  assume "x @ CHR ''_'' # nat_str i = y @ CHR ''_'' # nat_str j"
  then have "rev (nat_str i) @ CHR ''_'' # rev x = rev (nat_str j) @ CHR ''_'' # rev y"
    by (metis append.assoc append_Cons append_Nil rev.simps(2) rev_append)
  then have "rev (nat_str i) = rev (nat_str j) \<and> rev x = rev y"
    by (intro digits_underscore_split) (auto dest: nat_str_digits)
  then show "x = y \<and> i = j" by simp
qed simp

section \<open>Strings and lists\<close>

text \<open>Python's \<open>str.endswith\<close>.\<close>

definition endswith :: "string \<Rightarrow> string \<Rightarrow> bool" where
  "endswith s suf \<longleftrightarrow> suffix suf s"

lemma endswith_append [py_simps]: "endswith (x @ y) y"
  by (auto simp: endswith_def suffix_def)

lemma endswith_rev: "endswith s suf \<longleftrightarrow> prefix (rev suf) (rev s)"
  by (simp add: endswith_def suffix_to_prefix)

text \<open>Python's \<open>list.index(x)\<close>: the first position of \<open>x\<close>; \<open>None\<close> stands for the \<open>ValueError\<close>.\<close>

fun py_index :: "'a list \<Rightarrow> 'a \<Rightarrow> nat option" where
  "py_index [] x = None"
| "py_index (y # ys) x = (if y = x then Some 0 else map_option Suc (py_index ys x))"

lemma py_index_Some: "py_index xs x = Some i \<Longrightarrow> i < length xs \<and> xs ! i = x \<and> (\<forall>j<i. xs ! j \<noteq> x)"
proof (induction xs arbitrary: i)
  case (Cons y ys)
  show ?case
  proof (cases "y = x")
    case True
    with Cons.prems show ?thesis by simp
  next
    case False
    with Cons.prems obtain k where k: "py_index ys x = Some k" and i: "i = Suc k" by auto
    from Cons.IH [OF k] False i show ?thesis by (auto simp: nth_Cons' less_Suc_eq_0_disj)
  qed
qed simp

lemma py_index_Some_mem: "py_index xs x = Some i \<Longrightarrow> x \<in> set xs"
  using py_index_Some nth_mem by fastforce

lemma py_index_None [simp]: "py_index xs x = None \<longleftrightarrow> x \<notin> set xs"
  by (induction xs) auto

lemma py_index_nth_distinct: "distinct xs \<Longrightarrow> i < length xs \<Longrightarrow> py_index xs (xs ! i) = Some i"
proof (induction xs arbitrary: i)
  case (Cons y ys)
  then show ?case by (cases i) (auto simp: nth_mem)
qed simp

text \<open>\<open>[item for item, count in Counter(xs).items() if count > 1]\<close>.\<close>

definition get_duplicates :: "'a list \<Rightarrow> 'a list" where
  "get_duplicates xs = remdups (filter (\<lambda>x. 1 < count_list xs x) xs)"

lemma count_list_le1_distinct: "(\<forall>x\<in>set xs. \<not> 1 < count_list xs x) \<longleftrightarrow> distinct xs"
proof (induction xs)
  case Nil
  show ?case by simp
next
  case (Cons y ys)
  have cy: "count_list (y # ys) y = Suc (count_list ys y)" by simp
  have cx: "x \<noteq> y \<Longrightarrow> count_list (y # ys) x = count_list ys x" for x by simp
  show ?case
  proof
    assume h: "\<forall>x\<in>set (y # ys). \<not> 1 < count_list (y # ys) x"
    then have "count_list ys y = 0" using cy by fastforce
    then have "y \<notin> set ys" by (simp add: count_list_0_iff)
    moreover have "\<forall>x\<in>set ys. \<not> 1 < count_list ys x"
      using h cx \<open>y \<notin> set ys\<close> by (metis list.set_intros(2))
    ultimately show "distinct (y # ys)" using Cons.IH by simp
  next
    assume d: "distinct (y # ys)"
    then have "count_list ys y = 0" by (simp add: count_list_0_iff)
    moreover have "\<forall>x\<in>set ys. \<not> 1 < count_list ys x" using d Cons.IH by simp
    ultimately show "\<forall>x\<in>set (y # ys). \<not> 1 < count_list (y # ys) x"
      using cy cx by (metis One_nat_def less_irrefl set_ConsD)
  qed
qed

lemma get_duplicates_Nil_iff [simp]: "get_duplicates xs = [] \<longleftrightarrow> distinct xs"
  unfolding get_duplicates_def remdups_eq_nil_iff filter_empty_conv
  by (rule count_list_le1_distinct)

text \<open>\<open>sorted(list(set(l1 + l2)))\<close>.\<close>

definition sorted_union :: "'a::linorder list \<Rightarrow> 'a list \<Rightarrow> 'a list" where
  "sorted_union l1 l2 = sort (remdups (l1 @ l2))"

lemma set_sorted_union [simp]: "set (sorted_union l1 l2) = set l1 \<union> set l2"
  by (simp add: sorted_union_def)

lemma sorted_union_sorted_distinct: "sorted (sorted_union l1 l2) \<and> distinct (sorted_union l1 l2)"
  by (simp add: sorted_union_def)

lemma sorted_union_commute: "sorted_union l1 l2 = sorted_union l2 l1"
proof -
  have "set (sorted_union l1 l2) = set (sorted_union l2 l1)" by auto
  then show ?thesis
    using sorted_union_sorted_distinct sorted_distinct_set_unique by blast
qed

lemma fold_upd_const [py_simps]: "fold (\<lambda>x m. m(f x \<mapsto> c)) xs m k = (if \<exists>x\<in>set xs. k = f x then Some c else m k)"
  by (induction xs arbitrary: m) auto

section \<open>A dict built from \<open>enumerate\<close>\<close>

text \<open>\<open>{f: i for i, f in enumerate(xs)}\<close>: later positions overwrite earlier ones.\<close>

definition enum_map :: "'a list \<Rightarrow> 'a \<rightharpoonup> nat" where
  "enum_map xs = fold (\<lambda>(i, f) m. m(f \<mapsto> i)) (enumerate 0 xs) Map.empty"

lemma fold_enum_upd_snoc:
  "fold (\<lambda>(i, f) m. m(f \<mapsto> i)) (enumerate n (xs @ [x])) m =
   (fold (\<lambda>(i, f) m. m(f \<mapsto> i)) (enumerate n xs) m)(x \<mapsto> n + length xs)"
  by (simp add: enumerate_append_eq)

lemma enum_map_snoc: "enum_map (xs @ [x]) = (enum_map xs)(x \<mapsto> length xs)"
  by (simp add: enum_map_def fold_enum_upd_snoc)

lemma enum_map_Some: "enum_map xs f = Some i \<Longrightarrow> i < length xs \<and> xs ! i = f"
proof (induction xs arbitrary: i rule: rev_induct)
  case Nil
  then show ?case by (simp add: enum_map_def)
next
  case (snoc x xs)
  show ?case
  proof (cases "f = x")
    case True
    with snoc.prems show ?thesis by (auto simp: enum_map_snoc nth_append)
  next
    case False
    with snoc.prems have "enum_map xs f = Some i" by (simp add: enum_map_snoc)
    with snoc.IH show ?thesis by (simp add: nth_append)
  qed
qed

lemma dom_enum_map [simp]: "dom (enum_map xs) = set xs"
proof (induction xs rule: rev_induct)
  case Nil
  show ?case by (simp add: enum_map_def)
next
  case (snoc x xs)
  then show ?case by (simp only: enum_map_snoc dom_fun_upd) simp
qed

lemma enum_map_distinct_nth:
  assumes d: "distinct xs" and i: "i < length xs"
  shows "enum_map xs (xs ! i) = Some i"
proof -
  have "xs ! i \<in> dom (enum_map xs)" using i by simp
  then obtain j where j: "enum_map xs (xs ! i) = Some j" by blast
  from enum_map_Some [OF j] have "j < length xs" and "xs ! j = xs ! i" by auto
  with d i have "j = i" by (simp add: nth_eq_iff_index_eq)
  with j show ?thesis by simp
qed

text \<open>\<open>[f(x) for x in xs if f(x) is not None]\<close>.\<close>

lemma mem_map_filter [simp]: "y \<in> set (List.map_filter f xs) \<longleftrightarrow> (\<exists>x\<in>set xs. f x = Some y)"
  by (induction xs) (auto simp: List.map_filter_simps split: option.splits)

section \<open>A loop that stops at the first raise\<close>

text \<open>\<open>[f(x) for x in xs]\<close> where \<open>f\<close> may raise: the first exception ends the loop.\<close>

fun map_sum :: "('a \<Rightarrow> 'e + 'b) \<Rightarrow> 'a list \<Rightarrow> 'e + 'b list" where
  "map_sum f [] = Inr []"
| "map_sum f (x # xs) =
     (case f x of Inl e \<Rightarrow> Inl e | Inr y \<Rightarrow> (case map_sum f xs of Inl e \<Rightarrow> Inl e | Inr ys \<Rightarrow> Inr (y # ys)))"

lemma map_sum_Inr_iff: "map_sum f xs = Inr ys \<longleftrightarrow> list_all2 (\<lambda>x y. f x = Inr y) xs ys"
proof
  show "map_sum f xs = Inr ys \<Longrightarrow> list_all2 (\<lambda>x y. f x = Inr y) xs ys"
    by (induction xs arbitrary: ys) (auto split: sum.splits)
  show "list_all2 (\<lambda>x y. f x = Inr y) xs ys \<Longrightarrow> map_sum f xs = Inr ys"
    by (induction rule: list_all2_induct) auto
qed

lemma map_sum_Inl: "map_sum f xs = Inl e \<Longrightarrow> \<exists>x\<in>set xs. f x = Inl e"
  by (induction xs) (auto split: sum.splits)

section \<open>Dicts: insertion-ordered association lists\<close>

text \<open>A Python dict is an association list with distinct keys in insertion order;
  \<open>a.update(b)\<close> assigns the pairs of \<open>b\<close> in order, \<open>AList.update\<close> replacing a
  present key in place and appending a new one.\<close>

definition dict_update :: "('k \<times> 'v) list \<Rightarrow> ('k \<times> 'v) list \<Rightarrow> ('k \<times> 'v) list" where
  "dict_update a b = fold (\<lambda>(k, v). AList.update k v) b a"

lemma dict_update_Nil [simp]: "dict_update a [] = a"
  by (simp add: dict_update_def)

lemma dict_update_Cons [simp]: "dict_update a ((k, v) # b) = dict_update (AList.update k v a) b"
  by (simp add: dict_update_def)

lemma update_append_new: "k \<notin> set (map fst a) \<Longrightarrow> AList.update k v a = a @ [(k, v)]"
  by (induction a) auto

lemma dict_update_disjoint:
  "distinct (map fst b) \<Longrightarrow> set (map fst a) \<inter> set (map fst b) = {} \<Longrightarrow> dict_update a b = a @ b"
  by (induction b arbitrary: a) (auto simp: update_append_new)

lemma dict_update_keys:
  "distinct (map fst b) \<Longrightarrow>
   map fst (dict_update a b) = map fst a @ filter (\<lambda>k. k \<notin> set (map fst a)) (map fst b)"
proof (induction b arbitrary: a)
  case Nil
  then show ?case by simp
next
  case (Cons p b)
  obtain k v where p: "p = (k, v)" by (cases p)
  with Cons.prems have k: "k \<notin> set (map fst b)" and d: "distinct (map fst b)" by auto
  show ?case
  proof (cases "k \<in> set (map fst a)")
    case True
    then show ?thesis using Cons.IH [OF d, of "AList.update k v a"] p by (simp add: update_keys)
  next
    case False
    then show ?thesis using Cons.IH [OF d, of "AList.update k v a"] p k
      by (auto simp: update_keys intro!: filter_cong)
  qed
qed

lemma map_of_dict_update:
  "distinct (map fst b) \<Longrightarrow> map_of (dict_update a b) = map_of a ++ map_of b"
proof (induction b arbitrary: a)
  case Nil
  then show ?case by simp
next
  case (Cons p b)
  obtain k v where p: "p = (k, v)" by (cases p)
  with Cons.prems have k: "k \<notin> set (map fst b)" and d: "distinct (map fst b)" by auto
  have "map_of (dict_update a (p # b)) = (map_of a)(k \<mapsto> v) ++ map_of b"
    unfolding p dict_update_Cons Cons.IH [OF d] update_conv' ..
  also have "\<dots> = map_of a ++ map_of (p # b)"
  proof -
    from k have "k \<notin> dom (map_of b)" by (simp add: dom_map_of_conv_image_fst)
    then show ?thesis by (simp add: p map_add_upd_left)
  qed
  finally show ?case .
qed

lemma distinct_dict_update: "distinct (map fst a) \<Longrightarrow> distinct (map fst (dict_update a b))"
  by (induction b arbitrary: a) (auto simp: distinct_update)

lemma dict_update_triv: "\<forall>(k, v)\<in>set b. map_of a k = Some v \<Longrightarrow> dict_update a b = a"
  by (induction b) (auto simp: update_triv)

lemma dict_update_self: "distinct (map fst a) \<Longrightarrow> dict_update a a = a"
  by (rule dict_update_triv) auto

lemma in_set_update: "x \<in> set (AList.update k v al) \<Longrightarrow> x \<in> set al \<or> x = (k, v)"
  by (induction al) (auto split: if_splits)

lemma update_map_values:
  "map (\<lambda>(k, v). (k, g k v)) (AList.update k v a) = AList.update k (g k v) (map (\<lambda>(k, v). (k, g k v)) a)"
  by (induction a) auto

lemma dict_update_map_values:
  "map (\<lambda>(k, v). (k, g k v)) (dict_update a b) =
   dict_update (map (\<lambda>(k, v). (k, g k v)) a) (map (\<lambda>(k, v). (k, g k v)) b)"
  by (induction b arbitrary: a) (auto simp: update_map_values)

lemma keys_dict_update: "fst ` set (dict_update a b) = fst ` set a \<union> fst ` set b"
proof (induction b arbitrary: a)
  case Nil
  then show ?case by simp
next
  case (Cons p b)
  obtain k v where p: "p = (k, v)" by (cases p)
  have "fst ` set (dict_update a (p # b)) = fst ` set (AList.update k v a) \<union> fst ` set b"
    using Cons.IH by (simp add: p)
  also have "\<dots> = fst ` set a \<union> fst ` set (p # b)"
    by (auto simp: dom_update p)
  finally show ?case .
qed

lemma dict_update_all:
  "\<forall>x\<in>set a. P x \<Longrightarrow> \<forall>x\<in>set b. P x \<Longrightarrow> \<forall>x\<in>set (dict_update a b). P x"
proof (induction b arbitrary: a)
  case Nil
  then show ?case by simp
next
  case (Cons p b)
  obtain k v where p: "p = (k, v)" by (cases p)
  have "\<forall>x\<in>set (AList.update k v a). P x"
    using Cons.prems p by (auto dest: in_set_update)
  with Cons.IH [of "AList.update k v a"] Cons.prems p show ?case by simp
qed

lemma map_sum_Inl_ex: "(\<exists>e. map_sum f xs = Inl e) \<longleftrightarrow> (\<exists>x\<in>set xs. \<exists>e. f x = Inl e)"
  by (induction xs) (auto split: sum.splits)

lemma map_sum_Inr_ex: "(\<exists>ys. map_sum f xs = Inr ys) \<longleftrightarrow> list_all (\<lambda>x. \<exists>y. f x = Inr y) xs"
  by (induction xs) (auto split: sum.splits)

lemma list_all2_filter_mono:
  "list_all2 Q (filter R xs) ys \<Longrightarrow> (\<And>x y. Q x y \<Longrightarrow> R x \<Longrightarrow> P x y) \<Longrightarrow> list_all2 P (filter R xs) ys"
  by (auto simp: list_all2_conv_all_nth) (metis (mono_tags) mem_Collect_eq nth_mem set_filter)

lemma fold_keep:
  assumes "\<forall>x\<in>set xs. f x t = t"
  shows "fold f xs t = t"
  using assms by (induction xs) auto

end
