(* ===== verification/Tracker.thy ===== *)
theory Tracker
  imports Prelude
begin

text \<open>
  The dialogue state tracker (\<open>rasa.core.trackers\<close>, \<open>rasa.core.events\<close>) is not
  among the sources; the domain, the ensemble and the evaluation read it. Following the
  specification it is an append-only log of tagged events, and every piece of current
  state the sources read (\<open>latest_action_name\<close>, \<open>latest_message\<close>,
  \<open>active_form\<close>) is a fold of one step function over the log. The slot values are
  kept as the feature vectors \<open>slot.as_feature()\<close> that the domain reads, since slot
  featurisation lives in \<open>rasa.core.slots\<close>, outside the sources.
\<close>

text \<open>The parse data of a user message: the fields \<open>Domain.get_parsing_states\<close> and the
  evaluation read. An entity is its optional \<open>"entity"\<close> key and its value.\<close>

record parse_data =
  msg_text :: string
  intent_name :: "string option"
  intent_confidence :: "real option"
  intent_ranking :: "(string option \<times> real) list option"
  msg_entities :: "(string option \<times> string) list"

text \<open>A slot value as events carry it: unset, one value, or the list a list slot holds.\<close>

datatype slot_value = SNone | SStr string | SList "string list"

datatype event =
    UserUttered parse_data
  | ActionExecuted string
  | ActionExecutionRejected string
  | SlotSet string slot_value
  | Form "string option"
  | Restarted
  | OtherEvent

record tracker_state =
  latest_action :: "string option"
  latest_msg :: "parse_data option"
  form_name :: "string option"

definition init_tracker_state :: tracker_state where
  "init_tracker_state = \<lparr>latest_action = None, latest_msg = None, form_name = None\<rparr>"

fun apply_event :: "tracker_state \<Rightarrow> event \<Rightarrow> tracker_state" where
  "apply_event s (UserUttered p) = s\<lparr>latest_msg := Some p\<rparr>"
| "apply_event s (ActionExecuted a) = s\<lparr>latest_action := Some a\<rparr>"
| "apply_event s (Form f) = s\<lparr>form_name := f\<rparr>"
| "apply_event s Restarted = init_tracker_state"
| "apply_event s (ActionExecutionRejected a) = s"
| "apply_event s (SlotSet k v) = s"
| "apply_event s OtherEvent = s"

definition replay :: "event list \<Rightarrow> tracker_state" where
  "replay evs = foldl apply_event init_tracker_state evs"

record tracker =
  events :: "event list"
  slot_features :: "(string \<times> real list) list"

definition latest_action_name :: "tracker \<Rightarrow> string option" where
  "latest_action_name t = latest_action (replay (events t))"

definition latest_message :: "tracker \<Rightarrow> parse_data option" where
  "latest_message t = latest_msg (replay (events t))"

definition active_form :: "tracker \<Rightarrow> string option" where
  "active_form t = form_name (replay (events t))"

definition tracker_update :: "tracker \<Rightarrow> event \<Rightarrow> tracker" where
  "tracker_update t e = t\<lparr>events := events t @ [e]\<rparr>"

text \<open>\<open>isinstance(tracker.events[-1], ActionExecutionRejected)\<close>, with the rejected name.\<close>

definition last_rejected :: "event list \<Rightarrow> string option" where
  "last_rejected evs =
     (if evs = [] then None
      else case last evs of ActionExecutionRejected a \<Rightarrow> Some a | _ \<Rightarrow> None)"

text \<open>\<open>DialogueStateTracker.generate_all_prior_trackers\<close>, as the specification describes
  it: the tracker of every prefix of the conversation, from the empty one to the whole.\<close>

definition generate_all_prior_trackers :: "tracker \<Rightarrow> tracker list" where
  "generate_all_prior_trackers t = map (\<lambda>n. t\<lparr>events := take n (events t)\<rparr>) [0..<Suc (length (events t))]"

lemma replay_snoc [simp]: "replay (evs @ [e]) = apply_event (replay evs) e"
  by (simp add: replay_def)

lemma replay_Nil [simp]: "replay [] = init_tracker_state"
  by (simp add: replay_def)

lemma last_rejected_snoc [simp]:
  "last_rejected (evs @ [e]) = (case e of ActionExecutionRejected a \<Rightarrow> Some a | _ \<Rightarrow> None)"
  by (simp add: last_rejected_def)

lemma latest_action_name_update [simp]:
  "latest_action_name (tracker_update t e) =
     (case e of ActionExecuted a \<Rightarrow> Some a | Restarted \<Rightarrow> None | _ \<Rightarrow> latest_action_name t)"
  by (cases e) (simp_all add: latest_action_name_def tracker_update_def init_tracker_state_def)

lemma last_rejected_update [simp]:
  "last_rejected (events (tracker_update t e)) =
     (case e of ActionExecutionRejected a \<Rightarrow> Some a | _ \<Rightarrow> None)"
  by (simp add: tracker_update_def)

end
