(* ===== verification/Domain.thy ===== *)
theory Domain
  imports Tracker
begin

text \<open>
  The domain (\<open>src/rasa/core/domain.py\<close>, class \<open>Domain\<close>): the universe of
  intents, entities, slots, responses, actions and forms, built once by \<open>__init__\<close>
  and read-only afterwards. This theory holds its construction with the checks of
  \<open>collect_intent_properties\<close> and \<open>_check_domain_sanity\<close>, the action index space
  (\<open>index_for_action\<close>, \<open>action_for_index\<close>), the state schema
  \<open>input_states\<close> with \<open>index_of_state\<close>, and the state-vector construction
  \<open>get_active_states\<close>. Every \<open>raise\<close> of the source is an \<open>Inl\<close> of
  \<open>domain_error\<close>.
\<close>

section \<open>Data\<close>

datatype use_entities = UseAll | UseList "string list"

record intent_props =
  use_ents :: use_entities
  ignore_ents :: "string list"
  triggers :: "string option"

text \<open>A \<open>use_entities\<close> value as written in the domain file.\<close>

datatype raw_use = RawTrue | RawFalse | RawNone | RawList "string list"

text \<open>An entry of the \<open>intents\<close> list: a bare name or a one-key dict of properties.\<close>

datatype raw_intent =
    IntentName string
  | IntentDict string "raw_use option" "string list option" "string option"

text \<open>A slot as the domain reads it: \<open>rasa.core.slots\<close> is outside the sources, so
  its type name, \<open>auto_fill\<close> flag and \<open>feature_dimensionality()\<close> are data.\<close>

record slot =
  slot_name :: string
  slot_type :: string
  auto_fill :: bool
  feature_dim :: nat

text \<open>A response variation as written in the domain file: a bare string (deprecated) or a
  dict, kept as its key/value pairs.\<close>

datatype template = TemplateStr string | TemplateDict "(string \<times> string) list"

record session_config =
  session_expiration_time :: real
  carry_over_slots :: bool

record domain =
  intent_properties :: "(string \<times> intent_props) list"
  entities :: "string list"
  slots :: "slot list"
  templates :: "(string \<times> template list) list"
  user_actions :: "string list"
  action_names :: "string list"
  form_names :: "string list"
  store_entities_as_slots :: bool
  sess_config :: session_config

datatype domain_error =
    DuplicateIntent string
  | InvalidDomain "string list" "string list" "string list" "(string \<times> string) list"
  | ActionNotFound string
  | ActionIndexError int
  | SpecificationChanged "string set" "string set"
  | KeyError string
  | MissingTemplates string
  | InvalidTemplate string
  | UnexpectedArgument string
  | ChoiceFromEmpty string
  | NoDomainFile
  | DomainFileNotFound string
  | InvalidYamlDomain string

section \<open>Construction\<close>

text \<open>The default actions of \<open>rasa.core.actions.action\<close> (outside the sources),
  \<open>action_listen\<close> first: the sources rely on its index being 0.\<close>

definition ACTION_LISTEN_NAME :: string where
  "ACTION_LISTEN_NAME = ''action_listen''"

definition default_action_names :: "string list" where
  "default_action_names =
     [ACTION_LISTEN_NAME, ''action_restart'', ''action_session_start'',
      ''action_default_fallback'', ''action_deactivate_form'', ''action_revert_fallback_events'',
      ''action_default_ask_affirmation'', ''action_default_ask_rephrase'', ''action_back'']"

definition combine_with_templates :: "string list \<Rightarrow> string list \<Rightarrow> string list" where
  "combine_with_templates actions tkeys = actions @ filter (\<lambda>a. a \<notin> set actions) (sort tkeys)"

definition combine_user_with_default_actions :: "string list \<Rightarrow> string list" where
  "combine_user_with_default_actions uas =
     default_action_names @ filter (\<lambda>a. a \<notin> set default_action_names) uas"

fun intent_entry :: "raw_intent \<Rightarrow> string \<times> intent_props" where
  "intent_entry (IntentName n) = (n, \<lparr>use_ents = UseAll, ignore_ents = [], triggers = None\<rparr>)"
| "intent_entry (IntentDict n u ign trig) =
     (n, \<lparr>use_ents = (case u of None \<Rightarrow> UseAll | Some RawTrue \<Rightarrow> UseAll
                      | Some RawFalse \<Rightarrow> UseList [] | Some RawNone \<Rightarrow> UseList []
                      | Some (RawList l) \<Rightarrow> UseList l),
          ignore_ents = (case ign of None \<Rightarrow> [] | Some l \<Rightarrow> l),
          triggers = trig\<rparr>)"

fun collect_intents_acc ::
  "(string \<times> intent_props) list \<Rightarrow> raw_intent list \<Rightarrow> domain_error + (string \<times> intent_props) list" where
  "collect_intents_acc acc [] = Inr acc"
| "collect_intents_acc acc (it # its) =
     (let (n, p) = intent_entry it in
      if n \<in> set (map fst acc) then Inl (DuplicateIntent n)
      else collect_intents_acc (acc @ [(n, p)]) its)"

definition collect_intent_properties :: "raw_intent list \<Rightarrow> domain_error + (string \<times> intent_props) list" where
  "collect_intent_properties its = collect_intents_acc [] its"

text \<open>\<open>check_mappings\<close>: intents whose \<open>triggers\<close> names no action of the domain.\<close>

definition check_mappings :: "(string \<times> intent_props) list \<Rightarrow> string list \<Rightarrow> (string \<times> string) list" where
  "check_mappings ips acts =
     concat (map (\<lambda>(i, p). case triggers p of None \<Rightarrow> []
                           | Some a \<Rightarrow> if a \<in> set acts then [] else [(i, a)]) ips)"

definition check_domain_sanity :: "domain \<Rightarrow> domain_error + domain" where
  "check_domain_sanity d =
     (let da = get_duplicates (action_names d);
          ds = get_duplicates (map slot_name (slots d));
          de = get_duplicates (entities d);
          im = check_mappings (intent_properties d) (action_names d)
      in if da \<noteq> [] \<or> ds \<noteq> [] \<or> de \<noteq> [] \<or> im \<noteq> [] then Inl (InvalidDomain da ds de im)
         else Inr d)"

text \<open>The keys of the \<open>templates\<close> dict, in insertion order.\<close>

definition template_keys :: "domain \<Rightarrow> string list" where
  "template_keys d = map fst (templates d)"

text \<open>\<open>Domain.__init__\<close>; \<open>combine_with_templates\<close> iterates the keys of \<open>templates\<close>.\<close>

definition make_domain ::
  "raw_intent list \<Rightarrow> string list \<Rightarrow> slot list \<Rightarrow> (string \<times> template list) list \<Rightarrow> string list \<Rightarrow> string list
   \<Rightarrow> bool \<Rightarrow> session_config \<Rightarrow> domain_error + domain" where
  "make_domain its ents sls tmpls acts forms store sc =
     (case collect_intent_properties its of
        Inl e \<Rightarrow> Inl e
      | Inr ips \<Rightarrow>
          (let uas = combine_with_templates acts (map fst tmpls)
           in check_domain_sanity
                \<lparr>intent_properties = ips, entities = ents, slots = sls, templates = tmpls,
                 user_actions = uas,
                 action_names = combine_user_with_default_actions uas @ forms,
                 form_names = forms, store_entities_as_slots = store, sess_config = sc\<rparr>))"

section \<open>The action index space\<close>

definition num_actions :: "domain \<Rightarrow> nat" where
  "num_actions d = length (action_names d)"

definition index_for_action :: "domain \<Rightarrow> string \<Rightarrow> domain_error + nat" where
  "index_for_action d a =
     (case py_index (action_names d) a of None \<Rightarrow> Inl (ActionNotFound a) | Some i \<Rightarrow> Inr i)"

definition action_for_name :: "domain \<Rightarrow> string \<Rightarrow> domain_error + string" where
  "action_for_name d a = (if a \<notin> set (action_names d) then Inl (ActionNotFound a) else Inr a)"

definition action_for_index :: "domain \<Rightarrow> int \<Rightarrow> domain_error + string" where
  "action_for_index d i =
     (if int (num_actions d) \<le> i \<or> i < 0 then Inl (ActionIndexError i)
      else action_for_name d (action_names d ! nat i))"

section \<open>The state schema\<close>

definition intents :: "domain \<Rightarrow> string list" where
  "intents d = sort (map fst (intent_properties d))"

definition intent_states :: "domain \<Rightarrow> string list" where
  "intent_states d = map (\<lambda>i. ''intent_'' @ i) (intents d)"

definition entity_states :: "domain \<Rightarrow> string list" where
  "entity_states d = map (\<lambda>e. ''entity_'' @ e) (entities d)"

definition slot_state_name :: "string \<Rightarrow> nat \<Rightarrow> string" where
  "slot_state_name n i = ''slot_'' @ n @ ''_'' @ nat_str i"

definition slot_states :: "domain \<Rightarrow> string list" where
  "slot_states d = concat (map (\<lambda>s. map (slot_state_name (slot_name s)) [0..<feature_dim s]) (slots d))"

definition prev_action_states :: "domain \<Rightarrow> string list" where
  "prev_action_states d = map (\<lambda>a. ''prev_'' @ a) (action_names d)"

definition form_states :: "domain \<Rightarrow> string list" where
  "form_states d = map (\<lambda>f. ''active_form_'' @ f) (form_names d)"

definition input_states :: "domain \<Rightarrow> string list" where
  "input_states d = intent_states d @ entity_states d @ slot_states d @ prev_action_states d @ form_states d"

definition num_states :: "domain \<Rightarrow> nat" where
  "num_states d = length (input_states d)"

definition input_state_map :: "domain \<Rightarrow> string \<rightharpoonup> nat" where
  "input_state_map d = enum_map (input_states d)"

definition index_of_state :: "domain \<Rightarrow> string \<Rightarrow> nat option" where
  "index_of_state d s = input_state_map d s"


section \<open>The state vector of a tracker\<close>

text \<open>Python truthiness of an optional string: \<open>None\<close> and \<open>""\<close> are false.\<close>

definition truthy :: "string option \<Rightarrow> bool" where
  "truthy s = (case s of None \<Rightarrow> False | Some x \<Rightarrow> x \<noteq> [])"

definition default_intent_props :: intent_props where
  "default_intent_props = \<lparr>use_ents = UseAll, ignore_ents = [], triggers = None\<rparr>"

text \<open>\<open>intent_config\<close>: \<open>intent_properties.get(intent_name, {})\<close>; the empty dict reads as
  the defaults \<open>use_entities=True\<close>, \<open>ignore_entities=[]\<close>.\<close>

definition intent_config :: "domain \<Rightarrow> string option \<Rightarrow> intent_props" where
  "intent_config d n =
     (case n of None \<Rightarrow> default_intent_props
      | Some i \<Rightarrow> (case map_of (intent_properties d) i of None \<Rightarrow> default_intent_props | Some p \<Rightarrow> p))"

definition msg_entity_names :: "parse_data \<Rightarrow> string list" where
  "msg_entity_names msg = remdups (concat (map (\<lambda>(k, v). case k of None \<Rightarrow> [] | Some e \<Rightarrow> [e]) (msg_entities msg)))"

definition included_entities :: "intent_props \<Rightarrow> string list \<Rightarrow> string list" where
  "included_entities cfg names = (case use_ents cfg of UseAll \<Rightarrow> names | UseList l \<Rightarrow> l)"

definition get_featurized_entities :: "domain \<Rightarrow> parse_data \<Rightarrow> string list" where
  "get_featurized_entities d msg =
     (let cfg = intent_config d (intent_name msg);
          names = msg_entity_names msg;
          wanted = filter (\<lambda>e. e \<notin> set (ignore_ents cfg)) (included_entities cfg names)
      in filter (\<lambda>e. e \<in> set wanted) names)"

text \<open>The entities the ambiguity warning of \<open>_get_featurized_entities\<close> names: explicitly
  included and excluded at once. The warning is raised iff this list is non-empty.\<close>

definition ambiguous_entities :: "domain \<Rightarrow> parse_data \<Rightarrow> string list" where
  "ambiguous_entities d msg =
     (let cfg = intent_config d (intent_name msg)
      in case use_ents cfg of UseAll \<Rightarrow> [] | UseList l \<Rightarrow> filter (\<lambda>e. e \<in> set (ignore_ents cfg)) l)"

text \<open>What Domain.__init__ checks of an intent entry: its name and its triggers.\<close>

definition intent_key :: "raw_intent \<Rightarrow> string \<times> string option" where
  "intent_key i = (fst (intent_entry i), triggers (snd (intent_entry i)))"

definition entity_part :: "string list \<Rightarrow> string \<rightharpoonup> real" where
  "entity_part es = fold (\<lambda>e m. m(''entity_'' @ e \<mapsto> 1)) es Map.empty"

definition slot_part :: "(string \<times> real list) list \<Rightarrow> (string \<rightharpoonup> real) \<Rightarrow> string \<rightharpoonup> real" where
  "slot_part sf m0 =
     fold (\<lambda>(k, feats) m. fold (\<lambda>(i, v) m. if v \<noteq> 0 then m(slot_state_name k i \<mapsto> v) else m)
                                (enumerate 0 feats) m) sf m0"

definition intent_part :: "parse_data \<Rightarrow> (string \<rightharpoonup> real) \<Rightarrow> string \<rightharpoonup> real" where
  "intent_part msg m0 =
     (case intent_ranking msg of
        Some rk \<Rightarrow> fold (\<lambda>(n, c) m. case n of Some i \<Rightarrow> if i \<noteq> [] then m(''intent_'' @ i \<mapsto> c) else m
                                      | None \<Rightarrow> m) rk m0
      | None \<Rightarrow> (case intent_name msg of
                   Some i \<Rightarrow> if i \<noteq> [] then m0(''intent_'' @ i \<mapsto> (case intent_confidence msg of None \<Rightarrow> 1 | Some c \<Rightarrow> c))
                             else m0
                 | None \<Rightarrow> m0))"

definition get_parsing_states :: "domain \<Rightarrow> tracker \<Rightarrow> string \<rightharpoonup> real" where
  "get_parsing_states d tr =
     (case latest_message tr of
        None \<Rightarrow> Map.empty
      | Some msg \<Rightarrow>
          (let m1 = (if truthy (intent_name msg) then entity_part (get_featurized_entities d msg) else Map.empty)
           in intent_part msg (slot_part (slot_features tr) m1)))"

definition get_prev_action_states :: "domain \<Rightarrow> tracker \<Rightarrow> string \<rightharpoonup> real" where
  "get_prev_action_states d tr =
     (case latest_action_name tr of
        Some a \<Rightarrow> if a \<noteq> [] \<and> ''prev_'' @ a \<in> dom (input_state_map d) then [''prev_'' @ a \<mapsto> 1] else Map.empty
      | None \<Rightarrow> Map.empty)"

definition get_active_form :: "tracker \<Rightarrow> string \<rightharpoonup> real" where
  "get_active_form tr = (case active_form tr of Some f \<Rightarrow> [''active_form_'' @ f \<mapsto> 1] | None \<Rightarrow> Map.empty)"

definition get_active_states :: "domain \<Rightarrow> tracker \<Rightarrow> string \<rightharpoonup> real" where
  "get_active_states d tr = get_parsing_states d tr ++ get_prev_action_states d tr ++ get_active_form tr"

text \<open>\<open>states_for_tracker_history\<close>: the active states of every prior tracker.\<close>

definition states_for_tracker_history :: "domain \<Rightarrow> tracker \<Rightarrow> (string \<rightharpoonup> real) list" where
  "states_for_tracker_history d tr = map (get_active_states d) (generate_all_prior_trackers tr)"

section \<open>Responses\<close>

text \<open>\<open>random_template_for\<close>: the outcomes \<open>np.random.choice\<close> can give, one per
  variation of the action's response; \<open>np.random.choice\<close> of an empty list raises
  \<open>ValueError\<close> (\<open>ChoiceFromEmpty\<close>), and an action without a response gives
  \<open>None\<close>.\<close>

definition random_template_for :: "domain \<Rightarrow> string \<Rightarrow> (domain_error + template option) set" where
  "random_template_for d utter_action =
     (case map_of (templates d) utter_action of
        None \<Rightarrow> {Inr None}
      | Some vs \<Rightarrow> if vs = [] then {Inl (ChoiceFromEmpty utter_action)} else (\<lambda>t. Inr (Some t)) ` set vs)"

section \<open>Slots filled from entities\<close>

text \<open>\<open>slots_for_entities\<close>: \<open>e["entity"]\<close> raises \<open>KeyError\<close> on an entity without that
  key, as soon as some slot is auto-filled.\<close>

definition matching_entities :: "(string option \<times> string) list \<Rightarrow> string \<Rightarrow> domain_error + string list" where
  "matching_entities es n =
     (if \<exists>(k, v)\<in>set es. k = None then Inl (KeyError ''entity'')
      else Inr (map snd (filter (\<lambda>(k, v). k = Some n) es)))"

fun slot_events_for :: "slot list \<Rightarrow> (string option \<times> string) list \<Rightarrow> domain_error + event list" where
  "slot_events_for [] es = Inr []"
| "slot_events_for (s # ss) es =
     (if \<not> auto_fill s then slot_events_for ss es
      else case matching_entities es (slot_name s) of
             Inl e \<Rightarrow> Inl e
           | Inr ms \<Rightarrow>
               (case slot_events_for ss es of
                  Inl e \<Rightarrow> Inl e
                | Inr evs \<Rightarrow>
                    if ms = [] then Inr evs
                    else if slot_type s = ''list'' then Inr (SlotSet (slot_name s) (SList ms) # evs)
                    else Inr (SlotSet (slot_name s) (SStr (last ms)) # evs)))"

definition slots_for_entities :: "domain \<Rightarrow> (string option \<times> string) list \<Rightarrow> domain_error + event list" where
  "slots_for_entities d es = (if store_entities_as_slots d then slot_events_for (slots d) es else Inr [])"

section \<open>The persisted specification\<close>

text \<open>\<open>persist_specification\<close> stores \<open>{"states": input_states}\<close>;
  \<open>compare_with_specification\<close> checks a stored state list against the live domain.\<close>

definition persist_specification :: "domain \<Rightarrow> string list" where
  "persist_specification d = input_states d"

definition compare_with_specification :: "domain \<Rightarrow> string list \<Rightarrow> domain_error + bool" where
  "compare_with_specification d states =
     (if set states \<noteq> set (input_states d)
      then Inl (SpecificationChanged (set states - set (input_states d)) (set (input_states d) - set states))
      else Inr True)"

section \<open>The domain invariant\<close>

text \<open>What \<open>__init__\<close> establishes: unique intents, actions, slots and entities,
  triggers that name actions, and the action list built from the user actions.\<close>

definition wf_domain :: "domain \<Rightarrow> bool" where
  "wf_domain d \<longleftrightarrow>
     distinct (map fst (intent_properties d)) \<and> distinct (action_names d) \<and>
     distinct (map slot_name (slots d)) \<and> distinct (entities d) \<and>
     check_mappings (intent_properties d) (action_names d) = [] \<and>
     action_names d = combine_user_with_default_actions (user_actions d) @ form_names d"

section \<open>Example domains\<close>

definition ex_session :: session_config where
  "ex_session = \<lparr>session_expiration_time = 0, carry_over_slots = True\<rparr>"

definition ex_templates :: "(string \<times> template list) list" where
  "ex_templates = [(''utter_greet'', [TemplateDict [(''text'', ''Hello!'')]])]"

text \<open>One intent and one response: ten actions, \<open>action_listen\<close> at 0 and
  \<open>action_default_fallback\<close> at 3.\<close>

definition ex_domain :: domain where
  "ex_domain = \<lparr>intent_properties = [(''greet'', default_intent_props)], entities = [], slots = [],
     templates = ex_templates, user_actions = [''utter_greet''],
     action_names = combine_user_with_default_actions [''utter_greet''], form_names = [],
     store_entities_as_slots = True, sess_config = ex_session\<rparr>"

text \<open>The same domain with one more custom action.\<close>

definition ex_domain_plus :: domain where
  "ex_domain_plus = \<lparr>intent_properties = [(''greet'', default_intent_props)], entities = [], slots = [],
     templates = ex_templates, user_actions = [''action_hello'', ''utter_greet''],
     action_names = combine_user_with_default_actions [''action_hello'', ''utter_greet''], form_names = [],
     store_entities_as_slots = True, sess_config = ex_session\<rparr>"

text \<open>An intent that includes \<open>city\<close> and \<open>date\<close> and ignores \<open>date\<close>.\<close>

definition ex_inform :: raw_intent where
  "ex_inform = IntentDict ''inform'' (Some (RawList [''city'', ''date''])) (Some [''date'']) None"

definition ex_entity_domain :: domain where
  "ex_entity_domain = \<lparr>intent_properties = [intent_entry ex_inform], entities = [''city'', ''date''],
     slots = [], templates = [], user_actions = [],
     action_names = combine_user_with_default_actions [], form_names = [],
     store_entities_as_slots = True, sess_config = ex_session\<rparr>"

definition ex_inform_msg :: parse_data where
  "ex_inform_msg = \<lparr>msg_text = ''to Berlin tomorrow'', intent_name = Some ''inform'',
     intent_confidence = Some 0.9, intent_ranking = None,
     msg_entities = [(Some ''city'', ''Berlin''), (Some ''date'', ''tomorrow'')]\<rparr>"

definition ex_inform_tracker :: tracker where
  "ex_inform_tracker = \<lparr>events = [ActionExecuted ACTION_LISTEN_NAME, UserUttered ex_inform_msg],
     slot_features = []\<rparr>"

section \<open>Lemmas: construction and the action index space\<close>

lemma states_for_tracker_history_last:
  "length (states_for_tracker_history d tr) = Suc (length (events tr)) \<and>
   last (states_for_tracker_history d tr) = get_active_states d tr"
  by (simp add: states_for_tracker_history_def generate_all_prior_trackers_def last_map)

lemma collect_intents_acc_Inr:
  "distinct (map fst acc) \<Longrightarrow>
   collect_intents_acc acc its = Inr r \<longleftrightarrow>
     distinct (map fst acc @ map (fst \<circ> intent_entry) its) \<and> r = acc @ map intent_entry its"
proof (induction acc its rule: collect_intents_acc.induct)
  case (1 acc)
  then show ?case by auto
next
  case (2 acc it its)
  obtain n p where e: "intent_entry it = (n, p)" by fastforce
  show ?case
  proof (cases "n \<in> set (map fst acc)")
    case True
    with e show ?thesis by auto
  next
    case False
    with "2.prems" have "distinct (map fst (acc @ [(n, p)]))" by simp
    with "2.IH" [OF e [symmetric] refl] False e show ?thesis by auto
  qed
qed

lemma collect_intent_properties_Inr:
  "collect_intent_properties its = Inr r \<longleftrightarrow>
     distinct (map (fst \<circ> intent_entry) its) \<and> r = map intent_entry its"
  using collect_intents_acc_Inr [of "[]" its r] by (simp add: collect_intent_properties_def)

lemma check_mappings_Nil_iff:
  "check_mappings ips acts = [] \<longleftrightarrow> (\<forall>(i, p)\<in>set ips. \<forall>a. triggers p = Some a \<longrightarrow> a \<in> set acts)"
  unfolding check_mappings_def by (fastforce split: option.splits if_splits)

lemma check_domain_sanity_Inr:
  "check_domain_sanity d = Inr d' \<longleftrightarrow>
     d' = d \<and> distinct (action_names d) \<and> distinct (map slot_name (slots d)) \<and>
     distinct (entities d) \<and> check_mappings (intent_properties d) (action_names d) = []"
  by (auto simp: check_domain_sanity_def Let_def)

lemma make_domain_wf:
  assumes "make_domain its ents sls tmpls acts forms store sc = Inr d"
  shows "wf_domain d"
proof -
  from assms obtain ips where ips: "collect_intent_properties its = Inr ips"
    by (auto simp: make_domain_def split: sum.splits)
  then have "distinct (map fst ips)"
    by (simp add: collect_intent_properties_Inr comp_def)
  with assms ips show ?thesis
    by (auto simp: make_domain_def wf_domain_def check_domain_sanity_Inr Let_def)
qed

lemma wf_action_listen_first:
  "wf_domain d \<Longrightarrow> action_names d ! 0 = ACTION_LISTEN_NAME"
  by (simp add: wf_domain_def combine_user_with_default_actions_def default_action_names_def)

lemma wf_default_actions:
  "wf_domain d \<Longrightarrow> set default_action_names \<subseteq> set (action_names d)"
  by (auto simp: wf_domain_def combine_user_with_default_actions_def)

lemma index_for_action_Inr:
  "index_for_action d a = Inr i \<Longrightarrow> i < num_actions d \<and> action_names d ! i = a"
  by (auto simp: index_for_action_def num_actions_def dest: py_index_Some split: option.splits)

lemma index_for_action_Inl:
  "index_for_action d a = Inl e \<longleftrightarrow> a \<notin> set (action_names d) \<and> e = ActionNotFound a"
  by (auto simp: index_for_action_def split: option.splits dest: py_index_Some_mem)

lemma wf_distinct_actions: "wf_domain d \<Longrightarrow> distinct (action_names d)"
  unfolding wf_domain_def by blast

lemma index_for_action_nth:
  "wf_domain d \<Longrightarrow> i < num_actions d \<Longrightarrow> index_for_action d (action_names d ! i) = Inr i"
  by (simp add: index_for_action_def num_actions_def wf_distinct_actions py_index_nth_distinct)

lemma index_for_listen:
  "wf_domain d \<Longrightarrow> index_for_action d ACTION_LISTEN_NAME = Inr 0"
proof -
  assume wf: "wf_domain d"
  then have "0 < num_actions d"
    by (simp add: wf_domain_def num_actions_def combine_user_with_default_actions_def default_action_names_def)
  with wf index_for_action_nth [of d 0] show ?thesis by (simp add: wf_action_listen_first)
qed

lemma action_for_index_Inr:
  "action_for_index d i = Inr a \<longleftrightarrow> 0 \<le> i \<and> i < int (num_actions d) \<and> a = action_names d ! nat i"
  by (auto simp: action_for_index_def action_for_name_def num_actions_def nth_mem)

section \<open>Lemmas: the state schema\<close>

lemma slot_state_name_inj [simp]:
  "slot_state_name n i = slot_state_name m j \<longleftrightarrow> n = m \<and> i = j"
  using underscore_nat_str_split [of "''slot_'' @ n" i "''slot_'' @ m" j]
  by (simp add: slot_state_name_def)

lemma slot_states_distinct_aux:
  "distinct (map slot_name sls) \<Longrightarrow>
   distinct (concat (map (\<lambda>s. map (slot_state_name (slot_name s)) [0..<feature_dim s]) sls))"
proof (induction sls)
  case Nil
  then show ?case by simp
next
  case (Cons s sls)
  have "distinct (map (slot_state_name (slot_name s)) [0..<feature_dim s])"
    by (simp add: distinct_map inj_on_def)
  moreover from Cons.prems have "slot_name s \<notin> slot_name ` set sls" by simp
  ultimately show ?case using Cons by auto
qed

lemma hd_intent_states: "x \<in> set (intent_states d) \<Longrightarrow> hd x = CHR ''i''"
  by (auto simp: intent_states_def)

lemma hd_entity_states: "x \<in> set (entity_states d) \<Longrightarrow> hd x = CHR ''e''"
  by (auto simp: entity_states_def)

lemma hd_slot_states: "x \<in> set (slot_states d) \<Longrightarrow> hd x = CHR ''s''"
  by (auto simp: slot_states_def slot_state_name_def)

lemma hd_prev_action_states: "x \<in> set (prev_action_states d) \<Longrightarrow> hd x = CHR ''p''"
  by (auto simp: prev_action_states_def)

lemma hd_form_states: "x \<in> set (form_states d) \<Longrightarrow> hd x = CHR ''a''"
  by (auto simp: form_states_def)

lemmas hd_states = hd_intent_states hd_entity_states hd_slot_states hd_prev_action_states hd_form_states

lemma wf_distinct_forms: "wf_domain d \<Longrightarrow> distinct (form_names d)"
  unfolding wf_domain_def by (metis distinct_append)

lemma wf_input_states_distinct:
  assumes "wf_domain d"
  shows "distinct (input_states d)"
proof -
  from assms have "distinct (map fst (intent_properties d))" "distinct (entities d)"
    "distinct (map slot_name (slots d))" "distinct (action_names d)" "distinct (form_names d)"
    unfolding wf_domain_def by (blast, blast, blast, blast) (rule wf_distinct_forms [OF assms])
  then have "distinct (intent_states d)" "distinct (entity_states d)" "distinct (slot_states d)"
    "distinct (prev_action_states d)" "distinct (form_states d)"
    by (simp_all add: intent_states_def intents_def entity_states_def slot_states_def
        slot_states_distinct_aux prev_action_states_def form_states_def distinct_map inj_on_def)
  then show ?thesis
    unfolding input_states_def
    by (auto simp: distinct_append dest!: hd_states)
qed

lemma index_of_state_Some:
  "index_of_state d s = Some i \<Longrightarrow> i < num_states d \<and> input_states d ! i = s"
  by (simp add: index_of_state_def input_state_map_def num_states_def enum_map_Some)

lemma index_of_state_None: "index_of_state d s = None \<longleftrightarrow> s \<notin> set (input_states d)"
  by (metis domIff dom_enum_map index_of_state_def input_state_map_def)

lemma wf_index_of_state_nth:
  "wf_domain d \<Longrightarrow> i < num_states d \<Longrightarrow> index_of_state d (input_states d ! i) = Some i"
  by (simp add: index_of_state_def input_state_map_def num_states_def enum_map_distinct_nth
      wf_input_states_distinct)

section \<open>Lemmas: the state vector\<close>

lemma entity_part_eq: "entity_part es (''entity_'' @ e) = (if e \<in> set es then Some 1 else None)"
  by (auto simp: entity_part_def fold_upd_const)

lemma slot_part_other:
  assumes "\<forall>n i. k \<noteq> slot_state_name n i"
  shows "slot_part sf m0 k = m0 k"
proof -
  have inner: "\<And>m. fold (\<lambda>(i, v) m. if v \<noteq> 0 then m(slot_state_name n i \<mapsto> v) else m) xs m k = m k" for n xs
    using assms by (induction xs) auto
  have "\<And>m. fold (\<lambda>(n, feats) m. fold (\<lambda>(i, v) m. if v \<noteq> 0 then m(slot_state_name n i \<mapsto> v) else m)
                                (enumerate 0 feats) m) sf m k = m k"
    by (induction sf) (auto simp: inner)
  then show ?thesis by (simp add: slot_part_def)
qed

lemma intent_part_other:
  assumes "\<forall>i. k \<noteq> ''intent_'' @ i"
  shows "intent_part msg m0 k = m0 k"
proof -
  have "\<And>m. fold (\<lambda>(n, c) m. case n of Some i \<Rightarrow> if i \<noteq> [] then m(''intent_'' @ i \<mapsto> c) else m
                     | None \<Rightarrow> m) rk m k = m k" for rk :: "(string option \<times> real) list"
    using assms by (induction rk) (auto split: option.splits)
  with assms show ?thesis
    by (auto simp: intent_part_def split: option.splits)
qed

lemma prev_states_Some: "get_prev_action_states d tr k = Some v \<Longrightarrow> \<exists>a. k = ''prev_'' @ a \<and> k \<in> set (input_states d) \<and> v = 1"
  by (auto simp: get_prev_action_states_def input_state_map_def split: option.splits if_splits)

lemma active_form_Some: "get_active_form tr k = Some v \<Longrightarrow> \<exists>f. k = ''active_form_'' @ f \<and> v = 1"
  by (auto simp: get_active_form_def split: option.splits if_splits)

lemma featurized_entities_iff:
  "e \<in> set (get_featurized_entities d msg) \<longleftrightarrow>
     e \<in> set (msg_entity_names msg) \<and>
     e \<in> set (included_entities (intent_config d (intent_name msg)) (msg_entity_names msg)) \<and>
     e \<notin> set (ignore_ents (intent_config d (intent_name msg)))"
  by (auto simp: get_featurized_entities_def Let_def)

text \<open>C16. get_active_states sets entity_<e> to 1.0 exactly when the latest message has a
  truthy intent and entity e, e is included for that intent and not ignored (exclusion
  wins), and leaves it unset otherwise.\<close>

theorem entity_state_features:
  assumes "latest_message tr = Some msg"
  shows "get_active_states d tr (''entity_'' @ e) =
     (if truthy (intent_name msg) \<and> e \<in> set (msg_entity_names msg) \<and>
         e \<in> set (included_entities (intent_config d (intent_name msg)) (msg_entity_names msg)) \<and>
         e \<notin> set (ignore_ents (intent_config d (intent_name msg)))
      then Some 1 else None)"
proof -
  define k where "k = ''entity_'' @ e"
  have other: "get_prev_action_states d tr k = None" "get_active_form tr k = None"
    by (auto simp: k_def get_prev_action_states_def get_active_form_def split: option.splits)
  have ns: "\<forall>n i. k \<noteq> slot_state_name n i" by (simp add: k_def slot_state_name_def)
  have ni: "\<forall>i. k \<noteq> ''intent_'' @ i" by (simp add: k_def)
  have "get_parsing_states d tr k =
          (if truthy (intent_name msg) then entity_part (get_featurized_entities d msg) k else None)"
    using assms by (simp add: get_parsing_states_def Let_def intent_part_other [OF ni] slot_part_other [OF ns])
  then have "get_active_states d tr k =
          (if truthy (intent_name msg) then entity_part (get_featurized_entities d msg) k else None)"
    using other by (simp add: get_active_states_def map_add_def)
  moreover have "entity_part (get_featurized_entities d msg) k =
      (if e \<in> set (get_featurized_entities d msg) then Some 1 else None)"
    unfolding k_def by (rule entity_part_eq)
  ultimately show ?thesis
    unfolding k_def [symmetric] by (simp add: featurized_entities_iff)
qed

section \<open>Lemmas: properties of the domain\<close>

lemma make_domain_fields:
  assumes "make_domain its ents sls tmpls acts forms store sc = Inr d"
  shows "intent_properties d = map intent_entry its \<and> entities d = ents \<and> slots d = sls \<and>
         form_names d = forms \<and>
         action_names d = combine_user_with_default_actions (combine_with_templates acts (map fst tmpls)) @ forms"
proof -
  from assms obtain ips where ips: "collect_intent_properties its = Inr ips"
    by (auto simp: make_domain_def split: sum.splits)
  then have "ips = map intent_entry its" by (simp add: collect_intent_properties_Inr)
  with assms ips show ?thesis
    by (auto simp: make_domain_def check_domain_sanity_Inr Let_def)
qed

lemma set_combine_with_templates_snoc:
  "a \<notin> set tkeys \<Longrightarrow>
   set (combine_with_templates (acts @ [a]) tkeys) = insert a (set (combine_with_templates acts tkeys))"
  by (auto simp: combine_with_templates_def)

lemma set_combine_user_insert:
  "a \<notin> set default_action_names \<Longrightarrow> set uas' = insert a (set uas) \<Longrightarrow>
   set (combine_user_with_default_actions uas') = insert a (set (combine_user_with_default_actions uas))"
  by (auto simp: combine_user_with_default_actions_def)

lemma input_states_set:
  "set (input_states d) = set (intent_states d) \<union> set (entity_states d) \<union> set (slot_states d) \<union>
     (\<lambda>a. ''prev_'' @ a) ` set (action_names d) \<union> set (form_states d)"
  by (auto simp: input_states_def prev_action_states_def)

text \<open>C14. A domain built by Domain.__init__ has unique intents, actions, slots and entities,
  valid triggers, all default actions, action_listen at index 0 and a duplicate-free state
  schema input_states.\<close>

theorem make_domain_invariant:
  assumes "make_domain its ents sls tmpls acts forms store sc = Inr d"
  shows "wf_domain d \<and> index_for_action d ACTION_LISTEN_NAME = Inr 0 \<and>
         set default_action_names \<subseteq> set (action_names d) \<and> distinct (input_states d)"
proof -
  from make_domain_wf [OF assms] have wf: "wf_domain d" .
  then show ?thesis
    by (simp add: index_for_listen wf_default_actions wf_input_states_distinct)
qed

text \<open>On a well-formed domain, index_of_state returns i exactly when i < num_states and
  input_states[i] is the state, and None exactly for names outside input_states.\<close>

theorem index_of_state_spec:
  assumes "wf_domain d"
  shows "(index_of_state d s = Some i \<longleftrightarrow> i < num_states d \<and> input_states d ! i = s) \<and>
         (index_of_state d s = None \<longleftrightarrow> s \<notin> set (input_states d))"
  using index_of_state_Some wf_index_of_state_nth [OF assms] index_of_state_None by blast

text \<open>C15. On a well-formed domain, index_of_state, a lookup in the dict input_state_map built
  from enumerate(input_states), answers exactly as the reference input_states.index(state)
  (None for an absent state). The dict would keep the last index of a repeated state, but
  the states of a well-formed domain are distinct.\<close>

theorem index_of_state_list_index:
  assumes "wf_domain d"
  shows "index_of_state d = py_index (input_states d)"
proof
  fix s
  show "index_of_state d s = py_index (input_states d) s"
  proof (cases "py_index (input_states d) s")
    case None
    then have "index_of_state d s = None" by (simp add: index_of_state_None)
    then show ?thesis unfolding None .
  next
    case (Some i)
    from py_index_Some [OF Some] have i: "i < num_states d" "input_states d ! i = s"
      by (auto simp: num_states_def)
    have "index_of_state d s = Some i"
      using wf_index_of_state_nth [OF assms i(1)] i(2) by simp
    then show ?thesis unfolding Some .
  qed
qed

lemma collect_intent_properties_distinct:
  "distinct (map (fst \<circ> intent_entry) its) \<Longrightarrow> collect_intent_properties its = Inr (map intent_entry its)"
  by (simp add: collect_intent_properties_Inr)

lemma collect_intent_properties_not_distinct:
  "\<not> distinct (map (fst \<circ> intent_entry) its) \<Longrightarrow> \<exists>e. collect_intent_properties its = Inl e"
  by (cases "collect_intent_properties its") (auto simp: collect_intent_properties_Inr)

text \<open>Domain.__init__ succeeds exactly when intent names are unique and the combined
  action list, the slot names and the entities are duplicate-free and every trigger names
  an action.\<close>

theorem make_domain_Inr_iff:
  "(\<exists>d. make_domain its ents sls tmpls acts forms store sc = Inr d) \<longleftrightarrow>
     distinct (map (fst \<circ> intent_entry) its) \<and>
     distinct (combine_user_with_default_actions (combine_with_templates acts (map fst tmpls)) @ forms) \<and>
     distinct (map slot_name sls) \<and> distinct ents \<and>
     check_mappings (map intent_entry its) (combine_user_with_default_actions (combine_with_templates acts (map fst tmpls)) @ forms) = []"
proof (cases "distinct (map (fst \<circ> intent_entry) its)")
  case True
  then show ?thesis
    by (simp add: make_domain_def collect_intent_properties_distinct check_domain_sanity_def Let_def)
next
  case False
  then show ?thesis
    using collect_intent_properties_not_distinct [OF False] by (auto simp: make_domain_def)
qed

text \<open>On a well-formed domain, action_for_index of an in-range index returns the action
  name at that index, and index_for_action maps that name back to the index.\<close>

theorem action_index_roundtrip:
  assumes "wf_domain d" and "i < num_actions d"
  shows "action_for_index d (int i) = Inr (action_names d ! i) \<and>
         index_for_action d (action_names d ! i) = Inr i"
  using assms by (simp add: action_for_index_Inr index_for_action_nth)

text \<open>C18. Adding one fresh custom action to a domain makes compare_with_specification against
  the persisted specification of the old domain raise the specification-changed error
  naming no removed state and exactly prev_<action> as added.\<close>

theorem schema_change_detected:
  assumes d: "make_domain its ents sls tmpls acts forms store sc = Inr d"
    and d': "make_domain its ents sls tmpls (acts @ [a]) forms store sc = Inr d'"
    and fresh: "a \<notin> set acts" "a \<notin> set (map fst tmpls)" "a \<notin> set forms" "a \<notin> set default_action_names"
  shows "compare_with_specification d' (persist_specification d) =
           Inl (SpecificationChanged {} {''prev_'' @ a})"
proof -
  note f = make_domain_fields [OF d] and f' = make_domain_fields [OF d']
  have same: "intent_states d' = intent_states d" "entity_states d' = entity_states d"
    "slot_states d' = slot_states d" "form_states d' = form_states d"
    using f f' by (simp_all add: intent_states_def intents_def entity_states_def slot_states_def form_states_def)
  have acts': "set (action_names d') = insert a (set (action_names d))"
    using f f' fresh by (simp add: set_combine_user_insert set_combine_with_templates_snoc)
  have a_new: "a \<notin> set (action_names d)"
    using f fresh by (auto simp: combine_user_with_default_actions_def combine_with_templates_def)
  have new_state: "''prev_'' @ a \<notin> set (input_states d)"
    using a_new by (auto simp: input_states_set dest: hd_states)
  have "set (input_states d') = insert (''prev_'' @ a) (set (input_states d))"
    using same acts' by (auto simp: input_states_set)
  with new_state show ?thesis
    by (auto simp: compare_with_specification_def persist_specification_def)
qed

section \<open>Witnesses\<close>

lemma ex_domain_wf: "wf_domain ex_domain"
  by (simp add: wf_domain_def ex_domain_def combine_user_with_default_actions_def default_action_names_def
      ACTION_LISTEN_NAME_def check_mappings_def default_intent_props_def)

lemma ex_make_domain:
  "make_domain [IntentName ''greet''] [] [] ex_templates [] [] True ex_session = Inr ex_domain"
  by code_simp

lemma ex_make_domain_plus:
  "make_domain [IntentName ''greet''] [] [] ex_templates ([] @ [''action_hello'']) [] True ex_session =
     Inr ex_domain_plus"
  by code_simp

theorem make_domain_invariant_witness:
  "index_for_action ex_domain ACTION_LISTEN_NAME = Inr 0 \<and> distinct (input_states ex_domain)"
  using make_domain_invariant [OF ex_make_domain] by blast

theorem index_of_state_spec_witness:
  "index_of_state ex_domain ''intent_greet'' = Some 0 \<and> index_of_state ex_domain ''entity_city'' = None"
proof -
  have "0 < num_states ex_domain \<and> input_states ex_domain ! 0 = ''intent_greet''" by code_simp
  moreover have "''entity_city'' \<notin> set (input_states ex_domain)" by code_simp
  ultimately show ?thesis
    using index_of_state_spec [OF ex_domain_wf, of "''intent_greet''" 0]
      index_of_state_spec [OF ex_domain_wf, of "''entity_city''" 0] by blast
qed

theorem entity_state_features_witness:
  "get_active_states ex_entity_domain ex_inform_tracker ''entity_city'' = Some 1 \<and>
   get_active_states ex_entity_domain ex_inform_tracker ''entity_date'' = None"
proof -
  have msg: "latest_message ex_inform_tracker = Some ex_inform_msg"
    by (simp add: latest_message_def ex_inform_tracker_def replay_def init_tracker_state_def)
  have c: "truthy (intent_name ex_inform_msg) \<and> ''city'' \<in> set (msg_entity_names ex_inform_msg) \<and>
     ''city'' \<in> set (included_entities (intent_config ex_entity_domain (intent_name ex_inform_msg)) (msg_entity_names ex_inform_msg)) \<and>
     ''city'' \<notin> set (ignore_ents (intent_config ex_entity_domain (intent_name ex_inform_msg)))"
    by code_simp
  have d: "''date'' \<in> set (ignore_ents (intent_config ex_entity_domain (intent_name ex_inform_msg)))"
    by code_simp
  show ?thesis
    using entity_state_features [OF msg, of ex_entity_domain "''city''"]
      entity_state_features [OF msg, of ex_entity_domain "''date''"] c d by simp
qed

theorem action_index_roundtrip_witness:
  "action_for_index ex_domain 3 = Inr ''action_default_fallback'' \<and>
   index_for_action ex_domain ''action_default_fallback'' = Inr 3"
proof -
  have "3 < num_actions ex_domain" "action_names ex_domain ! 3 = ''action_default_fallback''"
    by code_simp+
  with action_index_roundtrip [OF ex_domain_wf, of 3] show ?thesis by simp
qed

theorem schema_change_detected_witness:
  "compare_with_specification ex_domain_plus (persist_specification ex_domain) =
     Inl (SpecificationChanged {} {''prev_action_hello''})"
proof -
  have "''action_hello'' \<notin> set (map fst ex_templates)" "''action_hello'' \<notin> set default_action_names"
    by code_simp+
  from schema_change_detected [OF ex_make_domain ex_make_domain_plus _ this(1) _ this(2)]
  show ?thesis by simp
qed

lemma check_mappings_intent_key:
  "check_mappings (map intent_entry its) acts =
   concat (map (\<lambda>(i, tr). case tr of None \<Rightarrow> [] | Some a \<Rightarrow> if a \<in> set acts then [] else [(i, a)])
               (map intent_key its))"
  by (induction its) (simp_all add: check_mappings_def intent_key_def split_def split: option.splits)

lemma intent_names_key: "map (fst \<circ> intent_entry) its = map fst (map intent_key its)"
  by (simp add: intent_key_def comp_def)

text \<open>C35. Domain.__init__ accepts or rejects a domain whatever the use_entities and
  ignore_entities lists of its intents are: changing them keeps a constructed domain
  constructible, even when an intent then both includes and ignores an entity. The
  ambiguity is only reported by _get_featurized_entities, whose warning names exactly the
  entities listed in both.\<close>

theorem ambiguous_entities_accepted:
  assumes k: "map intent_key its' = map intent_key its"
    and d: "make_domain its ents sls tmpls acts forms store sc = Inr d"
  shows "\<exists>d'. make_domain its' ents sls tmpls acts forms store sc = Inr d' \<and>
           (\<forall>(msg :: parse_data) n l ig t. intent_name msg = Some n \<and> IntentDict n (Some (RawList l)) (Some ig) t \<in> set its' \<longrightarrow>
              ambiguous_entities d' msg = filter (\<lambda>e. e \<in> set ig) l)"
proof -
  have "\<exists>d. make_domain its ents sls tmpls acts forms store sc = Inr d" using d by blast
  then have "\<exists>d'. make_domain its' ents sls tmpls acts forms store sc = Inr d'"
    unfolding make_domain_Inr_iff check_mappings_intent_key intent_names_key k .
  then obtain d' where d': "make_domain its' ents sls tmpls acts forms store sc = Inr d'" by blast
  have ip: "intent_properties d' = map intent_entry its'"
    using make_domain_fields [OF d'] by blast
  have dn: "distinct (map fst (intent_properties d'))"
    using make_domain_wf [OF d'] unfolding wf_domain_def by blast
  show ?thesis
  proof (intro exI conjI allI impI)
    fix msg :: parse_data and n l ig t
    assume a: "intent_name msg = Some n \<and> IntentDict n (Some (RawList l)) (Some ig) t \<in> set its'"
    then have "(n, \<lparr>use_ents = UseList l, ignore_ents = ig, triggers = t\<rparr>) \<in> set (intent_properties d')"
      unfolding ip by force
    with dn have "map_of (intent_properties d') n = Some \<lparr>use_ents = UseList l, ignore_ents = ig, triggers = t\<rparr>"
      by (rule map_of_is_SomeI)
    with a show "ambiguous_entities d' msg = filter (\<lambda>e. e \<in> set ig) l"
      by (simp add: ambiguous_entities_def intent_config_def)
  qed (rule d')
qed

theorem ambiguous_entities_accepted_witness:
  "\<exists>d'. make_domain [ex_inform] [''city'', ''date''] [] [] [] [] True ex_session = Inr d' \<and>
     ambiguous_entities d' ex_inform_msg = [''date'']"
proof -
  have k: "map intent_key [ex_inform] = map intent_key [IntentName ''inform'']"
    by (simp add: intent_key_def ex_inform_def)
  have "case make_domain [IntentName ''inform''] [''city'', ''date''] [] [] [] [] True ex_session of
          Inl e \<Rightarrow> False | Inr d \<Rightarrow> True"
    by code_simp
  then obtain d where "make_domain [IntentName ''inform''] [''city'', ''date''] [] [] [] [] True ex_session = Inr d"
    by (auto split: sum.splits)
  from ambiguous_entities_accepted [OF k this] show ?thesis
    by (auto simp: ex_inform_def ex_inform_msg_def)
qed

theorem index_of_state_list_index_witness:
  "index_of_state ex_domain ''intent_greet'' = py_index (input_states ex_domain) ''intent_greet''"
  using index_of_state_list_index [OF ex_domain_wf] by simp

end
