(* ===== verification/Ensemble.thy ===== *)
theory Ensemble
  imports Domain
begin

text \<open>
  The policy ensemble (\<open>src/rasa/core/policies/ensemble.py\<close>). A policy is a record of
  its class, its priority and its two prediction entry points
  (\<open>predict_action_probabilities\<close>, and \<open>fallback_scores\<close> for fallback policies),
  which the ensemble only calls. \<open>SimplePolicyEnsemble.probabilities_using_best_policy\<close>
  is \<open>probabilities_using_best_policy\<close>: the loop over the policies keeps a running best
  in the record \<open>best\<close>; every exception of the loop (an unknown rejected action, an
  index past the end of a distribution, \<open>np.max\<close> of an empty one) is an \<open>Inl\<close>.
\<close>

section \<open>Policies\<close>

text \<open>The policy classes the sources name, and any other class by its \<open>__name__\<close>.\<close>

datatype policy_class =
    MemoizationPolicy | AugmentedMemoizationPolicy | FormPolicy | MappingPolicy
  | FallbackPolicy | TwoStageFallbackPolicy | TEDPolicy | CustomPolicy string

fun class_name :: "policy_class \<Rightarrow> string" where
  "class_name MemoizationPolicy = ''MemoizationPolicy''"
| "class_name AugmentedMemoizationPolicy = ''AugmentedMemoizationPolicy''"
| "class_name FormPolicy = ''FormPolicy''"
| "class_name MappingPolicy = ''MappingPolicy''"
| "class_name FallbackPolicy = ''FallbackPolicy''"
| "class_name TwoStageFallbackPolicy = ''TwoStageFallbackPolicy''"
| "class_name TEDPolicy = ''TEDPolicy''"
| "class_name (CustomPolicy n) = n"

text \<open>\<open>isinstance(p, FallbackPolicy)\<close>: \<open>TwoStageFallbackPolicy\<close> is a subclass.\<close>

fun is_fallback_instance :: "policy_class \<Rightarrow> bool" where
  "is_fallback_instance FallbackPolicy = True"
| "is_fallback_instance TwoStageFallbackPolicy = True"
| "is_fallback_instance _ = False"

record policy =
  pclass :: policy_class
  priority :: int
  predict :: "tracker \<Rightarrow> domain \<Rightarrow> real list"
  fallback_scores :: "domain \<Rightarrow> real list"

datatype ens_error =
    DomainErr domain_error
  | IndexError nat
  | EmptyMaxError
  | ValueError

text \<open>\<open>"policy_{}_{}".format(i, type(p).__name__)\<close>.\<close>

definition policy_name :: "nat \<Rightarrow> policy \<Rightarrow> string" where
  "policy_name i p = ''policy_'' @ nat_str i @ ''_'' @ class_name (pclass p)"

definition is_not_memo_policy :: "string \<Rightarrow> bool" where
  "is_not_memo_policy n \<longleftrightarrow>
     \<not> (endswith n (''_'' @ class_name MemoizationPolicy) \<or>
        endswith n (''_'' @ class_name AugmentedMemoizationPolicy))"

section \<open>Arbitration\<close>

record best =
  result :: "real list option"
  max_confidence :: real
  best_policy_name :: "string option"
  best_policy_priority :: int

definition init_best :: best where
  "init_best = \<lparr>result = None, max_confidence = -1, best_policy_name = None, best_policy_priority = -1\<rparr>"

definition bkey :: "best \<Rightarrow> real \<times> int" where
  "bkey b = (max_confidence b, best_policy_priority b)"

text \<open>Zeroing the rejected action: \<open>probabilities[domain.index_for_action(...)] = 0.0\<close>.\<close>

definition zero_rejected :: "domain \<Rightarrow> tracker \<Rightarrow> real list \<Rightarrow> ens_error + real list" where
  "zero_rejected d tr probs =
     (case last_rejected (events tr) of
        None \<Rightarrow> Inr probs
      | Some a \<Rightarrow> (case index_for_action d a of
                    Inl e \<Rightarrow> Inl (DomainErr e)
                  | Inr k \<Rightarrow> if k < length probs then Inr (probs[k := 0]) else Inl (IndexError k)))"

text \<open>\<open>np.max\<close>: the largest entry; an empty array raises.\<close>

fun np_max :: "real list \<Rightarrow> ens_error + real" where
  "np_max [] = Inl EmptyMaxError"
| "np_max (x # xs) = Inr (fold max xs x)"

text \<open>What one iteration computes for a policy before the comparison.\<close>

definition policy_outcome :: "domain \<Rightarrow> tracker \<Rightarrow> policy \<Rightarrow> ens_error + (real list \<times> real)" where
  "policy_outcome d tr p =
     (case zero_rejected d tr (predict p tr d) of
        Inl e \<Rightarrow> Inl e
      | Inr probs \<Rightarrow> (case np_max probs of Inl e \<Rightarrow> Inl e | Inr c \<Rightarrow> Inr (probs, c)))"

definition winner :: "nat \<Rightarrow> policy \<Rightarrow> real list \<Rightarrow> real \<Rightarrow> best" where
  "winner i p probs c =
     \<lparr>result = Some probs, max_confidence = c, best_policy_name = Some (policy_name i p),
      best_policy_priority = priority p\<rparr>"

text \<open>The comparison \<open>(confidence, p.priority) > (max_confidence, best_policy_priority)\<close>
  is Python's lexicographic tuple order, which is \<open>HOL-Library.Product_Lexorder\<close>.\<close>

definition consider_policy :: "domain \<Rightarrow> tracker \<Rightarrow> nat \<Rightarrow> policy \<Rightarrow> best \<Rightarrow> ens_error + best" where
  "consider_policy d tr i p b =
     (case policy_outcome d tr p of
        Inl e \<Rightarrow> Inl e
      | Inr (probs, c) \<Rightarrow> Inr (if bkey b < (c, priority p) then winner i p probs c else b))"

fun best_loop :: "domain \<Rightarrow> tracker \<Rightarrow> nat \<Rightarrow> policy list \<Rightarrow> best \<Rightarrow> ens_error + best" where
  "best_loop d tr i [] b = Inr b"
| "best_loop d tr i (p # ps) b =
     (case consider_policy d tr i p b of Inl e \<Rightarrow> Inl e | Inr b' \<Rightarrow> best_loop d tr (Suc i) ps b')"

text \<open>\<open>[(i, p) for i, p in enumerate(self.policies) if isinstance(p, FallbackPolicy)]\<close>.\<close>

definition fallback_idx_policy :: "policy list \<Rightarrow> (nat \<times> policy) list" where
  "fallback_idx_policy ps = filter (\<lambda>(i, p). is_fallback_instance (pclass p)) (enumerate 0 ps)"

text \<open>The override: \<open>action_listen\<close> predicted right after \<open>action_listen\<close> by a policy
  outside the memoization family is replaced by the first fallback policy's scores.\<close>

definition listen_override ::
  "policy list \<Rightarrow> tracker \<Rightarrow> domain \<Rightarrow> real list \<Rightarrow> real \<Rightarrow> string
   \<Rightarrow> ens_error + (real list option \<times> string option)" where
  "listen_override ps tr d r mc n =
     (case py_index r mc of
        None \<Rightarrow> Inl ValueError
      | Some ri \<Rightarrow>
          (case index_for_action d ACTION_LISTEN_NAME of
             Inl e \<Rightarrow> Inl (DomainErr e)
           | Inr li \<Rightarrow>
               if ri = li \<and> latest_action_name tr = Some ACTION_LISTEN_NAME \<and> is_not_memo_policy n
               then (case fallback_idx_policy ps of
                       [] \<Rightarrow> Inr (Some r, Some n)
                     | (fi, fp) # _ \<Rightarrow> Inr (Some (fallback_scores fp d), Some (policy_name fi fp)))
               else Inr (Some r, Some n)))"

definition probabilities_using_best_policy ::
  "policy list \<Rightarrow> tracker \<Rightarrow> domain \<Rightarrow> ens_error + (real list option \<times> string option)" where
  "probabilities_using_best_policy ps tr d =
     (case best_loop d tr 0 ps init_best of
        Inl e \<Rightarrow> Inl e
      | Inr b \<Rightarrow>
          (case (result b, best_policy_name b) of
             (Some r, Some n) \<Rightarrow> listen_override ps tr d r (max_confidence b) n
           | (r, n) \<Rightarrow> Inr (r, n)))"

definition keys_below :: "domain \<Rightarrow> tracker \<Rightarrow> policy list \<Rightarrow> real \<times> int \<Rightarrow> bool" where
  "keys_below d tr ps k \<longleftrightarrow>
     (\<forall>p\<in>set ps. \<forall>r c. policy_outcome d tr p = Inr (r, c) \<longrightarrow> (c, priority p) \<le> k)"

definition keys_strictly_below :: "domain \<Rightarrow> tracker \<Rightarrow> policy list \<Rightarrow> real \<times> int \<Rightarrow> bool" where
  "keys_strictly_below d tr ps k \<longleftrightarrow>
     (\<forall>p\<in>set ps. \<forall>r c. policy_outcome d tr p = Inr (r, c) \<longrightarrow> (c, priority p) < k)"

section \<open>Example inputs\<close>

text \<open>A domain with one intent and one response, its ten actions in the order of
  \<open>combine_user_with_default_actions\<close> (\<open>action_listen\<close> at 0,
  \<open>action_default_fallback\<close> at 3), an ML policy, a memoization policy and a fallback
  policy, and trackers after a user message.\<close>

definition ex_ted :: policy where
  "ex_ted = \<lparr>pclass = TEDPolicy, priority = 1,
     predict = (\<lambda>t d. [0.8, 0.1, 0, 0, 0, 0, 0, 0, 0, 0.1]), fallback_scores = (\<lambda>d. [])\<rparr>"

definition ex_memo :: policy where
  "ex_memo = \<lparr>pclass = MemoizationPolicy, priority = 3,
     predict = (\<lambda>t d. [0, 0, 0, 0, 0, 0, 0, 0, 0, 0]), fallback_scores = (\<lambda>d. [])\<rparr>"

definition ex_fallback :: policy where
  "ex_fallback = \<lparr>pclass = FallbackPolicy, priority = 4,
     predict = (\<lambda>t d. [0, 0, 0, 0.3, 0, 0, 0, 0, 0, 0]),
     fallback_scores = (\<lambda>d. [0, 0, 0, 1, 0, 0, 0, 0, 0, 0])\<rparr>"

definition ex_broken :: policy where
  "ex_broken = \<lparr>pclass = CustomPolicy ''BrokenPolicy'', priority = 2,
     predict = (\<lambda>t d. []), fallback_scores = (\<lambda>d. [])\<rparr>"

definition ex_msg :: parse_data where
  "ex_msg = \<lparr>msg_text = ''hi'', intent_name = Some ''greet'', intent_confidence = None,
     intent_ranking = None, msg_entities = []\<rparr>"

definition ex_tracker :: tracker where
  "ex_tracker = \<lparr>events = [ActionExecuted ACTION_LISTEN_NAME, UserUttered ex_msg], slot_features = []\<rparr>"

definition ex_rejected_tracker :: tracker where
  "ex_rejected_tracker = tracker_update ex_tracker (ActionExecutionRejected ''action_default_fallback'')"

section \<open>Lemmas: one iteration and the loop\<close>

lemma bkey_winner [simp]: "bkey (winner i p r c) = (c, priority p)"
  by (simp add: bkey_def winner_def)

lemma keys_below_Cons:
  "keys_below d tr (p # ps) k \<longleftrightarrow>
     (\<forall>r c. policy_outcome d tr p = Inr (r, c) \<longrightarrow> (c, priority p) \<le> k) \<and> keys_below d tr ps k"
  by (auto simp: keys_below_def)

lemma keys_strictly_below_Cons:
  "keys_strictly_below d tr (p # ps) k \<longleftrightarrow>
     (\<forall>r c. policy_outcome d tr p = Inr (r, c) \<longrightarrow> (c, priority p) < k) \<and> keys_strictly_below d tr ps k"
  by (auto simp: keys_strictly_below_def)

lemma consider_policy_Inr:
  "consider_policy d tr i p b = Inr b1 \<longleftrightarrow>
     (\<exists>r c. policy_outcome d tr p = Inr (r, c) \<and>
            b1 = (if bkey b < (c, priority p) then winner i p r c else b))"
  by (auto simp: consider_policy_def split: sum.splits)

lemma best_loop_spec:
  "best_loop d tr i ps b = Inr b' \<Longrightarrow>
     (b' = b \<and> keys_below d tr ps (bkey b)) \<or>
     (\<exists>w<length ps. \<exists>r c. policy_outcome d tr (ps ! w) = Inr (r, c) \<and>
        b' = winner (i + w) (ps ! w) r c \<and> bkey b < (c, priority (ps ! w)) \<and>
        keys_below d tr ps (c, priority (ps ! w)) \<and>
        keys_strictly_below d tr (take w ps) (c, priority (ps ! w)))"
proof (induction ps arbitrary: i b)
  case Nil
  then show ?case by (simp add: keys_below_def)
next
  case (Cons p ps)
  from Cons.prems obtain b1 where b1: "consider_policy d tr i p b = Inr b1"
    and rest: "best_loop d tr (Suc i) ps b1 = Inr b'"
    by (auto split: sum.splits)
  from b1 obtain r0 c0 where o0: "policy_outcome d tr p = Inr (r0, c0)"
    and b1_eq: "b1 = (if bkey b < (c0, priority p) then winner i p r0 c0 else b)"
    by (auto simp: consider_policy_Inr)
  have k0: "(c0, priority p) \<le> bkey b1" and step: "bkey b \<le> bkey b1"
    using b1_eq by auto
  from Cons.IH [OF rest] show ?case
  proof
    assume h: "b' = b1 \<and> keys_below d tr ps (bkey b1)"
    show ?thesis
    proof (cases "bkey b < (c0, priority p)")
      case True
      with h b1_eq o0 show ?thesis
        by (intro disjI2 exI [of _ 0]) (simp add: keys_below_Cons keys_strictly_below_def)
    next
      case False
      with h b1_eq o0 show ?thesis
        by (intro disjI1) (simp add: keys_below_Cons not_less)
    qed
  next
    assume "\<exists>w<length ps. \<exists>r c. policy_outcome d tr (ps ! w) = Inr (r, c) \<and>
        b' = winner (Suc i + w) (ps ! w) r c \<and> bkey b1 < (c, priority (ps ! w)) \<and>
        keys_below d tr ps (c, priority (ps ! w)) \<and>
        keys_strictly_below d tr (take w ps) (c, priority (ps ! w))"
    then obtain w r c where w: "w < length ps" "policy_outcome d tr (ps ! w) = Inr (r, c)"
      "b' = winner (Suc i + w) (ps ! w) r c" "bkey b1 < (c, priority (ps ! w))"
      "keys_below d tr ps (c, priority (ps ! w))"
      "keys_strictly_below d tr (take w ps) (c, priority (ps ! w))" by blast
    have "(c0, priority p) < (c, priority (ps ! w))" using k0 w(4) by order
    moreover have "bkey b < (c, priority (ps ! w))" using step w(4) by order
    ultimately show ?thesis
      using w o0 by (intro disjI2 exI [of _ "Suc w"]) (auto simp: keys_below_Cons keys_strictly_below_Cons)
  qed
qed


lemma best_loop_Some:
  assumes "best_loop d tr 0 ps init_best = Inr b" "result b = Some r"
  shows "\<exists>w<length ps. \<exists>c. policy_outcome d tr (ps ! w) = Inr (r, c) \<and> b = winner w (ps ! w) r c \<and>
           keys_below d tr ps (c, priority (ps ! w)) \<and>
           keys_strictly_below d tr (take w ps) (c, priority (ps ! w))"
  using best_loop_spec [OF assms(1)] assms(2) by (auto simp: init_best_def winner_def)

lemma best_loop_None:
  assumes "best_loop d tr 0 ps init_best = Inr b" "result b = None"
  shows "b = init_best \<and> keys_below d tr ps (-1, -1)"
  using best_loop_spec [OF assms(1)] assms(2) by (auto simp: init_best_def winner_def bkey_def)

lemma np_max_Inr: "np_max xs = Inr c \<longleftrightarrow> xs \<noteq> [] \<and> c = Max (set xs)"
  by (cases xs) (auto simp: Max.set_eq_fold [symmetric])

lemma zero_rejected_Inr:
  assumes "zero_rejected d tr probs = Inr r"
  shows "length r = length probs \<and>
         (case last_rejected (events tr) of
            None \<Rightarrow> r = probs
          | Some a \<Rightarrow> \<exists>k. index_for_action d a = Inr k \<and> k < length r \<and> r = probs[k := 0])"
  using assms by (auto simp: zero_rejected_def split: option.splits sum.splits if_splits)

lemma policy_outcome_Inr:
  assumes "policy_outcome d tr p = Inr (r, c)"
  shows "zero_rejected d tr (predict p tr d) = Inr r \<and> r \<noteq> [] \<and> c = Max (set r)"
  using assms by (auto simp: policy_outcome_def np_max_Inr split: sum.splits)

lemma py_index_Max: "r \<noteq> [] \<Longrightarrow> \<exists>i. py_index r (Max (set r)) = Some i"
  by (metis Max_in finite_set not_None_eq py_index_None set_empty)

lemma listen_override_cases:
  assumes "listen_override ps tr d r mc n = Inr (r', n')"
  shows "(r' = Some r \<and> n' = Some n) \<or>
         (\<exists>fi fp rest li. fallback_idx_policy ps = (fi, fp) # rest \<and>
            index_for_action d ACTION_LISTEN_NAME = Inr li \<and> py_index r mc = Some li \<and>
            latest_action_name tr = Some ACTION_LISTEN_NAME \<and> is_not_memo_policy n \<and>
            r' = Some (fallback_scores fp d) \<and> n' = Some (policy_name fi fp))"
  using assms by (auto simp: listen_override_def split: option.splits sum.splits if_splits list.splits)

lemma listen_override_exact:
  assumes "listen_override ps tr d r mc n = Inr (r', n')"
  shows "r' = Some (if (\<exists>li. index_for_action d ACTION_LISTEN_NAME = Inr li \<and> py_index r mc = Some li) \<and>
                      latest_action_name tr = Some ACTION_LISTEN_NAME \<and> is_not_memo_policy n \<and>
                      fallback_idx_policy ps \<noteq> []
                   then fallback_scores (snd (hd (fallback_idx_policy ps))) d else r) \<and>
         n' = Some (if (\<exists>li. index_for_action d ACTION_LISTEN_NAME = Inr li \<and> py_index r mc = Some li) \<and>
                      latest_action_name tr = Some ACTION_LISTEN_NAME \<and> is_not_memo_policy n \<and>
                      fallback_idx_policy ps \<noteq> []
                   then policy_name (fst (hd (fallback_idx_policy ps))) (snd (hd (fallback_idx_policy ps))) else n)"
  using assms by (auto simp: listen_override_def split: option.splits sum.splits if_splits list.splits)

section \<open>Lemmas: the arbitration contract\<close>

lemma best_loop_all_Inr:
  "best_loop d tr i ps b = Inr b' \<Longrightarrow> \<forall>p\<in>set ps. \<exists>r c. policy_outcome d tr p = Inr (r, c)"
proof (induction ps arbitrary: i b)
  case (Cons p ps)
  then show ?case by (auto simp: consider_policy_def split: sum.splits)
qed simp

lemma best_loop_Inl:
  "best_loop d tr i ps b = Inl e \<Longrightarrow>
     \<exists>j<length ps. policy_outcome d tr (ps ! j) = Inl e \<and>
       (\<forall>k<j. \<exists>r c. policy_outcome d tr (ps ! k) = Inr (r, c))"
proof (induction ps arbitrary: i b)
  case (Cons p ps)
  show ?case
  proof (cases "policy_outcome d tr p")
    case (Inl e')
    with Cons.prems show ?thesis by (auto simp: consider_policy_def)
  next
    case (Inr rc)
    then obtain r c where rc: "policy_outcome d tr p = Inr (r, c)" by (cases rc) auto
    with Cons.prems obtain b1 where "best_loop d tr (Suc i) ps b1 = Inl e"
      by (auto simp: consider_policy_def split: sum.splits)
    from Cons.IH [OF this] obtain j where "j < length ps" "policy_outcome d tr (ps ! j) = Inl e"
      "\<forall>k<j. \<exists>r c. policy_outcome d tr (ps ! k) = Inr (r, c)" by blast
    with rc show ?thesis
      by (intro exI [of _ "Suc j"]) (auto simp: less_Suc_eq_0_disj)
  qed
qed simp

lemma best_loop_ok:
  "\<forall>p\<in>set ps. \<exists>r c. policy_outcome d tr p = Inr (r, c) \<Longrightarrow> \<exists>b'. best_loop d tr i ps b = Inr b'"
proof (induction ps arbitrary: i b)
  case (Cons p ps)
  then show ?case by (auto simp: consider_policy_def split: sum.splits)
qed simp

lemma probabilities_using_best_policy_Some:
  assumes "probabilities_using_best_policy ps tr d = Inr (Some r, Some n)"
  shows "\<exists>w<length ps. \<exists>r0 c. policy_outcome d tr (ps ! w) = Inr (r0, c) \<and>
     keys_below d tr ps (c, priority (ps ! w)) \<and>
     keys_strictly_below d tr (take w ps) (c, priority (ps ! w)) \<and>
     ((r = r0 \<and> n = policy_name w (ps ! w)) \<or>
      (\<exists>fi fp rest li. fallback_idx_policy ps = (fi, fp) # rest \<and>
         index_for_action d ACTION_LISTEN_NAME = Inr li \<and> py_index r0 c = Some li \<and>
         latest_action_name tr = Some ACTION_LISTEN_NAME \<and> is_not_memo_policy (policy_name w (ps ! w)) \<and>
         r = fallback_scores fp d \<and> n = policy_name fi fp))"
proof -
  from assms obtain b where loop: "best_loop d tr 0 ps init_best = Inr b"
    by (auto simp: probabilities_using_best_policy_def split: sum.splits)
  show ?thesis
  proof (cases "result b")
    case None
    with best_loop_None [OF loop] assms loop show ?thesis
      by (simp add: probabilities_using_best_policy_def init_best_def)
  next
    case (Some r0)
    from best_loop_Some [OF loop Some] obtain w c where w: "w < length ps"
      "policy_outcome d tr (ps ! w) = Inr (r0, c)" "b = winner w (ps ! w) r0 c"
      "keys_below d tr ps (c, priority (ps ! w))"
      "keys_strictly_below d tr (take w ps) (c, priority (ps ! w))" by blast
    from assms loop w(3) have "listen_override ps tr d r0 c (policy_name w (ps ! w)) = Inr (Some r, Some n)"
      by (simp add: probabilities_using_best_policy_def winner_def)
    from listen_override_cases [OF this] w show ?thesis by blast
  qed
qed

text \<open>C1. probabilities_using_best_policy returns either nothing (when no policy's (max
  confidence, priority) exceeds (-1, -1)) or the distribution and name of the first policy
  whose (max confidence, priority) is lexicographically greatest, replaced by the first
  fallback policy's scores, under that policy's name, exactly when that winner predicts
  action_listen after action_listen, is not a memoization policy, and the ensemble has a
  fallback policy.\<close>

theorem probabilities_using_best_policy_contract:
  assumes "probabilities_using_best_policy ps tr d = Inr (r, n)"
  shows "(r = None \<and> n = None \<and> keys_below d tr ps (-1, -1)) \<or>
    (\<exists>w<length ps. \<exists>r0 c. policy_outcome d tr (ps ! w) = Inr (r0, c) \<and>
       keys_below d tr ps (c, priority (ps ! w)) \<and>
       keys_strictly_below d tr (take w ps) (c, priority (ps ! w)) \<and>
       (let fires = (\<exists>li. index_for_action d ACTION_LISTEN_NAME = Inr li \<and> py_index r0 c = Some li) \<and>
                    latest_action_name tr = Some ACTION_LISTEN_NAME \<and>
                    is_not_memo_policy (policy_name w (ps ! w)) \<and> fallback_idx_policy ps \<noteq> [];
            fb = hd (fallback_idx_policy ps)
        in r = Some (if fires then fallback_scores (snd fb) d else r0) \<and>
           n = Some (if fires then policy_name (fst fb) (snd fb) else policy_name w (ps ! w))))"
proof -
  from assms obtain b where loop: "best_loop d tr 0 ps init_best = Inr b"
    by (auto simp: probabilities_using_best_policy_def split: sum.splits)
  show ?thesis
  proof (cases "result b")
    case None
    with best_loop_None [OF loop] assms loop show ?thesis
      by (simp add: probabilities_using_best_policy_def init_best_def)
  next
    case (Some r0)
    from best_loop_Some [OF loop Some] obtain w c where w: "w < length ps"
      "policy_outcome d tr (ps ! w) = Inr (r0, c)" "b = winner w (ps ! w) r0 c"
      "keys_below d tr ps (c, priority (ps ! w))"
      "keys_strictly_below d tr (take w ps) (c, priority (ps ! w))" by blast
    from assms loop w(3) have "listen_override ps tr d r0 c (policy_name w (ps ! w)) = Inr (r, n)"
      by (simp add: probabilities_using_best_policy_def winner_def)
    note e = listen_override_exact [OF this]
    show ?thesis
      unfolding Let_def using w(1,2,4,5) e by blast
  qed
qed

text \<open>C2. When the winning policy is not a memoization policy, its distribution peaks at
  action_listen and the tracker's latest action is action_listen, the ensemble returns the
  first fallback policy's fallback scores under that policy's name.\<close>

theorem fallback_override:
  assumes "wf_domain d" and "best_loop d tr 0 ps init_best = Inr b"
    and "result b = Some r" and "best_policy_name b = Some n"
    and "py_index r (max_confidence b) = Some 0"
    and "latest_action_name tr = Some ACTION_LISTEN_NAME" and "is_not_memo_policy n"
    and "fallback_idx_policy ps = (fi, fp) # rest"
  shows "probabilities_using_best_policy ps tr d = Inr (Some (fallback_scores fp d), Some (policy_name fi fp))"
  using assms by (simp add: probabilities_using_best_policy_def listen_override_def index_for_listen)

text \<open>C3. After an ActionExecutionRejected event, the returned distribution has probability 0
  at the rejected action's index, unless the listen override replaced it by the fallback
  policy's scores.\<close>

theorem rejected_action_zeroed:
  assumes "probabilities_using_best_policy ps tr d = Inr (Some r, Some n)"
    and "last_rejected (events tr) = Some a"
  shows "(\<exists>k. index_for_action d a = Inr k \<and> k < length r \<and> r ! k = 0) \<or>
         (\<exists>fi fp rest. fallback_idx_policy ps = (fi, fp) # rest \<and> r = fallback_scores fp d \<and> n = policy_name fi fp)"
proof -
  from probabilities_using_best_policy_Some [OF assms(1)] obtain w r0 c where
    o: "policy_outcome d tr (ps ! w) = Inr (r0, c)" and
    cases: "(r = r0 \<and> n = policy_name w (ps ! w)) \<or>
      (\<exists>fi fp rest li. fallback_idx_policy ps = (fi, fp) # rest \<and>
         index_for_action d ACTION_LISTEN_NAME = Inr li \<and> py_index r0 c = Some li \<and>
         latest_action_name tr = Some ACTION_LISTEN_NAME \<and> is_not_memo_policy (policy_name w (ps ! w)) \<and>
         r = fallback_scores fp d \<and> n = policy_name fi fp)" by blast
  from policy_outcome_Inr [OF o] have "zero_rejected d tr (predict (ps ! w) tr d) = Inr r0" by simp
  from zero_rejected_Inr [OF this] assms(2) obtain k where
    "index_for_action d a = Inr k" "k < length r0" "r0 ! k = 0" by auto
  with cases show ?thesis by blast
qed

text \<open>C4. On a well-formed domain, probabilities_using_best_policy raises exactly the error of
  the first policy whose iteration raises (unknown rejected action, index past the
  distribution, np.max of an empty distribution) and raises nothing otherwise.\<close>

theorem probabilities_using_best_policy_error:
  assumes "wf_domain d"
  shows "probabilities_using_best_policy ps tr d = Inl e \<longleftrightarrow>
    (\<exists>j<length ps. policy_outcome d tr (ps ! j) = Inl e \<and>
       (\<forall>k<j. \<exists>r c. policy_outcome d tr (ps ! k) = Inr (r, c)))"
proof
  assume err: "probabilities_using_best_policy ps tr d = Inl e"
  show "\<exists>j<length ps. policy_outcome d tr (ps ! j) = Inl e \<and>
       (\<forall>k<j. \<exists>r c. policy_outcome d tr (ps ! k) = Inr (r, c))"
  proof (cases "best_loop d tr 0 ps init_best")
    case (Inl e')
    with err best_loop_Inl [OF Inl] show ?thesis by (simp add: probabilities_using_best_policy_def)
  next
    case (Inr b)
    show ?thesis
    proof (cases "result b")
      case None
      with err Inr show ?thesis
        by (auto simp: probabilities_using_best_policy_def split: option.splits)
    next
      case (Some r0)
      from best_loop_Some [OF Inr Some] obtain w c where
        "policy_outcome d tr (ps ! w) = Inr (r0, c)" "b = winner w (ps ! w) r0 c" by blast
      moreover from policy_outcome_Inr [OF this(1)] obtain i where "py_index r0 c = Some i"
        using py_index_Max by blast
      ultimately show ?thesis using err Inr assms
        by (auto simp: probabilities_using_best_policy_def winner_def listen_override_def index_for_listen
            split: list.splits if_splits)
    qed
  qed
next
  assume "\<exists>j<length ps. policy_outcome d tr (ps ! j) = Inl e \<and>
       (\<forall>k<j. \<exists>r c. policy_outcome d tr (ps ! k) = Inr (r, c))"
  then obtain j where j: "j < length ps" "policy_outcome d tr (ps ! j) = Inl e"
    "\<forall>k<j. \<exists>r c. policy_outcome d tr (ps ! k) = Inr (r, c)" by blast
  have "best_loop d tr i ps b = Inl e" for i b
    using j
  proof (induction ps arbitrary: i b j)
    case (Cons p ps)
    show ?case
    proof (cases j)
      case 0
      with Cons.prems show ?thesis by (simp add: consider_policy_def)
    next
      case (Suc j')
      have pre: "\<forall>k<j. \<exists>r c. policy_outcome d tr ((p # ps) ! k) = Inr (r, c)"
        using Cons.prems(3) .
      then obtain r c where rc: "policy_outcome d tr p = Inr (r, c)"
        using Suc by (metis nth_Cons_0 zero_less_Suc)
      have "\<forall>k<j'. \<exists>r c. policy_outcome d tr (ps ! k) = Inr (r, c)"
      proof (intro allI impI)
        fix k assume "k < j'"
        with Suc have "Suc k < j" by simp
        with pre have "\<exists>r c. policy_outcome d tr ((p # ps) ! Suc k) = Inr (r, c)" by blast
        then show "\<exists>r c. policy_outcome d tr (ps ! k) = Inr (r, c)" by simp
      qed
      moreover have "j' < length ps" "policy_outcome d tr (ps ! j') = Inl e"
        using Cons.prems(1,2) Suc by simp_all
      ultimately have "\<And>i b. best_loop d tr i ps b = Inl e"
        using Cons.IH by blast
      with rc show ?thesis by (simp add: consider_policy_def)
    qed
  qed simp
  then show "probabilities_using_best_policy ps tr d = Inl e"
    by (simp add: probabilities_using_best_policy_def)
qed

section \<open>Lemmas: the memoization family and progress\<close>

text \<open>For the built-in policy classes, is_not_memo_policy of the name policy_<i>_<Class>
  is false exactly for MemoizationPolicy and AugmentedMemoizationPolicy.\<close>

theorem is_not_memo_policy_name:
  assumes "\<forall>c. pclass p \<noteq> CustomPolicy c"
  shows "is_not_memo_policy (policy_name i p) \<longleftrightarrow>
           pclass p \<notin> {MemoizationPolicy, AugmentedMemoizationPolicy}"
  using assms
  by (cases "pclass p") (simp_all add: is_not_memo_policy_def policy_name_def endswith_rev)

lemma zero_rejected_nonneg:
  assumes "zero_rejected d tr probs = Inr r" and "\<forall>x\<in>set probs. 0 \<le> x"
  shows "\<forall>x\<in>set r. 0 \<le> x"
proof -
  have "set (probs[k := 0]) \<subseteq> insert 0 (set probs)" for k by (rule set_update_subset_insert)
  with assms show ?thesis
    by (auto simp: zero_rejected_def split: option.splits sum.splits if_splits)
qed

text \<open>C5. A non-empty ensemble whose policies return non-negative scores always returns a
  distribution and a policy name when it does not raise.\<close>

theorem probabilities_using_best_policy_answers:
  assumes "ps \<noteq> []" and "\<forall>p\<in>set ps. \<forall>x\<in>set (predict p tr d). 0 \<le> x"
    and "probabilities_using_best_policy ps tr d = Inr (r, n)"
  shows "r \<noteq> None \<and> n \<noteq> None"
proof -
  from assms(3) obtain b where loop: "best_loop d tr 0 ps init_best = Inr b"
    by (auto simp: probabilities_using_best_policy_def split: sum.splits)
  show ?thesis
  proof (cases "result b")
    case None
    from best_loop_None [OF loop None] have kb: "keys_below d tr ps (-1, -1)" by simp
    obtain p where p: "p \<in> set ps" using assms(1) by (cases ps) auto
    from best_loop_all_Inr [OF loop] p obtain r0 c where o: "policy_outcome d tr p = Inr (r0, c)"
      by blast
    from policy_outcome_Inr [OF o] have z: "zero_rejected d tr (predict p tr d) = Inr r0"
      "r0 \<noteq> []" "c = Max (set r0)" by auto
    from zero_rejected_nonneg [OF z(1)] assms(2) p have nn: "\<forall>x\<in>set r0. 0 \<le> x" by blast
    from z(2) obtain x where x: "x \<in> set r0" by (cases r0) auto
    then have "x \<le> c" using z(3) by simp
    moreover from nn x have "0 \<le> x" by blast
    ultimately have "0 \<le> c" by linarith
    moreover from kb p o have "(c, priority p) \<le> (-1, -1)" by (auto simp: keys_below_def)
    ultimately show ?thesis by (auto simp: less_eq_prod_def)
  next
    case (Some r0)
    from best_loop_Some [OF loop Some] obtain w c where "b = winner w (ps ! w) r0 c" by blast
    with assms(3) loop Some have "listen_override ps tr d r0 c (policy_name w (ps ! w)) = Inr (r, n)"
      by (simp add: probabilities_using_best_policy_def winner_def)
    from listen_override_cases [OF this] show ?thesis by auto
  qed
qed

section \<open>Witnesses\<close>

lemma ex_loop:
  "best_loop ex_domain ex_tracker 0 [ex_ted, ex_memo, ex_fallback] init_best =
     Inr (winner 0 ex_ted [0.8, 0.1, 0, 0, 0, 0, 0, 0, 0, 0.1] 0.8)"
  by code_simp

lemma ex_result:
  "probabilities_using_best_policy [ex_ted, ex_memo, ex_fallback] ex_tracker ex_domain =
     Inr (Some [0, 0, 0, 1, 0, 0, 0, 0, 0, 0], Some ''policy_2_FallbackPolicy'')"
  by code_simp

lemma ex_fallback_idx: "fallback_idx_policy [ex_ted, ex_memo, ex_fallback] = [(2, ex_fallback)]"
  by (simp add: fallback_idx_policy_def ex_ted_def ex_memo_def ex_fallback_def)

theorem probabilities_using_best_policy_contract_witness:
  "probabilities_using_best_policy [ex_ted, ex_memo, ex_fallback] ex_tracker ex_domain =
     Inr (Some [0, 0, 0, 1, 0, 0, 0, 0, 0, 0], Some ''policy_2_FallbackPolicy'') \<and>
   (\<exists>w<length [ex_ted, ex_memo, ex_fallback]. \<exists>r0 c.
      policy_outcome ex_domain ex_tracker ([ex_ted, ex_memo, ex_fallback] ! w) = Inr (r0, c) \<and>
      keys_below ex_domain ex_tracker [ex_ted, ex_memo, ex_fallback] (c, priority ([ex_ted, ex_memo, ex_fallback] ! w)))"
proof -
  from probabilities_using_best_policy_contract [OF ex_result] obtain w r0 c where
    "w < length [ex_ted, ex_memo, ex_fallback]"
    "policy_outcome ex_domain ex_tracker ([ex_ted, ex_memo, ex_fallback] ! w) = Inr (r0, c)"
    "keys_below ex_domain ex_tracker [ex_ted, ex_memo, ex_fallback] (c, priority ([ex_ted, ex_memo, ex_fallback] ! w))"
    by blast
  with ex_result show ?thesis by blast
qed

theorem fallback_override_witness:
  "probabilities_using_best_policy [ex_ted, ex_memo, ex_fallback] ex_tracker ex_domain =
     Inr (Some (fallback_scores ex_fallback ex_domain), Some (policy_name 2 ex_fallback))"
proof (rule fallback_override [OF ex_domain_wf ex_loop])
  show "result (winner 0 ex_ted [0.8, 0.1, 0, 0, 0, 0, 0, 0, 0, 0.1] 0.8) = Some [0.8, 0.1, 0, 0, 0, 0, 0, 0, 0, 0.1]"
    by (simp add: winner_def)
  show "best_policy_name (winner 0 ex_ted [0.8, 0.1, 0, 0, 0, 0, 0, 0, 0, 0.1] 0.8) = Some (policy_name 0 ex_ted)"
    by (simp add: winner_def)
  show "py_index [0.8, 0.1, 0, 0, 0, 0, 0, 0, 0, 0.1] (max_confidence (winner 0 ex_ted [0.8, 0.1, 0, 0, 0, 0, 0, 0, 0, 0.1] 0.8)) = Some 0"
    by (simp add: winner_def)
  show "latest_action_name ex_tracker = Some ACTION_LISTEN_NAME"
    by (simp add: latest_action_name_def ex_tracker_def replay_def init_tracker_state_def)
  show "is_not_memo_policy (policy_name 0 ex_ted)"
    by code_simp
  show "fallback_idx_policy [ex_ted, ex_memo, ex_fallback] = (2, ex_fallback) # []"
    by (simp add: ex_fallback_idx)
qed

lemma ex_rejected_ted:
  "probabilities_using_best_policy [ex_ted] ex_rejected_tracker ex_domain =
     Inr (Some [0.8, 0.1, 0, 0, 0, 0, 0, 0, 0, 0.1], Some ''policy_0_TEDPolicy'')"
  by code_simp

lemma ex_rejected_last: "last_rejected (events ex_rejected_tracker) = Some ''action_default_fallback''"
  by (simp add: ex_rejected_tracker_def)

theorem rejected_action_zeroed_witness:
  "\<exists>k. index_for_action ex_domain ''action_default_fallback'' = Inr k \<and> k < 10 \<and>
       [0.8, 0.1, 0, 0, 0, 0, 0, 0, 0, 0.1::real] ! k = 0"
proof -
  have "fallback_idx_policy [ex_ted] = []" by (simp add: fallback_idx_policy_def ex_ted_def)
  with rejected_action_zeroed [OF ex_rejected_ted ex_rejected_last] show ?thesis by auto
qed

theorem probabilities_using_best_policy_error_witness:
  "probabilities_using_best_policy [ex_ted, ex_broken] ex_tracker ex_domain = Inl EmptyMaxError"
proof (rule probabilities_using_best_policy_error [OF ex_domain_wf, THEN iffD2])
  have o1: "policy_outcome ex_domain ex_tracker ([ex_ted, ex_broken] ! 1) = Inl EmptyMaxError"
    by code_simp
  have o0: "policy_outcome ex_domain ex_tracker ([ex_ted, ex_broken] ! 0) =
      Inr ([0.8, 0.1, 0, 0, 0, 0, 0, 0, 0, 0.1], 0.8)"
    by code_simp
  show "\<exists>j<length [ex_ted, ex_broken]. policy_outcome ex_domain ex_tracker ([ex_ted, ex_broken] ! j) = Inl EmptyMaxError \<and>
      (\<forall>k<j. \<exists>r c. policy_outcome ex_domain ex_tracker ([ex_ted, ex_broken] ! k) = Inr (r, c))"
  proof (intro exI [of _ 1] conjI)
    show "\<forall>k<1. \<exists>r c. policy_outcome ex_domain ex_tracker ([ex_ted, ex_broken] ! k) = Inr (r, c)"
    proof (intro allI impI)
      fix k :: nat assume "k < 1"
      then have "k = 0" by simp
      with o0 show "\<exists>r c. policy_outcome ex_domain ex_tracker ([ex_ted, ex_broken] ! k) = Inr (r, c)"
        by blast
    qed
  qed (use o1 in simp_all)
qed

theorem probabilities_using_best_policy_answers_witness:
  "probabilities_using_best_policy [ex_ted, ex_memo, ex_fallback] ex_tracker ex_domain \<noteq> Inr (None, None)"
proof
  assume h: "probabilities_using_best_policy [ex_ted, ex_memo, ex_fallback] ex_tracker ex_domain = Inr (None, None)"
  have "\<forall>p\<in>set [ex_ted, ex_memo, ex_fallback]. \<forall>x\<in>set (predict p ex_tracker ex_domain). (0::real) \<le> x"
    by (simp add: ex_ted_def ex_memo_def ex_fallback_def)
  from probabilities_using_best_policy_answers [OF _ this h] show False by simp
qed

theorem is_not_memo_policy_name_witness:
  "\<not> is_not_memo_policy (policy_name 1 ex_memo) \<and> is_not_memo_policy (policy_name 0 ex_ted)"
  using is_not_memo_policy_name [of ex_memo 1] is_not_memo_policy_name [of ex_ted 0]
  by (simp add: ex_memo_def ex_ted_def)

text \<open>The listen override can return a distribution with probability 1 at the action that
  was just rejected: with a rejected action_default_fallback, an ML winner predicting
  action_listen after action_listen and a fallback policy, the result is the fallback
  policy's scores.\<close>

theorem rejected_action_restored_by_fallback:
  "probabilities_using_best_policy [ex_ted, ex_memo, ex_fallback] ex_rejected_tracker ex_domain =
     Inr (Some [0, 0, 0, 1, 0, 0, 0, 0, 0, 0], Some ''policy_2_FallbackPolicy'') \<and>
   last_rejected (events ex_rejected_tracker) = Some ''action_default_fallback'' \<and>
   index_for_action ex_domain ''action_default_fallback'' = Inr 3 \<and>
   [0, 0, 0, 1, 0, 0, 0, 0, 0, 0::real] ! 3 = 1"
  by code_simp

end
