(* ===== verification/EnsemblePersistence.thy ===== *)
theory EnsemblePersistence
  imports Ensemble
begin

text \<open>
  The rest of \<open>PolicyEnsemble\<close> (\<open>src/rasa/core/policies/ensemble.py\<close>): the
  duplicate-priority check of the constructor, training with the action fingerprints
  computed from the training trackers, persistence as one metadata document plus one
  artifact per policy, loading with the minimum-version guard and the loaded-policy
  checks, and the parsing of a policy configuration (\<open>from_dict\<close>). The file
  system is a record of the metadata and a map from artifact directory names to the
  policies persisted there: \<open>Policy.persist\<close> and \<open>Policy.load\<close> are outside the
  sources and are modelled as writing and reading that map.
\<close>

section \<open>Classes, modules and versions\<close>

text \<open>\<open>isinstance(p, C)\<close> over the class hierarchy of \<open>rasa.core.policies\<close>:
  \<open>AugmentedMemoizationPolicy\<close> and \<open>FormPolicy\<close> extend \<open>MemoizationPolicy\<close>,
  \<open>TwoStageFallbackPolicy\<close> extends \<open>FallbackPolicy\<close>.\<close>

fun is_instance_of :: "policy_class \<Rightarrow> policy_class \<Rightarrow> bool" where
  "is_instance_of AugmentedMemoizationPolicy MemoizationPolicy = True"
| "is_instance_of FormPolicy MemoizationPolicy = True"
| "is_instance_of TwoStageFallbackPolicy FallbackPolicy = True"
| "is_instance_of c d = (c = d)"

text \<open>A version number as its release segments; \<open>packaging.version\<close> compares
  releases segment by segment, ignoring trailing zeros.\<close>

type_synonym version = "nat list"

definition trim_version :: "version \<Rightarrow> version" where
  "trim_version v = rev (dropWhile (\<lambda>x. x = 0) (rev v))"

definition version_less :: "version \<Rightarrow> version \<Rightarrow> bool" where
  "version_less a b \<longleftrightarrow> trim_version a < trim_version b"

section \<open>The ensemble object\<close>

text \<open>\<open>action_fingerprints\<close>: for each latest action name (\<open>None\<close> before any
  action) the names of the slots set while it was the latest action.\<close>

type_synonym fingerprints = "(string option \<times> string set) list"

record ensemble =
  policies :: "policy list"
  training_trackers :: "tracker list option"
  date_trained :: "string option"
  action_fingerprints :: fingerprints

datatype warning = DuplicatePriority int "string list" | MappingPolicyMissing

text \<open>\<open>_check_priorities\<close>: the class names grouped by priority in first-seen order,
  one warning per group of more than one.\<close>

definition priority_groups :: "policy list \<Rightarrow> (int \<times> string list) list" where
  "priority_groups ps =
     map (\<lambda>k. (k, map (\<lambda>p. class_name (pclass p)) (filter (\<lambda>p. priority p = k) ps)))
         (remdups (map priority ps))"

definition check_priorities :: "policy list \<Rightarrow> warning list" where
  "check_priorities ps =
     map (\<lambda>(k, v). DuplicatePriority k v) (filter (\<lambda>(k, v). 1 < length v) (priority_groups ps))"

text \<open>\<open>_check_for_important_policies\<close>: the log line when no policy is a
  \<open>MappingPolicy\<close>.\<close>

definition check_for_important_policies :: "policy list \<Rightarrow> warning list" where
  "check_for_important_policies ps =
     (if list_ex (\<lambda>p. is_instance_of (pclass p) MappingPolicy) ps then [] else [MappingPolicyMissing])"

text \<open>\<open>PolicyEnsemble.__init__\<close>: an empty or missing fingerprint dict becomes \<open>{}\<close>;
  the warnings and log lines of the two checks are returned beside the object.\<close>

definition make_ensemble :: "policy list \<Rightarrow> fingerprints option \<Rightarrow> ensemble \<times> warning list" where
  "make_ensemble ps fp =
     (\<lparr>policies = ps, training_trackers = None, date_trained = None,
       action_fingerprints = (case fp of None \<Rightarrow> [] | Some f \<Rightarrow> f)\<rparr>,
      check_priorities ps @ check_for_important_policies ps)"

section \<open>Training and fingerprints\<close>

text \<open>\<open>_training_events_from_trackers\<close>: replaying each tracker from a fresh copy, every
  event that is not an \<open>ActionExecuted\<close> is recorded under the latest action name after
  it was applied.\<close>

fun tracker_training_events :: "tracker_state \<Rightarrow> event list \<Rightarrow> (string option \<times> event) list" where
  "tracker_training_events s [] = []"
| "tracker_training_events s (e # es) =
     (let s' = apply_event s e in
      (case e of ActionExecuted a \<Rightarrow> [] | _ \<Rightarrow> [(latest_action s', e)]) @ tracker_training_events s' es)"

definition training_events_from_trackers :: "tracker list \<Rightarrow> (string option \<times> event) list" where
  "training_events_from_trackers ts =
     concat (map (\<lambda>t. tracker_training_events init_tracker_state (events t)) ts)"

definition slot_key :: "event \<Rightarrow> string option" where
  "slot_key e = (case e of SlotSet k v \<Rightarrow> Some k | _ \<Rightarrow> None)"

text \<open>\<open>_create_action_fingerprints\<close>: \<open>None\<close> for an empty event table, else for each
  action name, in first-seen order, the set of slot keys among its events.\<close>

definition create_action_fingerprints :: "(string option \<times> event) list \<Rightarrow> fingerprints option" where
  "create_action_fingerprints evs =
     (if evs = [] then None
      else Some (map (\<lambda>a. (a, set (List.map_filter (\<lambda>(b, e). if b = a then slot_key e else None) evs)))
                     (remdups (map fst evs))))"

text \<open>\<open>check_domain_ensemble_compatibility\<close>: \<open>validate_against_domain\<close> of
  \<open>FormPolicy\<close>, \<open>MappingPolicy\<close> and \<open>TwoStageFallbackPolicy\<close> in turn; these
  classes are outside the sources, so their checks are a parameter giving the error a
  check raises, if any.\<close>

definition policies_needing_validation :: "policy_class list" where
  "policies_needing_validation = [FormPolicy, MappingPolicy, TwoStageFallbackPolicy]"

fun validate_policies ::
  "(policy_class \<Rightarrow> 'ens option \<Rightarrow> 'dom option \<Rightarrow> 'e option) \<Rightarrow> policy_class list \<Rightarrow> 'ens option \<Rightarrow> 'dom option \<Rightarrow> 'e + unit" where
  "validate_policies validate [] ens d = Inr ()"
| "validate_policies validate (c # cs) ens d =
     (case validate c ens d of Some e \<Rightarrow> Inl e | None \<Rightarrow> validate_policies validate cs ens d)"

definition check_domain_ensemble_compatibility ::
  "(policy_class \<Rightarrow> ensemble option \<Rightarrow> domain option \<Rightarrow> 'e option) \<Rightarrow> ensemble option \<Rightarrow> domain option \<Rightarrow> 'e + unit" where
  "check_domain_ensemble_compatibility validate ens d = validate_policies validate policies_needing_validation ens d"

text \<open>\<open>PolicyEnsemble.train\<close>: the policies train only on a non-empty corpus; the corpus and
  the training date are stored either way.\<close>

definition train :: "ensemble \<Rightarrow> tracker list \<Rightarrow> string \<Rightarrow> ensemble" where
  "train ens ts now = ens\<lparr>training_trackers := Some ts, date_trained := Some now\<rparr>"

section \<open>Persistence\<close>

text \<open>The metadata document \<open>_persist_metadata\<close> writes: the action fingerprints, the
  Python version (\<open>sys.version_info[:3]\<close>, written dotted), the \<open>max_history\<close> of each
  policy's featurizer, the ensemble's class path, the policy classes, the training date,
  and one entry per importable package of \<open>versioned_packages\<close> (\<open>md_versions\<close>;
  no package name is one of the other keys).\<close>

record metadata =
  md_action_fingerprints :: "fingerprints option"
  md_python :: version
  md_max_histories :: "nat option list"
  md_ensemble_name :: string
  md_policy_names :: "policy_class list"
  md_trained_at :: "string option"
  md_versions :: "(string \<times> version) list"

text \<open>\<open>metadata.get("rasa")\<close>.\<close>

definition md_rasa_version :: "metadata \<Rightarrow> version option" where
  "md_rasa_version md = map_of (md_versions md) ''rasa''"

record model_dir =
  metadata_file :: metadata
  artifacts :: "string \<rightharpoonup> policy"

text \<open>Iterating (\<open>persist\<close>) or extending (\<open>continue_training\<close>) a
  \<open>training_trackers\<close> that is still \<open>None\<close>.\<close>

datatype persist_error = TrackersNotIterable | TrackersNotExtendable

text \<open>\<open>"policy_{}_{}".format(i, type(policy).__name__)\<close>: the artifact directory.\<close>

definition policy_dir :: "nat \<Rightarrow> policy_class \<Rightarrow> string" where
  "policy_dir i c = ''policy_'' @ nat_str i @ ''_'' @ class_name c"

definition persist_artifacts :: "policy list \<Rightarrow> string \<rightharpoonup> policy" where
  "persist_artifacts ps = fold (\<lambda>(i, p) m. m(policy_dir i (pclass p) \<mapsto> p)) (enumerate 0 ps) Map.empty"

text \<open>What persisting reads from the running process: the Python version, the
  \<open>__version__\<close> of a package that imports (\<open>None\<close> for an \<open>ImportError\<close>), and the
  featurizer of a policy (\<open>rasa.core.featurizers\<close> is outside the sources).\<close>

datatype featurizer_kind = MaxHistoryFeaturizer "nat option" | OtherFeaturizer

record persist_env =
  python_version :: version
  package_version :: "string \<Rightarrow> version option"
  policy_featurizer :: "policy \<Rightarrow> featurizer_kind"

definition versioned_packages :: "string list" where
  "versioned_packages = [''rasa'', ''tensorflow'', ''sklearn'']"

text \<open>\<open>_max_histories\<close>.\<close>

definition max_histories :: "persist_env \<Rightarrow> ensemble \<Rightarrow> nat option list" where
  "max_histories env ens =
     map (\<lambda>p. case policy_featurizer env p of MaxHistoryFeaturizer mh \<Rightarrow> mh | OtherFeaturizer \<Rightarrow> None)
       (policies ens)"

text \<open>\<open>_add_package_version_info\<close>: a package that does not import is skipped.\<close>

fun add_package_version_info ::
  "persist_env \<Rightarrow> string list \<Rightarrow> (string \<times> version) list \<Rightarrow> (string \<times> version) list" where
  "add_package_version_info env [] md = md"
| "add_package_version_info env (package_name # ps) md =
     add_package_version_info env ps
       (case package_version env package_name of None \<Rightarrow> md | Some v \<Rightarrow> AList.update package_name v md)"

definition ENSEMBLE_NAME :: string where
  "ENSEMBLE_NAME = ''rasa.core.policies.ensemble.SimplePolicyEnsemble''"

text \<open>\<open>persist\<close> (with \<open>_persist_metadata\<close>): iterating \<open>self.training_trackers\<close>
  raises while it is still \<open>None\<close>. The ensemble is a \<open>SimplePolicyEnsemble\<close>, the one
  subclass in the sources, so its name is \<open>ENSEMBLE_NAME\<close>.\<close>

definition persist :: "persist_env \<Rightarrow> ensemble \<Rightarrow> persist_error + model_dir" where
  "persist env ens =
     (case training_trackers ens of
        None \<Rightarrow> Inl TrackersNotIterable
      | Some ts \<Rightarrow>
          Inr \<lparr>metadata_file =
                 \<lparr>md_action_fingerprints = create_action_fingerprints (training_events_from_trackers ts),
                  md_python = take 3 (python_version env),
                  md_max_histories = max_histories env ens,
                  md_ensemble_name = ENSEMBLE_NAME,
                  md_policy_names = map pclass (policies ens), md_trained_at = date_trained ens,
                  md_versions = add_package_version_info env versioned_packages []\<rparr>,
               artifacts = persist_artifacts (policies ens)\<rparr>)"

text \<open>\<open>continue_training\<close>: \<open>self.training_trackers.extend(trackers)\<close>.\<close>

definition continue_training :: "ensemble \<Rightarrow> tracker list \<Rightarrow> persist_error + ensemble" where
  "continue_training ens ts =
     (case training_trackers ens of
        None \<Rightarrow> Inl TrackersNotExtendable
      | Some old \<Rightarrow> Inr (ens\<lparr>training_trackers := Some (old @ ts)\<rparr>))"

section \<open>Loading\<close>

datatype load_error =
    UnsupportedDialogueModelError version version
  | LoadReturnedNone policy_class
  | NotInstanceOfOwnClass policy_class

text \<open>\<open>ensure_model_compatibility\<close>: a missing version reads as \<open>0.0.0\<close>.\<close>

definition ensure_model_compatibility :: "metadata \<Rightarrow> version \<Rightarrow> load_error + unit" where
  "ensure_model_compatibility md min_v =
     (let mv = (case md_rasa_version md of None \<Rightarrow> [0, 0, 0] | Some v \<Rightarrow> v)
      in if version_less mv min_v then Inl (UnsupportedDialogueModelError mv min_v) else Inr ())"

definition ensure_loaded_policy :: "policy option \<Rightarrow> policy_class \<Rightarrow> load_error + policy" where
  "ensure_loaded_policy po c =
     (case po of
        None \<Rightarrow> Inl (LoadReturnedNone c)
      | Some p \<Rightarrow> if is_instance_of (pclass p) c then Inr p else Inl (NotInstanceOfOwnClass c))"

fun load_policies :: "(string \<rightharpoonup> policy) \<Rightarrow> nat \<Rightarrow> policy_class list \<Rightarrow> load_error + policy list" where
  "load_policies arts i [] = Inr []"
| "load_policies arts i (c # cs) =
     (case ensure_loaded_policy (arts (policy_dir i c)) c of
        Inl e \<Rightarrow> Inl e
      | Inr p \<Rightarrow> (case load_policies arts (Suc i) cs of Inl e \<Rightarrow> Inl e | Inr ps \<Rightarrow> Inr (p # ps)))"

definition load :: "model_dir \<Rightarrow> version \<Rightarrow> load_error + ensemble \<times> warning list" where
  "load md min_v =
     (case ensure_model_compatibility (metadata_file md) min_v of
        Inl e \<Rightarrow> Inl e
      | Inr _ \<Rightarrow>
          (case load_policies (artifacts md) 0 (md_policy_names (metadata_file md)) of
             Inl e \<Rightarrow> Inl e
           | Inr ps \<Rightarrow> Inr (make_ensemble ps (md_action_fingerprints (metadata_file md)))))"

section \<open>Policy configuration: \<open>from_dict\<close>\<close>

text \<open>A policy entry of the configuration: its \<open>"name"\<close> (absent is \<open>None\<close>), its
  \<open>"featurizer"\<close> list (absent or empty is \<open>[]\<close>, both falsy) and the names of the
  other keyword arguments. A featurizer entry has a name and a \<open>"state_featurizer"\<close> list.\<close>

record state_featurizer_config =
  sf_name :: "string option"

record featurizer_config =
  fz_name :: "string option"
  fz_state_featurizer :: "state_featurizer_config list"

record policy_config =
  pc_name :: "string option"
  pc_featurizer :: "featurizer_config list"
  pc_params :: "string list"

text \<open>The \<open>"policies"\<close> and \<open>"policy"\<close> keys of the configuration dict.\<close>

record policy_configuration =
  cfg_policies :: "policy_config list option"
  cfg_policy :: "policy_config list option"

text \<open>\<open>rasa.core.registry\<close> is outside the sources: the development takes it as a
  parameter, the policy classes a name resolves to, the featurizer names that resolve, and
  the keyword arguments each policy constructor accepts (another one is a \<open>TypeError\<close>).\<close>

record registry =
  reg_policy :: "string \<Rightarrow> policy_class option"
  reg_featurizer :: "string \<Rightarrow> bool"
  accepts :: "policy_class \<Rightarrow> string \<Rightarrow> bool"

record parsed_policy =
  pp_class :: policy_class
  pp_featurizer :: "(string \<times> string option) option"
  pp_params :: "string list"

datatype config_error =
    NoPoliciesDefined
  | NoPolicyInConfig
  | MissingName
  | TooManyFeaturizers
  | TooManyStateFeaturizers
  | FeaturizerNotFound string
  | CouldNotInitialize string
  | PolicyModuleNotFound string

text \<open>\<open>get_featurizer_from_dict\<close>: more than one featurizer is refused; the name is
  popped (\<open>KeyError\<close> when missing) and resolved (\<open>ImportError\<close> when unknown).\<close>

definition get_featurizer_from_dict :: "registry \<Rightarrow> policy_config \<Rightarrow> config_error + string \<times> featurizer_config" where
  "get_featurizer_from_dict reg pc =
     (if 1 < length (pc_featurizer pc) then Inl TooManyFeaturizers
      else let fc = hd (pc_featurizer pc) in
        (case fz_name fc of
           None \<Rightarrow> Inl MissingName
         | Some n \<Rightarrow> if reg_featurizer reg n then Inr (n, fc) else Inl (FeaturizerNotFound n)))"

definition get_state_featurizer_from_dict :: "registry \<Rightarrow> featurizer_config \<Rightarrow> config_error + string" where
  "get_state_featurizer_from_dict reg fc =
     (if 1 < length (fz_state_featurizer fc) then Inl TooManyStateFeaturizers
      else (case sf_name (hd (fz_state_featurizer fc)) of
              None \<Rightarrow> Inl MissingName
            | Some n \<Rightarrow> if reg_featurizer reg n then Inr n else Inl (FeaturizerNotFound n)))"

text \<open>The featurizer part of one entry: none when the list is falsy, else the featurizer and,
  when its \<open>"state_featurizer"\<close> is truthy, the state featurizer.\<close>

definition parse_featurizer :: "registry \<Rightarrow> policy_config \<Rightarrow> config_error + (string \<times> string option) option" where
  "parse_featurizer reg pc =
     (if pc_featurizer pc = [] then Inr None
      else (case get_featurizer_from_dict reg pc of
              Inl e \<Rightarrow> Inl e
            | Inr (fn, fc) \<Rightarrow>
                if fz_state_featurizer fc = [] then Inr (Some (fn, None))
                else (case get_state_featurizer_from_dict reg fc of
                        Inl e \<Rightarrow> Inl e
                      | Inr sn \<Rightarrow> Inr (Some (fn, Some sn)))))"

text \<open>One iteration of the loop of \<open>from_dict\<close>: pop the name, build the featurizer,
  resolve the class and call the constructor with the remaining keys.\<close>

definition parse_policy :: "registry \<Rightarrow> policy_config \<Rightarrow> config_error + parsed_policy" where
  "parse_policy reg pc =
     (case pc_name pc of
        None \<Rightarrow> Inl MissingName
      | Some name \<Rightarrow>
          (case parse_featurizer reg pc of
             Inl e \<Rightarrow> Inl e
           | Inr fz \<Rightarrow>
               (case reg_policy reg name of
                  None \<Rightarrow> Inl (PolicyModuleNotFound name)
                | Some c \<Rightarrow>
                    if list_all (accepts reg c) (pc_params pc)
                    then Inr \<lparr>pp_class = c, pp_featurizer = fz, pp_params = pc_params pc\<rparr>
                    else Inl (CouldNotInitialize name))))"

text \<open>\<open>policy_configuration.get("policies") or policy_configuration.get("policy")\<close>:
  an empty \<open>"policies"\<close> list is falsy and falls through to \<open>"policy"\<close>.\<close>

definition configured_policies :: "policy_configuration \<Rightarrow> policy_config list option" where
  "configured_policies cfg =
     (case cfg_policies cfg of
        Some ps \<Rightarrow> if ps \<noteq> [] then Some ps else cfg_policy cfg
      | None \<Rightarrow> cfg_policy cfg)"

definition from_dict :: "registry \<Rightarrow> policy_configuration \<Rightarrow> config_error + parsed_policy list" where
  "from_dict reg cfg =
     (case configured_policies cfg of
        None \<Rightarrow> Inl NoPoliciesDefined
      | Some [] \<Rightarrow> Inl NoPolicyInConfig
      | Some ps \<Rightarrow> map_sum (parse_policy reg) ps)"

section \<open>Examples\<close>

text \<open>A training tracker in which \<open>action_search\<close> sets the slot \<open>city\<close>, the
  ensemble of \<open>Ensemble\<close>'s examples trained on it, and a registry and configuration.\<close>

definition ex_train_tracker :: tracker where
  "ex_train_tracker = \<lparr>events = [ActionExecuted ACTION_LISTEN_NAME, UserUttered ex_msg,
     ActionExecuted ''action_search'', SlotSet ''city'' (SStr ''Berlin''),
     ActionExecuted ACTION_LISTEN_NAME], slot_features = []\<rparr>"

definition ex_ensemble :: ensemble where
  "ex_ensemble = train (fst (make_ensemble [ex_ted, ex_memo, ex_fallback] None)) [ex_train_tracker] ''20200101-120000''"

text \<open>Python 3.7.6 with Rasa 1.10.2 and TensorFlow 2.1.0 installed but not scikit-learn,
  and a TED policy over a max-history featurizer of history 5.\<close>

definition ex_env :: persist_env where
  "ex_env = \<lparr>python_version = [3, 7, 6],
     package_version = (\<lambda>p. if p = ''rasa'' then Some [1, 10, 2] else if p = ''tensorflow'' then Some [2, 1, 0] else None),
     policy_featurizer = (\<lambda>p. if pclass p = TEDPolicy then MaxHistoryFeaturizer (Some 5) else OtherFeaturizer)\<rparr>"

definition ex_registry :: registry where
  "ex_registry = \<lparr>reg_policy = (\<lambda>n. if n = ''TEDPolicy'' then Some TEDPolicy
                                 else if n = ''MemoizationPolicy'' then Some MemoizationPolicy
                                 else if n = ''FallbackPolicy'' then Some FallbackPolicy else None),
     reg_featurizer = (\<lambda>n. n \<in> set [''MaxHistoryTrackerFeaturizer'', ''BinarySingleStateFeaturizer'']),
     accepts = (\<lambda>c k. k \<in> set [''priority'', ''epochs'', ''max_history'', ''nlu_threshold''])\<rparr>"

definition ex_config :: policy_configuration where
  "ex_config = \<lparr>cfg_policies = Some
     [\<lparr>pc_name = Some ''TEDPolicy'',
       pc_featurizer = [\<lparr>fz_name = Some ''MaxHistoryTrackerFeaturizer'',
                          fz_state_featurizer = [\<lparr>sf_name = Some ''BinarySingleStateFeaturizer''\<rparr>]\<rparr>],
       pc_params = [''epochs'']\<rparr>,
      \<lparr>pc_name = Some ''FallbackPolicy'', pc_featurizer = [], pc_params = [''nlu_threshold'']\<rparr>],
     cfg_policy = None\<rparr>"

section \<open>Evaluation of the examples\<close>

lemma ex_fp: "create_action_fingerprints (training_events_from_trackers [ex_train_tracker]) =
   Some [(Some ACTION_LISTEN_NAME, {}), (Some ''action_search'', {''city''})]"
  by code_simp

lemma ex_fd: "from_dict ex_registry ex_config = Inr
   [\<lparr>pp_class = TEDPolicy, pp_featurizer = Some (''MaxHistoryTrackerFeaturizer'', Some ''BinarySingleStateFeaturizer''),
     pp_params = [''epochs'']\<rparr>,
    \<lparr>pp_class = FallbackPolicy, pp_featurizer = None, pp_params = [''nlu_threshold'']\<rparr>]"
  by code_simp

lemma ex_persist: "\<exists>md. persist ex_env ex_ensemble = Inr md"
  by (simp add: persist_def ex_ensemble_def train_def)

lemma ex_persist_metadata:
  "case persist ex_env ex_ensemble of
     Inr md \<Rightarrow> md_python (metadata_file md) = [3, 7, 6] \<and> md_max_histories (metadata_file md) = [Some 5, None, None] \<and>
              md_versions (metadata_file md) = [(''rasa'', [1, 10, 2]), (''tensorflow'', [2, 1, 0])]
   | Inl e \<Rightarrow> False"
  by code_simp

lemma ex_version: "\<not> version_less [1, 10, 2] [1, 6, 0]"
  by code_simp

lemma ex_warn: "snd (make_ensemble [ex_ted, ex_memo, ex_fallback, ex_broken\<lparr>priority := 3\<rparr>] None) =
   [DuplicatePriority 3 [''MemoizationPolicy'', ''BrokenPolicy''], MappingPolicyMissing]"
  by code_simp

section \<open>Lemmas: artifacts and loading\<close>

lemma is_instance_of_refl [simp]: "is_instance_of c c"
  by (cases c) simp_all

lemma policy_dir_eq: "policy_dir i c = policy_dir j d \<longleftrightarrow> i = j \<and> class_name c = class_name d"
  using nat_str_underscore_split [of i "class_name c" j "class_name d"] by (simp add: policy_dir_def)

lemma persist_artifacts_fold:
  "fold (\<lambda>(i, p) m. m(policy_dir i (pclass p) \<mapsto> p)) (enumerate n ps) m (policy_dir j c) =
     (if n \<le> j \<and> j < n + length ps \<and> class_name (pclass (ps ! (j - n))) = class_name c
      then Some (ps ! (j - n)) else m (policy_dir j c))"
proof (induction ps arbitrary: n m)
  case Nil
  then show ?case by auto
next
  case (Cons p ps)
  show ?case
    using Cons [of "Suc n" "m(policy_dir n (pclass p) \<mapsto> p)"]
    by (auto simp: policy_dir_eq nth_Cons' Suc_diff_Suc)
qed

lemma persist_artifacts_lookup:
  "persist_artifacts ps (policy_dir j c) =
     (if j < length ps \<and> class_name (pclass (ps ! j)) = class_name c then Some (ps ! j) else None)"
  by (simp add: persist_artifacts_def persist_artifacts_fold)

lemma load_policies_persisted:
  "n + length cs = length ps \<Longrightarrow> cs = map pclass (drop n ps) \<Longrightarrow>
   load_policies (persist_artifacts ps) n cs = Inr (drop n ps)"
proof (induction cs arbitrary: n)
  case Nil
  then show ?case by simp
next
  case (Cons c cs)
  from Cons.prems(1) have n: "n < length ps" by simp
  then have dn: "drop n ps = ps ! n # drop (Suc n) ps" by (rule Cons_nth_drop_Suc [symmetric])
  with Cons.prems have c: "c = pclass (ps ! n)" and cs: "cs = map pclass (drop (Suc n) ps)" by simp_all
  from Cons.prems(1) have "Suc n + length cs = length ps" by simp
  from Cons.IH [OF this cs] n c dn show ?case
    by (simp add: persist_artifacts_lookup ensure_loaded_policy_def)
qed


lemma map_of_add_package_version_info:
  "map_of (add_package_version_info env ps md) k =
     (if k \<in> set ps \<and> package_version env k \<noteq> None then package_version env k else map_of md k)"
  by (induction env ps md rule: add_package_version_info.induct) (auto simp: update_conv' split: option.splits)

lemma persist_Inr:
  assumes "persist env ens = Inr md"
  shows "md_policy_names (metadata_file md) = map pclass (policies ens) \<and>
     md_rasa_version (metadata_file md) = package_version env ''rasa'' \<and>
     artifacts md = persist_artifacts (policies ens)"
  using assms
  by (auto simp: persist_def md_rasa_version_def map_of_add_package_version_info versioned_packages_def
           split: option.splits)


lemma load_policies_persist: "load_policies (persist_artifacts ps) 0 (map pclass ps) = Inr ps"
proof -
  have "load_policies (persist_artifacts ps) 0 (map pclass ps) = Inr (drop 0 ps)"
    by (rule load_policies_persisted) simp_all
  then show ?thesis by (simp only: drop_0)
qed

lemma load_policies_not_version_error:
  "load_policies arts i cs \<noteq> Inl (UnsupportedDialogueModelError a b)"
  by (induction cs arbitrary: i) (auto simp: ensure_loaded_policy_def split: option.splits sum.splits)

section \<open>Lemmas: warnings, fingerprints and configuration\<close>

lemma check_priorities_Nil_iff: "check_priorities ps = [] \<longleftrightarrow> distinct (map priority ps)"
proof -
  have "check_priorities ps = [] \<longleftrightarrow> (\<forall>k\<in>set (map priority ps). length (filter (\<lambda>p. priority p = k) ps) \<le> 1)"
    by (auto simp: check_priorities_def priority_groups_def filter_empty_conv not_less)
  also have "\<dots> \<longleftrightarrow> (\<forall>k\<in>set (map priority ps). count_list (map priority ps) k \<le> 1)"
    by (simp add: count_list_eq_length_filter filter_map comp_def eq_commute)
  also have "\<dots> \<longleftrightarrow> distinct (map priority ps)"
    using count_list_le1_distinct [of "map priority ps"] by (simp add: not_less)
  finally show ?thesis .
qed

lemma tracker_training_events_set:
  "(a, e) \<in> set (tracker_training_events s es) \<longleftrightarrow>
     (\<exists>xs ys. es = xs @ e # ys \<and> (\<forall>x. e \<noteq> ActionExecuted x) \<and>
              latest_action (foldl apply_event s (xs @ [e])) = a)"
proof (induction es arbitrary: s)
  case Nil
  then show ?case by simp
next
  case (Cons e0 es)
  have "(a, e) \<in> set (tracker_training_events s (e0 # es)) \<longleftrightarrow>
        (e = e0 \<and> (\<forall>x. e0 \<noteq> ActionExecuted x) \<and> latest_action (apply_event s e0) = a) \<or>
        (a, e) \<in> set (tracker_training_events (apply_event s e0) es)"
    by (cases e0) auto
  also have "\<dots> \<longleftrightarrow> (\<exists>xs ys. e0 # es = xs @ e # ys \<and> (\<forall>x. e \<noteq> ActionExecuted x) \<and>
              latest_action (foldl apply_event s (xs @ [e])) = a)"
    unfolding Cons.IH
  proof
    assume "(e = e0 \<and> (\<forall>x. e0 \<noteq> ActionExecuted x) \<and> latest_action (apply_event s e0) = a) \<or>
            (\<exists>xs ys. es = xs @ e # ys \<and> (\<forall>x. e \<noteq> ActionExecuted x) \<and>
              latest_action (foldl apply_event (apply_event s e0) (xs @ [e])) = a)"
    then show "\<exists>xs ys. e0 # es = xs @ e # ys \<and> (\<forall>x. e \<noteq> ActionExecuted x) \<and>
              latest_action (foldl apply_event s (xs @ [e])) = a"
    proof
      assume "e = e0 \<and> (\<forall>x. e0 \<noteq> ActionExecuted x) \<and> latest_action (apply_event s e0) = a"
      then show ?thesis by (intro exI [of _ "[]"] exI [of _ es]) simp
    next
      assume "\<exists>xs ys. es = xs @ e # ys \<and> (\<forall>x. e \<noteq> ActionExecuted x) \<and>
              latest_action (foldl apply_event (apply_event s e0) (xs @ [e])) = a"
      then obtain xs ys where "es = xs @ e # ys" "\<forall>x. e \<noteq> ActionExecuted x"
        "latest_action (foldl apply_event (apply_event s e0) (xs @ [e])) = a" by blast
      then show ?thesis by (intro exI [of _ "e0 # xs"] exI [of _ ys]) simp
    qed
  next
    assume "\<exists>xs ys. e0 # es = xs @ e # ys \<and> (\<forall>x. e \<noteq> ActionExecuted x) \<and>
              latest_action (foldl apply_event s (xs @ [e])) = a"
    then obtain xs ys where eq: "e0 # es = xs @ e # ys" and ne: "\<forall>x. e \<noteq> ActionExecuted x"
      and la: "latest_action (foldl apply_event s (xs @ [e])) = a" by blast
    show "(e = e0 \<and> (\<forall>x. e0 \<noteq> ActionExecuted x) \<and> latest_action (apply_event s e0) = a) \<or>
            (\<exists>xs ys. es = xs @ e # ys \<and> (\<forall>x. e \<noteq> ActionExecuted x) \<and>
              latest_action (foldl apply_event (apply_event s e0) (xs @ [e])) = a)"
    proof (cases xs)
      case Nil
      with eq ne la show ?thesis by simp
    next
      case (Cons x xs')
      with eq ne la show ?thesis by auto
    qed
  qed
  finally show ?case .
qed

lemma training_events_from_trackers_set:
  "(a, e) \<in> set (training_events_from_trackers ts) \<longleftrightarrow>
     (\<exists>t\<in>set ts. \<exists>xs ys. events t = xs @ e # ys \<and> (\<forall>x. e \<noteq> ActionExecuted x) \<and>
                  latest_action (replay (xs @ [e])) = a)"
  by (auto simp: training_events_from_trackers_def tracker_training_events_set replay_def)

lemma slot_key_Some: "slot_key e = Some k \<longleftrightarrow> (\<exists>v. e = SlotSet k v)"
  by (cases e) (simp_all add: slot_key_def)

lemma fingerprint_slot_iff:
  "create_action_fingerprints evs = Some fp \<Longrightarrow> (a, S) \<in> set fp \<Longrightarrow>
   k \<in> S \<longleftrightarrow> (\<exists>e. (a, e) \<in> set evs \<and> slot_key e = Some k)"
proof -
  assume "create_action_fingerprints evs = Some fp" "(a, S) \<in> set fp"
  then have S: "S = set (List.map_filter (\<lambda>(b, e). if b = a then slot_key e else None) evs)"
    by (auto simp: create_action_fingerprints_def simp del: mem_map_filter split: if_splits)
  show ?thesis
    unfolding S mem_map_filter by (force split: if_splits)
qed

lemma action_fingerprints_keys:
  "create_action_fingerprints evs = Some fp \<Longrightarrow> map fst fp = remdups (map fst evs)"
  by (auto simp: create_action_fingerprints_def comp_def split: if_splits)

lemma make_ensemble_untrained [simp]: "training_trackers (fst (make_ensemble ps fp)) = None"
  by (simp add: make_ensemble_def)

lemma parse_policy_Inr:
  "parse_policy reg pc = Inr pp \<Longrightarrow>
   \<exists>n. pc_name pc = Some n \<and> reg_policy reg n = Some (pp_class pp) \<and> pp_params pp = pc_params pc \<and>
       list_all (accepts reg (pp_class pp)) (pc_params pc) \<and> parse_featurizer reg pc = Inr (pp_featurizer pp)"
  by (auto simp: parse_policy_def split: option.splits sum.splits if_splits)

lemma parse_policy_Inl:
  "parse_policy reg pc = Inl e \<Longrightarrow> e \<noteq> NoPoliciesDefined \<and> e \<noteq> NoPolicyInConfig"
  by (auto simp: parse_policy_def parse_featurizer_def get_featurizer_from_dict_def
                 get_state_featurizer_from_dict_def Let_def split: option.splits sum.splits if_splits prod.splits)

lemma map_sum_parse_policy_Inl:
  "map_sum (parse_policy reg) xs = Inl e \<Longrightarrow> e \<noteq> NoPoliciesDefined \<and> e \<noteq> NoPolicyInConfig"
  using map_sum_Inl parse_policy_Inl by metis

lemma validate_policies_Inl:
  "validate_policies validate cs ens d = Inl e \<longleftrightarrow>
     (\<exists>xs c ys. cs = xs @ c # ys \<and> (\<forall>x\<in>set xs. validate x ens d = None) \<and> validate c ens d = Some e)"
proof (induction cs)
  case (Cons c cs)
  show ?case
  proof (cases "validate c ens d")
    case None
    let ?P = "\<lambda>xs c' ys. (\<forall>x\<in>set xs. validate x ens d = None) \<and> validate c' ens d = Some e"
    have "(\<exists>xs c' ys. c # cs = xs @ c' # ys \<and> ?P xs c' ys) \<longleftrightarrow> (\<exists>xs c' ys. cs = xs @ c' # ys \<and> ?P xs c' ys)"
    proof
      assume "\<exists>xs c' ys. c # cs = xs @ c' # ys \<and> ?P xs c' ys"
      then obtain xs c' ys where "c # cs = xs @ c' # ys" "?P xs c' ys" by blast
      with None show "\<exists>xs c' ys. cs = xs @ c' # ys \<and> ?P xs c' ys" by (cases xs) auto
    next
      assume "\<exists>xs c' ys. cs = xs @ c' # ys \<and> ?P xs c' ys"
      then obtain xs c' ys where "cs = xs @ c' # ys" "?P xs c' ys" by blast
      with None show "\<exists>xs c' ys. c # cs = xs @ c' # ys \<and> ?P xs c' ys"
        by (intro exI [of _ "c # xs"] exI [of _ c'] exI [of _ ys]) simp
    qed
    with None Cons.IH show ?thesis by simp
  next
    case (Some e')
    then show ?thesis
      by (auto simp: Cons_eq_append_conv intro: exI [of _ "[]"])
  qed
qed simp

lemma check_domain_ensemble_compatibility_Inr:
  "check_domain_ensemble_compatibility validate ens d = Inr () \<longleftrightarrow>
     validate FormPolicy ens d = None \<and> validate MappingPolicy ens d = None \<and> validate TwoStageFallbackPolicy ens d = None"
  by (simp add: check_domain_ensemble_compatibility_def policies_needing_validation_def split: option.splits)

section \<open>Properties\<close>

text \<open>C6. Persisting a trained ensemble and loading the model directory back, with a minimum
  version that the installed Rasa version (recorded under the rasa key by
  _add_package_version_info) meets, gives an ensemble of the same policies in the same
  order (so the same classes and priorities) with the persisted action fingerprints.\<close>

theorem persist_load_roundtrip:
  assumes "persist env ens = Inr md" and "package_version env ''rasa'' = Some v" and "\<not> version_less v min_v"
  shows "load md min_v = Inr (make_ensemble (policies ens) (md_action_fingerprints (metadata_file md)))"
proof -
  note md = persist_Inr [OF assms(1)]
  have "load_policies (artifacts md) 0 (md_policy_names (metadata_file md)) = Inr (policies ens)"
    using md load_policies_persist by (simp only:)
  moreover have "ensure_model_compatibility (metadata_file md) min_v = Inr ()"
    using md assms(2,3) by (simp add: ensure_model_compatibility_def)
  ultimately show ?thesis
    by (simp add: load_def)
qed

theorem persist_load_roundtrip_witness:
  "\<exists>md. persist ex_env ex_ensemble = Inr md \<and>
     load md [1, 6, 0] = Inr (make_ensemble [ex_ted, ex_memo, ex_fallback] (md_action_fingerprints (metadata_file md)))"
proof -
  obtain md where md: "persist ex_env ex_ensemble = Inr md" using ex_persist by blast
  have "policies ex_ensemble = [ex_ted, ex_memo, ex_fallback]"
    by (simp add: ex_ensemble_def train_def make_ensemble_def)
  moreover have "package_version ex_env ''rasa'' = Some [1, 10, 2]" by (simp add: ex_env_def)
  ultimately show ?thesis using persist_load_roundtrip [OF md _ ex_version] md by auto
qed

text \<open>C11. PolicyEnsemble.load raises UnsupportedDialogueModelError exactly when the recorded
  version (0.0.0 when none is recorded) is below the minimum compatible version, carrying
  the recorded and the required versions.\<close>

theorem load_version_guard:
  "load md min_v = Inl (UnsupportedDialogueModelError mv mv') \<longleftrightarrow>
     mv = (case md_rasa_version (metadata_file md) of None \<Rightarrow> [0, 0, 0] | Some v \<Rightarrow> v) \<and>
     mv' = min_v \<and> version_less mv min_v"
  using load_policies_not_version_error
  by (auto simp: load_def ensure_model_compatibility_def Let_def split: sum.splits)

text \<open>C32. The action fingerprint computed at training time lists, for an action, exactly the
  slots that some training tracker set while that action was the tracker's latest action.\<close>

theorem action_fingerprints_slots:
  assumes "create_action_fingerprints (training_events_from_trackers ts) = Some fp"
    and "(a, S) \<in> set fp"
  shows "k \<in> S \<longleftrightarrow>
     (\<exists>t\<in>set ts. \<exists>xs ys v. events t = xs @ SlotSet k v # ys \<and> latest_action (replay xs) = a)"
  unfolding fingerprint_slot_iff [OF assms] training_events_from_trackers_set slot_key_Some
  by (metis apply_event.simps(6) event.distinct(15) replay_snoc)

theorem action_fingerprints_slots_witness:
  "\<exists>t\<in>set [ex_train_tracker]. \<exists>xs ys v.
     events t = xs @ SlotSet ''city'' v # ys \<and> latest_action (replay xs) = Some ''action_search''"
  using action_fingerprints_slots [OF ex_fp, of "Some ''action_search''" "{''city''}" "''city''"] by simp


text \<open>An ensemble returned by PolicyEnsemble.load has training_trackers None, so
  persisting it again or continuing its training raises.\<close>

theorem loaded_ensemble_not_persistable:
  assumes "load md min_v = Inr (ens, ws)"
  shows "persist env ens = Inl TrackersNotIterable \<and> continue_training ens ts = Inl TrackersNotExtendable"
proof -
  from assms have "training_trackers ens = None"
    by (auto simp: load_def make_ensemble_def split: sum.splits)
  then show ?thesis by (simp add: persist_def continue_training_def)
qed

theorem loaded_ensemble_not_persistable_witness:
  "\<exists>md ens ws. load md [1, 6, 0] = Inr (ens, ws) \<and>
     persist ex_env ens = Inl TrackersNotIterable \<and>
     continue_training ens [ex_train_tracker] = Inl TrackersNotExtendable"
proof -
  obtain md where md: "persist ex_env ex_ensemble = Inr md" using ex_persist by blast
  note p = persist_Inr [OF md]
  have "load md [1, 6, 0] = Inr (make_ensemble (policies ex_ensemble) (md_action_fingerprints (metadata_file md)))"
    using p ex_version load_policies_persist [of "policies ex_ensemble"]
    by (simp add: load_def ensure_model_compatibility_def ex_env_def)
  then show ?thesis
    using loaded_ensemble_not_persistable [of md "[1, 6, 0]"] by (metis prod.collapse)
qed

text \<open>When PolicyEnsemble.from_dict succeeds it returns one policy per configured entry,
  in configuration order, each of the class its name resolves to in the registry and built
  with the entry's keyword arguments.\<close>

theorem from_dict_Inr:
  assumes "from_dict reg cfg = Inr pps"
  shows "\<exists>ps. configured_policies cfg = Some ps \<and> ps \<noteq> [] \<and> length pps = length ps \<and>
     (\<forall>i<length ps. \<exists>n. pc_name (ps ! i) = Some n \<and> reg_policy reg n = Some (pp_class (pps ! i)) \<and>
                      pp_params (pps ! i) = pc_params (ps ! i))"
proof -
  from assms obtain ps where ps: "configured_policies cfg = Some ps" "ps \<noteq> []"
    and m: "map_sum (parse_policy reg) ps = Inr pps"
    by (auto simp: from_dict_def split: option.splits list.splits)
  from m have "list_all2 (\<lambda>x y. parse_policy reg x = Inr y) ps pps" by (simp add: map_sum_Inr_iff)
  then have "length pps = length ps" and "\<forall>i<length ps. parse_policy reg (ps ! i) = Inr (pps ! i)"
    by (auto simp: list_all2_conv_all_nth)
  with ps show ?thesis by (fastforce dest: parse_policy_Inr)
qed

theorem from_dict_Inr_witness:
  "\<exists>ps. configured_policies ex_config = Some ps \<and> length ps = 2"
  using from_dict_Inr [OF ex_fd] by auto

text \<open>C33. from_dict raises 'has to include at least one policy' exactly when the policies key
  is absent or empty and the policy key is an empty list; an empty policies list alone
  falls through the or and reports that no policies were defined.\<close>

theorem from_dict_no_policy_error:
  "from_dict reg cfg = Inl NoPolicyInConfig \<longleftrightarrow>
     (cfg_policies cfg = None \<or> cfg_policies cfg = Some []) \<and> cfg_policy cfg = Some []"
proof -
  have "map_sum (parse_policy reg) ps \<noteq> Inl NoPolicyInConfig" for ps
    using map_sum_parse_policy_Inl by blast
  then show ?thesis
    by (auto simp: from_dict_def configured_policies_def simp del: map_sum.simps
             split: option.splits list.splits)
qed

end
