(* ===== verification/Evaluation.thy ===== *)
theory Evaluation
  imports EnsemblePersistence
begin

text \<open>
  The evaluation engine (\<open>src/rasa/core/test.py\<close>): the \<open>EvaluationStore\<close> of
  predictions and targets with \<open>add_to_store\<close>, \<open>merge_store\<close>,
  \<open>has_prediction_target_mismatch\<close> and \<open>serialise\<close>; the replay of one recorded
  story through the processor (\<open>_collect_user_uttered_predictions\<close>,
  \<open>_emulate_form_rejection\<close>, \<open>_collect_action_executed_predictions\<close>,
  \<open>_predict_tracker_actions\<close>); and the loop over all stories
  (\<open>collect_story_predictions\<close> with \<open>_in_training_data_fraction\<close>). The processor
  (\<open>rasa.core.processor\<close>, outside the sources) is a record of the functions the
  evaluation calls. Every raise is a value of \<open>eval_error\<close>.
\<close>

section \<open>The evaluation store\<close>

text \<open>An entity dict: its keys with their values as strings, in insertion order.\<close>

type_synonym entity_dict = "(string \<times> string) list"

text \<open>An intent prediction or target is a string or \<open>None\<close>.\<close>

record evaluation_store =
  action_predictions :: "string list"
  action_targets :: "string list"
  intent_predictions :: "string option list"
  intent_targets :: "string option list"
  entity_predictions :: "entity_dict list"
  entity_targets :: "entity_dict list"

definition empty_store :: evaluation_store where
  "empty_store =
     \<lparr>action_predictions = [], action_targets = [], intent_predictions = [], intent_targets = [],
      entity_predictions = [], entity_targets = []\<rparr>"

text \<open>A keyword argument of \<open>add_to_store\<close>: absent (the default \<open>None\<close>), one item, or a list.\<close>

datatype 'a store_arg = NoArg | Item 'a | Items "'a list"

text \<open>\<open>if v: attr.extend(v) if isinstance(v, list) else attr.append(v)\<close>, with the
  truthiness \<open>tr\<close> of a single item; a list is truthy when it is non-empty.\<close>

fun add_arg :: "('a \<Rightarrow> bool) \<Rightarrow> 'a list \<Rightarrow> 'a store_arg \<Rightarrow> 'a list" where
  "add_arg tr xs NoArg = xs"
| "add_arg tr xs (Item v) = (if tr v then xs @ [v] else xs)"
| "add_arg tr xs (Items vs) = (if vs \<noteq> [] then xs @ vs else xs)"

definition str_truthy :: "string \<Rightarrow> bool" where
  "str_truthy s \<longleftrightarrow> s \<noteq> []"

definition dict_truthy :: "entity_dict \<Rightarrow> bool" where
  "dict_truthy d \<longleftrightarrow> d \<noteq> []"

definition add_to_store ::
  "evaluation_store \<Rightarrow> string store_arg \<Rightarrow> string store_arg \<Rightarrow> string option store_arg \<Rightarrow>
   string option store_arg \<Rightarrow> entity_dict store_arg \<Rightarrow> entity_dict store_arg \<Rightarrow> evaluation_store" where
  "add_to_store s act_p act_t int_p int_t ent_p ent_t =
     s\<lparr>action_predictions := add_arg str_truthy (action_predictions s) act_p,
       action_targets := add_arg str_truthy (action_targets s) act_t,
       intent_predictions := add_arg truthy (intent_predictions s) int_p,
       intent_targets := add_arg truthy (intent_targets s) int_t,
       entity_predictions := add_arg dict_truthy (entity_predictions s) ent_p,
       entity_targets := add_arg dict_truthy (entity_targets s) ent_t\<rparr>"

definition merge_store :: "evaluation_store \<Rightarrow> evaluation_store \<Rightarrow> evaluation_store" where
  "merge_store s other =
     add_to_store s (Items (action_predictions other)) (Items (action_targets other))
       (Items (intent_predictions other)) (Items (intent_targets other))
       (Items (entity_predictions other)) (Items (entity_targets other))"

definition has_prediction_target_mismatch :: "evaluation_store \<Rightarrow> bool" where
  "has_prediction_target_mismatch s \<longleftrightarrow>
     intent_predictions s \<noteq> intent_targets s \<or> entity_predictions s \<noteq> entity_targets s \<or>
     action_predictions s \<noteq> action_targets s"

text \<open>\<open>rasa.core.utils.pad_lists_to_size\<close> (outside the sources): the shorter list is
  extended with the padding value to the length of the longer one.\<close>

definition pad_lists_to_size :: "'a list \<Rightarrow> 'a list \<Rightarrow> 'a \<Rightarrow> 'a list \<times> 'a list" where
  "pad_lists_to_size xs ys p =
     (if length ys < length xs then (xs, ys @ replicate (length xs - length ys) p)
      else if length xs < length ys then (xs @ replicate (length ys - length xs) p, ys)
      else (xs, ys))"

text \<open>\<open>serialise\<close>: targets and predictions of the three categories concatenated, the
  entities rendered by \<open>MarkdownWriter.generate_entity_md\<close> (the parameter \<open>md\<close>,
  outside the sources), then padded with the string \<open>"None"\<close>. A list item is a
  string or \<open>None\<close>.\<close>

definition serialise :: "(entity_dict \<Rightarrow> string) \<Rightarrow> evaluation_store \<Rightarrow> string option list \<times> string option list" where
  "serialise md s =
     pad_lists_to_size
       (map Some (action_targets s) @ intent_targets s @ map (\<lambda>g. Some (md g)) (entity_targets s))
       (map Some (action_predictions s) @ intent_predictions s @ map (\<lambda>p. Some (md p)) (entity_predictions s))
       (Some ''None'')"

section \<open>Stories and the processor\<close>

text \<open>The parse data of a user message in a test story: what the tracker sees, and the
  keys the evaluation reads besides, \<open>"true_intent"\<close>, \<open>"entities"\<close> (as dicts) and
  \<open>"true_entities"\<close> (an absent key is \<open>None\<close>).\<close>

record e2e_parse =
  e2e_msg :: parse_data
  true_intent :: "string option"
  e2e_entities :: "entity_dict list option"
  true_entities :: "entity_dict list option"

text \<open>An event of a recorded story: a user message, an executed action (its gold name),
  or an event of any other type.\<close>

datatype story_event = StoryUser e2e_parse | StoryAction string | StoryOther event

fun story_tracker_event :: "story_event \<Rightarrow> event" where
  "story_tracker_event (StoryUser u) = UserUttered (e2e_msg u)"
| "story_tracker_event (StoryAction a) = ActionExecuted a"
| "story_tracker_event (StoryOther e) = e"

text \<open>\<open>processor.predict_next_action\<close> returns the action name, the winning policy
  name (or \<open>None\<close>) and the confidence; \<open>state_is_unhappy\<close> is the method of
  \<open>FormPolicy\<close>; \<open>proc_slots\<close> the slots of \<open>agent.domain\<close> a new tracker starts with.\<close>

record processor =
  proc_policies :: "policy list"
  predict_next_action :: "tracker \<Rightarrow> ens_error + string \<times> string option \<times> real"
  state_is_unhappy :: "policy \<Rightarrow> tracker \<Rightarrow> bool"
  proc_slots :: "(string \<times> real list) list"

text \<open>The exceptions of the evaluation: a prediction error of the processor, the
  \<open>TypeError\<close> of iterating \<open>None\<close>, the \<open>IndexError\<close> of \<open>[0]\<close> on an empty
  list, \<open>ZeroDivisionError\<close>, and the two \<open>ValueError\<close>s of fail-fast mode (the
  action one with or without the form hint).\<close>

datatype eval_error =
    PredictionFailed ens_error
  | EvalTypeError
  | EvalIndexError
  | EvalZeroDivisionError
  | WrongIntentError
  | WrongActionError bool

section \<open>Replaying one story\<close>

text \<open>\<open>_clean_entity_results\<close>: each entity reduced to the message text and its
  \<open>start\<close>, \<open>end\<close>, \<open>entity\<close> and \<open>value\<close>; \<open>tuple(None)\<close> raises.\<close>

definition clean_entity :: "string \<Rightarrow> entity_dict \<Rightarrow> entity_dict" where
  "clean_entity text r =
     (''text'', text) #
       concat (map (\<lambda>k. case map_of r k of None \<Rightarrow> [] | Some v \<Rightarrow> [(k, v)])
                   [''start'', ''end'', ''entity'', ''value''])"

definition clean_entity_results :: "string \<Rightarrow> entity_dict list option \<Rightarrow> eval_error + entity_dict list" where
  "clean_entity_results text rs =
     (case rs of None \<Rightarrow> Inl EvalTypeError | Some l \<Rightarrow> Inr (map (clean_entity text) l))"

definition list_truthy :: "'a list option \<Rightarrow> bool" where
  "list_truthy l = (case l of None \<Rightarrow> False | Some xs \<Rightarrow> xs \<noteq> [])"

text \<open>\<open>EndToEndUserUtterance(event.text, event.intent, event.entities)\<close> rebuilds its
  parse data from the intent and the entities, so the intent ranking is dropped.\<close>

definition end_to_end_utterance :: "parse_data \<Rightarrow> parse_data" where
  "end_to_end_utterance p = p\<lparr>intent_ranking := None\<rparr>"

text \<open>\<open>_collect_user_uttered_predictions\<close>. The marker
  \<open>WronglyClassifiedUserUtterance\<close> keeps the event's parse data, and its constructor
  reads \<open>intent_targets[0]\<close>.\<close>

definition collect_user_uttered_predictions ::
  "e2e_parse \<Rightarrow> tracker \<Rightarrow> bool \<Rightarrow> eval_error + evaluation_store \<times> tracker" where
  "collect_user_uttered_predictions u t fail =
     (let p = e2e_msg u; pred = intent_name p;
          s1 = add_to_store empty_store NoArg NoArg (if truthy pred then Item pred else Items [None])
                 (Item (true_intent u)) NoArg NoArg
      in case (if list_truthy (true_entities u) \<or> list_truthy (e2e_entities u)
               then (case clean_entity_results (msg_text p) (true_entities u) of
                       Inl e \<Rightarrow> Inl e
                     | Inr tg \<Rightarrow>
                         (case clean_entity_results (msg_text p) (e2e_entities u) of
                            Inl e \<Rightarrow> Inl e
                          | Inr pr \<Rightarrow> Inr (add_to_store s1 NoArg NoArg NoArg NoArg (Items pr) (Items tg))))
               else Inr s1) of
           Inl e \<Rightarrow> Inl e
         | Inr s \<Rightarrow>
             (if has_prediction_target_mismatch s then
                (if intent_targets s = [] then Inl EvalIndexError
                 else if fail then Inl WrongIntentError
                 else Inr (s, tracker_update t (UserUttered p)))
              else Inr (s, tracker_update t (UserUttered (end_to_end_utterance p)))))"

text \<open>\<open>_emulate_form_rejection\<close>: with an active form, each \<open>FormPolicy\<close> of the
  ensemble in turn gets an \<open>ActionExecutionRejected\<close> of the form appended, which is
  deleted again unless that policy finds the state an unhappy path of its stories.\<close>

definition emulate_form_rejection :: "processor \<Rightarrow> tracker \<Rightarrow> tracker" where
  "emulate_form_rejection proc t =
     (case active_form t of
        Some f \<Rightarrow>
          if f \<noteq> [] then
            fold (\<lambda>p t. if is_instance_of (pclass p) FormPolicy then
                           (let t' = tracker_update t (ActionExecutionRejected f)
                            in if state_is_unhappy proc p t' then t' else t)
                         else t) (proc_policies proc) t
          else t
      | None \<Rightarrow> t)"

text \<open>\<open>FormPolicy.__name__ in policy\<close>: a substring test.\<close>

definition form_policy_named :: "string \<Rightarrow> bool" where
  "form_policy_named n \<longleftrightarrow> sublist (class_name FormPolicy) n"

text \<open>\<open>_collect_action_executed_predictions\<close>: predict; when the prediction is wrong
  and came from a \<open>FormPolicy\<close>, emulate the form's rejection and predict again; record
  the prediction and the gold action. The marker \<open>WronglyPredictedAction\<close> is an
  \<open>ActionExecuted\<close> of the gold action, like the recorded event.\<close>

definition collect_action_executed_predictions ::
  "processor \<Rightarrow> tracker \<Rightarrow> string \<Rightarrow> bool \<Rightarrow>
   eval_error + evaluation_store \<times> string option \<times> real \<times> tracker" where
  "collect_action_executed_predictions proc t gold fail =
     (case predict_next_action proc t of
        Inl e \<Rightarrow> Inl (PredictionFailed e)
      | Inr (a, pol, c) \<Rightarrow>
          (case (if truthy pol \<and> a \<noteq> gold \<and> form_policy_named (the pol) then
                   (let t1 = emulate_form_rejection proc t in
                    case predict_next_action proc t1 of
                      Inl e \<Rightarrow> Inl (PredictionFailed e)
                    | Inr r \<Rightarrow> Inr (t1, r))
                 else Inr (t, (a, pol, c))) of
             Inl e \<Rightarrow> Inl e
           | Inr (t1, (a1, pol1, c1)) \<Rightarrow>
               (let s = add_to_store empty_store (Item a1) (Item gold) NoArg NoArg NoArg NoArg in
                if has_prediction_target_mismatch s then
                  (if fail then
                     (case pol1 of None \<Rightarrow> Inl EvalTypeError
                      | Some n \<Rightarrow> Inl (WrongActionError (form_policy_named n)))
                   else Inr (s, pol1, c1, tracker_update t1 (ActionExecuted gold)))
                else Inr (s, pol1, c1, tracker_update t1 (ActionExecuted gold)))))"

text \<open>An entry of \<open>tracker_actions\<close>.\<close>

record tracker_action =
  ta_action :: string
  ta_predicted :: string
  ta_policy :: "string option"
  ta_confidence :: real

text \<open>The loop of \<open>_predict_tracker_actions\<close> over the events after the first.\<close>

fun predict_events ::
  "processor \<Rightarrow> bool \<Rightarrow> bool \<Rightarrow> story_event list \<Rightarrow> evaluation_store \<times> tracker \<times> tracker_action list
   \<Rightarrow> eval_error + evaluation_store \<times> tracker \<times> tracker_action list" where
  "predict_events proc fail e2e [] acc = Inr acc"
| "predict_events proc fail e2e (StoryAction gold # evs) (s, t, tas) =
     (case collect_action_executed_predictions proc t gold fail of
        Inl e \<Rightarrow> Inl e
      | Inr (r, pol, c, t') \<Rightarrow>
          (if action_targets r = [] \<or> action_predictions r = [] then Inl EvalIndexError
           else predict_events proc fail e2e evs
                  (merge_store s r, t',
                   tas @ [\<lparr>ta_action = hd (action_targets r), ta_predicted = hd (action_predictions r),
                           ta_policy = pol, ta_confidence = c\<rparr>])))"
| "predict_events proc fail e2e (StoryUser u # evs) (s, t, tas) =
     (if e2e then
        (case collect_user_uttered_predictions u t fail of
           Inl e \<Rightarrow> Inl e
         | Inr (r, t') \<Rightarrow> predict_events proc fail e2e evs (merge_store s r, t', tas))
      else predict_events proc fail e2e evs (s, tracker_update t (UserUttered (e2e_msg u)), tas))"
| "predict_events proc fail e2e (StoryOther e # evs) (s, t, tas) =
     predict_events proc fail e2e evs (s, tracker_update t e, tas)"

text \<open>\<open>_predict_tracker_actions\<close>: the partial tracker starts with the first event
  (\<open>DialogueStateTracker.from_events\<close>) and the domain's slots.\<close>

definition predict_tracker_actions ::
  "processor \<Rightarrow> story_event list \<Rightarrow> bool \<Rightarrow> bool \<Rightarrow> eval_error + evaluation_store \<times> tracker \<times> tracker_action list" where
  "predict_tracker_actions proc story fail e2e =
     predict_events proc fail e2e (drop 1 story)
       (empty_store, \<lparr>events = map story_tracker_event (take 1 story), slot_features = proc_slots proc\<rparr>, [])"

text \<open>\<open>_in_training_data_fraction\<close>: the share of actions predicted by a memoization
  policy; an empty action list divides by zero.\<close>

definition in_training_data_fraction :: "tracker_action list \<Rightarrow> eval_error + real" where
  "in_training_data_fraction al =
     (if al = [] then Inl EvalZeroDivisionError
      else Inr (real (length (filter (\<lambda>a. truthy (ta_policy a) \<and> \<not> is_not_memo_policy (the (ta_policy a))) al))
                / real (length al)))"

section \<open>Evaluating all stories\<close>

record story_evaluation =
  se_store :: evaluation_store
  failed_stories :: "tracker list"
  action_list :: "tracker_action list"
  se_fraction :: real

text \<open>The loop of \<open>collect_story_predictions\<close>: the store, the failed partial trackers,
  \<open>correct_dialogues\<close> and the action list.\<close>

fun collect_stories ::
  "processor \<Rightarrow> bool \<Rightarrow> bool \<Rightarrow> story_event list list \<Rightarrow>
   evaluation_store \<times> tracker list \<times> nat list \<times> tracker_action list \<Rightarrow>
   eval_error + evaluation_store \<times> tracker list \<times> nat list \<times> tracker_action list" where
  "collect_stories proc fail e2e [] acc = Inr acc"
| "collect_stories proc fail e2e (story # r) (s, failed, correct, al) =
     (case predict_tracker_actions proc story fail e2e of
        Inl e \<Rightarrow> Inl e
      | Inr (res, t, tas) \<Rightarrow>
          (if has_prediction_target_mismatch res
           then collect_stories proc fail e2e r (merge_store s res, failed @ [t], correct @ [0], al @ tas)
           else collect_stories proc fail e2e r (merge_store s res, failed, correct @ [1], al @ tas)))"

text \<open>\<open>collect_story_predictions\<close>: the story evaluation, the number of stories and the
  \<open>correct_dialogues\<close> passed to \<open>get_evaluation_metrics\<close> (outside the sources).\<close>

definition collect_story_predictions ::
  "processor \<Rightarrow> story_event list list \<Rightarrow> bool \<Rightarrow> bool \<Rightarrow>
   eval_error + story_evaluation \<times> nat \<times> nat list" where
  "collect_story_predictions proc stories fail e2e =
     (case collect_stories proc fail e2e stories (empty_store, [], [], []) of
        Inl e \<Rightarrow> Inl e
      | Inr (s, failed, correct, al) \<Rightarrow>
          (case in_training_data_fraction al of
             Inl e \<Rightarrow> Inl e
           | Inr f \<Rightarrow> Inr (\<lparr>se_store = s, failed_stories = failed, action_list = al, se_fraction = f\<rparr>,
                           length stories, correct)))"

section \<open>Specification helpers\<close>

text \<open>The gold actions of a story: the names of its \<open>ActionExecuted\<close> events, in order.\<close>

definition story_actions :: "story_event list \<Rightarrow> string list" where
  "story_actions evs = concat (map (\<lambda>ev. case ev of StoryAction a \<Rightarrow> [a] | _ \<Rightarrow> []) evs)"

section \<open>Examples\<close>

text \<open>A processor that always predicts \<open>action_listen\<close> by a memoization policy;
  messages with a city and a date entity (\<open>ex_u1\<close> annotates the city but does not
  predict it, \<open>ex_u2\<close> the reverse, \<open>ex_u3\<close> misses the date, \<open>ex_u4\<close> has no
  predicted intent, \<open>ex_u5\<close> no gold intent); a story of two turns; a processor with a
  \<open>FormPolicy\<close> that predicts its form, and a tracker with that form active.\<close>

definition ex_proc :: processor where
  "ex_proc =
     \<lparr>proc_policies = [],
      predict_next_action = (\<lambda>t. Inr (''action_listen'', Some ''policy_0_MemoizationPolicy'', 1)),
      state_is_unhappy = (\<lambda>p t. False), proc_slots = []\<rparr>"

definition ex_msg :: "string \<Rightarrow> string option \<Rightarrow> parse_data" where
  "ex_msg txt i = \<lparr>msg_text = txt, intent_name = i, intent_confidence = None, intent_ranking = None, msg_entities = []\<rparr>"

definition ex_city :: entity_dict where
  "ex_city = [(''entity'', ''city''), (''value'', ''Paris''), (''start'', ''0''), (''end'', ''5'')]"

definition ex_date :: entity_dict where
  "ex_date = [(''entity'', ''date''), (''value'', ''today''), (''start'', ''6''), (''end'', ''11'')]"

definition ex_u1 :: e2e_parse where
  "ex_u1 = \<lparr>e2e_msg = ex_msg ''Paris today'' (Some ''inform''), true_intent = Some ''inform'',
            e2e_entities = Some [], true_entities = Some [ex_city]\<rparr>"

definition ex_u2 :: e2e_parse where
  "ex_u2 = \<lparr>e2e_msg = ex_msg ''Paris today'' (Some ''inform''), true_intent = Some ''inform'',
            e2e_entities = Some [ex_city], true_entities = Some []\<rparr>"

definition ex_u3 :: e2e_parse where
  "ex_u3 = \<lparr>e2e_msg = ex_msg ''Paris today'' (Some ''inform''), true_intent = Some ''inform'',
            e2e_entities = Some [ex_city], true_entities = Some [ex_city, ex_date]\<rparr>"

definition ex_u4 :: e2e_parse where
  "ex_u4 = \<lparr>e2e_msg = ex_msg ''Paris today'' None, true_intent = Some ''inform'',
            e2e_entities = Some [ex_city], true_entities = Some [ex_city]\<rparr>"

definition ex_u5 :: e2e_parse where
  "ex_u5 = \<lparr>e2e_msg = ex_msg ''hello'' (Some ''greet''), true_intent = None,
            e2e_entities = Some [], true_entities = Some []\<rparr>"

definition ex_story :: "e2e_parse \<Rightarrow> e2e_parse \<Rightarrow> story_event list" where
  "ex_story u v =
     [StoryOther (ActionExecuted ''action_listen''), StoryUser u, StoryAction ''action_listen'',
      StoryUser v, StoryAction ''action_listen'']"

definition ex_form_policy :: policy where
  "ex_form_policy = \<lparr>pclass = FormPolicy, priority = 5, predict = (\<lambda>t d. []), fallback_scores = (\<lambda>d. [])\<rparr>"

definition ex_form_proc :: processor where
  "ex_form_proc =
     \<lparr>proc_policies = [ex_form_policy],
      predict_next_action = (\<lambda>t. Inr (''restaurant_form'', Some ''policy_0_FormPolicy'', 1)),
      state_is_unhappy = (\<lambda>p t. False), proc_slots = []\<rparr>"

definition ex_form_tracker :: tracker where
  "ex_form_tracker = \<lparr>events = [Form (Some ''restaurant_form'')], slot_features = []\<rparr>"

definition ex_memo_action :: tracker_action where
  "ex_memo_action =
     \<lparr>ta_action = ''utter_greet'', ta_predicted = ''utter_greet'', ta_policy = Some ''policy_0_MemoizationPolicy'',
      ta_confidence = 1\<rparr>"

section \<open>Lemmas: the store\<close>

lemma story_actions_simps [simp]:
  "story_actions [] = []"
  "story_actions (StoryAction a # evs) = a # story_actions evs"
  "story_actions (StoryUser u # evs) = story_actions evs"
  "story_actions (StoryOther e # evs) = story_actions evs"
  by (simp_all add: story_actions_def)

lemma add_arg_Items [simp]: "add_arg tr xs (Items vs) = xs @ vs"
  by simp

lemma merge_store_fields [simp]:
  "action_predictions (merge_store s r) = action_predictions s @ action_predictions r"
  "action_targets (merge_store s r) = action_targets s @ action_targets r"
  "intent_predictions (merge_store s r) = intent_predictions s @ intent_predictions r"
  "intent_targets (merge_store s r) = intent_targets s @ intent_targets r"
  "entity_predictions (merge_store s r) = entity_predictions s @ entity_predictions r"
  "entity_targets (merge_store s r) = entity_targets s @ entity_targets r"
  by (simp_all add: merge_store_def add_to_store_def)

lemma empty_store_fields [simp]:
  "action_predictions empty_store = []" "action_targets empty_store = []"
  "intent_predictions empty_store = []" "intent_targets empty_store = []"
  "entity_predictions empty_store = []" "entity_targets empty_store = []"
  by (simp_all add: empty_store_def)

lemma add_to_store_fields [simp]:
  "action_predictions (add_to_store s a1 a2 i1 i2 e1 e2) = add_arg str_truthy (action_predictions s) a1"
  "action_targets (add_to_store s a1 a2 i1 i2 e1 e2) = add_arg str_truthy (action_targets s) a2"
  "intent_predictions (add_to_store s a1 a2 i1 i2 e1 e2) = add_arg truthy (intent_predictions s) i1"
  "intent_targets (add_to_store s a1 a2 i1 i2 e1 e2) = add_arg truthy (intent_targets s) i2"
  "entity_predictions (add_to_store s a1 a2 i1 i2 e1 e2) = add_arg dict_truthy (entity_predictions s) e1"
  "entity_targets (add_to_store s a1 a2 i1 i2 e1 e2) = add_arg dict_truthy (entity_targets s) e2"
  by (simp_all add: add_to_store_def)


lemma user_intent_fields:
  "intent_predictions (add_to_store empty_store NoArg NoArg (if truthy pred then Item pred else Items [None])
                         (Item g) NoArg NoArg) = [if truthy pred then pred else None]"
  "intent_targets (add_to_store empty_store NoArg NoArg (if truthy pred then Item pred else Items [None])
                     (Item g) NoArg NoArg) = (if truthy g then [g] else [])"
  by (simp_all add: truthy_def split: option.splits)

section \<open>Lemmas: replaying stories\<close>

lemma collect_action_Inr:
  assumes "collect_action_executed_predictions proc t gold False = Inr (r, pol, c, t')"
  shows "\<exists>a. r = add_to_store empty_store (Item a) (Item gold) NoArg NoArg NoArg NoArg"
  using assms unfolding collect_action_executed_predictions_def
  by (auto simp: Let_def split: sum.splits prod.splits if_splits)

lemma predict_events_actions:
  assumes "predict_events proc False False evs (s, t, tas) = Inr (s', t', tas')"
  shows "\<exists>new. tas' = tas @ new \<and> map ta_action new = story_actions evs \<and>
           action_targets s' = action_targets s @ map ta_action new \<and>
           action_predictions s' = action_predictions s @ map ta_predicted new \<and>
           intent_predictions s' = intent_predictions s \<and> intent_targets s' = intent_targets s \<and>
           entity_predictions s' = entity_predictions s \<and> entity_targets s' = entity_targets s"
  using assms
proof (induction evs arbitrary: s t tas)
  case Nil
  then show ?case by simp
next
  case (Cons ev evs)
  show ?case
  proof (cases ev)
    case (StoryAction gold)
    from Cons.prems StoryAction obtain r pol c t1 where
      r: "collect_action_executed_predictions proc t gold False = Inr (r, pol, c, t1)"
      and ne: "action_targets r \<noteq> []" "action_predictions r \<noteq> []"
      by (auto split: sum.splits prod.splits if_splits)
    obtain a where ra: "r = add_to_store empty_store (Item a) (Item gold) NoArg NoArg NoArg NoArg"
      using collect_action_Inr [OF r] by blast
    have ag: "action_targets r = [gold]" "action_predictions r = [a]"
      using ne by (simp_all add: ra split: if_splits)
    have "predict_events proc False False evs
            (merge_store s r, t1, tas @ [\<lparr>ta_action = gold, ta_predicted = a, ta_policy = pol, ta_confidence = c\<rparr>])
          = Inr (s', t', tas')"
      using Cons.prems StoryAction r ne ag by simp
    from Cons.IH [OF this] StoryAction ag show ?thesis
      by (auto simp: ra)
  next
    case (StoryUser u)
    with Cons.prems Cons.IH show ?thesis by simp
  next
    case (StoryOther e)
    with Cons.prems Cons.IH show ?thesis by simp
  qed
qed

lemma collect_stories_Inr:
  assumes "collect_stories proc fail e2e stories (s, fl, cs, al) = Inr (s', fl', cs', al')"
  shows "\<exists>res. list_all2 (\<lambda>st x. predict_tracker_actions proc st fail e2e = Inr x) stories res \<and>
           s' = fold (\<lambda>x s. merge_store s (fst x)) res s \<and>
           fl' = fl @ map (\<lambda>x. fst (snd x)) (filter (\<lambda>x. has_prediction_target_mismatch (fst x)) res) \<and>
           cs' = cs @ map (\<lambda>x. if has_prediction_target_mismatch (fst x) then 0 else 1) res \<and>
           al' = al @ concat (map (\<lambda>x. snd (snd x)) res)"
  using assms
proof (induction stories arbitrary: s fl cs al)
  case Nil
  then show ?case by simp
next
  case (Cons st stories)
  from Cons.prems obtain r t tas where p: "predict_tracker_actions proc st fail e2e = Inr (r, t, tas)"
    by (auto split: sum.splits)
  show ?case
  proof (cases "has_prediction_target_mismatch r")
    case True
    with Cons.prems p have "collect_stories proc fail e2e stories (merge_store s r, fl @ [t], cs @ [0], al @ tas) =
                            Inr (s', fl', cs', al')" by simp
    from Cons.IH [OF this] obtain res where "list_all2 (\<lambda>st x. predict_tracker_actions proc st fail e2e = Inr x) stories res"
      "s' = fold (\<lambda>x s. merge_store s (fst x)) res (merge_store s r)"
      "fl' = (fl @ [t]) @ map (\<lambda>x. fst (snd x)) (filter (\<lambda>x. has_prediction_target_mismatch (fst x)) res)"
      "cs' = (cs @ [0]) @ map (\<lambda>x. if has_prediction_target_mismatch (fst x) then 0 else 1) res"
      "al' = (al @ tas) @ concat (map (\<lambda>x. snd (snd x)) res)" by blast
    with p True show ?thesis by (intro exI [of _ "(r, t, tas) # res"]) simp
  next
    case False
    with Cons.prems p have "collect_stories proc fail e2e stories (merge_store s r, fl, cs @ [1], al @ tas) =
                            Inr (s', fl', cs', al')" by simp
    from Cons.IH [OF this] obtain res where "list_all2 (\<lambda>st x. predict_tracker_actions proc st fail e2e = Inr x) stories res"
      "s' = fold (\<lambda>x s. merge_store s (fst x)) res (merge_store s r)"
      "fl' = fl @ map (\<lambda>x. fst (snd x)) (filter (\<lambda>x. has_prediction_target_mismatch (fst x)) res)"
      "cs' = (cs @ [1]) @ map (\<lambda>x. if has_prediction_target_mismatch (fst x) then 0 else 1) res"
      "al' = (al @ tas) @ concat (map (\<lambda>x. snd (snd x)) res)" by blast
    with p False show ?thesis by (intro exI [of _ "(r, t, tas) # res"]) simp
  qed
qed

lemma fold_merge_store_fields:
  "action_predictions (fold (\<lambda>x s. merge_store s (fst x)) res s) = action_predictions s @ concat (map (\<lambda>x. action_predictions (fst x)) res)"
  "action_targets (fold (\<lambda>x s. merge_store s (fst x)) res s) = action_targets s @ concat (map (\<lambda>x. action_targets (fst x)) res)"
  "intent_predictions (fold (\<lambda>x s. merge_store s (fst x)) res s) = intent_predictions s @ concat (map (\<lambda>x. intent_predictions (fst x)) res)"
  "intent_targets (fold (\<lambda>x s. merge_store s (fst x)) res s) = intent_targets s @ concat (map (\<lambda>x. intent_targets (fst x)) res)"
  "entity_predictions (fold (\<lambda>x s. merge_store s (fst x)) res s) = entity_predictions s @ concat (map (\<lambda>x. entity_predictions (fst x)) res)"
  "entity_targets (fold (\<lambda>x s. merge_store s (fst x)) res s) = entity_targets s @ concat (map (\<lambda>x. entity_targets (fst x)) res)"
  by (induction res arbitrary: s) auto

lemma predict_events_no_actions:
  assumes "story_actions evs = []"
  shows "\<exists>t'. predict_events proc fail False evs (s, t, tas) = Inr (s, t', tas)"
  using assms
proof (induction evs arbitrary: t)
  case (Cons ev evs)
  then show ?case by (cases ev) simp_all
qed simp

lemma collect_stories_no_actions:
  assumes "\<forall>st\<in>set stories. story_actions (drop 1 st) = []"
  shows "\<exists>s' fl' cs'. collect_stories proc fail False stories (s, fl, cs, al) = Inr (s', fl', cs', al)"
  using assms
proof (induction stories arbitrary: s fl cs)
  case (Cons st stories)
  then obtain t' where "predict_tracker_actions proc st fail False = Inr (empty_store, t', [])"
    using predict_events_no_actions unfolding predict_tracker_actions_def by fastforce
  with Cons show ?case by (simp split: if_splits)
qed simp

lemma emulate_form_rejection_keeps:
  assumes "\<forall>p\<in>set (proc_policies proc). is_instance_of (pclass p) FormPolicy \<longrightarrow>
             \<not> state_is_unhappy proc p (tracker_update t (ActionExecutionRejected (the (active_form t))))"
  shows "emulate_form_rejection proc t = t"
  using assms unfolding emulate_form_rejection_def
  by (auto split: option.splits intro!: fold_keep)

lemma in_training_data_fraction_bounds:
  "(in_training_data_fraction al = Inl e \<longleftrightarrow> al = [] \<and> e = EvalZeroDivisionError) \<and>
   (in_training_data_fraction al = Inr f \<longrightarrow> 0 \<le> f \<and> f \<le> 1)"
proof -
  have "real (length (filter P al)) / real (length al) \<le> 1" if "al \<noteq> []" for P
    using that length_filter_le [of P al] by (simp add: divide_le_eq_1)
  then show ?thesis by (auto simp: in_training_data_fraction_def)
qed

section \<open>Lemmas: the examples\<close>

lemma ex_cancel_eval:
  "case collect_story_predictions ex_proc [ex_story ex_u1 ex_u2] False True of
     Inr (ev, n, cs) \<Rightarrow> failed_stories ev = [] \<and> n = 1 \<and> cs = [1] | Inl e \<Rightarrow> False"
  by code_simp

lemma ex_u1_mismatch:
  "case collect_user_uttered_predictions ex_u1 t False of Inr (s, t') \<Rightarrow> has_prediction_target_mismatch s | Inl e \<Rightarrow> False"
  by (simp add: Let_def collect_user_uttered_predictions_def ex_u1_def ex_msg_def clean_entity_results_def list_truthy_def
                has_prediction_target_mismatch_def truthy_def dict_truthy_def clean_entity_def ex_city_def)

lemma ex_u2_mismatch:
  "case collect_user_uttered_predictions ex_u2 t False of Inr (s, t') \<Rightarrow> has_prediction_target_mismatch s | Inl e \<Rightarrow> False"
  by (simp add: Let_def collect_user_uttered_predictions_def ex_u2_def ex_msg_def clean_entity_results_def list_truthy_def
                has_prediction_target_mismatch_def truthy_def dict_truthy_def clean_entity_def ex_city_def)

lemma ex_plain_eval:
  "case predict_tracker_actions ex_proc (ex_story ex_u1 ex_u2) False False of
     Inr (s, t, tas) \<Rightarrow> \<not> has_prediction_target_mismatch s | Inl e \<Rightarrow> False"
  by code_simp

lemma ex_form_collect:
  "collect_action_executed_predictions ex_form_proc ex_form_tracker ''utter_ask_cuisine'' False =
     Inr (add_to_store empty_store (Item ''restaurant_form'') (Item ''utter_ask_cuisine'') NoArg NoArg NoArg NoArg,
          Some ''policy_0_FormPolicy'', 1, tracker_update ex_form_tracker (ActionExecuted ''utter_ask_cuisine''))"
  by code_simp

section \<open>Properties\<close>

text \<open>C12. Replaying a story without end-to-end evaluation records, for each ActionExecuted
  event after the first, one prediction and its gold action in story order, leaves the
  intent and entity lists empty, and marks the story failed exactly when some predicted
  action differs from its gold action.\<close>

theorem predict_tracker_actions_spec:
  assumes "predict_tracker_actions proc story False False = Inr (s, t, tas)"
  shows "map ta_action tas = story_actions (drop 1 story) \<and>
         action_targets s = map ta_action tas \<and> action_predictions s = map ta_predicted tas \<and>
         intent_predictions s = [] \<and> intent_targets s = [] \<and> entity_predictions s = [] \<and> entity_targets s = [] \<and>
         (has_prediction_target_mismatch s \<longleftrightarrow> (\<exists>a\<in>set tas. ta_predicted a \<noteq> ta_action a))"
proof -
  from predict_events_actions [OF assms [unfolded predict_tracker_actions_def]]
  have f: "map ta_action tas = story_actions (drop 1 story)" "action_targets s = map ta_action tas"
    "action_predictions s = map ta_predicted tas" "intent_predictions s = []" "intent_targets s = []"
    "entity_predictions s = []" "entity_targets s = []"
    by auto
  have "map ta_predicted tas \<noteq> map ta_action tas \<longleftrightarrow> (\<exists>a\<in>set tas. ta_predicted a \<noteq> ta_action a)"
    by (induction tas) auto
  with f show ?thesis by (simp add: has_prediction_target_mismatch_def)
qed

theorem predict_tracker_actions_spec_witness:
  "\<exists>s t tas. predict_tracker_actions ex_proc (ex_story ex_u1 ex_u2) False False = Inr (s, t, tas) \<and>
     action_targets s = [''action_listen'', ''action_listen''] \<and> \<not> has_prediction_target_mismatch s"
proof -
  obtain s t tas where r: "predict_tracker_actions ex_proc (ex_story ex_u1 ex_u2) False False = Inr (s, t, tas)"
    and m: "\<not> has_prediction_target_mismatch s"
    using ex_plain_eval by (auto split: sum.splits)
  from predict_tracker_actions_spec [OF r] have "action_targets s = [''action_listen'', ''action_listen'']"
    by (simp add: ex_story_def)
  with r m show ?thesis by blast
qed

text \<open>C17. The store of collect_story_predictions is the concatenation, in story order, of the
  per-story stores. The failed stories are the partial trackers of the stories whose own
  store mismatches. correct_dialogues holds 0 for those stories and 1 for the others. The
  action list concatenates the per-story action lists, and the fraction computed from it
  lies between 0 and 1.\<close>

theorem collect_story_predictions_spec:
  assumes "collect_story_predictions proc stories fail e2e = Inr (ev, n, correct)"
  shows "\<exists>res. list_all2 (\<lambda>st x. predict_tracker_actions proc st fail e2e = Inr x) stories res \<and>
           n = length stories \<and>
           action_predictions (se_store ev) = concat (map (\<lambda>x. action_predictions (fst x)) res) \<and>
           action_targets (se_store ev) = concat (map (\<lambda>x. action_targets (fst x)) res) \<and>
           intent_predictions (se_store ev) = concat (map (\<lambda>x. intent_predictions (fst x)) res) \<and>
           intent_targets (se_store ev) = concat (map (\<lambda>x. intent_targets (fst x)) res) \<and>
           entity_predictions (se_store ev) = concat (map (\<lambda>x. entity_predictions (fst x)) res) \<and>
           entity_targets (se_store ev) = concat (map (\<lambda>x. entity_targets (fst x)) res) \<and>
           failed_stories ev = map (\<lambda>x. fst (snd x)) (filter (\<lambda>x. has_prediction_target_mismatch (fst x)) res) \<and>
           correct = map (\<lambda>x. if has_prediction_target_mismatch (fst x) then 0 else 1) res \<and>
           action_list ev = concat (map (\<lambda>x. snd (snd x)) res) \<and>
           in_training_data_fraction (action_list ev) = Inr (se_fraction ev) \<and>
           0 \<le> se_fraction ev \<and> se_fraction ev \<le> 1"
proof -
  obtain s fl cs al where c: "collect_stories proc fail e2e stories (empty_store, [], [], []) = Inr (s, fl, cs, al)"
    and f: "in_training_data_fraction al = Inr (se_fraction ev)"
    and ev: "se_store ev = s" "failed_stories ev = fl" "action_list ev = al"
    and n: "n = length stories" and cs: "correct = cs"
    using assms unfolding collect_story_predictions_def
    by (auto split: sum.splits prod.splits)
  from collect_stories_Inr [OF c] obtain res where
    "list_all2 (\<lambda>st x. predict_tracker_actions proc st fail e2e = Inr x) stories res"
    "s = fold (\<lambda>x s. merge_store s (fst x)) res empty_store"
    "fl = map (\<lambda>x. fst (snd x)) (filter (\<lambda>x. has_prediction_target_mismatch (fst x)) res)"
    "cs = map (\<lambda>x. if has_prediction_target_mismatch (fst x) then 0 else 1) res"
    "al = concat (map (\<lambda>x. snd (snd x)) res)"
    by auto
  moreover have "0 \<le> se_fraction ev \<and> se_fraction ev \<le> 1"
    using in_training_data_fraction_bounds f by blast
  ultimately show ?thesis using f n cs ev
    by (intro exI [of _ res]) (simp add: fold_merge_store_fields)
qed

theorem collect_story_predictions_spec_witness:
  "\<exists>ev cs. collect_story_predictions ex_proc [ex_story ex_u1 ex_u2] False True = Inr (ev, 1, cs) \<and>
     failed_stories ev = []"
proof -
  obtain ev n cs where r: "collect_story_predictions ex_proc [ex_story ex_u1 ex_u2] False True = Inr (ev, n, cs)"
    and f: "failed_stories ev = []"
    using ex_cancel_eval by (auto split: sum.splits)
  from collect_story_predictions_spec [OF r] have "n = 1" by auto
  with r f show ?thesis by blast
qed

text \<open>C19. _collect_user_uttered_predictions raises TypeError exactly when entities are
  present but the gold or predicted entity list is missing. Otherwise it raises IndexError
  exactly when the gold intent is missing or empty. Otherwise it raises the fail-fast
  ValueError exactly when fail_on_prediction_errors is set and the recording run finds a
  mismatch.\<close>

theorem user_uttered_errors:
  "collect_user_uttered_predictions u t fail = Inl e \<longleftrightarrow>
     (if (list_truthy (true_entities u) \<or> list_truthy (e2e_entities u)) \<and>
         (true_entities u = None \<or> e2e_entities u = None)
      then e = EvalTypeError
      else if \<not> truthy (true_intent u) then e = EvalIndexError
      else fail \<and> e = WrongIntentError \<and>
           (\<exists>s t'. collect_user_uttered_predictions u t False = Inr (s, t') \<and> has_prediction_target_mismatch s))"
  unfolding collect_user_uttered_predictions_def Let_def clean_entity_results_def
  by (auto simp: user_intent_fields has_prediction_target_mismatch_def list_truthy_def
           split: option.splits if_splits)

theorem user_uttered_errors_witness:
  "collect_user_uttered_predictions ex_u5 ex_form_tracker False = Inl EvalIndexError"
  using user_uttered_errors [of ex_u5 ex_form_tracker False EvalIndexError]
  by (simp add: ex_u5_def list_truthy_def truthy_def)

text \<open>C21. In fail-fast mode _collect_action_executed_predictions raises exactly where
  recording mode records a mismatch. The ValueError carries the form hint exactly when the
  final policy name contains FormPolicy, and a missing policy name raises TypeError.\<close>

theorem fail_fast_action:
  assumes "collect_action_executed_predictions proc t gold False = Inr (s, pol, c, t')"
  shows "collect_action_executed_predictions proc t gold True =
           (if has_prediction_target_mismatch s then
              (case pol of None \<Rightarrow> Inl EvalTypeError | Some n \<Rightarrow> Inl (WrongActionError (form_policy_named n)))
            else Inr (s, pol, c, t'))"
  using assms unfolding collect_action_executed_predictions_def
  by (auto simp: Let_def split: sum.splits prod.splits if_splits option.splits)

theorem fail_fast_action_witness:
  "collect_action_executed_predictions ex_form_proc ex_form_tracker ''utter_ask_cuisine'' True =
     Inl (WrongActionError True)"
proof -
  have "has_prediction_target_mismatch
          (add_to_store empty_store (Item ''restaurant_form'') (Item ''utter_ask_cuisine'') NoArg NoArg NoArg NoArg)"
    "form_policy_named ''policy_0_FormPolicy''"
    by code_simp+
  with fail_fast_action [OF ex_form_collect] show ?thesis by simp
qed

text \<open>When no FormPolicy finds the state with the active form rejected to be an unhappy
  path, the emulated rejection is deleted again. The action collection then records
  exactly the first prediction and the gold action, and appends only the gold
  ActionExecuted to the tracker.\<close>

theorem form_retry_repeats:
  assumes "predict_next_action proc t = Inr (a, pol, c)"
    and "\<forall>p\<in>set (proc_policies proc). is_instance_of (pclass p) FormPolicy \<longrightarrow>
           \<not> state_is_unhappy proc p (tracker_update t (ActionExecutionRejected (the (active_form t))))"
  shows "collect_action_executed_predictions proc t gold False =
           Inr (add_to_store empty_store (Item a) (Item gold) NoArg NoArg NoArg NoArg, pol, c,
                tracker_update t (ActionExecuted gold))"
  using assms(1) emulate_form_rejection_keeps [OF assms(2)]
  by (simp add: collect_action_executed_predictions_def Let_def)

theorem form_retry_repeats_witness:
  "collect_action_executed_predictions ex_form_proc ex_form_tracker ''utter_ask_cuisine'' False =
     Inr (add_to_store empty_store (Item ''restaurant_form'') (Item ''utter_ask_cuisine'') NoArg NoArg NoArg NoArg,
          Some ''policy_0_FormPolicy'', 1, tracker_update ex_form_tracker (ActionExecuted ''utter_ask_cuisine''))"
  using form_retry_repeats [of ex_form_proc ex_form_tracker "''restaurant_form''" "Some ''policy_0_FormPolicy''" 1]
  by (simp add: ex_form_proc_def)

text \<open>Take a story whose first turn annotates a city entity the NLU misses, and whose
  second turn, with the same text, predicts that entity without annotation. Each turn
  mismatches, yet collect_story_predictions counts the story correct, because its entity
  lists are compared only after concatenation.\<close>

theorem entity_mismatches_cancel:
  "(case collect_user_uttered_predictions ex_u1 t False of
      Inr (s, t') \<Rightarrow> has_prediction_target_mismatch s | Inl e \<Rightarrow> False) \<and>
   (case collect_user_uttered_predictions ex_u2 t False of
      Inr (s, t') \<Rightarrow> has_prediction_target_mismatch s | Inl e \<Rightarrow> False) \<and>
   (case collect_story_predictions ex_proc [ex_story ex_u1 ex_u2] False True of
      Inr (ev, n, cs) \<Rightarrow> failed_stories ev = [] \<and> n = 1 \<and> cs = [1] | Inl e \<Rightarrow> False)"
  using ex_u1_mismatch ex_u2_mismatch ex_cancel_eval by blast


text \<open>When one turn has more gold entities than predicted ones, serialise pairs a later
  turn's correct entity prediction with an earlier gold entity, and pairs a gold entity
  with the padding 'None'. A turn without a predicted intent leaves a None value in the
  predictions.\<close>

theorem serialise_misaligned:
  "case collect_story_predictions ex_proc [ex_story ex_u3 ex_u4] False True of
     Inr (ev, n, cs) \<Rightarrow>
       serialise md (se_store ev) =
         ([Some ''action_listen'', Some ''action_listen'', Some ''inform'', Some ''inform'',
           Some (md (clean_entity ''Paris today'' ex_city)), Some (md (clean_entity ''Paris today'' ex_date)),
           Some (md (clean_entity ''Paris today'' ex_city))],
          [Some ''action_listen'', Some ''action_listen'', Some ''inform'', None,
           Some (md (clean_entity ''Paris today'' ex_city)), Some (md (clean_entity ''Paris today'' ex_city)),
           Some ''None''])
   | Inl e \<Rightarrow> False"
  by code_simp

text \<open>C39. Without end-to-end evaluation, collect_story_predictions raises ZeroDivisionError
  when no story has an ActionExecuted event after its first event, including when there
  are no stories.\<close>

theorem no_actions_zero_division:
  assumes "\<forall>st\<in>set stories. story_actions (drop 1 st) = []"
  shows "collect_story_predictions proc stories fail False = Inl EvalZeroDivisionError"
  using collect_stories_no_actions [OF assms, of proc fail empty_store "[]" "[]" "[]"]
  by (auto simp: collect_story_predictions_def in_training_data_fraction_def)

theorem no_actions_zero_division_witness:
  "collect_story_predictions ex_proc [[StoryOther (ActionExecuted ''action_listen''), StoryUser ex_u1]] True False =
     Inl EvalZeroDivisionError"
  using no_actions_zero_division [of "[[StoryOther (ActionExecuted ''action_listen''), StoryUser ex_u1]]"]
  by simp

end
