(* ===== verification/PyLib.thy ===== *)
theory PyLib
  imports Prelude
begin

text \<open>
  The part of the Python runtime that the channel and extractor code relies on, modelled once
  and shared: JSON values as Python's \<open>json\<close> module returns them, the built-in exceptions
  as values of \<open>py_error\<close>, truthiness, \<open>dict.get\<close>, subscripts and the \<open>in\<close> operator on
  JSON values, and the string operations \<open>str.split\<close>, \<open>str.join\<close>, \<open>str.replace\<close>,
  \<open>str.strip\<close>, \<open>re.sub\<close> and \<open>re.search\<close>. A regular expression is modelled by its
  matcher: a function that, given the rest of the subject string, returns the length of the match
  starting there (\<open>None\<close> when it does not match). \<open>re_sub\<close> and \<open>re_search\<close> scan the
  subject left to right exactly as Python's engine does for patterns that never match the empty
  string, which holds for every pattern of the sources. Characters are Isabelle's 8-bit
  \<open>char\<close>, so strings are the Latin-1 subset of Python's \<open>str\<close>.
\<close>

section \<open>JSON values and Python errors\<close>

text \<open>A JSON value as decoded by \<open>json.loads\<close>; an object is a dict with distinct keys, kept
  as an association list in insertion order (the layout of Nano_JSON).\<close>

datatype json =
    OBJECT "(string \<times> json) list"
  | ARRAY "json list"
  | NUMBER int
  | STRING string
  | BOOL bool
  | NULL

datatype py_error =
    AttributeError
  | KeyError string
  | IndexError
  | TypeError
  | Exception string
  | Unsupported string

text \<open>Sequencing of computations that may raise: the first \<open>Inl\<close>
  propagates.\<close>

fun sum_bind :: "'e + 'a \<Rightarrow> ('a \<Rightarrow> 'e + 'b) \<Rightarrow> 'e + 'b" where
  "sum_bind (Inl e) f = Inl e"
| "sum_bind (Inr x) f = f x"

fun py_truthy :: "json \<Rightarrow> bool" where
  "py_truthy (OBJECT kv) = (kv \<noteq> [])"
| "py_truthy (ARRAY xs) = (xs \<noteq> [])"
| "py_truthy (NUMBER i) = (i \<noteq> 0)"
| "py_truthy (STRING s) = (s \<noteq> [])"
| "py_truthy (BOOL b) = b"
| "py_truthy NULL = False"

text \<open>\<open>d.get(k, default)\<close>, \<open>d.get(k)\<close> (default \<open>None\<close>), \<open>d[k]\<close> and \<open>x[0]\<close>:
  calling \<open>get\<close> on a non-dict raises \<open>AttributeError\<close>; subscripting a list or string with a
  string key, or \<open>None\<close>/a number/a bool at all, raises \<open>TypeError\<close>; a dict has no key
  \<open>0\<close> because JSON keys are strings.\<close>

definition json_get_default :: "json \<Rightarrow> string \<Rightarrow> json \<Rightarrow> py_error + json" where
  "json_get_default j k d =
     (case j of OBJECT kv \<Rightarrow> Inr (case map_of kv k of Some v \<Rightarrow> v | None \<Rightarrow> d)
      | _ \<Rightarrow> Inl AttributeError)"

definition json_get :: "json \<Rightarrow> string \<Rightarrow> py_error + json" where
  "json_get j k = json_get_default j k NULL"

fun json_key :: "json \<Rightarrow> string \<Rightarrow> py_error + json" where
  "json_key (OBJECT kv) k = (case map_of kv k of Some v \<Rightarrow> Inr v | None \<Rightarrow> Inl (KeyError k))"
| "json_key _ k = Inl TypeError"

fun json_first :: "json \<Rightarrow> py_error + json" where
  "json_first (ARRAY (x # xs)) = Inr x"
| "json_first (ARRAY []) = Inl IndexError"
| "json_first (STRING (c # cs)) = Inr (STRING [c])"
| "json_first (STRING []) = Inl IndexError"
| "json_first (OBJECT kv) = Inl (KeyError ''0'')"
| "json_first _ = Inl TypeError"

fun json_str :: "json \<Rightarrow> py_error + string" where
  "json_str (STRING s) = Inr s"
| "json_str _ = Inl TypeError"

text \<open>\<open>a or b\<close> on JSON values.\<close>

definition py_or :: "json \<Rightarrow> json \<Rightarrow> json" where
  "py_or a b = (if py_truthy a then a else b)"

text \<open>\<open>x in c\<close> for a string or \<open>None\<close> needle: key membership in a dict, element
  equality in a list, substring test in a string (where \<open>None\<close> raises), \<open>TypeError\<close> for
  a container that is not iterable.\<close>

fun py_in :: "string option \<Rightarrow> json \<Rightarrow> py_error + bool" where
  "py_in (Some s) (OBJECT kv) = Inr (s \<in> fst ` set kv)"
| "py_in None (OBJECT kv) = Inr False"
| "py_in (Some s) (ARRAY xs) = Inr (STRING s \<in> set xs)"
| "py_in None (ARRAY xs) = Inr (NULL \<in> set xs)"
| "py_in (Some s) (STRING t) = Inr (sublist s t)"
| "py_in None (STRING t) = Inl TypeError"
| "py_in _ _ = Inl TypeError"

text \<open>Iterating over a JSON value: a list's elements, a dict's keys, a string's
  characters.\<close>

fun py_iter :: "json \<Rightarrow> py_error + json list" where
  "py_iter (ARRAY xs) = Inr xs"
| "py_iter (OBJECT kv) = Inr (map (STRING \<circ> fst) kv)"
| "py_iter (STRING s) = Inr (map (\<lambda>c. STRING [c]) s)"
| "py_iter _ = Inl TypeError"

text \<open>A call \<open>f(k1=v1, ..., **extra)\<close> raises \<open>TypeError\<close> when \<open>extra\<close> repeats an
  explicit keyword; \<open>d.setdefault(k, v)\<close> adds \<open>k\<close> only when it is absent.\<close>

definition py_kwargs :: "(string \<times> json) list \<Rightarrow> (string \<times> json) list \<Rightarrow> py_error + (string \<times> json) list" where
  "py_kwargs explicit extra =
     (if list_ex (\<lambda>kv. fst kv \<in> set (map fst explicit)) extra then Inl TypeError else Inr (explicit @ extra))"

definition py_setdefault :: "string \<Rightarrow> json \<Rightarrow> (string \<times> json) list \<Rightarrow> (string \<times> json) list" where
  "py_setdefault k v d = (if k \<in> set (map fst d) then d else d @ [(k, v)])"

text \<open>A list comprehension \<open>[x for x in xs if p(x)]\<close> whose condition may
  raise.\<close>

fun filter_sum :: "('a \<Rightarrow> 'e + bool) \<Rightarrow> 'a list \<Rightarrow> 'e + 'a list" where
  "filter_sum p [] = Inr []"
| "filter_sum p (x # xs) = sum_bind (p x) (\<lambda>b. sum_bind (filter_sum p xs) (\<lambda>ys. Inr (if b then x # ys else ys)))"

section \<open>Strings and regular expressions\<close>

text \<open>\<open>str.isspace\<close> on the 8-bit characters (also the whitespace class of \<open>re\<close>) and
  \<open>str.strip()\<close>.\<close>

definition py_isspace :: "char \<Rightarrow> bool" where
  "py_isspace c = (of_char c \<in> {9, 10, 11, 12, 13, 28, 29, 30, 31, 32, 133, 160 :: nat})"

definition py_strip :: "string \<Rightarrow> string" where
  "py_strip s = rev (dropWhile py_isspace (rev (dropWhile py_isspace s)))"

text \<open>\<open>s.split(sep)\<close> for a non-empty separator, and
  \<open>sep.join(parts)\<close>.\<close>

function py_split_aux :: "string \<Rightarrow> string \<Rightarrow> string \<Rightarrow> string list" where
  "py_split_aux sep acc [] = [rev acc]"
| "py_split_aux sep acc (c # cs) =
     (if sep \<noteq> [] \<and> prefix sep (c # cs)
      then rev acc # py_split_aux sep [] (drop (length sep) (c # cs))
      else py_split_aux sep (c # acc) cs)"
  by pat_completeness auto
termination
  by (relation "measure (\<lambda>(sep, acc, s). length s)") auto

fun py_join :: "string \<Rightarrow> string list \<Rightarrow> string" where
  "py_join sep [] = []"
| "py_join sep [x] = x"
| "py_join sep (x # y # xs) = x @ sep @ py_join sep (y # xs)"

definition py_split :: "string \<Rightarrow> string \<Rightarrow> string list" where
  "py_split sep s = py_split_aux sep [] s"

text \<open>\<open>re.sub(pattern, repl, s)\<close> with a literal replacement: at each position the matcher
  is tried; a non-empty match is replaced and scanning resumes after it, otherwise one character
  is copied. \<open>re.search(pattern, s)\<close> returns the leftmost match as (start, length).\<close>

function (domintros) re_sub :: "(string \<Rightarrow> nat option) \<Rightarrow> string \<Rightarrow> string \<Rightarrow> string" where
  "re_sub m r [] = []"
| "re_sub m r (c # cs) =
     (case m (c # cs) of
        Some n \<Rightarrow> if 0 < n then r @ re_sub m r (drop n (c # cs)) else c # re_sub m r cs
      | None \<Rightarrow> c # re_sub m r cs)"
  by pat_completeness auto
termination
  by (relation "measure (\<lambda>(m, r, s). length s)") auto

fun re_search :: "(string \<Rightarrow> nat option) \<Rightarrow> string \<Rightarrow> (nat \<times> nat) option" where
  "re_search m [] = map_option (Pair 0) (m [])"
| "re_search m (c # cs) =
     (case m (c # cs) of
        Some n \<Rightarrow> Some (0, n)
      | None \<Rightarrow> map_option (\<lambda>(i, n). (Suc i, n)) (re_search m cs))"

text \<open>The matcher of a literal string, and \<open>s.replace(old, new)\<close> for non-empty \<open>old\<close>,
  which replaces the non-overlapping occurrences from left to right.\<close>

definition match_literal :: "string \<Rightarrow> string \<Rightarrow> nat option" where
  "match_literal w s = (if w \<noteq> [] \<and> prefix w s then Some (length w) else None)"

definition py_replace :: "string \<Rightarrow> string \<Rightarrow> string \<Rightarrow> string" where
  "py_replace old new s = re_sub (match_literal old) new s"

section \<open>Paths and \<open>defaultdict(list)\<close>\<close>

text \<open>\<open>os.path.basename\<close> and \<open>os.path.join\<close> of two components (POSIX).\<close>

definition py_basename :: "string \<Rightarrow> string" where
  "py_basename p = rev (takeWhile (\<lambda>c. c \<noteq> CHR ''/'') (rev p))"

definition path_join :: "string \<Rightarrow> string \<Rightarrow> string" where
  "path_join a b =
     (if b \<noteq> [] \<and> hd b = CHR ''/'' then b
      else if a = [] \<or> endswith a ''/'' then a @ b
      else a @ ''/'' @ b)"

text \<open>\<open>d[k].append(v)\<close> on a \<open>defaultdict(list)\<close>: a new key is added at the end.\<close>

definition dict_append :: "'k \<Rightarrow> 'v \<Rightarrow> ('k \<times> 'v list) list \<Rightarrow> ('k \<times> 'v list) list" where
  "dict_append k v d = AList.update k ((case map_of d k of None \<Rightarrow> [] | Some vs \<Rightarrow> vs) @ [v]) d"

section \<open>Lemmas\<close>

lemma sum_bind_eq_Inr [simp]: "sum_bind x f = Inr y \<longleftrightarrow> (\<exists>a. x = Inr a \<and> f a = Inr y)"
  by (cases x) auto

lemma sum_bind_Inr [simp]: "sum_bind (Inr a) f = f a"
  by simp

lemma py_join_Cons: "xs \<noteq> [] \<Longrightarrow> py_join sep (x # xs) = x @ sep @ py_join sep xs"
  by (cases xs) auto

lemma py_split_aux_nonempty [simp]: "py_split_aux sep acc s \<noteq> []"
  by (induction sep acc s rule: py_split_aux.induct) auto

lemma py_split_aux_py_join:
  "sep \<noteq> [] \<Longrightarrow> py_join sep (py_split_aux sep acc s) = rev acc @ s"
proof (induction sep acc s rule: py_split_aux.induct)
  case (1 sep acc)
  then show ?case by simp
next
  case (2 sep acc c cs)
  show ?case
  proof (cases "prefix sep (c # cs)")
    case True
    define t where "t = drop (length sep) (c # cs)"
    have sp: "py_split_aux sep acc (c # cs) = rev acc # py_split_aux sep [] t"
      using True "2.prems" by (simp add: t_def)
    have cs: "c # cs = sep @ t"
      using True by (auto simp: t_def prefix_def)
    have "py_join sep (py_split_aux sep [] t) = t"
      using "2.IH"(1) True "2.prems" by (simp add: t_def)
    then show ?thesis
      by (subst sp) (simp add: py_join_Cons cs)
  next
    case False
    with 2 show ?thesis by simp
  qed
qed

lemma py_split_py_join: "sep \<noteq> [] \<Longrightarrow> py_join sep (py_split sep s) = s"
  by (simp add: py_split_def py_split_aux_py_join)

lemma py_split_aux_char_absent:
  "c \<notin> set s \<Longrightarrow> py_split_aux [c] acc (s @ t) = py_split_aux [c] (rev s @ acc) t"
  by (induction s arbitrary: acc) auto

lemma py_split_two:
  "c \<notin> set x \<Longrightarrow> c \<notin> set y \<Longrightarrow> py_split [c] (x @ c # y) = [x, y]"
  using py_split_aux_char_absent [of c x "[]" "c # y"] py_split_aux_char_absent [of c y "[]" "[]"]
  by (simp add: py_split_def)

lemma py_split_aux_parts_length:
  "y \<in> set (py_split_aux sep acc s) \<Longrightarrow> length y \<le> length acc + length s"
proof (induction sep acc s rule: py_split_aux.induct)
  case (2 sep acc c cs)
  then show ?case by (auto split: if_splits)
qed simp

lemma py_split_char_two:
  "c \<in> set s \<Longrightarrow> \<exists>x y zs. py_split [c] s = x # y # zs"
proof -
  assume "c \<in> set s"
  then obtain s1 s2 where s: "s = s1 @ c # s2" "c \<notin> set s1" by (metis split_list_first)
  then have "py_split [c] s = rev (rev s1) # py_split_aux [c] [] s2"
    using py_split_aux_char_absent [of c s1 "[]" "c # s2"] by (simp add: py_split_def)
  moreover obtain y zs where "py_split_aux [c] [] s2 = y # zs"
    using py_split_aux_nonempty by (metis list.exhaust)
  ultimately show ?thesis by simp
qed

lemma takeWhile_ne_append: "x \<notin> set xs \<Longrightarrow> takeWhile (\<lambda>c. c \<noteq> x) (xs @ ys) = xs @ takeWhile (\<lambda>c. c \<noteq> x) ys"
  by (induction xs) auto

lemma dropWhile_ne_append: "x \<notin> set xs \<Longrightarrow> dropWhile (\<lambda>c. c \<noteq> x) (xs @ ys) = dropWhile (\<lambda>c. c \<noteq> x) ys"
  by (induction xs) auto

lemma rev_dropWhile_rev_prefix: "prefix (rev (dropWhile P (rev l))) l"
proof -
  have "l = rev (dropWhile P (rev l)) @ rev (takeWhile P (rev l))"
    by (metis rev_append rev_rev_ident takeWhile_dropWhile_id)
  then show ?thesis by (metis prefixI)
qed

lemma length_py_strip: "length (py_strip s) \<le> length s"
  unfolding py_strip_def
  by (metis length_dropWhile_le length_rev le_trans)

lemma no_match_before:
  "(\<And>c s. m (c # s) \<noteq> None \<Longrightarrow> c = x) \<Longrightarrow> x \<notin> set a \<Longrightarrow> \<forall>i<length a. m (drop i a @ rest) = None"
proof (intro allI impI)
  fix i assume "(\<And>c s. m (c # s) \<noteq> None \<Longrightarrow> c = x)" "x \<notin> set a" "i < length a"
  moreover have "drop i a @ rest = a ! i # (drop (Suc i) a @ rest)"
    using \<open>i < length a\<close> by (simp add: Cons_nth_drop_Suc)
  ultimately show "m (drop i a @ rest) = None" by (metis nth_mem)
qed

lemma re_sub_no_match:
  "(\<forall>i<length a. m (drop i a @ rest) = None) \<Longrightarrow> re_sub m r (a @ rest) = a @ re_sub m r rest"
proof (induction a)
  case Nil
  then show ?case by simp
next
  case (Cons c a)
  have "m (drop 0 (c # a) @ rest) = None" using Cons.prems by blast
  moreover have "m (drop i a @ rest) = None" if "i < length a" for i
    using Cons.prems that by (metis Suc_less_eq drop_Suc_Cons length_Cons)
  ultimately show ?case using Cons.IH by simp
qed

lemma prefix_replacement_disjoint:
  "r \<noteq> [] \<Longrightarrow> set w \<inter> set r = {} \<Longrightarrow> w \<noteq> [] \<Longrightarrow> \<not> prefix w (r @ x)"
  by (cases w; cases r) auto

lemma re_sub_prefix:
  "r \<noteq> [] \<Longrightarrow> set w \<inter> set r = {} \<Longrightarrow> prefix w (re_sub m r s) \<Longrightarrow> prefix w s"
proof (induction m r s arbitrary: w rule: re_sub.induct)
  case (1 m r)
  then show ?case by simp
next
  case (2 m r c cs)
  show ?case
  proof (cases "\<exists>n. m (c # cs) = Some n \<and> 0 < n")
    case True
    then obtain n where "m (c # cs) = Some n" "0 < n" by blast
    then have "re_sub m r (c # cs) = r @ re_sub m r (drop n (c # cs))" by simp
    with "2.prems"(3) have pw: "prefix w (r @ re_sub m r (drop n (c # cs)))" by simp
    show ?thesis
    proof (cases "w = []")
      case False
      from prefix_replacement_disjoint [OF "2.prems"(1,2) False] pw show ?thesis by blast
    qed simp
  next
    case False
    then have eq: "re_sub m r (c # cs) = c # re_sub m r cs"
      by (cases "m (c # cs)") auto
    show ?thesis
    proof (cases w)
      case (Cons a w')
      with "2.prems" eq have "a = c" "prefix w' (re_sub m r cs)" "set w' \<inter> set r = {}" by auto
      moreover have "prefix w' cs"
      proof (cases "m (c # cs)")
        case None
        with "2.IH"(1) "2.prems"(1) \<open>prefix w' (re_sub m r cs)\<close> \<open>set w' \<inter> set r = {}\<close>
        show ?thesis by blast
      next
        case (Some n)
        with False "2.IH"(3) "2.prems"(1) \<open>prefix w' (re_sub m r cs)\<close> \<open>set w' \<inter> set r = {}\<close>
        show ?thesis by blast
      qed
      ultimately show ?thesis using Cons by simp
    qed simp
  qed
qed

lemma sublist_replacement_disjoint:
  "set w \<inter> set r = {} \<Longrightarrow> w \<noteq> [] \<Longrightarrow> sublist w (r @ x) \<Longrightarrow> sublist w x"
proof (induction r)
  case (Cons a r)
  then have "\<not> prefix w (a # r @ x)" by (cases w) auto
  with Cons show ?case by (auto simp: sublist_Cons_right)
qed simp

lemma re_sub_no_sublist:
  "r \<noteq> [] \<Longrightarrow> set w \<inter> set r = {} \<Longrightarrow> w \<noteq> [] \<Longrightarrow>
   (\<forall>s. prefix w s \<longrightarrow> (\<exists>n. m s = Some n \<and> 0 < n)) \<Longrightarrow> \<not> sublist w (re_sub m r s)"
proof (induction m r s rule: re_sub.induct)
  case (1 m r)
  then show ?case by simp
next
  case (2 m r c cs)
  show ?case
  proof (cases "\<exists>n. m (c # cs) = Some n \<and> 0 < n")
    case True
    then obtain n where n: "m (c # cs) = Some n" "0 < n" by blast
    then have "re_sub m r (c # cs) = r @ re_sub m r (drop n (c # cs))" by simp
    moreover have "\<not> sublist w (re_sub m r (drop n (c # cs)))"
      using "2.IH"(2) [OF n(1) n(2)] "2.prems" by simp
    ultimately show ?thesis
      using sublist_replacement_disjoint "2.prems"(2,3) by metis
  next
    case False
    then have eq: "re_sub m r (c # cs) = c # re_sub m r cs"
      by (cases "m (c # cs)") auto
    have "\<not> sublist w (re_sub m r cs)"
    proof (cases "m (c # cs)")
      case None
      with "2.IH"(1) "2.prems" show ?thesis by blast
    next
      case (Some n)
      with False "2.IH"(3) "2.prems" show ?thesis by blast
    qed
    moreover have "\<not> prefix w (c # re_sub m r cs)"
    proof
      assume "prefix w (c # re_sub m r cs)"
      then have "prefix w (c # cs)"
        using re_sub_prefix [of r w m "c # cs"] eq "2.prems"(1,2) by simp
      with "2.prems"(4) False show False by blast
    qed
    ultimately show ?thesis using eq by (simp add: sublist_Cons_right)
  qed
qed

lemma re_sub_length_le:
  "(\<forall>s n. m s = Some n \<longrightarrow> 0 < n \<longrightarrow> length r \<le> n \<and> n \<le> length s) \<Longrightarrow>
   length (re_sub m r s) \<le> length s"
proof (induction m r s rule: re_sub.induct)
  case (2 m r c cs)
  show ?case
  proof (cases "m (c # cs)")
    case None
    with "2.IH"(1) "2.prems" show ?thesis by simp
  next
    case (Some n)
    show ?thesis
    proof (cases "0 < n")
      case True
      with Some "2.prems" have "length r \<le> n" "n \<le> length (c # cs)" by blast+
      moreover have "length (re_sub m r (drop n (c # cs))) \<le> length (drop n (c # cs))"
        using "2.IH"(2) [OF Some True] "2.prems" by simp
      ultimately show ?thesis using Some True by simp
    next
      case False
      with Some "2.IH"(3) "2.prems" show ?thesis by simp
    qed
  qed
qed simp

lemma re_sub_literal_absent:
  "\<not> sublist w s \<Longrightarrow> re_sub (match_literal w) r s = s"
proof (induction s)
  case (Cons c cs)
  then have "\<not> prefix w (c # cs)" "\<not> sublist w cs"
    by (auto simp: sublist_Cons_right)
  with Cons.IH show ?case by (simp add: match_literal_def)
qed simp

lemma match_literal_head: "match_literal (x # w) (c # s) \<noteq> None \<Longrightarrow> c = x"
  by (simp add: match_literal_def split: if_splits)

lemma py_replace_once:
  assumes "x \<notin> set a" "\<not> sublist (x # w) b"
  shows "py_replace (x # w) r (a @ (x # w) @ b) = a @ r @ b"
proof -
  have "\<forall>i<length a. match_literal (x # w) (drop i a @ (x # w) @ b) = None"
    using no_match_before [of "match_literal (x # w)" x a] match_literal_head assms(1) by blast
  then have "py_replace (x # w) r (a @ (x # w) @ b) = a @ re_sub (match_literal (x # w)) r ((x # w) @ b)"
    by (simp add: py_replace_def re_sub_no_match)
  also have "re_sub (match_literal (x # w)) r ((x # w) @ b) = r @ b"
    using re_sub_literal_absent [OF assms(2)] by (simp add: match_literal_def)
  finally show ?thesis .
qed

lemma re_search_here: "m s = Some n \<Longrightarrow> re_search m s = Some (0, n)"
  by (cases s) auto

lemma re_search_Some:
  "re_search m s = Some (i, n) \<Longrightarrow> i \<le> length s \<and> m (drop i s) = Some n \<and> (\<forall>j<i. m (drop j s) = None)"
proof (induction m s arbitrary: i rule: re_search.induct)
  case (2 m c cs)
  show ?case
  proof (cases "m (c # cs)")
    case None
    with "2.prems" obtain i' where "i = Suc i'" "re_search m cs = Some (i', n)" by auto
    with "2.IH" [OF None] None show ?thesis
      by (auto simp: less_Suc_eq_0_disj)
  qed (use "2.prems" in auto)
qed auto

lemma re_search_append:
  "(\<forall>i<length a. m (drop i a @ rest) = None) \<Longrightarrow>
   re_search m (a @ rest) = map_option (\<lambda>(i, n). (length a + i, n)) (re_search m rest)"
proof (induction a)
  case Nil
  then show ?case by (simp add: option.map_ident case_prod_beta)
next
  case (Cons c a)
  have "m (drop 0 (c # a) @ rest) = None" using Cons.prems by blast
  moreover have "m (drop i a @ rest) = None" if "i < length a" for i
    using Cons.prems that by (metis Suc_less_eq drop_Suc_Cons length_Cons)
  ultimately show ?case using Cons.IH by (simp add: option.map_comp comp_def case_prod_beta)
qed

lemma map_of_dict_append:
  "map_of (dict_append k v d) k' = (if k' = k then Some ((case map_of d k of None \<Rightarrow> [] | Some vs \<Rightarrow> vs) @ [v]) else map_of d k')"
  by (simp add: dict_append_def update_conv')

lemma map_fst_dict_append:
  "map fst (dict_append k v d) = (if k \<in> set (map fst d) then map fst d else map fst d @ [k])"
  unfolding dict_append_def
  by (induction d) auto

lemma fold_dict_append_keys:
  "distinct (map fst d) \<Longrightarrow>
   distinct (map fst (fold (\<lambda>x acc. dict_append (f x) (g x) acc) xs d)) \<and>
   set (map fst (fold (\<lambda>x acc. dict_append (f x) (g x) acc) xs d)) = set (map fst d) \<union> f ` set xs"
proof (induction xs arbitrary: d)
  case (Cons x xs)
  have "distinct (map fst (dict_append (f x) (g x) d))"
    "set (map fst (dict_append (f x) (g x) d)) = set (map fst d) \<union> {f x}"
    using Cons.prems by (auto simp: map_fst_dict_append)
  with Cons.IH [of "dict_append (f x) (g x) d"] show ?case by auto
qed simp

lemma fold_dict_append_map_of:
  "map_of (fold (\<lambda>x acc. dict_append (f x) (g x) acc) xs d) b =
     (if b \<in> f ` set xs
      then Some ((case map_of d b of None \<Rightarrow> [] | Some vs \<Rightarrow> vs) @ map g (filter (\<lambda>x. f x = b) xs))
      else map_of d b)"
proof (induction xs arbitrary: d)
  case (Cons x xs)
  show ?case
    by (auto simp: Cons.IH map_of_dict_append filter_empty_conv split: option.splits) (metis image_eqI)
qed simp

end
