(* ===== verification/EvaluationRuns.thy ===== *)
theory EvaluationRuns
  imports Evaluation PyLib
begin

text \<open>
  The entry points of the story evaluation (\<open>src/rasa/core/test.py\<close>) around
  \<open>collect_story_predictions\<close>: \<open>test\<close> with the files it writes
  (\<open>log_failed_stories\<close>, the confusion-matrix plot), \<open>_evaluate_core_model\<close>, and the
  model comparisons \<open>compare_models\<close> and \<open>compare_models_in_dir\<close> with the results file
  they write. Loading an agent, generating trackers from a story file, the metrics of
  \<open>get_evaluation_metrics\<close>, exporting a tracker as a story and listing a directory are
  outside the sources and are parameters. A written file is its path and its content.
  The story lines of the marker events that mark wrong predictions are here too.
\<close>

section \<open>Constants of \<open>rasa.constants\<close>\<close>

definition RESULTS_FILE :: string where
  "RESULTS_FILE = ''results.json''"

definition PERCENTAGE_KEY :: string where
  "PERCENTAGE_KEY = ''__percentage__''"

section \<open>\<open>test\<close> and \<open>log_failed_stories\<close>\<close>

text \<open>\<open>log_failed_stories\<close>: nothing without an output directory; otherwise
  \<open>failed_stories.md\<close> with each failed story followed by a blank line, or a comment
  saying all stories passed.\<close>

definition log_failed_stories :: "(tracker \<Rightarrow> string) \<Rightarrow> tracker list \<Rightarrow> string option \<Rightarrow> (string \<times> string) option" where
  "log_failed_stories export_stories failed out_directory =
     (case out_directory of
        None \<Rightarrow> None
      | Some d \<Rightarrow>
          if d = [] then None
          else Some (path_join d ''failed_stories.md'',
                     if failed = [] then ''<!-- All stories passed -->''
                     else concat (map (\<lambda>f. export_stories f @ ''\<newline>\<newline>'') failed)))"

text \<open>What \<open>test\<close> returns: the metrics of the serialised store (report, precision, F1,
  accuracy, as \<open>get_evaluation_metrics\<close> computes them), the action list, the in-data
  fraction and the end-to-end flag.\<close>

record 'm test_result =
  tr_metrics :: 'm
  tr_actions :: "tracker_action list"
  tr_in_training_data_fraction :: real
  tr_is_end_to_end :: bool

datatype test_output = PlotFile string | WrittenFile string string

text \<open>\<open>plot_story_evaluation\<close>: the evaluation table goes to the log; unless plotting is
  disabled, the confusion matrix of the action targets and predictions is saved as
  \<open>story_confmat.pdf\<close> in the output directory.\<close>

definition plot_story_evaluation :: "string \<Rightarrow> bool \<Rightarrow> test_output list" where
  "plot_story_evaluation out_directory disable_plotting =
     (if disable_plotting then [] else [PlotFile (path_join out_directory ''story_confmat.pdf'')])"

definition test ::
  "processor \<Rightarrow> story_event list list \<Rightarrow> string option \<Rightarrow> bool \<Rightarrow> bool \<Rightarrow> bool \<Rightarrow>
   (string option list \<Rightarrow> string option list \<Rightarrow> 'm) \<Rightarrow> (entity_dict \<Rightarrow> string) \<Rightarrow> (tracker \<Rightarrow> string) \<Rightarrow>
   eval_error + 'm test_result \<times> test_output list" where
  "test agent completed_trackers out_directory fail_on_prediction_errors e2e disable_plotting
        get_evaluation_metrics md export_stories =
     (case collect_story_predictions agent completed_trackers fail_on_prediction_errors e2e of
        Inl e \<Rightarrow> Inl e
      | Inr (story_evaluation, _, _) \<Rightarrow>
          (let (targets, predictions) = serialise md (se_store story_evaluation);
               metrics = get_evaluation_metrics targets predictions;
               plots = (case out_directory of
                          Some d \<Rightarrow> if d \<noteq> [] then plot_story_evaluation d disable_plotting else []
                        | None \<Rightarrow> []);
               failed = (case log_failed_stories export_stories (failed_stories story_evaluation) out_directory of
                           None \<Rightarrow> []
                         | Some (p, c) \<Rightarrow> [WrittenFile p c])
           in Inr (\<lparr>tr_metrics = metrics, tr_actions = action_list story_evaluation,
                    tr_in_training_data_fraction = se_fraction story_evaluation, tr_is_end_to_end = e2e\<rparr>,
                   plots @ failed)))"

section \<open>Marker events as story lines\<close>

text \<open>\<open>"{}".format(x)\<close> of an optional string: \<open>None\<close> prints as \<open>None\<close>.\<close>

fun py_format_opt :: "string option \<Rightarrow> string" where
  "py_format_opt None = ''None''"
| "py_format_opt (Some s) = s"

text \<open>\<open>WronglyPredictedAction.as_story_string\<close>.\<close>

definition wrongly_predicted_action_story :: "string \<Rightarrow> string \<Rightarrow> string" where
  "wrongly_predicted_action_story action_name predicted_action =
     action_name @ ''   <!-- predicted: '' @ predicted_action @ '' -->''"

text \<open>\<open>WronglyClassifiedUserUtterance\<close>: the text, the gold intent
  (\<open>{"name": intent_targets[0]}\<close>, kept as its name) and gold entities of the store, and
  the first predicted intent (\<open>None\<close> when there is none) and the predicted entities.\<close>

record wrong_utterance =
  wu_text :: string
  wu_intent :: "string option"
  wu_entities :: "entity_dict list"
  wu_predicted_intent :: "string option"
  wu_predicted_entities :: "entity_dict list"

definition wrongly_classified_user_utterance :: "string \<Rightarrow> evaluation_store \<Rightarrow> eval_error + wrong_utterance" where
  "wrongly_classified_user_utterance text eval_store =
     (if intent_targets eval_store = [] then Inl EvalIndexError
      else Inr \<lparr>wu_text = text, wu_intent = hd (intent_targets eval_store),
                wu_entities = entity_targets eval_store,
                wu_predicted_intent = (if intent_predictions eval_store = [] then None
                                       else hd (intent_predictions eval_store)),
                wu_predicted_entities = entity_predictions eval_store\<rparr>)"

text \<open>Its \<open>as_story_string\<close>, with \<open>rasa.core.events.md_format_message\<close> (outside the
  sources) as a parameter.\<close>

definition wrongly_classified_story ::
  "(string \<Rightarrow> string option \<Rightarrow> entity_dict list \<Rightarrow> string) \<Rightarrow> wrong_utterance \<Rightarrow> string" where
  "wrongly_classified_story md_format_message u =
     py_format_opt (wu_intent u) @ '': '' @ md_format_message (wu_text u) (wu_intent u) (wu_entities u) @
     ''   <!-- predicted: '' @ py_format_opt (wu_predicted_intent u) @ '': '' @
     md_format_message (wu_text u) (wu_predicted_intent u) (wu_predicted_entities u) @ '' -->''"

section \<open>Comparing models\<close>

text \<open>\<open>Agent.load\<close> and \<open>_generate_trackers\<close> for a story file with the loaded agent.\<close>

record agent_runtime =
  agent_load :: "string \<Rightarrow> processor"
  generate_trackers :: "string \<Rightarrow> processor \<Rightarrow> story_event list list"

text \<open>\<open>_evaluate_core_model\<close>: the number of stories minus the number of failed stories.\<close>

definition evaluate_core_model :: "agent_runtime \<Rightarrow> string \<Rightarrow> string \<Rightarrow> eval_error + int" where
  "evaluate_core_model rt model stories_file =
     (let agent = agent_load rt model;
          completed_trackers = generate_trackers rt stories_file agent
      in case collect_story_predictions agent completed_trackers False False of
           Inl e \<Rightarrow> Inl e
         | Inr (story_eval_store, number_of_stories, _) \<Rightarrow>
             Inr (int number_of_stories - int (length (failed_stories story_eval_store))))"

fun compare_models_acc ::
  "agent_runtime \<Rightarrow> string \<Rightarrow> string list \<Rightarrow> (string \<times> int list) list \<Rightarrow> eval_error + (string \<times> int list) list" where
  "compare_models_acc rt stories_file [] acc = Inr acc"
| "compare_models_acc rt stories_file (model # models) acc =
     (case evaluate_core_model rt model stories_file of
        Inl e \<Rightarrow> Inl e
      | Inr k \<Rightarrow> compare_models_acc rt stories_file models (dict_append (py_basename model) k acc))"

text \<open>\<open>compare_models\<close>: the results file maps each model's file name to its counts.\<close>

definition compare_models ::
  "agent_runtime \<Rightarrow> string list \<Rightarrow> string \<Rightarrow> string \<Rightarrow> eval_error + string \<times> (string \<times> int list) list" where
  "compare_models rt models stories_file output =
     (case compare_models_acc rt stories_file models [] of
        Inl e \<Rightarrow> Inl e
      | Inr number_correct \<Rightarrow> Inr (path_join output RESULTS_FILE, number_correct))"

text \<open>One run of \<open>compare_models_in_dir\<close>: the \<open>tar.gz\<close> files of the run in sorted
  order, grouped by the configuration name before \<open>PERCENTAGE_KEY\<close>.\<close>

fun run_models_acc ::
  "agent_runtime \<Rightarrow> string \<Rightarrow> string list \<Rightarrow> (string \<times> int list) list \<Rightarrow> eval_error + (string \<times> int list) list" where
  "run_models_acc rt stories_file [] acc = Inr acc"
| "run_models_acc rt stories_file (model # models) acc =
     (if \<not> endswith model ''tar.gz'' then run_models_acc rt stories_file models acc
      else
        (let config_name = hd (py_split PERCENTAGE_KEY (py_basename model)) in
         case evaluate_core_model rt model stories_file of
           Inl e \<Rightarrow> Inl e
         | Inr k \<Rightarrow> run_models_acc rt stories_file models (dict_append config_name k acc)))"

fun runs_acc ::
  "agent_runtime \<Rightarrow> (string \<Rightarrow> string list) \<Rightarrow> string \<Rightarrow> string list \<Rightarrow> (string \<times> int list list) list \<Rightarrow>
   eval_error + (string \<times> int list list) list" where
  "runs_acc rt list_files stories_file [] acc = Inr acc"
| "runs_acc rt list_files stories_file (run # runs) acc =
     (case run_models_acc rt stories_file (sort (list_files run)) [] of
        Inl e \<Rightarrow> Inl e
      | Inr number_correct_in_run \<Rightarrow>
          runs_acc rt list_files stories_file runs
            (fold (\<lambda>(k, v) acc. dict_append k v acc) number_correct_in_run acc))"

definition compare_models_in_dir ::
  "agent_runtime \<Rightarrow> (string \<Rightarrow> string list) \<Rightarrow> (string \<Rightarrow> string list) \<Rightarrow> string \<Rightarrow> string \<Rightarrow> string \<Rightarrow>
   eval_error + string \<times> (string \<times> int list list) list" where
  "compare_models_in_dir rt list_subdirectories list_files model_dir stories_file output =
     (case runs_acc rt list_files stories_file (list_subdirectories model_dir) [] of
        Inl e \<Rightarrow> Inl e
      | Inr number_correct \<Rightarrow> Inr (path_join output RESULTS_FILE, number_correct))"

section \<open>Examples\<close>

text \<open>An agent that always predicts \<open>action_listen\<close> and a story file with one story
  of two turns.\<close>

definition ex_runtime :: agent_runtime where
  "ex_runtime = \<lparr>agent_load = (\<lambda>m. ex_proc), generate_trackers = (\<lambda>s a. [ex_story ex_u1 ex_u2])\<rparr>"

section \<open>Lemmas\<close>

lemma compare_models_acc_Inr:
  "compare_models_acc rt sf models acc = Inr r \<Longrightarrow>
   \<exists>ks. list_all2 (\<lambda>m k. evaluate_core_model rt m sf = Inr k) models ks \<and>
        r = fold (\<lambda>x acc. dict_append (py_basename (fst x)) (snd x) acc) (zip models ks) acc"
proof (induction models arbitrary: acc)
  case (Cons m ms)
  then obtain k where k: "evaluate_core_model rt m sf = Inr k"
    and r: "compare_models_acc rt sf ms (dict_append (py_basename m) k acc) = Inr r"
    by (auto split: sum.splits)
  from Cons.IH [OF r] obtain ks where
    "list_all2 (\<lambda>m k. evaluate_core_model rt m sf = Inr k) ms ks"
    "r = fold (\<lambda>x acc. dict_append (py_basename (fst x)) (snd x) acc) (zip ms ks) (dict_append (py_basename m) k acc)"
    by blast
  with k show ?case by (intro exI [of _ "k # ks"]) simp
qed simp

text \<open>\<open>compare_models\<close> writes \<open>results.json\<close> in the output directory; each file name
  of a model is a key once, and maps to the counts of correct stories of the models with that
  file name, in the order of the list.\<close>

theorem compare_models_groups:
  assumes "compare_models rt models stories_file output = Inr (path, number_correct)"
  shows "path = path_join output ''results.json'' \<and> distinct (map fst number_correct) \<and>
    (\<exists>ks. list_all2 (\<lambda>m k. evaluate_core_model rt m stories_file = Inr k) models ks \<and>
      (\<forall>b. map_of number_correct b =
             (if b \<in> py_basename ` set models
              then Some (map snd (filter (\<lambda>x. py_basename (fst x) = b) (zip models ks))) else None)))"
proof -
  obtain r where r: "compare_models_acc rt stories_file models [] = Inr r"
    and p: "path = path_join output RESULTS_FILE" and nc: "number_correct = r"
    using assms by (auto simp: compare_models_def split: sum.splits)
  from compare_models_acc_Inr [OF r] obtain ks where
    ks: "list_all2 (\<lambda>m k. evaluate_core_model rt m stories_file = Inr k) models ks"
    and rf: "r = fold (\<lambda>x acc. dict_append (py_basename (fst x)) (snd x) acc) (zip models ks) []"
    by blast
  have len: "length ks = length models" using ks by (simp add: list_all2_lengthD)
  have "fst ` set (zip models ks) = set models"
    using len by (metis map_fst_zip set_map)
  then have "py_basename ` fst ` set (zip models ks) = py_basename ` set models" by simp
  then have "map_of r b =
      (if b \<in> py_basename ` set models
       then Some (map snd (filter (\<lambda>x. py_basename (fst x) = b) (zip models ks))) else None)" for b
    unfolding rf using fold_dict_append_map_of [of "\<lambda>x. py_basename (fst x)" snd "zip models ks" "[]" b]
    by (simp add: image_image)
  moreover have "distinct (map fst r)"
    unfolding rf using fold_dict_append_keys [of "[]" "\<lambda>x. py_basename (fst x)" snd "zip models ks"] by simp
  ultimately show ?thesis using p nc ks by (auto simp: RESULTS_FILE_def)
qed

theorem compare_models_groups_witness:
  "compare_models ex_runtime [''a/m.tar.gz'', ''b/m.tar.gz''] ''stories.md'' ''out'' =
     Inr (''out/results.json'', [(''m.tar.gz'', [1, 1])]) \<and>
   (\<exists>ks. list_all2 (\<lambda>m k. evaluate_core_model ex_runtime m ''stories.md'' = Inr k)
          [''a/m.tar.gz'', ''b/m.tar.gz''] ks)"
proof -
  have c: "compare_models ex_runtime [''a/m.tar.gz'', ''b/m.tar.gz''] ''stories.md'' ''out'' =
     Inr (''out/results.json'', [(''m.tar.gz'', [1, 1])])"
    by code_simp
  from compare_models_groups [OF c] c show ?thesis by blast
qed

text \<open>C22. _evaluate_core_model returns the number of stories whose replay has no
  prediction-target mismatch, so the count lies between 0 and the number of stories.\<close>

theorem evaluate_core_model_counts:
  assumes "evaluate_core_model rt model stories_file = Inr k"
  shows "\<exists>res. list_all2 (\<lambda>st x. predict_tracker_actions (agent_load rt model) st False False = Inr x)
                 (generate_trackers rt stories_file (agent_load rt model)) res \<and>
              k = int (length (filter (\<lambda>x. \<not> has_prediction_target_mismatch (fst x)) res)) \<and>
              0 \<le> k \<and> k \<le> int (length (generate_trackers rt stories_file (agent_load rt model)))"
proof -
  let ?agent = "agent_load rt model"
  let ?ts = "generate_trackers rt stories_file ?agent"
  obtain s fl cs al where c: "collect_stories ?agent False False ?ts (empty_store, [], [], []) = Inr (s, fl, cs, al)"
    and k: "k = int (length ?ts) - int (length fl)"
    using assms unfolding evaluate_core_model_def collect_story_predictions_def Let_def
    by (auto split: sum.splits prod.splits)
  from collect_stories_Inr [OF c] obtain res where
    res: "list_all2 (\<lambda>st x. predict_tracker_actions ?agent st False False = Inr x) ?ts res"
    and fl: "fl = map (\<lambda>x. fst (snd x)) (filter (\<lambda>x. has_prediction_target_mismatch (fst x)) res)"
    by auto
  have "length ?ts = length res" using res by (simp add: list_all2_lengthD)
  moreover have "length (filter (\<lambda>x. has_prediction_target_mismatch (fst x)) res) +
                 length (filter (\<lambda>x. \<not> has_prediction_target_mismatch (fst x)) res) = length res"
    by (rule sum_length_filter_compl)
  ultimately have "k = int (length (filter (\<lambda>x. \<not> has_prediction_target_mismatch (fst x)) res))"
    using k fl by simp
  moreover have "length (filter (\<lambda>x. \<not> has_prediction_target_mismatch (fst x)) res) \<le> length ?ts"
    using \<open>length ?ts = length res\<close> by simp
  ultimately show ?thesis using res by auto
qed

theorem evaluate_core_model_counts_witness:
  "evaluate_core_model ex_runtime ''m.tar.gz'' ''stories.md'' = Inr 1 \<and>
   (1 :: int) \<le> int (length (generate_trackers ex_runtime ''stories.md'' (agent_load ex_runtime ''m.tar.gz'')))"
proof -
  have e: "evaluate_core_model ex_runtime ''m.tar.gz'' ''stories.md'' = Inr 1"
    by code_simp
  from evaluate_core_model_counts [OF e] e show ?thesis by blast
qed

lemma ex_marker_stories:
  "wrongly_predicted_action_story ''utter_greet'' ''action_listen'' = ''utter_greet   <!-- predicted: action_listen -->'' \<and>
   (case wrongly_classified_user_utterance ''hello''
           (empty_store\<lparr>intent_targets := [Some ''greet''], intent_predictions := [Some ''goodbye'']\<rparr>) of
      Inr u \<Rightarrow> wrongly_classified_story (\<lambda>t i es. t) u = ''greet: hello   <!-- predicted: goodbye: hello -->''
    | Inl e \<Rightarrow> False) \<and>
   wrongly_classified_user_utterance ''hello'' empty_store = Inl EvalIndexError"
  by code_simp

end
