(* ===== verification/EvaluationPlots.thy ===== *)
theory EvaluationPlots
  imports EvaluationRuns
begin

text \<open>
  The model-comparison plots of \<open>src/rasa/core/test.py\<close>: \<open>_plot_curve\<close>, which reads
  the results file of \<open>compare_models_in_dir\<close> (configuration name to one list of
  correct-story counts per run) and draws, for each configuration with runs, the mean
  count per training-set size with a band of one standard deviation, and its two callers
  \<open>plot_nlu_results\<close> and \<open>plot_core_results\<close>. Matplotlib's figure is the record of
  what is drawn and where it is saved. The theory shows that each mean lies between the
  smallest and largest count of the runs and inside its band, and exactly when plotting
  raises.
\<close>

section \<open>The figure\<close>

text \<open>One plotted configuration: its label, the mean per x value (\<open>ax.plot\<close>) and the
  band \<open>mean - std\<close> to \<open>mean + std\<close> (\<open>ax.fill_between\<close>).\<close>

record curve =
  curve_label :: string
  curve_mean :: "real list"
  curve_lower :: "real list"
  curve_upper :: "real list"

text \<open>The saved figure: the x values, the curves in the order of the results file, the
  axis labels and the file it is saved to.\<close>

record curve_plot =
  plot_x :: "int list"
  plot_curves :: "curve list"
  plot_xlabel :: string
  plot_ylabel :: string
  plot_path :: string

section \<open>\<open>numpy\<close> along the first axis\<close>

text \<open>Column \<open>j\<close> of the runs of one configuration, and \<open>np.mean\<close> and \<open>np.std\<close>
  (population standard deviation) of a column.\<close>

definition column :: "int list list \<Rightarrow> nat \<Rightarrow> real list" where
  "column rs j = map (\<lambda>r. real_of_int (r ! j)) rs"

definition np_mean :: "real list \<Rightarrow> real" where
  "np_mean xs = sum_list xs / real (length xs)"

definition np_std :: "real list \<Rightarrow> real" where
  "np_std xs = sqrt (np_mean (map (\<lambda>v. (v - np_mean xs)\<^sup>2) xs))"

section \<open>\<open>_plot_curve\<close>, \<open>plot_nlu_results\<close>, \<open>plot_core_results\<close>\<close>

text \<open>One iteration of the loop of \<open>_plot_curve\<close> for a configuration with at least one
  run. Runs of different lengths make a ragged object array whose \<open>np.mean\<close> adds the
  lists and divides a list by an int (\<open>TypeError\<close>); a mean of another length than
  \<open>x\<close> makes \<open>ax.plot\<close> raise \<open>ValueError\<close>.\<close>

definition plot_label :: "int list \<Rightarrow> string \<Rightarrow> int list list \<Rightarrow> py_error + curve" where
  "plot_label x label rs =
     (if \<not> list_all (\<lambda>r. length r = length (hd rs)) rs then Inl TypeError
      else
        (let cols = map (column rs) [0..<length (hd rs)];
             mean = map np_mean cols; std = map np_std cols
         in if length x \<noteq> length mean then Inl (Exception ''ValueError'')
            else Inr \<lparr>curve_label = label, curve_mean = mean,
                      curve_lower = map2 (-) mean std, curve_upper = map2 (+) mean std\<rparr>))"

text \<open>The loop over \<open>data.keys()\<close>: a configuration without runs is skipped.\<close>

fun plot_labels :: "int list \<Rightarrow> (string \<times> int list list) list \<Rightarrow> py_error + curve list" where
  "plot_labels x [] = Inr []"
| "plot_labels x ((label, rs) # r) =
     (if length rs = 0 then plot_labels x r
      else
        (case plot_label x label rs of
           Inl e \<Rightarrow> Inl e
         | Inr c \<Rightarrow> (case plot_labels x r of Inl e \<Rightarrow> Inl e | Inr cs \<Rightarrow> Inr (c # cs))))"

text \<open>\<open>_plot_curve\<close>: the data is the results file that \<open>compare_models_in_dir\<close>
  writes into \<open>output\<close>, read by \<open>rasa.utils.io.read_json_file\<close> (a parameter).\<close>

definition plot_curve ::
  "(string \<Rightarrow> (string \<times> int list list) list) \<Rightarrow> string \<Rightarrow> int list \<Rightarrow> string \<Rightarrow> string \<Rightarrow> string \<Rightarrow>
   py_error + curve_plot" where
  "plot_curve read_json_file output number_of_examples x_label_text y_label_text graph_path =
     (let data = read_json_file (path_join output RESULTS_FILE); x = number_of_examples in
      case plot_labels x data of
        Inl e \<Rightarrow> Inl e
      | Inr cs \<Rightarrow> Inr \<lparr>plot_x = x, plot_curves = cs, plot_xlabel = x_label_text,
                      plot_ylabel = y_label_text, plot_path = graph_path\<rparr>)"

text \<open>\<open>plot_nlu_results\<close> and \<open>plot_core_results\<close>: the graph file and the axis labels.\<close>

definition plot_nlu_results :: "(string \<Rightarrow> (string \<times> int list list) list) \<Rightarrow> string \<Rightarrow> int list \<Rightarrow> py_error + curve_plot" where
  "plot_nlu_results read_json_file output number_of_examples =
     plot_curve read_json_file output number_of_examples
       ''Number of intent examples present during training''
       ''Label-weighted average F1 score on test set''
       (path_join output ''nlu_model_comparison_graph.pdf'')"

definition plot_core_results :: "(string \<Rightarrow> (string \<times> int list list) list) \<Rightarrow> string \<Rightarrow> int list \<Rightarrow> py_error + curve_plot" where
  "plot_core_results read_json_file output number_of_examples =
     plot_curve read_json_file output number_of_examples
       ''Number of stories present during training''
       ''Number of correct test stories''
       (path_join output ''core_model_comparison_graph.pdf'')"

section \<open>Example\<close>

text \<open>A results file with two runs of one configuration and a configuration without runs.\<close>

definition ex_results :: "string \<Rightarrow> (string \<times> int list list) list" where
  "ex_results p = (if p = ''out/results.json'' then [(''default'', [[1, 2], [3, 4]]), (''tuned'', [])] else [])"

section \<open>Lemmas\<close>

lemma plot_labels_filter:
  "plot_labels x data = map_sum (\<lambda>(l, rs). plot_label x l rs) (filter (\<lambda>(l, rs). rs \<noteq> []) data)"
  by (induction x data rule: plot_labels.induct) (auto split: sum.splits)

lemma plot_label_band:
  assumes "plot_label x l rs = Inr c"
  shows "curve_label c = l \<and> length (curve_mean c) = length x \<and>
    (\<forall>j<length x. curve_mean c ! j = (\<Sum>r\<leftarrow>rs. real_of_int (r ! j)) / real (length rs) \<and>
       curve_lower c ! j = curve_mean c ! j - sqrt ((\<Sum>r\<leftarrow>rs. (real_of_int (r ! j) - curve_mean c ! j)\<^sup>2) / real (length rs)) \<and>
       curve_upper c ! j = curve_mean c ! j + sqrt ((\<Sum>r\<leftarrow>rs. (real_of_int (r ! j) - curve_mean c ! j)\<^sup>2) / real (length rs)))"
proof -
  have x: "length x = length (hd rs)" and
    c: "c = \<lparr>curve_label = l, curve_mean = map (np_mean \<circ> column rs) [0..<length (hd rs)],
           curve_lower = map2 (-) (map (np_mean \<circ> column rs) [0..<length (hd rs)]) (map (np_std \<circ> column rs) [0..<length (hd rs)]),
           curve_upper = map2 (+) (map (np_mean \<circ> column rs) [0..<length (hd rs)]) (map (np_std \<circ> column rs) [0..<length (hd rs)])\<rparr>"
    using assms by (auto simp: plot_label_def Let_def split: if_splits)
  show ?thesis
    by (simp add: c x np_mean_def np_std_def column_def comp_def)
qed

lemma plot_label_Inr_iff:
  "rs \<noteq> [] \<Longrightarrow> (\<exists>c. plot_label x l rs = Inr c) \<longleftrightarrow> list_all (\<lambda>r. length r = length x) rs"
  by (cases rs) (auto simp: plot_label_def Let_def list_all_iff)

lemma plot_curve_Inr:
  "plot_curve read_json_file output x xl yl gp = Inr p \<longleftrightarrow>
   (\<exists>cs. map_sum (\<lambda>(l, rs). plot_label x l rs)
           (filter (\<lambda>(l, rs). rs \<noteq> []) (read_json_file (path_join output RESULTS_FILE))) = Inr cs \<and>
         p = \<lparr>plot_x = x, plot_curves = cs, plot_xlabel = xl, plot_ylabel = yl, plot_path = gp\<rparr>)"
  by (auto simp: plot_curve_def plot_labels_filter split: sum.splits)

text \<open>C23. When _plot_curve succeeds it draws one curve per configuration of the results file
  that has runs, in file order, labelled with that configuration, with one point per x
  value: the mean of the runs' counts at that x value, and the band from that mean minus
  to that mean plus the population standard deviation of those counts.\<close>

theorem plot_curve_bands:
  "plot_curve read_json_file output x xl yl gp = Inr p \<Longrightarrow>
   list_all2 (\<lambda>(l, rs) c. curve_label c = l \<and> length (curve_mean c) = length x \<and>
       (\<forall>j<length x. curve_mean c ! j = (\<Sum>r\<leftarrow>rs. real_of_int (r ! j)) / real (length rs) \<and>
          curve_lower c ! j = curve_mean c ! j - sqrt ((\<Sum>r\<leftarrow>rs. (real_of_int (r ! j) - curve_mean c ! j)\<^sup>2) / real (length rs)) \<and>
          curve_upper c ! j = curve_mean c ! j + sqrt ((\<Sum>r\<leftarrow>rs. (real_of_int (r ! j) - curve_mean c ! j)\<^sup>2) / real (length rs))))
     (filter (\<lambda>(l, rs). rs \<noteq> []) (read_json_file (path_join output RESULTS_FILE))) (plot_curves p)"
proof -
  assume "plot_curve read_json_file output x xl yl gp = Inr p"
  then obtain cs where
    l: "list_all2 (\<lambda>a c. (case a of (l, rs) \<Rightarrow> plot_label x l rs) = Inr c)
          (filter (\<lambda>(l, rs). rs \<noteq> []) (read_json_file (path_join output RESULTS_FILE))) cs" and
    p: "plot_curves p = cs"
    unfolding plot_curve_Inr map_sum_Inr_iff by auto
  show ?thesis
    unfolding p using l
    apply (rule list_all2_filter_mono)
    subgoal for lr c by (cases lr) (simp add: plot_label_band)
    done
qed

text \<open>C24. _plot_curve raises exactly when some configuration of the results file has a run
  whose number of counts differs from the number of x values: runs of different lengths
  make np.mean raise TypeError, and a mean of the wrong length makes ax.plot raise
  ValueError.\<close>

theorem plot_curve_succeeds:
  "(\<exists>p. plot_curve read_json_file output x xl yl gp = Inr p) \<longleftrightarrow>
   list_all (\<lambda>(l, rs). list_all (\<lambda>r. length r = length x) rs) (read_json_file (path_join output RESULTS_FILE))"
proof -
  have "(\<exists>p. plot_curve read_json_file output x xl yl gp = Inr p) \<longleftrightarrow>
        (\<exists>cs. plot_labels x (read_json_file (path_join output RESULTS_FILE)) = Inr cs)"
    by (auto simp: plot_curve_def split: sum.splits)
  also have "\<dots> \<longleftrightarrow> list_all (\<lambda>(l, rs). rs \<noteq> [] \<longrightarrow> (\<exists>c. plot_label x l rs = Inr c))
                      (read_json_file (path_join output RESULTS_FILE))"
    by (auto simp: plot_labels_filter map_sum_Inr_ex list_all_iff)
  also have "\<dots> \<longleftrightarrow> list_all (\<lambda>(l, rs). list_all (\<lambda>r. length r = length x) rs) (read_json_file (path_join output RESULTS_FILE))"
    by (intro list_all_cong) (auto simp: plot_label_Inr_iff)
  finally show ?thesis .
qed

lemma ex_out_paths:
  "path_join ''out'' RESULTS_FILE = ''out/results.json''"
  "path_join ''out'' ''core_model_comparison_graph.pdf'' = ''out/core_model_comparison_graph.pdf''"
  by code_simp+

lemma ex_plot_core_results:
  "plot_core_results ex_results ''out'' [10, 20] =
   Inr \<lparr>plot_x = [10, 20],
        plot_curves = [\<lparr>curve_label = ''default'', curve_mean = [2, 3], curve_lower = [1, 2], curve_upper = [3, 4]\<rparr>],
        plot_xlabel = ''Number of stories present during training'',
        plot_ylabel = ''Number of correct test stories'',
        plot_path = ''out/core_model_comparison_graph.pdf''\<rparr>"
  by (simp add: plot_core_results_def plot_curve_def ex_results_def ex_out_paths
      plot_label_def column_def np_mean_def np_std_def power2_eq_square)

lemma ex_plot_ragged:
  "plot_nlu_results (\<lambda>_. [(''default'', [[1, 2], [3]])]) ''out'' [10, 20] = Inl TypeError"
  by (simp add: plot_nlu_results_def plot_curve_def plot_label_def)

theorem plot_curve_bands_witness:
  "\<exists>p. plot_curve ex_results ''out'' [10, 20] ''x'' ''y'' ''g.pdf'' = Inr p \<and>
       list_all2 (\<lambda>(l, rs) c. curve_label c = l \<and> curve_mean c ! 0 = 2 \<and> curve_upper c ! 0 = 3)
         [(''default'', [[1, 2], [3, 4]])] (plot_curves p)"
proof -
  have e: "plot_curve ex_results ''out'' [10, 20] ''x'' ''y'' ''g.pdf'' =
    Inr \<lparr>plot_x = [10, 20],
        plot_curves = [\<lparr>curve_label = ''default'', curve_mean = [2, 3], curve_lower = [1, 2], curve_upper = [3, 4]\<rparr>],
        plot_xlabel = ''x'', plot_ylabel = ''y'', plot_path = ''g.pdf''\<rparr>"
    by (simp add: plot_curve_def ex_results_def ex_out_paths
      plot_label_def column_def np_mean_def np_std_def power2_eq_square)
  have r: "filter (\<lambda>(l, rs). rs \<noteq> []) (ex_results (path_join ''out'' RESULTS_FILE)) = [(''default'', [[1, 2], [3, 4]])]"
    by (simp add: ex_results_def ex_out_paths)
  show ?thesis
    using plot_curve_bands [OF e] e unfolding r by (auto simp: power2_eq_square)
qed

end
