(* ===== verification/DomainMerge.thy ===== *)
theory DomainMerge
  imports Domain
begin

text \<open>
  The domain as a document (\<open>src/rasa/core/domain.py\<close>): the dict \<open>as_dict\<close>
  writes and \<open>from_dict\<close> reads (with \<open>collect_templates\<close>, \<open>collect_slots\<close> and
  \<open>_get_session_config\<close>), \<open>merge\<close> of two domains, \<open>load\<close> and
  \<open>from_directory\<close> that fold \<open>merge\<close> over domain files, the slots added after
  construction (\<open>add_requested_slot\<close>, \<open>add_knowledge_base_slots\<close>) and the
  warnings (\<open>domain_warnings\<close>, \<open>check_missing_templates\<close>). A Python dict is an
  association list (\<open>dict_update\<close> of the prelude); \<open>merge\<close> returns the argument
  domain beside its result, because it mutates the argument's \<open>user_actions\<close>.
\<close>

section \<open>Constants of \<open>rasa.core.constants\<close> and \<open>rasa.core.slots\<close>\<close>

text \<open>\<open>SessionConfig.default()\<close>: expiration 0 and
  \<open>DEFAULT_CARRY_OVER_SLOTS_TO_NEW_SESSION = True\<close>.\<close>

definition default_session_config :: session_config where
  "default_session_config = \<lparr>session_expiration_time = 0, carry_over_slots = True\<rparr>"

definition UTTER_PREFIX :: string where
  "UTTER_PREFIX = ''utter_''"

definition REQUESTED_SLOT :: string where
  "REQUESTED_SLOT = ''requested_slot''"

definition DEFAULT_KNOWLEDGE_BASE_ACTION :: string where
  "DEFAULT_KNOWLEDGE_BASE_ACTION = ''action_query_knowledge_base''"

definition knowledge_base_slots :: "string list" where
  "knowledge_base_slots =
     [''knowledge_base_listed_objects'', ''knowledge_base_last_object'', ''knowledge_base_last_object_type'']"

text \<open>\<open>UnfeaturizedSlot(name)\<close>: type \<open>unfeaturized\<close>, no features.\<close>

definition unfeaturized_slot :: "string \<Rightarrow> slot" where
  "unfeaturized_slot n = \<lparr>slot_name = n, slot_type = ''unfeaturized'', auto_fill = True, feature_dim = 0\<rparr>"

section \<open>The domain dict\<close>

text \<open>The keys of the domain dict: \<open>"config"\<close> (the keyword arguments of
  \<open>__init__\<close>), the two keys of \<open>"session_config"\<close> (absent is \<open>None\<close>),
  \<open>"intents"\<close>, \<open>"entities"\<close>, \<open>"slots"\<close> (name to slot), \<open>"responses"\<close> and
  the deprecated \<open>"templates"\<close> (a key with a null value is \<open>None\<close>),
  \<open>"actions"\<close> and \<open>"forms"\<close>.\<close>

record domain_data =
  dd_config :: "(string \<times> bool) list"
  dd_expiration :: "real option"
  dd_carry_over :: "bool option"
  dd_intents :: "raw_intent list"
  dd_entities :: "string list"
  dd_slots :: "(string \<times> slot) list"
  dd_responses :: "(string \<times> template list option) list"
  dd_templates :: "(string \<times> template list option) list option"
  dd_actions :: "string list"
  dd_forms :: "string list"

fun raw_intent_name :: "raw_intent \<Rightarrow> string" where
  "raw_intent_name (IntentName n) = n"
| "raw_intent_name (IntentDict n u i t) = n"

text \<open>One entry \<open>{k: v}\<close> of \<open>"intents"\<close> in \<open>as_dict\<close>: the properties dict with
  its \<open>use_entities\<close>, \<open>ignore_entities\<close> and, when present, \<open>triggers\<close>.\<close>

fun raw_of_intent :: "string \<times> intent_props \<Rightarrow> raw_intent" where
  "raw_of_intent (n, p) =
     IntentDict n (Some (case use_ents p of UseAll \<Rightarrow> RawTrue | UseList l \<Rightarrow> RawList l))
       (Some (ignore_ents p)) (triggers p)"

definition slot_definitions :: "domain \<Rightarrow> (string \<times> slot) list" where
  "slot_definitions d = dict_update [] (map (\<lambda>s. (slot_name s, s)) (slots d))"

definition as_dict :: "domain \<Rightarrow> domain_data" where
  "as_dict d =
     \<lparr>dd_config = [(''store_entities_as_slots'', store_entities_as_slots d)],
      dd_expiration = Some (session_expiration_time (sess_config d)),
      dd_carry_over = Some (carry_over_slots (sess_config d)),
      dd_intents = map raw_of_intent (intent_properties d),
      dd_entities = entities d,
      dd_slots = slot_definitions d,
      dd_responses = map (\<lambda>(k, vs). (k, Some vs)) (templates d),
      dd_templates = None,
      dd_actions = user_actions d,
      dd_forms = form_names d\<rparr>"

section \<open>Reading the dict: \<open>Domain.from_dict\<close> (\<open>domain_from_dict\<close>)\<close>

text \<open>One variation of \<open>collect_templates\<close>: a string becomes \<open>{"text": t}\<close> (with a
  deprecation warning), a dict needs a \<open>text\<close> or a \<open>custom\<close> key.\<close>

fun validate_variation :: "string \<Rightarrow> template \<Rightarrow> domain_error + template" where
  "validate_variation k (TemplateStr t) = Inr (TemplateDict [(''text'', t)])"
| "validate_variation k (TemplateDict kv) =
     (if ''text'' \<in> set (map fst kv) \<or> ''custom'' \<in> set (map fst kv) then Inr (TemplateDict kv)
      else Inl (InvalidTemplate k))"

fun collect_templates_acc ::
  "(string \<times> template list) list \<Rightarrow> (string \<times> template list option) list
   \<Rightarrow> domain_error + (string \<times> template list) list" where
  "collect_templates_acc acc [] = Inr acc"
| "collect_templates_acc acc ((k, None) # r) = Inl (MissingTemplates k)"
| "collect_templates_acc acc ((k, Some vs) # r) =
     (case map_sum (validate_variation k) vs of
        Inl e \<Rightarrow> Inl e
      | Inr vs' \<Rightarrow> collect_templates_acc (AList.update k vs' acc) r)"

definition collect_templates :: "(string \<times> template list option) list \<Rightarrow> domain_error + (string \<times> template list) list" where
  "collect_templates yml = collect_templates_acc [] yml"

text \<open>\<open>collect_slots\<close>: the slots in the order of their sorted names.\<close>

definition collect_slots :: "(string \<times> slot) list \<Rightarrow> slot list" where
  "collect_slots sd = map (\<lambda>n. (the (map_of sd n))\<lparr>slot_name := n\<rparr>) (sort (map fst sd))"

text \<open>\<open>_get_session_config\<close>: a missing expiration time is 0 (with a warning), a
  missing carry-over flag is \<open>True\<close>.\<close>

definition get_session_config :: "real option \<Rightarrow> bool option \<Rightarrow> session_config" where
  "get_session_config et co =
     \<lparr>session_expiration_time = (case et of None \<Rightarrow> 0 | Some t \<Rightarrow> t),
      carry_over_slots = (case co of None \<Rightarrow> True | Some c \<Rightarrow> c)\<rparr>"

text \<open>\<open>Domain.from_dict\<close>: \<open>"responses"\<close> is collected first, then replaced by the deprecated
  \<open>"templates"\<close> when that key is present; \<open>"config"\<close> is passed as keyword
  arguments, of which \<open>__init__\<close> accepts only \<open>store_entities_as_slots\<close>.\<close>

definition domain_from_dict :: "domain_data \<Rightarrow> domain_error + domain" where
  "domain_from_dict dd =
     (case collect_templates (dd_responses dd) of
        Inl e \<Rightarrow> Inl e
      | Inr r \<Rightarrow>
          (case (case dd_templates dd of None \<Rightarrow> Inr r | Some t \<Rightarrow> collect_templates t) of
             Inl e \<Rightarrow> Inl e
           | Inr tm \<Rightarrow>
               (case find (\<lambda>k. k \<noteq> ''store_entities_as_slots'') (map fst (dd_config dd)) of
                  Some k \<Rightarrow> Inl (UnexpectedArgument k)
                | None \<Rightarrow>
                    make_domain (dd_intents dd) (dd_entities dd) (collect_slots (dd_slots dd)) tm
                      (dd_actions dd) (dd_forms dd)
                      (case map_of (dd_config dd) ''store_entities_as_slots'' of None \<Rightarrow> True | Some b \<Rightarrow> b)
                      (get_session_config (dd_expiration dd) (dd_carry_over dd)))))"

text \<open>\<open>Domain.empty()\<close>.\<close>

definition empty_domain :: domain where
  "empty_domain =
     \<lparr>intent_properties = [], entities = [], slots = [], templates = [], user_actions = [],
      action_names = combine_user_with_default_actions [], form_names = [],
      store_entities_as_slots = True, sess_config = default_session_config\<rparr>"

section \<open>Merging two domains\<close>

text \<open>The two local functions of \<open>merge\<close>: \<open>merge_dicts\<close> lets the second dict win
  under \<open>override\<close> and the first otherwise (keeping the order of the dict updated),
  \<open>merge_lists\<close> is \<open>sorted(list(set(l1 + l2)))\<close>.\<close>

definition merge_dicts :: "('k \<times> 'v) list \<Rightarrow> ('k \<times> 'v) list \<Rightarrow> bool \<Rightarrow> ('k \<times> 'v) list" where
  "merge_dicts d1 d2 ov = (if ov then dict_update d1 d2 else dict_update d2 d1)"

definition merge_lists :: "string list \<Rightarrow> string list \<Rightarrow> string list" where
  "merge_lists l1 l2 = sorted_union l1 l2"

text \<open>\<open>{list(i.keys())[0]: i for i in intents}\<close>.\<close>

definition intent_dict :: "raw_intent list \<Rightarrow> (string \<times> raw_intent) list" where
  "intent_dict its = dict_update [] (map (\<lambda>i. (raw_intent_name i, i)) its)"

text \<open>\<open>for form in combined["forms"]: if form in actions: actions.remove(form)\<close>.\<close>

definition remove_forms :: "string list \<Rightarrow> string list \<Rightarrow> string list" where
  "remove_forms forms acts = fold remove1 forms acts"

text \<open>The dict \<open>combined\<close> that \<open>merge(self, domain, override)\<close> builds from
  \<open>self.as_dict()\<close> and \<open>domain.as_dict()\<close>: the configuration and the session
  configuration of \<open>self\<close> unless \<open>override\<close> (the session configuration also when
  \<open>self\<close> has the default one), the intents, responses and slots merged as dicts, the
  entities, actions and forms as sorted sets, the forms of \<open>self\<close> removed from the
  actions of \<open>domain\<close> first.\<close>

definition merge_data :: "domain \<Rightarrow> domain \<Rightarrow> bool \<Rightarrow> domain_data" where
  "merge_data d other ov =
     (let dd = as_dict other; cd = as_dict d;
          acts_o = remove_forms (dd_forms cd) (dd_actions dd);
          take_other = (ov \<or> sess_config d = default_session_config)
      in cd\<lparr>dd_config := (if ov then dict_update (dd_config cd) (dd_config dd) else dd_config cd),
            dd_expiration := (if take_other then dd_expiration dd else dd_expiration cd),
            dd_carry_over := (if take_other then dd_carry_over dd else dd_carry_over cd),
            dd_intents := map snd (merge_dicts (intent_dict (dd_intents cd)) (intent_dict (dd_intents dd)) ov),
            dd_entities := merge_lists (dd_entities cd) (dd_entities dd),
            dd_actions := merge_lists (dd_actions cd) acts_o,
            dd_forms := merge_lists (dd_forms cd) (dd_forms dd),
            dd_responses := merge_dicts (dd_responses cd) (dd_responses dd) ov,
            dd_slots := merge_dicts (dd_slots cd) (dd_slots dd) ov\<rparr>)"

text \<open>\<open>merge(self, domain, override)\<close>: \<open>self\<close> when \<open>domain\<close> is \<open>None\<close>, else
  \<open>from_dict(combined)\<close>. The second component is the argument domain afterwards:
  \<open>domain.as_dict()["actions"]\<close> is the list object \<open>domain.user_actions\<close>, so
  removing the forms of \<open>self\<close> from it changes the argument.\<close>

definition merge :: "domain \<Rightarrow> domain option \<Rightarrow> bool \<Rightarrow> (domain_error + domain) \<times> domain option" where
  "merge d od ov =
     (case od of
        None \<Rightarrow> (Inr d, None)
      | Some other \<Rightarrow>
          (domain_from_dict (merge_data d other ov),
           Some (other\<lparr>user_actions := remove_forms (form_names d) (user_actions other)\<rparr>)))"

section \<open>Loading domain files\<close>

text \<open>\<open>Domain.load(paths)\<close>: each file is read with \<open>from_dict\<close> and merged into the
  domain built so far, which stays \<open>self\<close>.\<close>

fun load_paths :: "domain \<Rightarrow> domain_data list \<Rightarrow> domain_error + domain" where
  "load_paths acc [] = Inr acc"
| "load_paths acc (dd # r) =
     (case domain_from_dict dd of
        Inl e \<Rightarrow> Inl e
      | Inr other \<Rightarrow> (case fst (merge acc (Some other) False) of Inl e \<Rightarrow> Inl e | Inr acc' \<Rightarrow> load_paths acc' r))"

definition load_domain :: "domain_data list \<Rightarrow> domain_error + domain" where
  "load_domain ps = (if ps = [] then Inl NoDomainFile else load_paths empty_domain ps)"

text \<open>\<open>Domain.from_directory\<close>: the files in the order \<open>os.walk\<close> lists them, each
  merged as \<open>other.merge(domain)\<close>, so the file read last is \<open>self\<close>.\<close>

fun directory_paths :: "domain \<Rightarrow> domain_data list \<Rightarrow> domain_error + domain" where
  "directory_paths acc [] = Inr acc"
| "directory_paths acc (dd # r) =
     (case domain_from_dict dd of
        Inl e \<Rightarrow> Inl e
      | Inr other \<Rightarrow> (case fst (merge other (Some acc) False) of Inl e \<Rightarrow> Inl e | Inr acc' \<Rightarrow> directory_paths acc' r))"

definition from_directory :: "domain_data list \<Rightarrow> domain_error + domain" where
  "from_directory ps = directory_paths empty_domain ps"

text \<open>The session configuration one file sets, as \<open>Domain.from_dict\<close> reads it.\<close>

definition file_session :: "domain_data \<Rightarrow> session_config" where
  "file_session dd = get_session_config (dd_expiration dd) (dd_carry_over dd)"

section \<open>Slots added after construction\<close>

definition add_requested_slot :: "domain \<Rightarrow> domain" where
  "add_requested_slot d =
     (if form_names d \<noteq> [] \<and> REQUESTED_SLOT \<notin> set (map slot_name (slots d))
      then d\<lparr>slots := slots d @ [unfeaturized_slot REQUESTED_SLOT]\<rparr> else d)"

definition add_knowledge_base_slots :: "domain \<Rightarrow> domain" where
  "add_knowledge_base_slots d =
     (if DEFAULT_KNOWLEDGE_BASE_ACTION \<in> set (action_names d)
      then d\<lparr>slots := slots d @ map unfeaturized_slot
                       (filter (\<lambda>s. s \<notin> set (map slot_name (slots d))) knowledge_base_slots)\<rparr>
      else d)"

section \<open>Warnings\<close>

definition user_actions_and_forms :: "domain \<Rightarrow> string list" where
  "user_actions_and_forms d = user_actions d @ form_names d"

definition slots_for_domain_warnings :: "domain \<Rightarrow> string list" where
  "slots_for_domain_warnings d = map slot_name (filter (\<lambda>s. slot_type s \<noteq> ''unfeaturized'') (slots d))"

definition actions_for_domain_warnings :: "domain \<Rightarrow> string list" where
  "actions_for_domain_warnings d = filter (\<lambda>a. a \<notin> set default_action_names) (user_actions_and_forms d)"

text \<open>\<open>_get_symmetric_difference\<close>: (\<open>in_domain\<close>, \<open>in_training_data\<close>).\<close>

definition get_symmetric_difference :: "string list \<Rightarrow> string list option \<Rightarrow> string set \<times> string set" where
  "get_symmetric_difference de td =
     (let t = (case td of None \<Rightarrow> [] | Some l \<Rightarrow> l) in (set de - set t, set t - set de))"

record warnings =
  intent_warnings :: "string set \<times> string set"
  entity_warnings :: "string set \<times> string set"
  action_warnings :: "string set \<times> string set"
  slot_warnings :: "string set \<times> string set"

definition domain_warnings ::
  "domain \<Rightarrow> string list option \<Rightarrow> string list option \<Rightarrow> string list option \<Rightarrow> string list option \<Rightarrow> warnings" where
  "domain_warnings d its ents acts sls =
     \<lparr>intent_warnings = get_symmetric_difference (intents d) its,
      entity_warnings = get_symmetric_difference (entities d) ents,
      action_warnings = get_symmetric_difference (actions_for_domain_warnings d) acts,
      slot_warnings = get_symmetric_difference (slots_for_domain_warnings d) sls\<rparr>"

text \<open>\<open>check_missing_templates\<close>: the utterance actions without a response, one
  warning each.\<close>

definition check_missing_templates :: "domain \<Rightarrow> string list" where
  "check_missing_templates d =
     filter (\<lambda>t. t \<notin> set (template_keys d)) (filter (\<lambda>a. prefix UTTER_PREFIX a) (action_names d))"

definition is_empty :: "domain \<Rightarrow> bool" where
  "is_empty d \<longleftrightarrow> as_dict d = as_dict empty_domain"

section \<open>Normal forms\<close>

text \<open>A response variation as \<open>collect_templates\<close> leaves it; a domain as
  \<open>domain_from_dict\<close> leaves it (well formed, every response key an action, the responses
  validated, the slots sorted by name); a domain as \<open>merge\<close> leaves it (with the
  entities, actions and forms also sorted without duplicates).\<close>

definition valid_template :: "template \<Rightarrow> bool" where
  "valid_template t \<longleftrightarrow>
     (case t of TemplateStr s \<Rightarrow> False
      | TemplateDict kv \<Rightarrow> ''text'' \<in> set (map fst kv) \<or> ''custom'' \<in> set (map fst kv))"

definition normal_domain :: "domain \<Rightarrow> bool" where
  "normal_domain d \<longleftrightarrow>
     wf_domain d \<and> set (template_keys d) \<subseteq> set (user_actions d) \<and> distinct (template_keys d) \<and>
     (\<forall>(k, vs)\<in>set (templates d). \<forall>t\<in>set vs. valid_template t) \<and> sorted (map slot_name (slots d))"

definition merged_domain :: "domain \<Rightarrow> bool" where
  "merged_domain m \<longleftrightarrow>
     normal_domain m \<and> sorted (entities m) \<and> distinct (entities m) \<and> sorted (user_actions m) \<and>
     distinct (user_actions m) \<and> sorted (form_names m)"

section \<open>Examples\<close>

text \<open>Three domain files: \<open>a\<close> with a response, a form and a 60-minute session,
  \<open>b\<close> listing that form among its custom actions, \<open>c\<close> with a 30-minute session;
  and the domains \<open>domain_from_dict\<close> reads from \<open>a\<close> and \<open>b\<close>.\<close>

definition ex_file_a :: domain_data where
  "ex_file_a = \<lparr>dd_config = [], dd_expiration = Some 60, dd_carry_over = None,
     dd_intents = [IntentName ''greet''], dd_entities = [], dd_slots = [],
     dd_responses = [(''utter_greet'', Some [TemplateStr ''Hello!''])], dd_templates = None,
     dd_actions = [], dd_forms = [''restaurant_form'']\<rparr>"

definition ex_file_b :: domain_data where
  "ex_file_b = \<lparr>dd_config = [], dd_expiration = None, dd_carry_over = None,
     dd_intents = [IntentName ''bye''], dd_entities = [''city''], dd_slots = [],
     dd_responses = [], dd_templates = None,
     dd_actions = [''restaurant_form'', ''action_hello''], dd_forms = []\<rparr>"

definition ex_file_c :: domain_data where
  "ex_file_c = \<lparr>dd_config = [], dd_expiration = Some 30, dd_carry_over = None,
     dd_intents = [IntentName ''bye''], dd_entities = [], dd_slots = [],
     dd_responses = [], dd_templates = None, dd_actions = [], dd_forms = []\<rparr>"

definition ex_dom_a :: domain where
  "ex_dom_a = \<lparr>intent_properties = [(''greet'', default_intent_props)], entities = [], slots = [],
     templates = ex_templates, user_actions = [''utter_greet''],
     action_names = combine_user_with_default_actions [''utter_greet''] @ [''restaurant_form''],
     form_names = [''restaurant_form''], store_entities_as_slots = True,
     sess_config = \<lparr>session_expiration_time = 60, carry_over_slots = True\<rparr>\<rparr>"

definition ex_dom_b :: domain where
  "ex_dom_b = \<lparr>intent_properties = [(''bye'', default_intent_props)], entities = [''city''], slots = [],
     templates = [], user_actions = [''restaurant_form'', ''action_hello''],
     action_names = combine_user_with_default_actions [''restaurant_form'', ''action_hello''],
     form_names = [], store_entities_as_slots = True, sess_config = default_session_config\<rparr>"

section \<open>Lemmas: reading and writing the dict\<close>

lemma validate_variation_Inr:
  "validate_variation k t = Inr t' \<Longrightarrow> valid_template t' \<and> (valid_template t \<longrightarrow> t' = t)"
  by (cases t) (force simp: valid_template_def split: if_splits)+

lemma validate_variation_valid: "valid_template t \<Longrightarrow> validate_variation k t = Inr t"
  by (cases t) (auto simp: valid_template_def)

lemma map_sum_validate_valid: "\<forall>t\<in>set vs. valid_template t \<Longrightarrow> map_sum (validate_variation k) vs = Inr vs"
  by (induction vs) (auto simp: validate_variation_valid)

lemma collect_templates_acc_valid:
  "distinct (map fst tm) \<Longrightarrow> set (map fst acc) \<inter> set (map fst tm) = {} \<Longrightarrow>
   \<forall>(k, vs)\<in>set tm. \<forall>t\<in>set vs. valid_template t \<Longrightarrow>
   collect_templates_acc acc (map (\<lambda>(k, vs). (k, Some vs)) tm) = Inr (acc @ tm)"
proof (induction tm arbitrary: acc)
  case Nil
  then show ?case by simp
next
  case (Cons p tm)
  obtain k vs where p: "p = (k, vs)" by (cases p)
  with Cons.prems have "AList.update k vs acc = acc @ [(k, vs)]"
    by (auto intro: update_append_new)
  with Cons.prems Cons.IH [of "acc @ [(k, vs)]"] p show ?case
    by (auto simp: map_sum_validate_valid)
qed

lemma collect_templates_acc_Inr:
  "collect_templates_acc acc yml = Inr tm \<Longrightarrow> distinct (map fst acc) \<Longrightarrow>
   \<forall>(k, vs)\<in>set acc. \<forall>t\<in>set vs. valid_template t \<Longrightarrow>
   distinct (map fst tm) \<and> (\<forall>(k, vs)\<in>set tm. \<forall>t\<in>set vs. valid_template t) \<and>
   set (map fst tm) = set (map fst acc) \<union> set (map fst yml)"
proof (induction acc yml rule: collect_templates_acc.induct)
  case (1 acc)
  then show ?case by simp
next
  case (2 acc k r)
  then show ?case by simp
next
  case (3 acc k vs r)
  from "3.prems"(1) obtain vs' where vs': "map_sum (validate_variation k) vs = Inr vs'"
    and rest: "collect_templates_acc (AList.update k vs' acc) r = Inr tm"
    by (auto split: sum.splits)
  from vs' have "\<forall>t\<in>set vs'. valid_template t"
    by (auto simp: map_sum_Inr_iff list_all2_conv_all_nth in_set_conv_nth dest!: validate_variation_Inr)
  with "3.prems"(3) have "\<forall>(k', ws)\<in>set (AList.update k vs' acc). \<forall>t\<in>set ws. valid_template t"
    by (auto dest!: in_set_update)
  moreover have "distinct (map fst (AList.update k vs' acc))"
    using "3.prems"(2) by (rule distinct_update)
  ultimately show ?case
    using "3.IH" [OF vs' rest] by (auto simp: update_keys split: if_splits)
qed

lemma session_config_eta [simp]:
  "\<lparr>session_expiration_time = session_expiration_time sc, carry_over_slots = carry_over_slots sc\<rparr> = sc"
  by (cases sc) simp

lemma slot_definitions_distinct:
  "distinct (map slot_name (slots d)) \<Longrightarrow> slot_definitions d = map (\<lambda>s. (slot_name s, s)) (slots d)"
  unfolding slot_definitions_def by (subst dict_update_disjoint) (auto simp: comp_def)

lemma collect_slots_names: "map slot_name (collect_slots sd) = sort (map fst sd)"
  by (simp add: collect_slots_def comp_def)

lemma collect_slots_id:
  assumes "distinct (map slot_name sl)" and "sorted (map slot_name sl)"
  shows "collect_slots (map (\<lambda>s. (slot_name s, s)) sl) = sl"
proof -
  have "map_of (map (\<lambda>s. (slot_name s, s)) sl) (slot_name s) = Some s" if "s \<in> set sl" for s
    using assms(1) that by (intro map_of_is_SomeI) (auto simp: comp_def)
  moreover have "sort (map slot_name sl) = map slot_name sl"
    using assms(2) by (simp add: sorted_sort_id)
  ultimately show ?thesis
    by (auto simp: collect_slots_def comp_def intro: map_idI)
qed

lemma intent_entry_raw_of_intent [simp]: "intent_entry (raw_of_intent p) = p"
  by (cases p; cases "use_ents (snd p)") auto

lemma raw_intent_name_raw_of_intent [simp]: "raw_intent_name (raw_of_intent p) = fst p"
  by (cases p) simp

lemma collect_intent_properties_raw:
  "distinct (map fst ips) \<Longrightarrow> collect_intent_properties (map raw_of_intent ips) = Inr ips"
  using collect_intent_properties_distinct [of "map raw_of_intent ips"] by (simp add: comp_def)

lemma make_domain_record:
  assumes "make_domain its ents sls tmpls acts forms store sc = Inr d"
  shows "templates d = tmpls \<and> user_actions d = combine_with_templates acts (map fst tmpls) \<and>
         store_entities_as_slots d = store \<and> sess_config d = sc"
proof -
  from assms obtain ips where "collect_intent_properties its = Inr ips"
    by (auto simp: make_domain_def split: sum.splits)
  with assms show ?thesis
    by (auto simp: make_domain_def check_domain_sanity_Inr Let_def)
qed

lemma collect_templates_Inr:
  "collect_templates yml = Inr tm \<Longrightarrow>
   distinct (map fst tm) \<and> (\<forall>(k, vs)\<in>set tm. \<forall>t\<in>set vs. valid_template t) \<and> set (map fst tm) = set (map fst yml)"
  unfolding collect_templates_def using collect_templates_acc_Inr [of "[]" yml tm] by simp

lemma domain_from_dict_Inr:
  assumes "domain_from_dict dd = Inr d"
  obtains tm where "distinct (map fst tm)" "\<forall>(k, vs)\<in>set tm. \<forall>t\<in>set vs. valid_template t"
    "make_domain (dd_intents dd) (dd_entities dd) (collect_slots (dd_slots dd)) tm (dd_actions dd) (dd_forms dd)
       (case map_of (dd_config dd) ''store_entities_as_slots'' of None \<Rightarrow> True | Some b \<Rightarrow> b)
       (get_session_config (dd_expiration dd) (dd_carry_over dd)) = Inr d"
proof -
  from assms obtain r tm where r: "collect_templates (dd_responses dd) = Inr r"
    and tm: "(case dd_templates dd of None \<Rightarrow> Inr r | Some t \<Rightarrow> collect_templates t) = Inr tm"
    and md: "make_domain (dd_intents dd) (dd_entities dd) (collect_slots (dd_slots dd)) tm (dd_actions dd) (dd_forms dd)
       (case map_of (dd_config dd) ''store_entities_as_slots'' of None \<Rightarrow> True | Some b \<Rightarrow> b)
       (get_session_config (dd_expiration dd) (dd_carry_over dd)) = Inr d"
    by (auto simp: domain_from_dict_def split: sum.splits option.splits)
  from r tm have "collect_templates (case dd_templates dd of None \<Rightarrow> dd_responses dd | Some t \<Rightarrow> t) = Inr tm"
    by (auto split: option.splits)
  from collect_templates_Inr [OF this] md that show ?thesis by blast
qed

lemma from_dict_normal:
  assumes "domain_from_dict dd = Inr d"
  shows "normal_domain d"
proof -
  obtain tm where tm: "distinct (map fst tm)" "\<forall>(k, vs)\<in>set tm. \<forall>t\<in>set vs. valid_template t"
    and md: "make_domain (dd_intents dd) (dd_entities dd) (collect_slots (dd_slots dd)) tm (dd_actions dd) (dd_forms dd)
       (case map_of (dd_config dd) ''store_entities_as_slots'' of None \<Rightarrow> True | Some b \<Rightarrow> b)
       (get_session_config (dd_expiration dd) (dd_carry_over dd)) = Inr d"
    using domain_from_dict_Inr [OF assms] by blast
  note f = make_domain_fields [OF md] and r = make_domain_record [OF md]
  show ?thesis
    unfolding normal_domain_def template_keys_def
    using make_domain_wf [OF md] tm f r
    by (auto simp: collect_slots_names combine_with_templates_def)
qed

lemma from_dict_as_dict:
  assumes "normal_domain d"
  shows "domain_from_dict (as_dict d) = Inr d"
proof -
  have wf: "wf_domain d" and tk: "set (template_keys d) \<subseteq> set (user_actions d)"
    and dt: "distinct (template_keys d)" and vt: "\<forall>(k, vs)\<in>set (templates d). \<forall>t\<in>set vs. valid_template t"
    and ss: "sorted (map slot_name (slots d))"
    using assms by (simp_all add: normal_domain_def)
  have ds: "distinct (map slot_name (slots d))" and di: "distinct (map fst (intent_properties d))"
    using wf by (simp_all add: wf_domain_def)
  have ct: "collect_templates (map (\<lambda>(k, vs). (k, Some vs)) (templates d)) = Inr (templates d)"
    using collect_templates_acc_valid [of "templates d" "[]"] dt vt by (simp add: collect_templates_def template_keys_def)
  have cs: "collect_slots (slot_definitions d) = slots d"
    using ds ss by (simp add: slot_definitions_distinct collect_slots_id)
  have ua: "combine_with_templates (user_actions d) (map fst (templates d)) = user_actions d"
    using tk by (auto simp: combine_with_templates_def template_keys_def filter_empty_conv)
  have "distinct (action_names d)" "check_mappings (intent_properties d) (action_names d) = []"
    "distinct (entities d)"
    using wf unfolding wf_domain_def by blast+
  with ds have san: "check_domain_sanity d = Inr d"
    by (simp add: check_domain_sanity_def Let_def)
  have "make_domain (map raw_of_intent (intent_properties d)) (entities d) (slots d) (templates d)
          (user_actions d) (form_names d) (store_entities_as_slots d) (sess_config d) = Inr d"
  proof -
    have "action_names d = combine_user_with_default_actions (user_actions d) @ form_names d"
      using wf unfolding wf_domain_def by blast
    then have "\<lparr>intent_properties = intent_properties d, entities = entities d, slots = slots d,
       templates = templates d, user_actions = user_actions d,
       action_names = combine_user_with_default_actions (user_actions d) @ form_names d,
       form_names = form_names d, store_entities_as_slots = store_entities_as_slots d,
       sess_config = sess_config d\<rparr> = d"
      by (cases d) simp
    then show ?thesis
      using san by (simp add: make_domain_def collect_intent_properties_raw di ua Let_def)
  qed
  then show ?thesis
    by (simp add: domain_from_dict_def as_dict_def ct cs get_session_config_def)
qed

lemma wf_user_actions_forms_disjoint:
  "wf_domain d \<Longrightarrow> set (user_actions d) \<inter> set (form_names d) = {}"
proof -
  assume wf: "wf_domain d"
  then have "distinct (combine_user_with_default_actions (user_actions d) @ form_names d)"
    unfolding wf_domain_def by metis
  moreover have "set (user_actions d) \<subseteq> set (combine_user_with_default_actions (user_actions d))"
    by (auto simp: combine_user_with_default_actions_def)
  ultimately show ?thesis by auto
qed

lemma sorted_union_self: "sorted l \<Longrightarrow> distinct l \<Longrightarrow> sorted_union l l = l"
  using sorted_union_sorted_distinct [of l l] by (intro sorted_distinct_set_unique) auto

lemma remove_forms_disjoint: "set forms \<inter> set xs = {} \<Longrightarrow> remove_forms forms xs = xs"
  unfolding remove_forms_def by (induction forms) (auto simp: remove1_idem)

lemma set_remove_forms: "k \<in> set xs \<Longrightarrow> k \<notin> set forms \<Longrightarrow> k \<in> set (remove_forms forms xs)"
  unfolding remove_forms_def
proof (induction forms arbitrary: xs)
  case Nil
  then show ?case by simp
next
  case (Cons f fs)
  from Cons.prems have "k \<in> set (remove1 f xs)" by (auto simp: set_remove1_eq)
  with Cons.IH [of "remove1 f xs"] Cons.prems show ?case by simp
qed

lemma remove_forms_subset: "set (remove_forms forms xs) \<subseteq> set xs"
  unfolding remove_forms_def
  by (induction forms arbitrary: xs) (auto dest: subsetD [OF set_remove1_subset])

lemma intent_dict_raw:
  "distinct (map fst ips) \<Longrightarrow> intent_dict (map raw_of_intent ips) = map (\<lambda>p. (fst p, raw_of_intent p)) ips"
  unfolding intent_dict_def by (subst dict_update_disjoint) (auto simp: comp_def)

lemma merge_dicts_self: "distinct (map fst a) \<Longrightarrow> merge_dicts a a ov = a"
  by (simp add: merge_dicts_def dict_update_self)

lemma merge_data_self:
  assumes "merged_domain m"
  shows "merge_data m m ov = as_dict m"
proof -
  have n: "normal_domain m" and se: "sorted (entities m)" "distinct (entities m)"
    and su: "sorted (user_actions m)" "distinct (user_actions m)" and sf: "sorted (form_names m)"
    using assms by (simp_all add: merged_domain_def)
  then have wf: "wf_domain m" and dt: "distinct (map fst (templates m))"
    by (simp_all add: normal_domain_def template_keys_def)
  then have di: "distinct (map fst (intent_properties m))" and ds: "distinct (map slot_name (slots m))"
    unfolding wf_domain_def by blast+
  have df: "distinct (form_names m)" using wf by (rule wf_distinct_forms)
  have disj: "set (form_names m) \<inter> set (user_actions m) = {}"
    using wf_user_actions_forms_disjoint [OF wf] by blast
  have dr: "distinct (map fst (map (\<lambda>(k, vs). (k, Some vs)) (templates m)))"
    using dt by (simp add: comp_def case_prod_unfold)
  have dsl: "distinct (map fst (slot_definitions m))"
    using ds by (simp add: slot_definitions_distinct comp_def)
  have dit: "distinct (map fst (intent_dict (map raw_of_intent (intent_properties m))))"
    using di by (simp add: intent_dict_raw comp_def)
  show ?thesis
    unfolding merge_data_def Let_def
    using dr dsl dit di disj se su sf df
    by (simp add: as_dict_def merge_dicts_self merge_lists_def sorted_union_self remove_forms_disjoint
                  dict_update_self intent_dict_raw comp_def)
qed

lemma merge_self:
  "merged_domain m \<Longrightarrow> fst (merge m (Some m) ov) = Inr m"
  using merge_data_self [of m ov] from_dict_as_dict [of m]
  by (simp add: merge_def merged_domain_def)

lemma merge_dicts_map_values:
  "map (\<lambda>(k, v). (k, g k v)) (merge_dicts a b ov) =
   merge_dicts (map (\<lambda>(k, v). (k, g k v)) a) (map (\<lambda>(k, v). (k, g k v)) b) ov"
  by (simp add: merge_dicts_def dict_update_map_values)

lemma keys_merge_dicts: "fst ` set (merge_dicts a b ov) = fst ` set a \<union> fst ` set b"
  by (auto simp: merge_dicts_def keys_dict_update)

lemma merge_dicts_all:
  assumes "\<forall>x\<in>set a. P x" and "\<forall>x\<in>set b. P x"
  shows "\<forall>x\<in>set (merge_dicts a b ov). P x"
  unfolding merge_dicts_def using dict_update_all [OF assms] dict_update_all [OF assms(2,1)] by simp

lemma distinct_merge_dicts:
  "distinct (map fst a) \<Longrightarrow> distinct (map fst b) \<Longrightarrow> distinct (map fst (merge_dicts a b ov))"
  by (simp add: merge_dicts_def distinct_dict_update)

lemma raw_of_intent_pair: "(\<lambda>(k, v). (k, raw_of_intent (k, v))) = (\<lambda>p. (fst p, raw_of_intent p))"
  by (rule ext) (simp add: split_beta del: raw_of_intent.simps)

lemma intent_dict_raw':
  "distinct (map fst ips) \<Longrightarrow>
   intent_dict (map raw_of_intent ips) = map (\<lambda>(k, v). (k, raw_of_intent (k, v))) ips"
  unfolding raw_of_intent_pair by (rule intent_dict_raw)

lemma responses_of: "map (\<lambda>(k, vs). (k, Some vs)) tm = map (\<lambda>(k, v). (k, (\<lambda>k v. Some v) k v)) tm"
  by simp

lemma merge_data_intents:
  assumes "distinct (map fst ipd)" and "distinct (map fst ipo)"
  shows "map intent_entry (map snd (merge_dicts (intent_dict (map raw_of_intent ipd))
                                                 (intent_dict (map raw_of_intent ipo)) ov)) =
         merge_dicts ipd ipo ov"
proof -
  have "map snd (merge_dicts (intent_dict (map raw_of_intent ipd)) (intent_dict (map raw_of_intent ipo)) ov) =
        map snd (map (\<lambda>(k, v). (k, raw_of_intent (k, v))) (merge_dicts ipd ipo ov))"
    using assms by (simp add: intent_dict_raw' merge_dicts_map_values)
  also have "\<dots> = map raw_of_intent (merge_dicts ipd ipo ov)"
    unfolding raw_of_intent_pair by (simp add: comp_def)
  finally show ?thesis by (simp add: comp_def)
qed

lemma merge_data_responses:
  "dd_responses (merge_data d other ov) =
   map (\<lambda>(k, vs). (k, Some vs)) (merge_dicts (templates d) (templates other) ov)"
  by (simp add: merge_data_def as_dict_def Let_def merge_dicts_map_values [of "\<lambda>k v. Some v", simplified])

lemma merge_Inr_make_domain:
  assumes "fst (merge d (Some other) ov) = Inr m"
  obtains tm where
    "collect_templates (map (\<lambda>(k, vs). (k, Some vs)) (merge_dicts (templates d) (templates other) ov)) = Inr tm"
    "make_domain (dd_intents (merge_data d other ov)) (dd_entities (merge_data d other ov))
       (collect_slots (dd_slots (merge_data d other ov))) tm
       (dd_actions (merge_data d other ov)) (dd_forms (merge_data d other ov))
       (case map_of (dd_config (merge_data d other ov)) ''store_entities_as_slots'' of None \<Rightarrow> True | Some b \<Rightarrow> b)
       (get_session_config (dd_expiration (merge_data d other ov)) (dd_carry_over (merge_data d other ov))) = Inr m"
proof -
  have fd: "domain_from_dict (merge_data d other ov) = Inr m"
    using assms by (simp add: merge_def)
  have "dd_templates (merge_data d other ov) = None"
    by (simp add: merge_data_def as_dict_def Let_def)
  with fd that show ?thesis
    by (auto simp: domain_from_dict_def merge_data_responses split: sum.splits option.splits)
qed

lemma merge_sess_config:
  assumes "fst (merge d (Some other) ov) = Inr m"
  shows "sess_config m = (if ov \<or> sess_config d = default_session_config then sess_config other else sess_config d)"
proof -
  obtain tm where md: "make_domain (dd_intents (merge_data d other ov)) (dd_entities (merge_data d other ov))
       (collect_slots (dd_slots (merge_data d other ov))) tm
       (dd_actions (merge_data d other ov)) (dd_forms (merge_data d other ov))
       (case map_of (dd_config (merge_data d other ov)) ''store_entities_as_slots'' of None \<Rightarrow> True | Some b \<Rightarrow> b)
       (get_session_config (dd_expiration (merge_data d other ov)) (dd_carry_over (merge_data d other ov))) = Inr m"
    using merge_Inr_make_domain [OF assms] by blast
  from make_domain_record [OF md] show ?thesis
    by (simp add: merge_data_def as_dict_def Let_def get_session_config_def)
qed

lemma merge_Inr_wf:
  assumes "fst (merge d (Some other) ov) = Inr m"
  shows "wf_domain m"
proof -
  obtain tm where md: "make_domain (dd_intents (merge_data d other ov)) (dd_entities (merge_data d other ov))
       (collect_slots (dd_slots (merge_data d other ov))) tm
       (dd_actions (merge_data d other ov)) (dd_forms (merge_data d other ov))
       (case map_of (dd_config (merge_data d other ov)) ''store_entities_as_slots'' of None \<Rightarrow> True | Some b \<Rightarrow> b)
       (get_session_config (dd_expiration (merge_data d other ov)) (dd_carry_over (merge_data d other ov))) = Inr m"
    using merge_Inr_make_domain [OF assms] by blast
  from make_domain_wf [OF this] show ?thesis .
qed

lemma normal_templates:
  "normal_domain d \<Longrightarrow> distinct (map fst (templates d)) \<and> (\<forall>(k, vs)\<in>set (templates d). \<forall>t\<in>set vs. valid_template t)"
  by (simp add: normal_domain_def template_keys_def)

lemma merge_list_fields:
  assumes m: "fst (merge d (Some other) ov) = Inr m"
    and nd: "normal_domain d" and no: "normal_domain other"
  shows "entities m = sorted_union (entities d) (entities other) \<and>
         form_names m = sorted_union (form_names d) (form_names other) \<and>
         user_actions m = sorted_union (user_actions d) (remove_forms (form_names d) (user_actions other)) \<and>
         templates m = merge_dicts (templates d) (templates other) ov"
proof -
  let ?C = "merge_data d other ov"
  obtain tm where ct: "collect_templates (map (\<lambda>(k, vs). (k, Some vs)) (merge_dicts (templates d) (templates other) ov)) = Inr tm"
    and md: "make_domain (dd_intents ?C) (dd_entities ?C) (collect_slots (dd_slots ?C)) tm (dd_actions ?C) (dd_forms ?C)
       (case map_of (dd_config ?C) ''store_entities_as_slots'' of None \<Rightarrow> True | Some b \<Rightarrow> b)
       (get_session_config (dd_expiration ?C) (dd_carry_over ?C)) = Inr m"
    using merge_Inr_make_domain [OF m] by blast
  note f = make_domain_fields [OF md] and r = make_domain_record [OF md]
  have wfm: "wf_domain m" using make_domain_wf [OF md] .
  note td = normal_templates [OF nd] and to = normal_templates [OF no]
  have tm: "tm = merge_dicts (templates d) (templates other) ov"
  proof -
    have v: "\<forall>x\<in>set (merge_dicts (templates d) (templates other) ov). case x of (k, vs) \<Rightarrow> \<forall>t\<in>set vs. valid_template t"
      by (rule merge_dicts_all) (use td to in auto)
    have "collect_templates (map (\<lambda>(k, vs). (k, Some vs)) (merge_dicts (templates d) (templates other) ov)) =
          Inr (merge_dicts (templates d) (templates other) ov)"
      unfolding collect_templates_def using td to v
      by (intro collect_templates_acc_valid [of _ "[]", simplified]) (auto simp: distinct_merge_dicts)
    with ct show ?thesis by simp
  qed
  define acts where "acts = sorted_union (user_actions d) (remove_forms (form_names d) (user_actions other))"
  have da: "dd_actions ?C = acts" and de: "dd_entities ?C = sorted_union (entities d) (entities other)"
    and dfm: "dd_forms ?C = sorted_union (form_names d) (form_names other)"
    by (simp_all add: merge_data_def as_dict_def Let_def merge_lists_def acts_def)
  have ua: "user_actions m = combine_with_templates acts (map fst tm)"
    using r da by simp
  have keys: "set (map fst tm) \<subseteq> set acts"
  proof
    fix k assume k: "k \<in> set (map fst tm)"
    then have kua: "k \<in> set (user_actions m)"
      using ua by (auto simp: combine_with_templates_def)
    have "k \<notin> set (form_names m)"
      using kua wf_user_actions_forms_disjoint [OF wfm] by blast
    then have kf: "k \<notin> set (form_names d)"
      using f dfm by simp
    have "k \<in> set (template_keys d) \<union> set (template_keys other)"
      using k tm keys_merge_dicts [of "templates d" "templates other" ov] by (auto simp: template_keys_def)
    then have "k \<in> set (user_actions d) \<union> set (user_actions other)"
      using nd no by (auto simp: normal_domain_def)
    with kf show "k \<in> set acts"
      by (auto simp: acts_def set_remove_forms)
  qed
  then have "user_actions m = acts"
    using ua by (auto simp: combine_with_templates_def filter_empty_conv)
  with f de dfm r tm show ?thesis by (simp add: acts_def)
qed

section \<open>Lemmas: merge results, mutation, slots and templates\<close>

lemma ex_from_dict_a: "domain_from_dict ex_file_a = Inr ex_dom_a"
  by code_simp

lemma ex_from_dict_b: "domain_from_dict ex_file_b = Inr ex_dom_b"
  by code_simp

lemma ex_merge_ab_Inr: "case fst (merge ex_dom_a (Some ex_dom_b) False) of Inr m \<Rightarrow> True | Inl e \<Rightarrow> False"
  by code_simp

lemma ex_wf_ab: "wf_domain ex_dom_a \<and> wf_domain ex_dom_b"
  by code_simp

lemma count_list_filter_same: "P a \<Longrightarrow> count_list (filter P xs) a = count_list xs a"
  by (induction xs) auto

lemma remove1_count_le1: "count_list xs x \<le> 1 \<Longrightarrow> x \<notin> set (remove1 x xs)"
  by (induction xs) (auto split: if_splits simp: count_list_0_iff)

lemma count_remove1_le: "count_list (remove1 y xs) x \<le> count_list xs x"
  by (induction xs) auto

lemma remove_forms_removes:
  "x \<in> set forms \<Longrightarrow> count_list xs x \<le> 1 \<Longrightarrow> x \<notin> set (remove_forms forms xs)"
  unfolding remove_forms_def
proof (induction forms arbitrary: xs)
  case Nil
  then show ?case by simp
next
  case (Cons f fs)
  show ?case
  proof (cases "x = f")
    case True
    with Cons.prems have "x \<notin> set (remove1 x xs)" by (simp add: remove1_count_le1)
    with True show ?thesis
      using remove_forms_subset [of fs "remove1 x xs"] by (auto simp: remove_forms_def)
  next
    case False
    with Cons.prems have "x \<in> set fs" "count_list (remove1 f xs) x \<le> 1"
      using count_remove1_le [of f xs x] by auto
    with Cons.IH show ?thesis by simp
  qed
qed

lemma wf_count_user_action:
  assumes "wf_domain d" and "a \<notin> set default_action_names"
  shows "count_list (user_actions d) a \<le> 1"
proof -
  have "distinct (combine_user_with_default_actions (user_actions d) @ form_names d)"
    using assms(1) unfolding wf_domain_def by metis
  then have "distinct (filter (\<lambda>a. a \<notin> set default_action_names) (user_actions d))"
    by (simp add: combine_user_with_default_actions_def)
  then have "count_list (filter (\<lambda>a. a \<notin> set default_action_names) (user_actions d)) a \<le> 1"
    using count_list_le1_distinct [of "filter (\<lambda>a. a \<notin> set default_action_names) (user_actions d)"]
    by (cases "a \<in> set (filter (\<lambda>a. a \<notin> set default_action_names) (user_actions d))")
       (auto simp: not_less count_list_0_iff)
  with assms(2) show ?thesis by (simp add: count_list_filter_same)
qed

lemma wf_forms_not_default: "wf_domain d \<Longrightarrow> f \<in> set (form_names d) \<Longrightarrow> f \<notin> set default_action_names"
proof -
  assume "wf_domain d" "f \<in> set (form_names d)"
  moreover have "distinct (combine_user_with_default_actions (user_actions d) @ form_names d)"
    using \<open>wf_domain d\<close> unfolding wf_domain_def by metis
  ultimately show ?thesis by (auto simp: combine_user_with_default_actions_def)
qed

lemma merge_result_merged:
  assumes "fst (merge d (Some other) ov) = Inr m" "normal_domain d" "normal_domain other"
  shows "merged_domain m"
proof -
  have "domain_from_dict (merge_data d other ov) = Inr m" using assms(1) by (simp add: merge_def)
  then have "normal_domain m" by (rule from_dict_normal)
  moreover have "wf_domain m" using \<open>normal_domain m\<close> by (simp add: normal_domain_def)
  ultimately show ?thesis
    using merge_list_fields [OF assms] sorted_union_sorted_distinct wf_distinct_forms
    unfolding merged_domain_def by metis
qed

lemma wf_domain_update_slots:
  assumes "wf_domain d" and "distinct (map slot_name sl)"
  shows "wf_domain (d\<lparr>slots := sl\<rparr>)"
proof -
  have e: "action_names (d\<lparr>slots := sl\<rparr>) = action_names d" "intent_properties (d\<lparr>slots := sl\<rparr>) = intent_properties d"
    "entities (d\<lparr>slots := sl\<rparr>) = entities d" "user_actions (d\<lparr>slots := sl\<rparr>) = user_actions d"
    "form_names (d\<lparr>slots := sl\<rparr>) = form_names d" "slots (d\<lparr>slots := sl\<rparr>) = sl"
    by simp_all
  show ?thesis using assms unfolding wf_domain_def e by blast
qed

lemma add_slots_schema:
  assumes "wf_domain d" and "\<forall>s\<in>set new. feature_dim s = 0"
    and "distinct (map slot_name (slots d @ new))"
  shows "wf_domain (d\<lparr>slots := slots d @ new\<rparr>) \<and> input_states (d\<lparr>slots := slots d @ new\<rparr>) = input_states d"
proof -
  have "slot_states (d\<lparr>slots := slots d @ new\<rparr>) = slot_states d"
    using assms(2) by (simp add: slot_states_def)
  then show ?thesis
    using wf_domain_update_slots [OF assms(1,3)]
    by (simp add: input_states_def intent_states_def intents_def entity_states_def prev_action_states_def
                  form_states_def)
qed

lemma validate_variation_Inl:
  "(\<exists>e. validate_variation k t = Inl e) \<longleftrightarrow>
   (\<exists>kv. t = TemplateDict kv \<and> ''text'' \<notin> set (map fst kv) \<and> ''custom'' \<notin> set (map fst kv))"
  by (cases t) auto

lemma collect_templates_acc_Inl:
  "(\<exists>e. collect_templates_acc acc yml = Inl e) \<longleftrightarrow>
   (\<exists>(k, v)\<in>set yml. v = None \<or>
      (\<exists>vs kv. v = Some vs \<and> TemplateDict kv \<in> set vs \<and>
               ''text'' \<notin> set (map fst kv) \<and> ''custom'' \<notin> set (map fst kv)))"
proof (induction acc yml rule: collect_templates_acc.induct)
  case (3 acc k vs r)
  have bad: "(\<exists>e. map_sum (validate_variation k) vs = Inl e) \<longleftrightarrow>
    (\<exists>kv. TemplateDict kv \<in> set vs \<and> ''text'' \<notin> set (map fst kv) \<and> ''custom'' \<notin> set (map fst kv))"
    unfolding map_sum_Inl_ex validate_variation_Inl by blast
  show ?case
  proof (cases "map_sum (validate_variation k) vs")
    case (Inl e)
    with bad show ?thesis by auto
  next
    case (Inr vs')
    with bad have "\<not> (\<exists>kv. TemplateDict kv \<in> set vs \<and> ''text'' \<notin> set (map fst kv) \<and> ''custom'' \<notin> set (map fst kv))"
      by auto
    with "3.IH" [OF Inr] Inr show ?thesis by (simp; blast)
  qed
qed auto

lemma filter_utter_defaults: "filter (\<lambda>a. prefix UTTER_PREFIX a) default_action_names = []"
  by code_simp

lemma empty_domain_merged: "merged_domain empty_domain"
  by code_simp

lemma load_paths_merged:
  assumes "load_paths acc dds = Inr d" and "merged_domain acc"
  shows "merged_domain d"
  using assms
proof (induction acc dds rule: load_paths.induct)
  case (2 acc dd r)
  then obtain other acc' where o: "domain_from_dict dd = Inr other"
    and m: "fst (merge acc (Some other) False) = Inr acc'" and l: "load_paths acc' r = Inr d"
    by (auto split: sum.splits)
  have "merged_domain acc'"
    using merge_result_merged [OF m _ from_dict_normal [OF o]] "2.prems"(2) by (simp add: merged_domain_def)
  with "2.IH" [OF o _ _ ] m l show ?case by simp
qed simp

lemma directory_paths_merged:
  assumes "directory_paths acc dds = Inr d" and "merged_domain acc"
  shows "merged_domain d"
  using assms
proof (induction acc dds rule: directory_paths.induct)
  case (2 acc dd r)
  then obtain other acc' where o: "domain_from_dict dd = Inr other"
    and m: "fst (merge other (Some acc) False) = Inr acc'" and l: "directory_paths acc' r = Inr d"
    by (auto split: sum.splits)
  have "merged_domain acc'"
    using merge_result_merged [OF m from_dict_normal [OF o]] "2.prems"(2) by (simp add: merged_domain_def)
  with "2.IH" [OF o _ _ ] m l show ?case by simp
qed simp

section \<open>Properties\<close>

text \<open>C9. A domain built by Domain.from_dict is rebuilt exactly by from_dict of its as_dict.\<close>

theorem from_dict_roundtrip:
  assumes "domain_from_dict dd = Inr d"
  shows "domain_from_dict (as_dict d) = Inr d"
  using from_dict_as_dict [OF from_dict_normal [OF assms]] .

theorem from_dict_roundtrip_witness: "domain_from_dict (as_dict ex_dom_a) = Inr ex_dom_a"
  using from_dict_roundtrip [OF ex_from_dict_a] .

text \<open>C7. When Domain.merge of two domains read by from_dict succeeds, the result's intents
  and responses are the two dicts merged with the override flag, its entities and forms
  the sorted unions, its actions the sorted union of self's actions with the argument's
  actions less self's forms, its slots the union sorted by name, and its configuration and
  session configuration self's unless override (the session configuration also when self's
  is the default).\<close>

theorem merge_spec:
  assumes m: "fst (merge d (Some other) ov) = Inr m"
    and nd: "normal_domain d" and no: "normal_domain other"
  shows "intent_properties m = merge_dicts (intent_properties d) (intent_properties other) ov \<and>
         templates m = merge_dicts (templates d) (templates other) ov \<and>
         entities m = sorted_union (entities d) (entities other) \<and>
         form_names m = sorted_union (form_names d) (form_names other) \<and>
         user_actions m = sorted_union (user_actions d) (remove_forms (form_names d) (user_actions other)) \<and>
         set (map slot_name (slots m)) = set (map slot_name (slots d)) \<union> set (map slot_name (slots other)) \<and>
         sorted (map slot_name (slots m)) \<and>
         store_entities_as_slots m = (if ov then store_entities_as_slots other else store_entities_as_slots d) \<and>
         sess_config m = (if ov \<or> sess_config d = default_session_config then sess_config other else sess_config d)"
proof -
  let ?C = "merge_data d other ov"
  obtain tm where md: "make_domain (dd_intents ?C) (dd_entities ?C) (collect_slots (dd_slots ?C)) tm (dd_actions ?C) (dd_forms ?C)
       (case map_of (dd_config ?C) ''store_entities_as_slots'' of None \<Rightarrow> True | Some b \<Rightarrow> b)
       (get_session_config (dd_expiration ?C) (dd_carry_over ?C)) = Inr m"
    using merge_Inr_make_domain [OF m] by blast
  note f = make_domain_fields [OF md] and r = make_domain_record [OF md]
  have wfd: "wf_domain d" and wfo: "wf_domain other"
    using nd no by (simp_all add: normal_domain_def)
  have ipd: "distinct (map fst (intent_properties d))" and ipo: "distinct (map fst (intent_properties other))"
    using wfd wfo unfolding wf_domain_def by blast+
  have ip: "intent_properties m = merge_dicts (intent_properties d) (intent_properties other) ov"
    using f merge_data_intents [OF ipd ipo, of ov] by (simp add: merge_data_def as_dict_def Let_def)
  moreover have "set (map slot_name (slots m)) = set (map slot_name (slots d)) \<union> set (map slot_name (slots other))
                 \<and> sorted (map slot_name (slots m))"
    using f wfd wfo keys_merge_dicts [of "slot_definitions d" "slot_definitions other" ov]
    unfolding wf_domain_def
    by (auto simp: collect_slots_names merge_data_def as_dict_def Let_def slot_definitions_distinct image_image)
  moreover have "store_entities_as_slots m = (if ov then store_entities_as_slots other else store_entities_as_slots d)"
    using r by (simp add: merge_data_def as_dict_def Let_def)
  moreover note merge_sess_config [OF m]
  ultimately show ?thesis
    using merge_list_fields [OF m nd no] by simp
qed

theorem merge_spec_witness:
  "\<exists>m. fst (merge ex_dom_a (Some ex_dom_b) False) = Inr m \<and>
     user_actions m = [''action_hello'', ''utter_greet''] \<and> form_names m = [''restaurant_form''] \<and>
     session_expiration_time (sess_config m) = 60"
proof -
  obtain m where m: "fst (merge ex_dom_a (Some ex_dom_b) False) = Inr m"
    using ex_merge_ab_Inr by (cases "fst (merge ex_dom_a (Some ex_dom_b) False)") auto
  have "sorted_union [''utter_greet''] (remove_forms [''restaurant_form''] [''restaurant_form'', ''action_hello'']) =
          [''action_hello'', ''utter_greet'']"
    "sorted_union [''restaurant_form''] [] = [''restaurant_form'']"
    "sess_config ex_dom_a \<noteq> default_session_config"
    by code_simp+
  with merge_spec [OF m from_dict_normal [OF ex_from_dict_a] from_dict_normal [OF ex_from_dict_b]] m
  show ?thesis by (auto simp: ex_dom_a_def ex_dom_b_def)
qed

text \<open>C30. A domain produced by merging two domains read by from_dict is a fixed point of
  merging with itself, under either override flag.\<close>

theorem merge_idempotent:
  assumes "domain_from_dict dd1 = Inr d1" and "domain_from_dict dd2 = Inr d2"
    and "fst (merge d1 (Some d2) ov) = Inr m"
  shows "fst (merge m (Some m) ov') = Inr m"
  using merge_self [OF merge_result_merged [OF assms(3) from_dict_normal [OF assms(1)] from_dict_normal [OF assms(2)]]] .

theorem merge_idempotent_witness:
  "\<exists>m. fst (merge ex_dom_a (Some ex_dom_b) False) = Inr m \<and> fst (merge m (Some m) True) = Inr m"
proof -
  obtain m where m: "fst (merge ex_dom_a (Some ex_dom_b) False) = Inr m"
    using ex_merge_ab_Inr by (cases "fst (merge ex_dom_a (Some ex_dom_b) False)") auto
  with merge_idempotent [OF ex_from_dict_a ex_from_dict_b m, of True] show ?thesis by blast
qed

text \<open>C8. When a form of self is listed among the argument's custom actions, Domain.merge
  removes it from the argument's own user_actions list while the argument's action_names
  still contain it, so the argument domain is left inconsistent.\<close>

theorem merge_mutates_argument:
  assumes "wf_domain d" and "wf_domain other"
    and "f \<in> set (form_names d)" and "f \<in> set (user_actions other)"
  shows "\<exists>other'. snd (merge d (Some other) ov) = Some other' \<and> f \<notin> set (user_actions other') \<and>
           action_names other' = action_names other \<and> \<not> wf_domain other'"
proof -
  define other' where "other' = other\<lparr>user_actions := remove_forms (form_names d) (user_actions other)\<rparr>"
  have nd: "f \<notin> set default_action_names" using wf_forms_not_default assms(1,3) by blast
  have gone: "f \<notin> set (user_actions other')"
    using remove_forms_removes [OF assms(3) wf_count_user_action [OF assms(2) nd]] by (simp add: other'_def)
  have "f \<notin> set (form_names other)"
    using wf_user_actions_forms_disjoint [OF assms(2)] assms(4) by blast
  then have "\<not> wf_domain other'"
  proof -
    have "f \<in> set (action_names other)"
      using assms(2,4) unfolding wf_domain_def by (auto simp: combine_user_with_default_actions_def)
    moreover have "f \<notin> set (combine_user_with_default_actions (user_actions other') @ form_names other')"
      using gone nd \<open>f \<notin> set (form_names other)\<close> by (simp add: other'_def combine_user_with_default_actions_def)
    ultimately show ?thesis unfolding wf_domain_def other'_def by auto
  qed
  with gone show ?thesis by (simp add: merge_def other'_def)
qed

theorem merge_mutates_argument_witness:
  "\<exists>other'. snd (merge ex_dom_a (Some ex_dom_b) False) = Some other' \<and>
     ''restaurant_form'' \<notin> set (user_actions other') \<and> \<not> wf_domain other'"
proof -
  have "''restaurant_form'' \<in> set (form_names ex_dom_a)" "''restaurant_form'' \<in> set (user_actions ex_dom_b)"
    by code_simp+
  from merge_mutates_argument [OF _ _ this, of False] ex_wf_ab show ?thesis by blast
qed

text \<open>C36. Domain.merge is not symmetric in success. When a form of domain a is listed among
  the custom actions of domain b (both in normal form), a.merge(b) removes it from the
  actions, so any domain it returns has it as a form and not as a user action, while
  b.merge(a) always returns an error: the combined actions and forms name it twice.\<close>

theorem merge_order_dependent:
  assumes na: "normal_domain a" and nb: "normal_domain b"
    and fa: "f \<in> set (form_names a)" and fb: "f \<in> set (user_actions b)"
  shows "(\<forall>m. fst (merge a (Some b) False) = Inr m \<longrightarrow> f \<in> set (form_names m) \<and> f \<notin> set (user_actions m)) \<and>
         (\<exists>e. fst (merge b (Some a) False) = Inl e)"
proof
  have wa: "wf_domain a" and wb: "wf_domain b"
    using na nb by (simp_all add: normal_domain_def)
  show "\<forall>m. fst (merge a (Some b) False) = Inr m \<longrightarrow> f \<in> set (form_names m) \<and> f \<notin> set (user_actions m)"
  proof (intro allI impI)
    fix m assume m: "fst (merge a (Some b) False) = Inr m"
    have nd: "f \<notin> set default_action_names" using wf_forms_not_default wa fa by blast
    have "f \<notin> set (remove_forms (form_names a) (user_actions b))"
      using remove_forms_removes [OF fa wf_count_user_action [OF wb nd]] .
    moreover have "f \<notin> set (user_actions a)"
      using wf_user_actions_forms_disjoint [OF wa] fa by blast
    ultimately show "f \<in> set (form_names m) \<and> f \<notin> set (user_actions m)"
      using merge_list_fields [OF m na nb] fa by simp
  qed
  show "\<exists>e. fst (merge b (Some a) False) = Inl e"
  proof (cases "fst (merge b (Some a) False)")
    case (Inr m)
    have "f \<in> set (user_actions m)" and "f \<in> set (form_names m)"
      using merge_list_fields [OF Inr nb na] fa fb by simp_all
    with wf_user_actions_forms_disjoint [OF merge_Inr_wf [OF Inr]] show ?thesis by blast
  qed simp
qed

theorem merge_order_dependent_witness:
  "\<exists>m e. fst (merge ex_dom_a (Some ex_dom_b) False) = Inr m \<and>
     ''restaurant_form'' \<in> set (form_names m) \<and> ''restaurant_form'' \<notin> set (user_actions m) \<and>
     fst (merge ex_dom_b (Some ex_dom_a) False) = Inl e"
proof -
  have "normal_domain ex_dom_a" "normal_domain ex_dom_b"
    "''restaurant_form'' \<in> set (form_names ex_dom_a)" "''restaurant_form'' \<in> set (user_actions ex_dom_b)"
    by code_simp+
  note r = merge_order_dependent [OF this]
  obtain m where "fst (merge ex_dom_a (Some ex_dom_b) False) = Inr m"
    using ex_merge_ab_Inr by (cases "fst (merge ex_dom_a (Some ex_dom_b) False)") auto
  with r show ?thesis by blast
qed

lemma domain_from_dict_sess_config:
  "domain_from_dict dd = Inr d \<Longrightarrow> sess_config d = get_session_config (dd_expiration dd) (dd_carry_over dd)"
  by (erule domain_from_dict_Inr) (drule make_domain_record, simp)

lemma find_append_case:
  "find P (xs @ ys) = (case find P xs of None \<Rightarrow> find P ys | Some x \<Rightarrow> Some x)"
  by (induction xs) auto

lemma load_paths_sess_config:
  "load_paths acc dds = Inr d \<Longrightarrow>
   sess_config d = (if sess_config acc \<noteq> default_session_config then sess_config acc
     else case find (\<lambda>s. s \<noteq> default_session_config) (map file_session dds) of
            None \<Rightarrow> default_session_config | Some s \<Rightarrow> s)"
proof (induction dds arbitrary: acc)
  case Nil
  then show ?case by simp
next
  case (Cons dd r)
  from Cons.prems obtain other acc' where o: "domain_from_dict dd = Inr other"
    and m: "fst (merge acc (Some other) False) = Inr acc'" and l: "load_paths acc' r = Inr d"
    by (auto split: sum.splits)
  from merge_sess_config [OF m] domain_from_dict_sess_config [OF o] Cons.IH [OF l] show ?case
    by (auto simp: file_session_def)
qed

lemma directory_paths_sess_config:
  "directory_paths acc dds = Inr d \<Longrightarrow>
   sess_config d = (case find (\<lambda>s. s \<noteq> default_session_config) (rev (map file_session dds)) of
            None \<Rightarrow> sess_config acc | Some s \<Rightarrow> s)"
proof (induction dds arbitrary: acc)
  case Nil
  then show ?case by simp
next
  case (Cons dd r)
  from Cons.prems obtain other acc' where o: "domain_from_dict dd = Inr other"
    and m: "fst (merge other (Some acc) False) = Inr acc'" and l: "directory_paths acc' r = Inr d"
    by (auto split: sum.splits)
  from merge_sess_config [OF m] domain_from_dict_sess_config [OF o] Cons.IH [OF l] show ?case
    by (auto simp: file_session_def find_append_case split: option.splits)
qed

text \<open>C37. Domain.load returns the session configuration of the first file that sets one other
  than the default, while from_directory returns that of the last such file in the order
  os.walk lists them; with no such file both return the default. The same files can so
  give different session expiration times depending on their order and the loader.\<close>

theorem load_order_dependent:
  "(load_domain dds = Inr d \<longrightarrow>
     sess_config d = (case find (\<lambda>s. s \<noteq> default_session_config) (map file_session dds) of
                        None \<Rightarrow> default_session_config | Some s \<Rightarrow> s)) \<and>
   (from_directory dds = Inr d' \<longrightarrow>
     sess_config d' = (case find (\<lambda>s. s \<noteq> default_session_config) (rev (map file_session dds)) of
                        None \<Rightarrow> default_session_config | Some s \<Rightarrow> s))"
proof (intro conjI impI)
  have e: "sess_config empty_domain = default_session_config"
    by (simp add: empty_domain_def)
  assume "load_domain dds = Inr d"
  then have "load_paths empty_domain dds = Inr d"
    by (simp add: load_domain_def split: if_splits)
  from load_paths_sess_config [OF this] e
  show "sess_config d = (case find (\<lambda>s. s \<noteq> default_session_config) (map file_session dds) of
                        None \<Rightarrow> default_session_config | Some s \<Rightarrow> s)"
    by simp
next
  have e: "sess_config empty_domain = default_session_config"
    by (simp add: empty_domain_def)
  assume "from_directory dds = Inr d'"
  then have "directory_paths empty_domain dds = Inr d'"
    by (simp add: from_directory_def)
  from directory_paths_sess_config [OF this] e
  show "sess_config d' = (case find (\<lambda>s. s \<noteq> default_session_config) (rev (map file_session dds)) of
                        None \<Rightarrow> default_session_config | Some s \<Rightarrow> s)"
    by (simp only: e)
qed

theorem load_order_dependent_witness:
  "\<exists>d d'. load_domain [ex_file_a, ex_file_c] = Inr d \<and> from_directory [ex_file_a, ex_file_c] = Inr d' \<and>
     session_expiration_time (sess_config d) = 60 \<and> session_expiration_time (sess_config d') = 30"
proof -
  have "case load_domain [ex_file_a, ex_file_c] of Inl e \<Rightarrow> False | Inr d \<Rightarrow> session_expiration_time (sess_config d) = 60"
    by code_simp
  then obtain d where d: "load_domain [ex_file_a, ex_file_c] = Inr d"
    by (auto split: sum.splits)
  have "case from_directory [ex_file_a, ex_file_c] of Inl e \<Rightarrow> False | Inr d \<Rightarrow> session_expiration_time (sess_config d) = 30"
    by code_simp
  then obtain d' where d': "from_directory [ex_file_a, ex_file_c] = Inr d'"
    by (auto split: sum.splits)
  have fs: "map file_session [ex_file_a, ex_file_c] =
     [\<lparr>session_expiration_time = 60, carry_over_slots = True\<rparr>, \<lparr>session_expiration_time = 30, carry_over_slots = True\<rparr>]"
    by (simp add: file_session_def ex_file_a_def ex_file_c_def get_session_config_def)
  from load_order_dependent [of "[ex_file_a, ex_file_c]" d d'] d d' show ?thesis
    unfolding fs by (simp add: default_session_config_def)
qed

text \<open>add_requested_slot followed by add_knowledge_base_slots keeps a domain well formed
  (slot names stay unique) and leaves its state schema input_states unchanged, the added
  slots being unfeaturized.\<close>

theorem added_slots_keep_schema:
  assumes "wf_domain d"
  shows "wf_domain (add_knowledge_base_slots (add_requested_slot d)) \<and>
         input_states (add_knowledge_base_slots (add_requested_slot d)) = input_states d"
proof -
  have r: "wf_domain (add_requested_slot d) \<and> input_states (add_requested_slot d) = input_states d"
  proof (cases "form_names d \<noteq> [] \<and> REQUESTED_SLOT \<notin> set (map slot_name (slots d))")
    case True
    have "distinct (map slot_name (slots d))" using assms unfolding wf_domain_def by blast
    with True have "distinct (map slot_name (slots d @ [unfeaturized_slot REQUESTED_SLOT]))"
      by (simp add: unfeaturized_slot_def)
    from add_slots_schema [OF assms _ this] True show ?thesis
      by (simp add: add_requested_slot_def unfeaturized_slot_def)
  next
    case False
    then have "add_requested_slot d = d" unfolding add_requested_slot_def by (rule if_not_P)
    with assms show ?thesis by simp
  qed
  let ?d = "add_requested_slot d"
  let ?new = "map unfeaturized_slot (filter (\<lambda>s. s \<notin> set (map slot_name (slots ?d))) knowledge_base_slots)"
  have "distinct (map slot_name (slots ?d @ ?new))"
  proof -
    have "distinct (map slot_name (slots ?d))" using r unfolding wf_domain_def by blast
    moreover have "distinct knowledge_base_slots" by (simp add: knowledge_base_slots_def)
    ultimately show ?thesis by (auto simp: comp_def unfeaturized_slot_def)
  qed
  moreover have "\<forall>s\<in>set ?new. feature_dim s = 0" by (auto simp: unfeaturized_slot_def)
  ultimately show ?thesis
    using add_slots_schema [of ?d ?new] r by (auto simp: add_knowledge_base_slots_def)
qed

theorem added_slots_keep_schema_witness:
  "input_states (add_knowledge_base_slots (add_requested_slot ex_dom_a)) = input_states ex_dom_a \<and>
   map slot_name (slots (add_requested_slot ex_dom_a)) = [REQUESTED_SLOT]"
proof -
  have "map slot_name (slots (add_requested_slot ex_dom_a)) = [REQUESTED_SLOT]" by code_simp
  with added_slots_keep_schema ex_wf_ab show ?thesis by blast
qed

text \<open>C20. collect_templates raises exactly when some response has no variation list (null) or
  a dict variation with neither a text nor a custom key; string variations are converted
  and empty variation lists are accepted.\<close>

theorem collect_templates_error:
  "(\<exists>e. collect_templates yml = Inl e) \<longleftrightarrow>
   (\<exists>(k, v)\<in>set yml. v = None \<or>
      (\<exists>vs kv. v = Some vs \<and> TemplateDict kv \<in> set vs \<and>
               ''text'' \<notin> set (map fst kv) \<and> ''custom'' \<notin> set (map fst kv)))"
  unfolding collect_templates_def by (rule collect_templates_acc_Inl)

theorem collect_templates_error_witness:
  "\<exists>e. collect_templates [(''utter_greet'', Some [TemplateStr ''Hi'']),
                            (''utter_pic'', Some [TemplateDict [(''image'', ''a.png'')]])] = Inl e"
  using collect_templates_error [of "[(''utter_greet'', Some [TemplateStr ''Hi'']),
                                      (''utter_pic'', Some [TemplateDict [(''image'', ''a.png'')]])]"]
  by simp

text \<open>C31. check_missing_templates of a constructed domain warns for exactly the custom
  actions and forms, in order, that start with utter_ and have no response; default
  actions and response-only actions never produce a warning.\<close>

theorem missing_templates_spec:
  assumes "make_domain its ents sls tmpls acts forms store sc = Inr d"
  shows "check_missing_templates d =
           filter (\<lambda>a. prefix UTTER_PREFIX a \<and> a \<notin> set (map fst tmpls)) (acts @ forms)"
proof -
  note f = make_domain_fields [OF assms] and r = make_domain_record [OF assms]
  let ?P = "\<lambda>a. prefix UTTER_PREFIX a \<and> a \<notin> set (map fst tmpls)"
  have nd: "prefix UTTER_PREFIX a \<Longrightarrow> a \<notin> set default_action_names" for a
    using filter_utter_defaults by (auto simp: filter_empty_conv)
  have "check_missing_templates d = filter ?P (action_names d)"
    by (simp add: check_missing_templates_def template_keys_def r filter_filter conj_commute)
  also have "\<dots> = filter ?P default_action_names @
                  filter ?P (filter (\<lambda>a. a \<notin> set default_action_names) acts) @
                  filter ?P (filter (\<lambda>a. a \<notin> set default_action_names)
                               (filter (\<lambda>a. a \<notin> set acts) (sort (map fst tmpls)))) @ filter ?P forms"
    by (simp add: f combine_user_with_default_actions_def combine_with_templates_def)
  also have "filter ?P default_action_names = []"
    using filter_utter_defaults by (auto simp: filter_empty_conv)
  also have "filter ?P (filter (\<lambda>a. a \<notin> set default_action_names) acts) = filter ?P acts"
    using nd by (auto simp: filter_filter intro: filter_cong)
  also have "filter ?P (filter (\<lambda>a. a \<notin> set default_action_names)
               (filter (\<lambda>a. a \<notin> set acts) (sort (map fst tmpls)))) = []"
    by (auto simp: filter_empty_conv)
  finally show ?thesis by simp
qed

theorem missing_templates_spec_witness:
  "\<exists>d. make_domain [] [] [] ex_templates [''utter_bye''] [] True default_session_config = Inr d \<and>
     check_missing_templates d = [''utter_bye'']"
proof -
  have "case make_domain [] [] [] ex_templates [''utter_bye''] [] True default_session_config of
          Inr d \<Rightarrow> True | Inl e \<Rightarrow> False"
    by code_simp
  then obtain d where d: "make_domain [] [] [] ex_templates [''utter_bye''] [] True default_session_config = Inr d"
    by (auto split: sum.splits)
  have "filter (\<lambda>a. prefix UTTER_PREFIX a \<and> a \<notin> set (map fst ex_templates)) ([''utter_bye''] @ []) = [''utter_bye'']"
    by code_simp
  with missing_templates_spec [OF d] d show ?thesis by auto
qed

text \<open>Every domain that Domain.load or from_directory returns is well formed and in
  merged normal form. Its entities, actions and forms are sorted without duplicates, its
  slots are sorted by name, and its responses are validated and name custom actions. The
  invariant holds for Domain.empty and is kept by every merge of a file read by from_dict.\<close>

theorem loaded_domain_merged:
  assumes "load_domain dds = Inr d \<or> from_directory dds = Inr d"
  shows "merged_domain d"
  using assms load_paths_merged directory_paths_merged empty_domain_merged
  by (auto simp: load_domain_def from_directory_def split: if_splits)

theorem loaded_domain_merged_witness:
  "\<exists>d. load_domain [ex_file_a, ex_file_b] = Inr d \<and> merged_domain d \<and> wf_domain d"
proof -
  have "case load_domain [ex_file_a, ex_file_b] of Inr d \<Rightarrow> True | Inl e \<Rightarrow> False" by code_simp
  then obtain d where d: "load_domain [ex_file_a, ex_file_b] = Inr d" by (auto split: sum.splits)
  with loaded_domain_merged [of "[ex_file_a, ex_file_b]" d] show ?thesis
    by (auto simp: merged_domain_def normal_domain_def)
qed

end
