(* ===== verification/DomainFiles.thy ===== *)
theory DomainFiles
  imports DomainMerge
begin

text \<open>
  Reading domains from the file system (\<open>src/rasa/core/domain.py\<close>): \<open>Domain.load\<close> over
  paths, \<open>from_path\<close>, which tells files from directories, \<open>from_file\<close>, \<open>from_yaml\<close>
  with its schema check, and \<open>from_directory\<close> over the files \<open>os.walk\<close> lists. The
  file system is a table from paths to nodes; the YAML schema check, the YAML reader and
  \<open>rasa.data.is_domain_file\<close> are outside the sources and form a record of functions.
  The theory shows that every domain this loader returns is in merged normal form, and
  evaluates its error paths on an example file system.
\<close>

section \<open>The file system and the YAML functions\<close>

text \<open>A path names a file with its text, a directory with the files below it in the
  order \<open>os.walk\<close> yields them (full path and text), or nothing.\<close>

datatype fs_node = FsFile string | FsDir "(string \<times> string) list" | FsNone

text \<open>\<open>validate_yaml_schema\<close> (the message of its \<open>InvalidYamlFileError\<close>, or \<open>None\<close>),
  \<open>rasa.utils.io.read_yaml\<close> of a valid domain file, and \<open>rasa.data.is_domain_file\<close>.\<close>

record yaml_io =
  validate_domain_yaml :: "string \<Rightarrow> string option"
  read_domain_yaml :: "string \<Rightarrow> domain_data"
  is_domain_file :: "string \<Rightarrow> string \<Rightarrow> bool"

text \<open>The argument of \<open>Domain.load\<close>: one path or a list of paths.\<close>

datatype paths_arg = PathStr string | PathList "string list"

section \<open>Loading\<close>

text \<open>\<open>from_yaml\<close>: a schema violation becomes \<open>InvalidDomain\<close> with its message.\<close>

definition from_yaml :: "yaml_io \<Rightarrow> string \<Rightarrow> domain_error + domain" where
  "from_yaml io yaml =
     (case validate_domain_yaml io yaml of
        Some msg \<Rightarrow> Inl (InvalidYamlDomain msg)
      | None \<Rightarrow> domain_from_dict (read_domain_yaml io yaml))"

text \<open>\<open>from_file\<close>: \<open>from_yaml\<close> of the file's text (\<open>read_file\<close> is the lookup of the
  node).\<close>

definition from_file :: "yaml_io \<Rightarrow> string \<Rightarrow> domain_error + domain" where
  "from_file io text = from_yaml io text"

text \<open>\<open>from_directory\<close>: every domain file below the directory, in walk order, merged as
  \<open>other.merge(domain)\<close>.\<close>

fun directory_files :: "yaml_io \<Rightarrow> domain \<Rightarrow> (string \<times> string) list \<Rightarrow> domain_error + domain" where
  "directory_files io acc [] = Inr acc"
| "directory_files io acc ((path, text) # r) =
     (if is_domain_file io path text then
        (case from_file io text of
           Inl e \<Rightarrow> Inl e
         | Inr other \<Rightarrow>
             (case fst (merge other (Some acc) False) of
                Inl e \<Rightarrow> Inl e
              | Inr acc' \<Rightarrow> directory_files io acc' r))
      else directory_files io acc r)"

definition from_directory_fs :: "yaml_io \<Rightarrow> (string \<times> string) list \<Rightarrow> domain_error + domain" where
  "from_directory_fs io entries = directory_files io empty_domain entries"

text \<open>\<open>from_path\<close>: a file, a directory, or \<open>InvalidDomain\<close> ("File not found!").\<close>

definition from_path :: "yaml_io \<Rightarrow> (string \<Rightarrow> fs_node) \<Rightarrow> string \<Rightarrow> domain_error + domain" where
  "from_path io fs path =
     (case fs path of
        FsFile text \<Rightarrow> from_file io text
      | FsDir entries \<Rightarrow> from_directory_fs io entries
      | FsNone \<Rightarrow> Inl (DomainFileNotFound path))"

text \<open>\<open>Domain.load\<close>: no path raises; a single path is wrapped in a list; each path's
  domain is merged into the domain so far.\<close>

fun load_fs_paths :: "yaml_io \<Rightarrow> (string \<Rightarrow> fs_node) \<Rightarrow> domain \<Rightarrow> string list \<Rightarrow> domain_error + domain" where
  "load_fs_paths io fs acc [] = Inr acc"
| "load_fs_paths io fs acc (path # r) =
     (case from_path io fs path of
        Inl e \<Rightarrow> Inl e
      | Inr other \<Rightarrow>
          (case fst (merge acc (Some other) False) of
             Inl e \<Rightarrow> Inl e
           | Inr acc' \<Rightarrow> load_fs_paths io fs acc' r))"

definition domain_load :: "yaml_io \<Rightarrow> (string \<Rightarrow> fs_node) \<Rightarrow> paths_arg \<Rightarrow> domain_error + domain" where
  "domain_load io fs paths =
     (case paths of
        PathStr p \<Rightarrow> if p = [] then Inl NoDomainFile else load_fs_paths io fs empty_domain [p]
      | PathList ps \<Rightarrow> if ps = [] then Inl NoDomainFile else load_fs_paths io fs empty_domain ps)"

section \<open>An example file system\<close>

text \<open>Two domain files, a directory holding both and a file that is not a domain file,
  and a schema check that rejects the text \<open>bad\<close>.\<close>

definition ex_io :: yaml_io where
  "ex_io = \<lparr>validate_domain_yaml = (\<lambda>t. if t = ''bad'' then Some ''schema'' else None),
     read_domain_yaml = (\<lambda>t. if t = ''a'' then ex_file_a else ex_file_b),
     is_domain_file = (\<lambda>p t. t \<noteq> ''readme'')\<rparr>"

definition ex_fs :: "string \<Rightarrow> fs_node" where
  "ex_fs p = (if p = ''a.yml'' then FsFile ''a'' else if p = ''b.yml'' then FsFile ''b''
     else if p = ''domain'' then FsDir [(''domain/b.yml'', ''b''), (''domain/README.md'', ''readme''), (''domain/a.yml'', ''a'')]
     else FsNone)"

section \<open>Every loaded domain is merged\<close>

lemma merged_normal: "merged_domain d \<Longrightarrow> normal_domain d"
  by (simp add: merged_domain_def)

lemma from_file_normal: "from_file io text = Inr d \<Longrightarrow> normal_domain d"
  by (auto simp: from_file_def from_yaml_def intro: from_dict_normal split: option.splits)

lemma directory_files_merged:
  "directory_files io acc es = Inr d \<Longrightarrow> merged_domain acc \<Longrightarrow> merged_domain d"
proof (induction io acc es rule: directory_files.induct)
  case (2 io acc path tx r)
  show ?case
  proof (cases "is_domain_file io path tx")
    case True
    with "2.prems" obtain other acc' where o: "from_file io tx = Inr other"
      and m: "fst (merge other (Some acc) False) = Inr acc'" and l: "directory_files io acc' r = Inr d"
      by (auto split: sum.splits)
    have "merged_domain acc'"
      using merge_result_merged [OF m from_file_normal [OF o] merged_normal [OF "2.prems"(2)]] .
    with "2.IH"(1) [OF True o _ _] m l show ?thesis by simp
  next
    case False
    with "2.IH"(2) "2.prems" show ?thesis by simp
  qed
qed simp

lemma from_path_normal: "from_path io fs path = Inr d \<Longrightarrow> normal_domain d"
  using from_file_normal directory_files_merged [OF _ empty_domain_merged] merged_normal
  by (auto simp: from_path_def from_directory_fs_def split: fs_node.splits)

lemma load_fs_paths_merged:
  "load_fs_paths io fs acc ps = Inr d \<Longrightarrow> normal_domain acc \<Longrightarrow> ps \<noteq> [] \<Longrightarrow> merged_domain d"
proof (induction io fs acc ps rule: load_fs_paths.induct)
  case (2 io fs acc path r)
  then obtain other acc' where o: "from_path io fs path = Inr other"
    and m: "fst (merge acc (Some other) False) = Inr acc'" and l: "load_fs_paths io fs acc' r = Inr d"
    by (auto split: sum.splits)
  have acc': "merged_domain acc'"
    using merge_result_merged [OF m "2.prems"(2) from_path_normal [OF o]] .
  show ?case
  proof (cases "r = []")
    case True
    with l acc' show ?thesis by simp
  next
    case False
    with "2.IH" [OF o m l merged_normal [OF acc'] False] show ?thesis by simp
  qed
qed simp

text \<open>C29. Every domain that Domain.load returns, whether its paths name domain files,
  directories walked by from_directory or both, is well formed and in merged normal form:
  entities, actions and forms sorted without duplicates, slots sorted by name, responses
  validated. Each file is read by from_yaml and from_dict, and every result is merged into
  Domain.empty or the domain so far.\<close>

theorem domain_load_merged:
  "domain_load io fs paths = Inr d \<Longrightarrow> merged_domain d"
  using load_fs_paths_merged [OF _ merged_normal [OF empty_domain_merged]]
  by (auto simp: domain_load_def simp del: load_fs_paths.simps split: paths_arg.splits if_splits)

section \<open>Examples\<close>

theorem domain_load_merged_witness:
  "\<exists>d. domain_load ex_io ex_fs (PathStr ''domain'') = Inr d \<and> merged_domain d"
proof -
  have "case domain_load ex_io ex_fs (PathStr ''domain'') of Inr d \<Rightarrow> True | Inl e \<Rightarrow> False" by code_simp
  then obtain d where d: "domain_load ex_io ex_fs (PathStr ''domain'') = Inr d" by (auto split: sum.splits)
  with domain_load_merged [OF d] show ?thesis by blast
qed

lemma ex_domain_load_errors:
  "domain_load ex_io ex_fs (PathList []) = Inl NoDomainFile \<and>
   domain_load ex_io ex_fs (PathStr ''missing'') = Inl (DomainFileNotFound ''missing'') \<and>
   domain_load ex_io (ex_fs(''x.yml'' := FsFile ''bad'')) (PathList [''a.yml'', ''x.yml'']) = Inl (InvalidYamlDomain ''schema'')"
  by code_simp

end
