(* ===== verification/DomainClean.thy ===== *)
theory DomainClean
  imports DomainMerge
begin

text \<open>
  The cleaned form of a domain (\<open>src/rasa/core/domain.py\<close>): \<open>cleaned_domain\<close>,
  which drops the keys of \<open>as_dict\<close> that hold default values and writes slot types
  by their type names, and the writers \<open>persist\<close>, \<open>persist_clean\<close> and
  \<open>as_yaml\<close>. The theory shows that reading a cleaned domain back with
  \<open>from_dict\<close> gives the domain again, with each slot type by its type name.
\<close>

section \<open>\<open>cleaned_domain\<close>\<close>

text \<open>One entry of \<open>"intents"\<close>: \<open>use_entities: true\<close> and a falsy
  \<open>ignore_entities\<close> are popped, and an entry left without keys becomes the bare intent
  name. \<open>as_dict\<close> writes every intent as a dict; a bare name is left as it is.\<close>

fun clean_intent :: "raw_intent \<Rightarrow> raw_intent" where
  "clean_intent (IntentName n) = IntentName n"
| "clean_intent (IntentDict n u ign trig) =
     (let u' = (if u = Some RawTrue then None else u);
          ign' = (case ign of None \<Rightarrow> None | Some l \<Rightarrow> if l = [] then None else Some l)
      in if u' = None \<and> ign' = None \<and> trig = None then IntentName n else IntentDict n u' ign' trig)"

text \<open>One slot: a type given by its module path (\<open>rasa.core.slots...\<close>) is replaced by
  the type name of the class \<open>Slot.resolve_by_type\<close> finds (a parameter, since the slot
  classes are outside the sources). The slot record holds the arguments the slot's
  constructor receives, so deleting \<open>initial_value\<close> when it is \<open>None\<close> and
  \<open>auto_fill\<close> when it is true, the constructor's defaults, leaves it unchanged.\<close>

definition clean_slot :: "(string \<Rightarrow> string) \<Rightarrow> slot \<Rightarrow> slot" where
  "clean_slot type_name_of s =
     (if prefix ''rasa.core.slots'' (slot_type s) then s\<lparr>slot_type := type_name_of (slot_type s)\<rparr> else s)"

text \<open>\<open>"config"\<close>: \<open>store_entities_as_slots\<close> is deleted when it is true.\<close>

definition clean_config :: "(string \<times> bool) list \<Rightarrow> (string \<times> bool) list" where
  "clean_config c =
     (case map_of c ''store_entities_as_slots'' of
        Some True \<Rightarrow> AList.delete ''store_entities_as_slots'' c
      | _ \<Rightarrow> c)"

text \<open>\<open>Domain.cleaned_domain\<close>. The final comprehension drops the keys whose value is
  \<open>{}\<close>, \<open>[]\<close> or \<open>None\<close>; \<open>domain_data\<close> already reads a missing list or dict
  key as empty, as \<open>from_dict\<close> does, so dropping them changes nothing here.\<close>

definition cleaned_domain :: "(string \<Rightarrow> string) \<Rightarrow> domain \<Rightarrow> domain_data" where
  "cleaned_domain type_name_of d =
     (let domain_data = as_dict d in
      domain_data\<lparr>dd_intents := map clean_intent (dd_intents domain_data),
                  dd_slots := map (\<lambda>(n, s). (n, clean_slot type_name_of s)) (dd_slots domain_data),
                  dd_config := clean_config (dd_config domain_data)\<rparr>)"

section \<open>Writing the domain\<close>

text \<open>\<open>persist\<close> and \<open>persist_clean\<close> write the dict to a file (path and content);
  \<open>as_yaml\<close> dumps it with the YAML writer, a parameter.\<close>

definition persist_domain :: "domain \<Rightarrow> string \<Rightarrow> string \<times> domain_data" where
  "persist_domain d filename = (filename, as_dict d)"

definition persist_clean :: "(string \<Rightarrow> string) \<Rightarrow> domain \<Rightarrow> string \<Rightarrow> string \<times> domain_data" where
  "persist_clean type_name_of d filename = (filename, cleaned_domain type_name_of d)"

definition as_yaml :: "(domain_data \<Rightarrow> string) \<Rightarrow> (string \<Rightarrow> string) \<Rightarrow> domain \<Rightarrow> bool \<Rightarrow> string" where
  "as_yaml dump_yaml type_name_of d clean_before_dump =
     dump_yaml (if clean_before_dump then cleaned_domain type_name_of d else as_dict d)"

section \<open>Example\<close>

text \<open>The domain of file \<open>a\<close> with a text slot given by its module path.\<close>

definition ex_slot_dom :: domain where
  "ex_slot_dom = ex_dom_a\<lparr>slots := [\<lparr>slot_name = ''city'', slot_type = ''rasa.core.slots.TextSlot'', auto_fill = True, feature_dim = 1\<rparr>]\<rparr>"

definition ex_type_name :: "string \<Rightarrow> string" where
  "ex_type_name t = (if t = ''rasa.core.slots.TextSlot'' then ''text'' else t)"

section \<open>Reading a cleaned domain back\<close>

lemma intent_entry_clean_intent [simp]: "intent_entry (clean_intent it) = intent_entry it"
  by (cases it rule: clean_intent.cases) (auto simp: Let_def split: option.splits raw_use.splits)

lemma collect_intents_acc_map:
  "(\<And>it. intent_entry (f it) = intent_entry it) \<Longrightarrow> collect_intents_acc acc (map f its) = collect_intents_acc acc its"
  by (induction its arbitrary: acc) (auto simp: Let_def split: prod.splits)

lemma collect_intent_properties_clean [simp]:
  "collect_intent_properties (map clean_intent its) = collect_intent_properties its"
  by (simp add: collect_intent_properties_def collect_intents_acc_map)

lemma clean_config_store:
  "dd_config (as_dict d) = c \<Longrightarrow>
   find (\<lambda>k. k \<noteq> ''store_entities_as_slots'') (map fst (clean_config c)) = None \<and>
   (case map_of (clean_config c) ''store_entities_as_slots'' of None \<Rightarrow> True | Some b \<Rightarrow> b) = store_entities_as_slots d"
  by (cases "store_entities_as_slots d") (auto simp: as_dict_def clean_config_def)

lemma slot_name_clean_slot [simp]: "slot_name (clean_slot tn s) = slot_name s"
  by (simp add: clean_slot_def)

lemma slot_names_clean_slots [simp]: "map slot_name (map (clean_slot tn) sl) = map slot_name sl"
  by (induction sl) simp_all

lemma normal_domain_slots_update:
  "map slot_name sl = map slot_name (slots d) \<Longrightarrow> normal_domain (d\<lparr>slots := sl\<rparr>) = normal_domain d"
  by (simp add: normal_domain_def wf_domain_def template_keys_def)

lemma normal_domain_clean_slots:
  "normal_domain d \<Longrightarrow> normal_domain (d\<lparr>slots := map (clean_slot tn) (slots d)\<rparr>)"
  by (simp add: normal_domain_slots_update)

lemma from_dict_clean_intents:
  assumes "find (\<lambda>k. k \<noteq> ''store_entities_as_slots'') (map fst c) = find (\<lambda>k. k \<noteq> ''store_entities_as_slots'') (map fst (dd_config dd))"
    and "(case map_of c ''store_entities_as_slots'' of None \<Rightarrow> True | Some b \<Rightarrow> b) =
         (case map_of (dd_config dd) ''store_entities_as_slots'' of None \<Rightarrow> True | Some b \<Rightarrow> b)"
  shows "domain_from_dict (dd\<lparr>dd_intents := map clean_intent (dd_intents dd), dd_config := c\<rparr>) = domain_from_dict dd"
proof -
  let ?dd = "dd\<lparr>dd_intents := map clean_intent (dd_intents dd), dd_config := c\<rparr>"
  have s: "dd_config ?dd = c" "dd_intents ?dd = map clean_intent (dd_intents dd)"
    "dd_responses ?dd = dd_responses dd" "dd_templates ?dd = dd_templates dd"
    "dd_entities ?dd = dd_entities dd" "dd_slots ?dd = dd_slots dd" "dd_actions ?dd = dd_actions dd"
    "dd_forms ?dd = dd_forms dd" "dd_expiration ?dd = dd_expiration dd" "dd_carry_over ?dd = dd_carry_over dd"
    by simp_all
  show ?thesis
    unfolding domain_from_dict_def make_domain_def s assms collect_intent_properties_clean ..
qed
lemma cleaned_domain_as_dict:
  assumes "distinct (map slot_name (slots d))"
  shows "cleaned_domain tn d =
    (as_dict (d\<lparr>slots := map (clean_slot tn) (slots d)\<rparr>))\<lparr>dd_intents := map clean_intent (dd_intents (as_dict d)),
       dd_config := clean_config (dd_config (as_dict d))\<rparr>"
  using assms by (simp add: cleaned_domain_def as_dict_def slot_definitions_distinct comp_def)

text \<open>C10. Reading the dict of Domain.cleaned_domain back with from_dict gives the domain
  again, for every domain read by from_dict: the popped use_entities, ignore_entities and
  store_entities_as_slots keys and the bare intent names read back as the same defaults,
  and only slot types given by a rasa.core.slots module path come back as their type
  names.\<close>

theorem cleaned_domain_roundtrip:
  assumes "normal_domain d"
  shows "domain_from_dict (cleaned_domain tn d) = Inr (d\<lparr>slots := map (clean_slot tn) (slots d)\<rparr>)"
proof -
  let ?d' = "d\<lparr>slots := map (clean_slot tn) (slots d)\<rparr>"
  have ds: "distinct (map slot_name (slots d))"
    using assms by (simp add: normal_domain_def wf_domain_def)
  have i: "dd_intents (as_dict d) = dd_intents (as_dict ?d')" and c: "dd_config (as_dict d) = dd_config (as_dict ?d')"
    by (simp_all add: as_dict_def)
  have "domain_from_dict (cleaned_domain tn d) = domain_from_dict (as_dict ?d')"
    unfolding cleaned_domain_as_dict [OF ds] i c
    using clean_config_store [of ?d' "dd_config (as_dict ?d')"]
    by (intro from_dict_clean_intents) (simp_all add: as_dict_def)
  also have "\<dots> = Inr ?d'"
    using from_dict_as_dict [OF normal_domain_clean_slots [OF assms]] .
  finally show ?thesis .
qed

lemma ex_cleaned_domain:
  "dd_intents (cleaned_domain ex_type_name ex_slot_dom) = [IntentName ''greet''] \<and>
   dd_config (cleaned_domain ex_type_name ex_slot_dom) = [] \<and>
   dd_slots (cleaned_domain ex_type_name ex_slot_dom) =
     [(''city'', \<lparr>slot_name = ''city'', slot_type = ''text'', auto_fill = True, feature_dim = 1\<rparr>)]"
  by code_simp

theorem cleaned_domain_roundtrip_witness:
  "normal_domain ex_slot_dom \<and>
   domain_from_dict (cleaned_domain ex_type_name ex_slot_dom) =
     Inr (ex_slot_dom\<lparr>slots := [\<lparr>slot_name = ''city'', slot_type = ''text'', auto_fill = True, feature_dim = 1\<rparr>]\<rparr>)"
proof -
  have n: "normal_domain ex_slot_dom" by code_simp
  show ?thesis
    using cleaned_domain_roundtrip [OF n, of ex_type_name] n
    by (simp add: ex_slot_dom_def ex_type_name_def clean_slot_def)
qed

lemma ex_random_template_empty:
  "(case domain_from_dict (ex_file_a\<lparr>dd_responses := dd_responses ex_file_a @ [(''utter_empty'', Some [])]\<rparr>) of
      Inr d \<Rightarrow> random_template_for d ''utter_empty'' = {Inl (ChoiceFromEmpty ''utter_empty'')} \<and>
               random_template_for d ''utter_none'' = {Inr None}
    | Inl e \<Rightarrow> False)"
  by code_simp

end
