(* ===== verification/Slack.thy ===== *)
theory Slack
  imports PyLib
begin

text \<open>
  The Slack channel (\<open>src/rasa/core/channels/slack.py\<close>). \<open>SlackBot\<close> is the output
  channel: each \<open>send_*\<close> method is modelled by the list of \<open>chat.postMessage\<close> API calls it
  makes (the Slack client itself is outside the sources). \<open>SlackInput\<close> is the input channel:
  its construction from credentials, the payload tests, the sanitiser of user text, the retry
  guard of \<open>process_message\<close> and the \<open>/webhook\<close> route, which returns the HTTP response
  together with the user messages handed to \<open>on_new_message\<close> (at most one). The three
  mention-removing regular expressions and the link regular expression are modelled by their
  matchers; the mention patterns are literal for user ids without regular-expression syntax,
  and \<open>sanitize_user_message\<close> returns \<open>Unsupported\<close> for any other id.
\<close>

section \<open>Output channel: SlackBot\<close>

text \<open>A \<open>SlackBot\<close>: its token and its optional fixed channel
  (\<open>None\<close> is \<open>NULL\<close>); an API call is a method name with its keyword
  arguments.\<close>

record slack_bot =
  bot_token :: json
  bot_channel :: json

record api_call =
  call_method :: string
  call_kwargs :: "(string \<times> json) list"

definition slack_name :: string where
  "slack_name = ''slack''"

definition post_message :: "(string \<times> json) list \<Rightarrow> api_call" where
  "post_message kwargs = \<lparr>call_method = ''chat.postMessage'', call_kwargs = kwargs\<rparr>"

definition get_text_from_slack_buttons :: "json list \<Rightarrow> py_error + string" where
  "get_text_from_slack_buttons buttons =
     sum_bind (map_sum (\<lambda>b. json_get_default b ''title'' (STRING [])) buttons)
       (\<lambda>titles. sum_bind (map_sum json_str titles) (\<lambda>ts. Inr (concat ts)))"

text \<open>\<open>send_text_message\<close> posts each part of the text split at blank lines, to
  the fixed channel when one is set and to the recipient otherwise.\<close>

definition send_text_message :: "slack_bot \<Rightarrow> json \<Rightarrow> string \<Rightarrow> api_call list" where
  "send_text_message self recipient_id text =
     (let recipient = py_or (bot_channel self) recipient_id in
      map (\<lambda>part. post_message
             [(''channel'', recipient), (''as_user'', BOOL True), (''text'', STRING part),
              (''type'', STRING ''mrkdwn'')])
        (py_split ''\<newline>\<newline>'' text))"

definition send_image_url :: "slack_bot \<Rightarrow> json \<Rightarrow> string \<Rightarrow> api_call list" where
  "send_image_url self recipient_id img =
     (let recipient = py_or (bot_channel self) recipient_id;
          image_block = OBJECT [(''type'', STRING ''image''), (''image_url'', STRING img),
                                (''alt_text'', STRING img)]
      in [post_message [(''channel'', recipient), (''as_user'', BOOL True), (''text'', STRING img),
                        (''blocks'', ARRAY [image_block])]])"

definition send_attachment ::
  "slack_bot \<Rightarrow> json \<Rightarrow> json \<Rightarrow> (string \<times> json) list \<Rightarrow> py_error + api_call list" where
  "send_attachment self recipient_id attachment kwargs =
     (let recipient = py_or (bot_channel self) recipient_id in
      sum_bind (py_kwargs [(''channel'', recipient), (''as_user'', BOOL True),
                           (''attachments'', ARRAY [attachment])] kwargs)
        (\<lambda>kw. Inr [post_message kw]))"

text \<open>\<open>send_text_with_buttons\<close>: more than five buttons fall back to
  \<open>send_text_message\<close>; otherwise every button must have a title and a payload
  (\<open>KeyError\<close> before anything is posted).\<close>

definition button_element :: "json \<Rightarrow> py_error + json" where
  "button_element button =
     sum_bind (json_key button ''title'') (\<lambda>title.
     sum_bind (json_key button ''payload'') (\<lambda>payload.
       Inr (OBJECT [(''type'', STRING ''button''),
                    (''text'', OBJECT [(''type'', STRING ''plain_text''), (''text'', title)]),
                    (''value'', payload)])))"

definition send_text_with_buttons :: "slack_bot \<Rightarrow> json \<Rightarrow> string \<Rightarrow> json list \<Rightarrow> py_error + api_call list" where
  "send_text_with_buttons self recipient_id text buttons =
     (let recipient = py_or (bot_channel self) recipient_id;
          text_block = OBJECT [(''type'', STRING ''section''),
                               (''text'', OBJECT [(''type'', STRING ''plain_text''), (''text'', STRING text)])]
      in if 5 < length buttons then Inr (send_text_message self recipient text)
         else sum_bind (map_sum button_element buttons) (\<lambda>elements.
           Inr [post_message [(''channel'', recipient), (''as_user'', BOOL True), (''text'', STRING text),
                              (''blocks'', ARRAY [text_block,
                                 OBJECT [(''type'', STRING ''actions''), (''elements'', ARRAY elements)]])]]))"

definition send_custom_json :: "slack_bot \<Rightarrow> json \<Rightarrow> (string \<times> json) list \<Rightarrow> api_call list" where
  "send_custom_json self recipient_id json_message =
     (let m = py_setdefault ''as_user'' (BOOL True)
                (py_setdefault ''channel'' (py_or (bot_channel self) recipient_id) json_message)
      in [post_message m])"

text \<open>The text of a posted message, the \<open>text\<close> keyword argument of the
  call.\<close>

definition posted_text :: "api_call \<Rightarrow> string" where
  "posted_text c = (case map_of (call_kwargs c) ''text'' of Some (STRING s) \<Rightarrow> s | _ \<Rightarrow> [])"

section \<open>Input channel: SlackInput\<close>

subsection \<open>Sanitising user text (\<open>_sanitize_user_message\<close>)\<close>

text \<open>For each user id, in order, the patterns \<open><@uid>\<close> followed by whitespace and
  whitespace followed by \<open><@uid>\<close> are removed, then \<open><@uid>\<close> is replaced by a space.\<close>

definition mention :: "string \<Rightarrow> string" where
  "mention u = ''<@'' @ u @ ''>''"

definition regex_literal :: "string \<Rightarrow> bool" where
  "regex_literal u = list_all (\<lambda>c. c \<notin> set (CHR 0x5C # ''.^$*+?{}[]|()'')) u"

definition match_mention_space :: "string \<Rightarrow> string \<Rightarrow> nat option" where
  "match_mention_space u s =
     (if prefix (mention u) s \<and> length (mention u) < length s \<and> py_isspace (s ! length (mention u))
      then Some (Suc (length (mention u))) else None)"

definition match_space_mention :: "string \<Rightarrow> string \<Rightarrow> nat option" where
  "match_space_mention u s =
     (case s of
        c # cs \<Rightarrow> if py_isspace c \<and> prefix (mention u) cs then Some (Suc (length (mention u))) else None
      | [] \<Rightarrow> None)"

definition remove_mention :: "string \<Rightarrow> string \<Rightarrow> string" where
  "remove_mention text u =
     re_sub (match_literal (mention u)) '' ''
       (re_sub (match_space_mention u) [] (re_sub (match_mention_space u) [] text))"

definition remove_mentions :: "string \<Rightarrow> string list \<Rightarrow> string" where
  "remove_mentions text uids = fold (\<lambda>u t. remove_mention t u) uids text"

text \<open>The greedy link pattern of line 215 (\<open><(mailto:|(http|https)://).*|.*>\<close> with its
  escapes omitted): after one of the three prefixes, the match runs on the same line up to the
  last \<open>>\<close> of the line, provided a \<open>|\<close> comes before it. The first match is replaced
  everywhere by the text between its first and second \<open>|\<close>, with every \<open>>\<close> removed.\<close>

definition link_prefixes :: "string list" where
  "link_prefixes = [''<mailto:'', ''<http://'', ''<https://'']"

definition match_link :: "string \<Rightarrow> nat option" where
  "match_link s =
     (case find (\<lambda>p. prefix p s) link_prefixes of
        None \<Rightarrow> None
      | Some p \<Rightarrow>
          (let line = takeWhile (\<lambda>c. c \<noteq> CHR 0x0A) (drop (length p) s);
               upto_gt = rev (dropWhile (\<lambda>c. c \<noteq> CHR ''>'') (rev line))
           in if CHR ''|'' \<in> set upto_gt then Some (length p + length upto_gt) else None))"

definition replace_link :: "string \<Rightarrow> py_error + string" where
  "replace_link text =
     (case re_search match_link text of
        None \<Rightarrow> Inr text
      | Some (i, n) \<Rightarrow>
          (let regex = take n (drop i text) in
           case py_split ''|'' regex of
             _ # replacement # _ \<Rightarrow>
               Inr (py_replace regex (filter (\<lambda>c. c \<noteq> CHR ''>'') replacement) text)
           | _ \<Rightarrow> Inl IndexError))"

definition sanitize_user_message :: "string \<Rightarrow> string list \<Rightarrow> py_error + string" where
  "sanitize_user_message text uids_to_remove =
     (if list_all regex_literal uids_to_remove
      then sum_bind (replace_link (remove_mentions text uids_to_remove)) (\<lambda>t. Inr (py_strip t))
      else Inl (Unsupported ''user id with regular-expression syntax''))"

subsection \<open>Construction, payload tests and the webhook\<close>

text \<open>The input channel's configuration; \<open>errors_ignore_retry or
  ("http_timeout",)\<close> replaces every falsy value, the empty list included, by the
  default.\<close>

record slack_input =
  slack_token :: json
  slack_channel :: json
  errors_ignore_retry :: json
  retry_reason_header :: json
  retry_num_header :: json

definition default_errors_ignore_retry :: json where
  "default_errors_ignore_retry = ARRAY [STRING ''http_timeout'']"

definition slack_input_init :: "json \<Rightarrow> json \<Rightarrow> json \<Rightarrow> json \<Rightarrow> json \<Rightarrow> slack_input" where
  "slack_input_init token channel reason_header number_header errors =
     \<lparr>slack_token = token, slack_channel = channel,
      errors_ignore_retry = py_or errors default_errors_ignore_retry,
      retry_reason_header = reason_header, retry_num_header = number_header\<rparr>"

definition from_credentials :: "json \<Rightarrow> py_error + slack_input" where
  "from_credentials credentials =
     (if \<not> py_truthy credentials then Inl (Exception ''missing credentials'')
      else
        sum_bind (json_get credentials ''slack_token'') (\<lambda>token.
        sum_bind (json_get credentials ''slack_channel'') (\<lambda>channel.
        sum_bind (json_get_default credentials ''slack_retry_reason_header'' (STRING ''x-slack-retry-reason'')) (\<lambda>reason.
        sum_bind (json_get_default credentials ''slack_retry_number_header'' (STRING ''x-slack-retry-num'')) (\<lambda>number.
        sum_bind (json_get credentials ''errors_ignore_retry'') (\<lambda>errors.
          Inr (slack_input_init token channel reason number errors)))))))"

definition get_output_channel :: "slack_input \<Rightarrow> slack_bot" where
  "get_output_channel si = \<lparr>bot_token = slack_token si, bot_channel = slack_channel si\<rparr>"

definition is_user_message :: "json \<Rightarrow> py_error + bool" where
  "is_user_message slack_event =
     sum_bind (json_get slack_event ''event'') (\<lambda>event.
       if \<not> py_truthy event then Inr False
       else sum_bind (json_get event ''type'') (\<lambda>ty.
         if ty \<noteq> STRING ''message'' \<and> ty \<noteq> STRING ''app_mention'' then Inr False
         else sum_bind (json_get event ''text'') (\<lambda>text.
           if \<not> py_truthy text then Inr False
           else sum_bind (json_get event ''bot_id'') (\<lambda>bot_id. Inr (\<not> py_truthy bot_id)))))"

definition supported_interactive :: "string list" where
  "supported_interactive =
     [''button'', ''select'', ''static_select'', ''external_select'', ''conversations_select'',
      ''users_select'', ''channels_select'', ''overflow'', ''datepicker'']"

definition is_interactive_message :: "json \<Rightarrow> py_error + bool" where
  "is_interactive_message payload =
     sum_bind (json_get payload ''actions'') (\<lambda>actions.
       if \<not> py_truthy actions then Inr False
       else sum_bind (json_first actions) (\<lambda>action.
         sum_bind (json_get action ''type'') (\<lambda>action_type.
           Inr (case action_type of STRING t \<Rightarrow> t \<in> set supported_interactive | _ \<Rightarrow> False))))"

definition selected_value :: "json \<Rightarrow> string \<Rightarrow> py_error + json" where
  "selected_value action key =
     sum_bind (json_get_default action key (OBJECT [])) (\<lambda>opt. json_get opt ''value'')"

definition get_interactive_response :: "json \<Rightarrow> py_error + json" where
  "get_interactive_response action =
     sum_bind (json_key action ''type'') (\<lambda>ty.
       if ty = STRING ''button'' then json_get action ''value''
       else if ty = STRING ''select'' then
         sum_bind (json_get_default action ''selected_options'' (ARRAY [OBJECT []])) (\<lambda>opts.
           sum_bind (json_first opts) (\<lambda>opt. json_get opt ''value''))
       else if ty = STRING ''static_select'' then selected_value action ''selected_option''
       else if ty = STRING ''external_select'' then selected_value action ''selected_option''
       else if ty = STRING ''conversations_select'' then json_get action ''selected_conversation''
       else if ty = STRING ''users_select'' then json_get action ''selected_user''
       else if ty = STRING ''channels_select'' then json_get action ''selected_channel''
       else if ty = STRING ''overflow'' then selected_value action ''selected_option''
       else if ty = STRING ''datepicker'' then json_get action ''selected_date''
       else Inr NULL)"

text \<open>Sanic's request headers are a case-insensitive multidict whose lookup returns the
  first value and rejects a key that is not a string.\<close>

definition ascii_lower :: "char \<Rightarrow> char" where
  "ascii_lower c = (if CHR ''A'' \<le> c \<and> c \<le> CHR ''Z'' then char_of (of_char c + (32 :: nat)) else c)"

definition header_value :: "(string \<times> string) list \<Rightarrow> string \<Rightarrow> string option" where
  "header_value headers h = map_option snd (find (\<lambda>kv. map ascii_lower (fst kv) = map ascii_lower h) headers)"

definition header_get :: "(string \<times> string) list \<Rightarrow> json \<Rightarrow> py_error + string option" where
  "header_get headers name = (case name of STRING h \<Rightarrow> Inr (header_value headers h) | _ \<Rightarrow> Inl TypeError)"

text \<open>A request: its form fields, its decoded JSON body (\<open>NULL\<close> when none), its
  headers and what \<open>get_metadata\<close> returns for it. A user message records the
  arguments of the \<open>UserMessage\<close> constructor.\<close>

record request =
  req_form :: "(string \<times> string list) list"
  req_json :: json
  req_headers :: "(string \<times> string) list"
  req_metadata :: json

datatype response =
    TextResponse nat "string option" "(string \<times> json) list"
  | JsonResponse json

record user_message =
  um_text :: json
  um_output_channel :: slack_bot
  um_sender_id :: json
  um_input_channel :: string
  um_metadata :: json

text \<open>The health route \<open>GET /\<close> of the blueprint.\<close>

definition health :: response where
  "health = JsonResponse (OBJECT [(''status'', STRING ''ok'')])"

definition no_retry_response :: response where
  "no_retry_response = TextResponse 201 None [(''X-Slack-No-Retry'', NUMBER 1)]"

definition process_message ::
  "slack_input \<Rightarrow> request \<Rightarrow> json \<Rightarrow> json \<Rightarrow> json \<Rightarrow> py_error + response \<times> user_message list" where
  "process_message si request text sender_id metadata =
     sum_bind (header_get (req_headers request) (retry_reason_header si)) (\<lambda>retry_reason.
     sum_bind (header_get (req_headers request) (retry_num_header si)) (\<lambda>retry_count.
       (let deliver =
          Inr (TextResponse 200 (Some []) [],
               [\<lparr>um_text = text, um_output_channel = get_output_channel si, um_sender_id = sender_id,
                 um_input_channel = slack_name, um_metadata = metadata\<rparr>])
        in if retry_count \<noteq> None \<and> retry_count \<noteq> Some []
           then sum_bind (py_in retry_reason (errors_ignore_retry si)) (\<lambda>ignored.
                  if ignored then Inr (no_retry_response, []) else deliver)
           else deliver)))"

fun uid_str :: "json \<Rightarrow> py_error + string" where
  "uid_str (STRING s) = Inr s"
| "uid_str _ = Inl (Unsupported ''non-string user id'')"

definition not_processed_response :: response where
  "not_processed_response = TextResponse 500 (Some ''The input message could not be processed.'') []"

definition delivered_response :: response where
  "delivered_response = TextResponse 200 (Some ''Bot message delivered'') []"

definition link_clicked_response :: response where
  "link_clicked_response = TextResponse 200 (Some ''User clicked link button'') []"

definition handle_interactive ::
  "slack_input \<Rightarrow> request \<Rightarrow> json \<Rightarrow> py_error + response \<times> user_message list" where
  "handle_interactive si request payload =
     sum_bind (is_interactive_message payload) (\<lambda>interactive.
       if \<not> interactive then Inr (not_processed_response, [])
       else
         sum_bind (json_key payload ''user'') (\<lambda>user.
         sum_bind (json_key user ''id'') (\<lambda>sender_id.
         sum_bind (json_key payload ''actions'') (\<lambda>actions.
         sum_bind (json_first actions) (\<lambda>action.
         sum_bind (get_interactive_response action) (\<lambda>text.
           if text \<noteq> NULL then process_message si request text sender_id (req_metadata request)
           else sum_bind (json_key action ''type'') (\<lambda>ty.
             if ty = STRING ''button''
             then Inr (link_clicked_response, [])
             else Inr (not_processed_response, []))))))))"

definition handle_event ::
  "slack_input \<Rightarrow> request \<Rightarrow> json \<Rightarrow> py_error + response \<times> user_message list" where
  "handle_event si request output =
     sum_bind (py_in (Some ''challenge'') output) (\<lambda>has_challenge.
       if has_challenge then sum_bind (json_get output ''challenge'') (\<lambda>c. Inr (JsonResponse c, []))
       else sum_bind (is_user_message output) (\<lambda>user_msg.
         if \<not> user_msg then Inr (delivered_response, [])
         else
           sum_bind (json_key output ''event'') (\<lambda>event.
           sum_bind (json_key event ''text'') (\<lambda>text.
           sum_bind (json_key output ''authed_users'') (\<lambda>authed_users.
           sum_bind (py_iter authed_users) (\<lambda>us.
           sum_bind (map_sum uid_str us) (\<lambda>uids.
           sum_bind (json_str text) (\<lambda>txt.
           sum_bind (sanitize_user_message txt uids) (\<lambda>clean.
           sum_bind (json_get output ''event'') (\<lambda>ev.
           sum_bind (json_get ev ''user'') (\<lambda>sender.
             process_message si request (STRING clean) sender (req_metadata request))))))))))))"

definition webhook ::
  "slack_input \<Rightarrow> (string \<Rightarrow> json option) \<Rightarrow> request \<Rightarrow> py_error + response \<times> user_message list" where
  "webhook si json_loads request =
     (if req_form request \<noteq> [] then
        (case map_of (req_form request) ''payload'' of
           None \<Rightarrow> Inl (KeyError ''payload'')
         | Some [] \<Rightarrow> Inl IndexError
         | Some (raw # _) \<Rightarrow>
             (case json_loads raw of
                None \<Rightarrow> Inl (Exception ''JSONDecodeError'')
              | Some payload \<Rightarrow> handle_interactive si request payload))
      else if py_truthy (req_json request) then handle_event si request (req_json request)
      else Inr (delivered_response, []))"

text \<open>\<open>blueprint\<close>: the routes of the \<open>slack_webhook\<close> blueprint, the handler for a
  method and path (\<open>None\<close> where Sanic answers itself, as for an unknown path).\<close>

datatype http_method = GET | POST

definition blueprint ::
  "slack_input \<Rightarrow> (string \<Rightarrow> json option) \<Rightarrow> http_method \<Rightarrow> string \<Rightarrow>
   (request \<Rightarrow> py_error + response \<times> user_message list) option" where
  "blueprint si json_loads m path =
     (if path = ''/'' \<and> m = GET then Some (\<lambda>_. Inr (health, []))
      else if path = ''/webhook'' \<and> m \<in> {GET, POST} then Some (webhook si json_loads)
      else None)"

subsection \<open>Example inputs\<close>

definition ex_credentials :: json where
  "ex_credentials = OBJECT [(''slack_token'', STRING ''xoxb''), (''errors_ignore_retry'', ARRAY [])]"

definition ex_slack_input :: slack_input where
  "ex_slack_input =
     slack_input_init (STRING ''xoxb'') NULL (STRING ''x-slack-retry-reason'') (STRING ''x-slack-retry-num'')
       (ARRAY [])"

definition ex_retry_request :: request where
  "ex_retry_request =
     \<lparr>req_form = [], req_json = NULL,
      req_headers = [(''X-Slack-Retry-Num'', ''1''), (''X-Slack-Retry-Reason'', ''http_timeout'')],
      req_metadata = NULL\<rparr>"

definition ex_bot_request :: request where
  "ex_bot_request =
     \<lparr>req_form = [],
      req_json = OBJECT [(''event'', OBJECT [(''type'', STRING ''message''), (''text'', STRING ''hi''),
                                           (''bot_id'', STRING ''B1'')]),
                         (''authed_users'', ARRAY [STRING ''U1''])],
      req_headers = [], req_metadata = NULL\<rparr>"

definition ex_button_payload :: json where
  "ex_button_payload =
     OBJECT [(''user'', OBJECT [(''id'', STRING ''U1'')]),
             (''actions'', ARRAY [OBJECT [(''type'', STRING ''button''), (''value'', STRING ''/affirm'')]])]"

definition ex_button_request :: request where
  "ex_button_request =
     \<lparr>req_form = [(''payload'', [''p''])], req_json = NULL, req_headers = [], req_metadata = NULL\<rparr>"

section \<open>Lemmas\<close>

subsection \<open>The sanitiser\<close>

lemma match_link_head: "match_link (c # s) \<noteq> None \<Longrightarrow> c = CHR ''<''"
  by (auto simp: match_link_def link_prefixes_def split: if_splits)

lemma find_link_prefix:
  "p \<in> set link_prefixes \<Longrightarrow> find (\<lambda>q. prefix q (p @ s)) link_prefixes = Some p"
  by (auto simp: link_prefixes_def)

lemma match_link_body:
  assumes "p \<in> set link_prefixes" "CHR ''|'' \<in> set body" "CHR 0x0A \<notin> set body" "CHR ''>'' \<notin> set b"
  shows "match_link (p @ body @ ''>'' @ b) = Some (length p + length (body @ ''>''))"
proof -
  let ?l = "body @ ''>'' @ takeWhile (\<lambda>c. c \<noteq> CHR 0x0A) b"
  have line: "takeWhile (\<lambda>c. c \<noteq> CHR 0x0A) (body @ ''>'' @ b) = ?l"
    using assms(3) by (simp add: takeWhile_ne_append)
  have "CHR ''>'' \<notin> set (takeWhile (\<lambda>c. c \<noteq> CHR 0x0A) b)"
    using assms(4) set_takeWhileD by fastforce
  then have up: "rev (dropWhile (\<lambda>c. c \<noteq> CHR ''>'') (rev ?l)) = body @ ''>''"
    by (simp add: dropWhile_ne_append)
  have dp: "drop (length p) (p @ body @ ''>'' @ b) = body @ ''>'' @ b"
    by simp
  have bar: "CHR ''|'' \<in> set (body @ ''>'')" using assms(2) by simp
  show ?thesis
    unfolding match_link_def Let_def find_link_prefix [OF assms(1)] option.case dp line up
    using bar by (simp only: if_True)
qed

lemma re_search_link:
  assumes "CHR ''<'' \<notin> set a" "p \<in> set link_prefixes"
    "CHR ''|'' \<in> set body" "CHR 0x0A \<notin> set body" "CHR ''>'' \<notin> set b"
  shows "re_search match_link (a @ p @ body @ ''>'' @ b) = Some (length a, length (p @ body @ ''>''))"
proof -
  have "\<forall>i<length a. match_link (drop i a @ p @ body @ ''>'' @ b) = None"
    using no_match_before [of match_link "CHR ''<''" a] match_link_head assms(1) by blast
  then show ?thesis
    using re_search_here [of match_link, OF match_link_body [OF assms(2-5)]] by (simp add: re_search_append)
qed

lemma replace_link_body:
  assumes "CHR ''<'' \<notin> set a" "p \<in> set link_prefixes"
    "CHR ''|'' \<in> set body" "CHR 0x0A \<notin> set body" "CHR ''>'' \<notin> set b"
    and split: "py_split ''|'' (p @ body @ ''>'') = x # y # zs"
  shows "replace_link (a @ p @ body @ ''>'' @ b) = Inr (a @ filter (\<lambda>c. c \<noteq> CHR ''>'') y @ b)"
proof -
  obtain p' where p': "p = CHR ''<'' # p'"
    using assms(2) by (auto simp: link_prefixes_def)
  let ?regex = "p @ body @ ''>''"
  have absent: "\<not> sublist ?regex b"
    using assms(5) by (auto dest: set_mono_sublist)
  have "py_replace ?regex (filter (\<lambda>c. c \<noteq> CHR ''>'') y) (a @ ?regex @ b) =
        a @ filter (\<lambda>c. c \<noteq> CHR ''>'') y @ b"
    using py_replace_once [of "CHR ''<''" a "p' @ body @ ''>''" b] assms(1) absent p'
    by simp
  with re_search_link [OF assms(1-5)] split show ?thesis
    by (simp add: replace_link_def)
qed

lemma py_split_three:
  "c \<notin> set x \<Longrightarrow> c \<notin> set y \<Longrightarrow> c \<notin> set z \<Longrightarrow> py_split [c] (x @ c # y @ c # z) = [x, y, z]"
  using py_split_aux_char_absent [of c x "[]" "c # y @ c # z"] py_split_aux_char_absent [of c y "[]" "c # z"]
    py_split_aux_char_absent [of c z "[]" "[]"]
  by (simp add: py_split_def)

lemma filter_ne_id: "x \<notin> set xs \<Longrightarrow> filter (\<lambda>c. c \<noteq> x) xs = xs"
  by (induction xs) auto

lemma link_prefix_chars: "p \<in> set link_prefixes \<Longrightarrow> CHR ''|'' \<notin> set p \<and> CHR ''>'' \<notin> set p \<and> CHR 0x0A \<notin> set p"
  by (auto simp: link_prefixes_def)

lemma replace_link_single:
  assumes "CHR ''<'' \<notin> set a" "p \<in> set link_prefixes"
    "CHR ''|'' \<notin> set url" "CHR ''|'' \<notin> set label"
    "CHR ''>'' \<notin> set label" "CHR ''>'' \<notin> set b"
    "CHR 0x0A \<notin> set url" "CHR 0x0A \<notin> set label"
  shows "replace_link (a @ p @ url @ ''|'' @ label @ ''>'' @ b) = Inr (a @ label @ b)"
proof -
  have "py_split ''|'' (p @ (url @ ''|'' @ label) @ ''>'') = [p @ url, label @ ''>'']"
    using py_split_two [of "CHR ''|''" "p @ url" "label @ ''>''"] link_prefix_chars [OF assms(2)] assms(3,4)
    by simp
  moreover have "filter (\<lambda>c. c \<noteq> CHR ''>'') (label @ ''>'') = label"
    using assms(5) by (simp add: filter_ne_id)
  ultimately show ?thesis
    using replace_link_body [of a p "url @ ''|'' @ label" b "p @ url" "label @ ''>''" "[]"] assms by simp
qed

lemma length_remove_mention: "length (remove_mention t u) \<le> length t"
proof -
  have ms: "\<forall>s n. match_mention_space u s = Some n \<longrightarrow> 0 < n \<longrightarrow> length [] \<le> n \<and> n \<le> length s"
    by (simp add: match_mention_space_def)
  have sm: "\<forall>s n. match_space_mention u s = Some n \<longrightarrow> 0 < n \<longrightarrow> length [] \<le> n \<and> n \<le> length s"
    by (auto simp: match_space_mention_def dest: prefix_length_le split: list.splits if_splits)
  have lit: "\<forall>s n. match_literal (mention u) s = Some n \<longrightarrow> 0 < n \<longrightarrow> length '' '' \<le> n \<and> n \<le> length s"
    by (auto simp: match_literal_def mention_def dest: prefix_length_le)
  show ?thesis
    using re_sub_length_le [OF ms, of t] re_sub_length_le [OF sm] re_sub_length_le [OF lit]
    unfolding remove_mention_def by (meson le_trans)
qed

lemma length_remove_mentions: "length (remove_mentions t uids) \<le> length t"
proof (induction uids arbitrary: t)
  case (Cons u uids)
  then show ?case
    using length_remove_mention [of t u] by (simp add: remove_mentions_def) (meson le_trans)
qed (simp add: remove_mentions_def)

lemma match_link_Some:
  assumes "match_link s = Some n"
  shows "n \<le> length s \<and> CHR ''<'' = hd (take n s) \<and> CHR ''|'' \<in> set (take n s)"
proof -
  obtain p where p: "find (\<lambda>p. prefix p s) link_prefixes = Some p"
    using assms by (auto simp: match_link_def split: option.splits)
  then have pre: "prefix p s" and pin: "p \<in> set link_prefixes"
    by (auto simp: link_prefixes_def split: if_splits)
  define line where "line = takeWhile (\<lambda>c. c \<noteq> CHR 0x0A) (drop (length p) s)"
  define g where "g = rev (dropWhile (\<lambda>c. c \<noteq> CHR ''>'') (rev line))"
  have bar: "CHR ''|'' \<in> set g" and n: "n = length p + length g"
    using assms p by (auto simp: match_link_def Let_def line_def g_def split: if_splits)
  have "prefix g (drop (length p) s)"
    using rev_dropWhile_rev_prefix [of _ line] takeWhile_is_prefix [of _ "drop (length p) s"]
    unfolding g_def line_def by (rule prefix_order.trans)
  then obtain rest where rest: "s = p @ g @ rest"
    using pre by (auto simp: prefix_def)
  obtain p' where "p = CHR ''<'' # p'" using pin by (auto simp: link_prefixes_def)
  then show ?thesis using rest bar n by simp
qed

lemma replace_link_Inr:
  "\<exists>t'. replace_link t = Inr t' \<and> length t' \<le> length t"
proof (cases "re_search match_link t")
  case None
  then show ?thesis by (simp add: replace_link_def)
next
  case (Some a)
  then obtain i n where sr: "re_search match_link t = Some (i, n)" by (cases a) auto
  then have "match_link (drop i t) = Some n"
    using re_search_Some by blast
  then have ml: "n \<le> length (drop i t)" "CHR ''<'' = hd (take n (drop i t))"
    "CHR ''|'' \<in> set (take n (drop i t))"
    using match_link_Some by blast+
  define regex where "regex = take n (drop i t)"
  obtain x y zs where sp: "py_split ''|'' regex = x # y # zs"
    using py_split_char_two [of "CHR ''|''" regex] ml(3) unfolding regex_def by auto
  define repl where "repl = filter (\<lambda>c. c \<noteq> CHR ''>'') y"
  have "length y \<le> length regex"
    using py_split_aux_parts_length [of y "''|''" "[]" regex] sp by (simp add: py_split_def)
  then have lr: "length repl \<le> length regex"
    unfolding repl_def by (meson length_filter_le le_trans)
  have "regex \<noteq> []" using ml(3) unfolding regex_def by (metis empty_iff list.set(1))
  then have "\<forall>s k. match_literal regex s = Some k \<longrightarrow> 0 < k \<longrightarrow> length repl \<le> k \<and> k \<le> length s"
    using lr by (auto simp: match_literal_def dest: prefix_length_le)
  then have "length (py_replace regex repl t) \<le> length t"
    unfolding py_replace_def by (rule re_sub_length_le)
  moreover have "replace_link t = Inr (py_replace regex repl t)"
    using sr sp by (simp add: replace_link_def regex_def repl_def)
  ultimately show ?thesis by blast
qed

text \<open>_sanitize_user_message replaces one Slack link <mailto:...|label>,
  <http://...|label> or <https://...|label> by its label and strips the result, when the
  text before it has no '<', the text after it has no '>', the URL and label contain no
  '|' or newline, and the label no '>'.\<close>

theorem sanitize_single_link:
  assumes "CHR ''<'' \<notin> set a" "p \<in> set link_prefixes"
    "CHR ''|'' \<notin> set url" "CHR ''|'' \<notin> set label"
    "CHR ''>'' \<notin> set label" "CHR ''>'' \<notin> set b"
    "CHR 0x0A \<notin> set url" "CHR 0x0A \<notin> set label"
  shows "sanitize_user_message (a @ p @ url @ ''|'' @ label @ ''>'' @ b) [] = Inr (py_strip (a @ label @ b))"
  using replace_link_single [OF assms] by (simp add: sanitize_user_message_def remove_mentions_def)

theorem sanitize_single_link_witness:
  "sanitize_user_message ''see <http://a.com|a.com> now'' [] = Inr ''see a.com now''"
proof -
  have "sanitize_user_message (''see '' @ ''<http://'' @ ''a.com'' @ ''|'' @ ''a.com'' @ ''>'' @ '' now'') [] =
        Inr (py_strip (''see '' @ ''a.com'' @ '' now''))"
    by (rule sanitize_single_link) (simp_all add: link_prefixes_def)
  moreover have "py_strip (''see '' @ ''a.com'' @ '' now'') = ''see a.com now''" by code_simp
  ultimately show ?thesis by simp
qed

text \<open>C40. With two links on one line, the greedy link pattern matches from the first link to
  the end of the second: the result keeps the first label and the text between the links,
  then the second link's prefix and URL as raw text, and drops the second label.\<close>

theorem sanitize_garbles_two_links:
  assumes "CHR ''<'' \<notin> set a" "p1 \<in> set link_prefixes" "p2 \<in> set link_prefixes"
    "CHR ''|'' \<notin> set url1" "CHR ''|'' \<notin> set label1" "CHR ''|'' \<notin> set mid"
    "CHR ''|'' \<notin> set url2" "CHR ''|'' \<notin> set label2"
    "CHR ''>'' \<notin> set label1" "CHR ''>'' \<notin> set mid" "CHR ''>'' \<notin> set url2" "CHR ''>'' \<notin> set b"
    "CHR 0x0A \<notin> set (url1 @ label1 @ mid @ url2 @ label2)"
  shows "sanitize_user_message
           (a @ p1 @ url1 @ ''|'' @ label1 @ ''>'' @ mid @ p2 @ url2 @ ''|'' @ label2 @ ''>'' @ b) [] =
         Inr (py_strip (a @ label1 @ mid @ p2 @ url2 @ b))"
proof -
  let ?body = "url1 @ ''|'' @ label1 @ ''>'' @ mid @ p2 @ url2 @ ''|'' @ label2"
  have p: "CHR ''|'' \<notin> set p1" "CHR ''|'' \<notin> set p2" "CHR ''>'' \<notin> set p2"
    "CHR 0x0A \<notin> set p2"
    using link_prefix_chars [OF assms(2)] link_prefix_chars [OF assms(3)] by auto
  have "py_split ''|'' (p1 @ ?body @ ''>'') =
          [p1 @ url1, label1 @ ''>'' @ mid @ p2 @ url2, label2 @ ''>'']"
    using py_split_three [of "CHR ''|''" "p1 @ url1" "label1 @ ''>'' @ mid @ p2 @ url2" "label2 @ ''>''"]
      p assms(4-8) by simp
  moreover have "filter (\<lambda>c. c \<noteq> CHR ''>'') (label1 @ ''>'' @ mid @ p2 @ url2) = label1 @ mid @ p2 @ url2"
    using p assms(9-11) by (simp add: filter_ne_id)
  moreover have "CHR 0x0A \<notin> set ?body" using p assms(13) by auto
  ultimately have "replace_link (a @ p1 @ ?body @ ''>'' @ b) = Inr (a @ label1 @ mid @ p2 @ url2 @ b)"
    using replace_link_body [of a p1 ?body b "p1 @ url1" "label1 @ ''>'' @ mid @ p2 @ url2" "[label2 @ ''>'']"]
      assms(1,2,12) by simp
  then show ?thesis by (simp add: sanitize_user_message_def remove_mentions_def)
qed

theorem sanitize_garbles_two_links_witness:
  "sanitize_user_message ''see <http://a.com|a.com> and <http://b.com|b.com>'' [] =
   Inr ''see a.com and <http://b.com''"
proof -
  have "sanitize_user_message
          (''see '' @ ''<http://'' @ ''a.com'' @ ''|'' @ ''a.com'' @ ''>'' @ '' and '' @ ''<http://'' @ ''b.com''
            @ ''|'' @ ''b.com'' @ ''>'' @ []) [] =
        Inr (py_strip (''see '' @ ''a.com'' @ '' and '' @ ''<http://'' @ ''b.com'' @ []))"
    by (rule sanitize_garbles_two_links) (simp_all add: link_prefixes_def)
  moreover have "py_strip (''see '' @ ''a.com'' @ '' and '' @ ''<http://'' @ ''b.com'' @ []) =
                 ''see a.com and <http://b.com''"
    by code_simp
  ultimately show ?thesis by simp
qed

text \<open>C26. For user ids without regular-expression syntax, _sanitize_user_message never raises
  (the split of the link match always has a second part) and never makes the text longer.\<close>

theorem sanitize_user_message_bounded:
  "list_all regex_literal uids \<Longrightarrow>
   \<exists>t'. sanitize_user_message t uids = Inr t' \<and> length t' \<le> length t"
proof -
  assume "list_all regex_literal uids"
  moreover obtain r where "replace_link (remove_mentions t uids) = Inr r"
    "length r \<le> length (remove_mentions t uids)"
    using replace_link_Inr by blast
  ultimately show ?thesis
    using length_remove_mentions [of t uids] length_py_strip [of r]
    by (simp add: sanitize_user_message_def)
qed

theorem sanitize_user_message_bounded_witness:
  "\<exists>t'. sanitize_user_message ''<@U1> hi'' [''U1''] = Inr t' \<and> length t' \<le> length ''<@U1> hi''"
  using sanitize_user_message_bounded [of "[''U1'']" "''<@U1> hi''"] by (simp add: regex_literal_def)

text \<open>After the three mention substitutions for the last user id in the list, the text
  contains no mention <@uid> of that id, provided the id has no space.\<close>

theorem remove_mentions_last_uid:
  "CHR '' '' \<notin> set u \<Longrightarrow> \<not> sublist (mention u) (remove_mentions text (uids @ [u]))"
proof -
  assume sp: "CHR '' '' \<notin> set u"
  have "\<not> sublist (mention u) (re_sub (match_literal (mention u)) '' '' t)" for t
  proof (rule re_sub_no_sublist)
    show "set (mention u) \<inter> set '' '' = {}" using sp by (auto simp: mention_def)
    show "\<forall>s. prefix (mention u) s \<longrightarrow> (\<exists>n. match_literal (mention u) s = Some n \<and> 0 < n)"
      by (simp add: match_literal_def mention_def)
  qed (simp_all add: mention_def)
  then show ?thesis by (simp add: remove_mentions_def remove_mention_def)
qed

theorem remove_mentions_last_uid_witness:
  "CHR '' '' \<notin> set ''U1'' \<and> \<not> sublist (mention ''U1'') (remove_mentions ''<@U1> hi <@U1>'' [''U1''])"
  using remove_mentions_last_uid [of "''U1''" "''<@U1> hi <@U1>''" "[]"] by simp

lemma remove_mentions_recreates:
  "remove_mentions ''<@U<@U2> 1>'' [''U1'', ''U2''] = ''<@U1>''"
  by code_simp

subsection \<open>The output channel\<close>

text \<open>Joining the texts of the messages send_text_message posts with blank lines gives
  back the original text.\<close>

theorem send_text_message_roundtrip:
  "py_join ''\<newline>\<newline>'' (map posted_text (send_text_message self recipient_id text)) = text"
proof -
  have "map posted_text (send_text_message self recipient_id text) = py_split ''\<newline>\<newline>'' text"
    by (simp add: send_text_message_def posted_text_def post_message_def comp_def)
  then show ?thesis by (simp add: py_split_py_join)
qed

subsection \<open>Retry guard and webhook\<close>

lemma from_credentials_errors:
  "from_credentials creds = Inr si \<Longrightarrow> json_get creds ''errors_ignore_retry'' = Inr e \<Longrightarrow>
   errors_ignore_retry si = py_or e default_errors_ignore_retry"
  by (auto simp: from_credentials_def slack_input_init_def split: if_splits)

lemma py_in_default_errors:
  "py_in reason default_errors_ignore_retry = Inr (reason = Some ''http_timeout'')"
  by (cases reason) (auto simp: default_errors_ignore_retry_def)

text \<open>C25. With credentials that leave errors_ignore_retry unset or empty,
  SlackInput.process_message answers 201 with X-Slack-No-Retry and delivers nothing
  exactly when the retry-number header is non-empty and the retry reason is http_timeout;
  every other request is delivered as one UserMessage and answered with an empty 200.\<close>

theorem retry_guard_default:
  assumes "from_credentials creds = Inr si"
    and "json_get creds ''errors_ignore_retry'' = Inr e" "\<not> py_truthy e"
    and "retry_reason_header si = STRING rh" "retry_num_header si = STRING nh"
  shows "process_message si req text sender md =
     (if header_value (req_headers req) nh \<noteq> None \<and> header_value (req_headers req) nh \<noteq> Some []
         \<and> header_value (req_headers req) rh = Some ''http_timeout''
      then Inr (no_retry_response, [])
      else Inr (TextResponse 200 (Some []) [],
                [\<lparr>um_text = text, um_output_channel = get_output_channel si, um_sender_id = sender,
                  um_input_channel = ''slack'', um_metadata = md\<rparr>]))"
proof -
  have "errors_ignore_retry si = default_errors_ignore_retry"
    using from_credentials_errors [OF assms(1,2)] assms(3) by (simp add: py_or_def)
  then show ?thesis
    using assms(4,5)
    by (simp add: process_message_def header_get_def py_in_default_errors slack_name_def Let_def)
qed

theorem retry_guard_default_witness:
  "process_message ex_slack_input ex_retry_request (STRING ''hi'') (STRING ''U1'') NULL = Inr (no_retry_response, [])"
proof -
  have cred: "from_credentials ex_credentials = Inr ex_slack_input"
    by (simp add: from_credentials_def ex_credentials_def ex_slack_input_def json_get_def json_get_default_def)
  have err: "json_get ex_credentials ''errors_ignore_retry'' = Inr (ARRAY [])"
    by (simp add: ex_credentials_def json_get_def json_get_default_def)
  have num: "header_value (req_headers ex_retry_request) ''x-slack-retry-num'' = Some ''1''"
    by code_simp
  have reason: "header_value (req_headers ex_retry_request) ''x-slack-retry-reason'' = Some ''http_timeout''"
    by code_simp
  have "process_message ex_slack_input ex_retry_request (STRING ''hi'') (STRING ''U1'') NULL =
     (if header_value (req_headers ex_retry_request) ''x-slack-retry-num'' \<noteq> None
         \<and> header_value (req_headers ex_retry_request) ''x-slack-retry-num'' \<noteq> Some []
         \<and> header_value (req_headers ex_retry_request) ''x-slack-retry-reason'' = Some ''http_timeout''
      then Inr (no_retry_response, [])
      else Inr (TextResponse 200 (Some []) [],
                [\<lparr>um_text = STRING ''hi'', um_output_channel = get_output_channel ex_slack_input,
                  um_sender_id = STRING ''U1'', um_input_channel = ''slack'', um_metadata = NULL\<rparr>]))"
    by (rule retry_guard_default [OF cred err]) (simp_all add: ex_slack_input_def slack_input_init_def)
  with num reason show ?thesis by simp
qed

lemma is_user_message_bot:
  "json_get out ''event'' = Inr ev \<Longrightarrow> json_get ev ''bot_id'' = Inr b \<Longrightarrow> py_truthy b \<Longrightarrow>
   is_user_message out \<noteq> Inr True"
  by (auto simp: is_user_message_def split: if_splits)

text \<open>C27. A JSON event whose event object has a truthy bot_id is never handed to
  on_new_message by the webhook: the bot does not answer bot messages, its own included.\<close>

theorem bot_messages_not_delivered:
  assumes "req_form req = []" "json_get (req_json req) ''event'' = Inr ev"
    "json_get ev ''bot_id'' = Inr b" "py_truthy b"
    and "webhook si json_loads req = Inr (resp, msgs)"
  shows "msgs = []"
proof -
  have "is_user_message (req_json req) \<noteq> Inr True"
    using is_user_message_bot assms(2-4) by blast
  with assms(1,5) show ?thesis
    by (auto simp: webhook_def handle_event_def split: if_splits)
qed

theorem bot_messages_not_delivered_witness:
  "webhook ex_slack_input (\<lambda>_. None) ex_bot_request = Inr (delivered_response, [])"
proof -
  obtain resp msgs where w: "webhook ex_slack_input (\<lambda>_. None) ex_bot_request = Inr (resp, msgs)"
    and r: "resp = delivered_response"
    by (simp add: webhook_def handle_event_def is_user_message_def ex_bot_request_def json_get_def
      json_get_default_def)
  define ev where "ev = OBJECT [(''type'', STRING ''message''), (''text'', STRING ''hi''),
                               (''bot_id'', STRING ''B1'')]"
  have ev_get: "json_get (req_json ex_bot_request) ''event'' = Inr ev"
    unfolding ev_def by code_simp
  have bot_get: "json_get ev ''bot_id'' = Inr (STRING ''B1'')"
    unfolding ev_def by code_simp
  have "msgs = []"
    by (rule bot_messages_not_delivered [OF _ ev_get bot_get _ w]) (simp_all add: ex_bot_request_def)
  with w r show ?thesis by simp
qed

text \<open>C38. A form payload whose first action is a button is routed by its value: a non-null
  value is processed as the user's text with the payload's user id as sender; a button
  without value (a link button) is answered 'User clicked link button' and delivers
  nothing.\<close>

theorem button_click_routed:
  assumes "req_form req \<noteq> []" "map_of (req_form req) ''payload'' = Some (raw # rest)"
    "json_loads raw = Some (OBJECT kv)"
    "map_of kv ''user'' = Some (OBJECT user)" "map_of user ''id'' = Some uid"
    "map_of kv ''actions'' = Some (ARRAY (OBJECT act # acts))"
    "map_of act ''type'' = Some (STRING ''button'')"
  shows "webhook si json_loads req =
     (let v = (case map_of act ''value'' of Some v \<Rightarrow> v | None \<Rightarrow> NULL)
      in if v = NULL then Inr (link_clicked_response, [])
         else process_message si req v uid (req_metadata req))"
proof -
  have "is_interactive_message (OBJECT kv) = Inr True"
    using assms(6,7) by (simp add: is_interactive_message_def json_get_default_def json_get_def
      supported_interactive_def)
  moreover have "get_interactive_response (OBJECT act) = Inr (case map_of act ''value'' of Some v \<Rightarrow> v | None \<Rightarrow> NULL)"
    using assms(7) by (simp add: get_interactive_response_def json_get_def json_get_default_def)
  ultimately show ?thesis
    using assms by (simp add: webhook_def handle_interactive_def Let_def)
qed

theorem button_click_routed_witness:
  "webhook ex_slack_input (\<lambda>s. if s = ''p'' then Some ex_button_payload else None) ex_button_request =
   process_message ex_slack_input ex_button_request (STRING ''/affirm'') (STRING ''U1'') NULL"
  using button_click_routed [of ex_button_request "''p''" "[]" "\<lambda>s. if s = ''p'' then Some ex_button_payload else None"]
  by (simp add: ex_button_request_def ex_button_payload_def)

lemma blueprint_delivers_only_webhook:
  "blueprint si json_loads m path = Some h \<Longrightarrow> h request = Inr (r, msgs) \<Longrightarrow> msgs \<noteq> [] \<Longrightarrow>
   path = ''/webhook'' \<and> h = webhook si json_loads"
  by (auto simp: blueprint_def split: if_splits)

end
