(* ===== verification/SpacyExtractor.thy ===== *)
theory SpacyExtractor
  imports PyLib
begin

text \<open>
  The spaCy entity extractor (\<open>src/rasa/nlu/extractors/spacy_entity_extractor.py\<close>).
  \<open>process\<close> runs the spaCy pipeline passed as the keyword argument \<open>spacy_nlp\<close> on the
  message text, turns each entity span of the document into an entity dict
  (\<open>extract_entities\<close>), tags it with the extractor's name, keeps the entities of the
  configured dimensions and appends them to the message's entities. The pipeline is a
  parameter: a function from the text to the document's entity spans. The helpers
  \<open>add_extractor_name\<close> and \<open>filter_irrelevant_entities\<close> of the \<open>EntityExtractor\<close> base
  class and the \<open>Message\<close> accessors are outside the sources and modelled from their use here.
\<close>

text \<open>An entity span of a spaCy document: \<open>label_\<close>, \<open>text\<close>, \<open>start_char\<close>, \<open>end_char\<close>.\<close>

record spacy_ent =
  ent_label :: string
  ent_text :: string
  ent_start_char :: nat
  ent_end_char :: nat

text \<open>A training-data \<open>Message\<close>: its text, its data dict and its output properties.\<close>

record message =
  msg_text :: string
  msg_data :: "(string \<times> json) list"
  msg_output_properties :: "string list"

definition ENTITIES_ATTRIBUTE :: string where
  "ENTITIES_ATTRIBUTE = ''entities''"

definition spacy_extractor_name :: string where
  "spacy_extractor_name = ''SpacyEntityExtractor''"

definition extract_entities :: "spacy_ent list \<Rightarrow> json list" where
  "extract_entities ents =
     map (\<lambda>ent. OBJECT [(''entity'', STRING (ent_label ent)), (''value'', STRING (ent_text ent)),
                         (''start'', NUMBER (int (ent_start_char ent))), (''confidence'', NULL),
                         (''end'', NUMBER (int (ent_end_char ent)))]) ents"

text \<open>\<open>entity["extractor"] = self.name\<close> for every entity.\<close>

fun json_setitem :: "string \<Rightarrow> json \<Rightarrow> json \<Rightarrow> py_error + json" where
  "json_setitem k v (OBJECT kv) = Inr (OBJECT (AList.update k v kv))"
| "json_setitem k v _ = Inl TypeError"

definition add_extractor_name :: "string \<Rightarrow> json list \<Rightarrow> py_error + json list" where
  "add_extractor_name name entities = map_sum (json_setitem ''extractor'' (STRING name)) entities"

text \<open>\<open>[e for e in entities if e["entity"] in dimensions]\<close> when \<open>dimensions\<close> is truthy.\<close>

definition filter_irrelevant_entities :: "json list \<Rightarrow> json \<Rightarrow> py_error + json list" where
  "filter_irrelevant_entities extracted requested_dimensions =
     (if py_truthy requested_dimensions
      then filter_sum (\<lambda>entity. sum_bind (json_key entity ''entity'') (\<lambda>label.
             case label of
               STRING l \<Rightarrow> py_in (Some l) requested_dimensions
             | NULL \<Rightarrow> py_in None requested_dimensions
             | _ \<Rightarrow> Inl (Unsupported ''non-string entity label''))) extracted
      else Inr extracted)"

text \<open>\<open>process(message, spacy_nlp=...)\<close> with the component's \<open>dimensions\<close> setting; a missing
  pipeline is \<open>None\<close>, which is not callable. \<open>message.get(ENTITIES_ATTRIBUTE, [])\<close> must be a
  list for the concatenation.\<close>

definition spacy_process ::
  "json \<Rightarrow> (string \<Rightarrow> spacy_ent list) option \<Rightarrow> message \<Rightarrow> py_error + message" where
  "spacy_process dimensions spacy_nlp msg =
     (case spacy_nlp of
        None \<Rightarrow> Inl TypeError
      | Some nlp \<Rightarrow>
          sum_bind (add_extractor_name spacy_extractor_name (extract_entities (nlp (msg_text msg))))
            (\<lambda>all_extracted.
          sum_bind (filter_irrelevant_entities all_extracted dimensions) (\<lambda>extracted.
          sum_bind (case map_of (msg_data msg) ENTITIES_ATTRIBUTE of
                      None \<Rightarrow> Inr []
                    | Some (ARRAY old) \<Rightarrow> Inr old
                    | Some _ \<Rightarrow> Inl TypeError) (\<lambda>old.
            Inr (msg\<lparr>msg_data := AList.update ENTITIES_ATTRIBUTE (ARRAY (old @ extracted)) (msg_data msg),
                     msg_output_properties := List.insert ENTITIES_ATTRIBUTE (msg_output_properties msg)\<rparr>)))))"

text \<open>The entity dict of a span once tagged with the extractor's name.\<close>

definition tagged_entity :: "spacy_ent \<Rightarrow> json" where
  "tagged_entity ent =
     OBJECT [(''entity'', STRING (ent_label ent)), (''value'', STRING (ent_text ent)),
             (''start'', NUMBER (int (ent_start_char ent))), (''confidence'', NULL),
             (''end'', NUMBER (int (ent_end_char ent))), (''extractor'', STRING spacy_extractor_name)]"

lemma add_extractor_name_extract:
  "add_extractor_name spacy_extractor_name (extract_entities ents) = Inr (map tagged_entity ents)"
  by (induction ents)
     (simp_all add: add_extractor_name_def extract_entities_def tagged_entity_def)

lemma filter_sum_dimensions:
  "filter_sum (\<lambda>entity. sum_bind (json_key entity ''entity'') (\<lambda>label.
      case label of STRING l \<Rightarrow> py_in (Some l) (ARRAY (map STRING dims))
      | NULL \<Rightarrow> py_in None (ARRAY (map STRING dims))
      | _ \<Rightarrow> Inl (Unsupported ''non-string entity label''))) (map tagged_entity ents) =
   Inr (map tagged_entity (filter (\<lambda>e. ent_label e \<in> set dims) ents))"
  by (induction ents) (auto simp: tagged_entity_def)

lemma filter_irrelevant_tagged:
  "dims \<noteq> [] \<Longrightarrow> filter_irrelevant_entities (map tagged_entity ents) (ARRAY (map STRING dims)) =
     Inr (map tagged_entity (filter (\<lambda>e. ent_label e \<in> set dims) ents))"
  unfolding filter_irrelevant_entities_def
  by (simp only: py_truthy.simps list.map_disc_iff filter_sum_dimensions if_True simp_thms)

text \<open>With a non-empty list of dimensions and a list of entities on the message, \<open>process\<close>
  keeps the message's entities and appends, in document order, the spans whose label is a
  requested dimension, each with its label, text, character offsets, no confidence and the
  extractor's name; \<open>entities\<close> becomes an output property.\<close>

theorem spacy_process_appends:
  assumes "dims \<noteq> []" "map_of (msg_data msg) ''entities'' = Some (ARRAY old)"
  shows "spacy_process (ARRAY (map STRING dims)) (Some nlp) msg =
    Inr (msg\<lparr>msg_data := AList.update ''entities''
               (ARRAY (old @ map tagged_entity (filter (\<lambda>e. ent_label e \<in> set dims) (nlp (msg_text msg)))))
               (msg_data msg),
             msg_output_properties := List.insert ''entities'' (msg_output_properties msg)\<rparr>)"
  using assms
  by (simp add: spacy_process_def add_extractor_name_extract filter_irrelevant_tagged ENTITIES_ATTRIBUTE_def)

theorem spacy_process_appends_witness:
  "spacy_process (ARRAY [STRING ''GPE''])
     (Some (\<lambda>_. [\<lparr>ent_label = ''PERSON'', ent_text = ''Ann'', ent_start_char = 0, ent_end_char = 3\<rparr>,
                 \<lparr>ent_label = ''GPE'', ent_text = ''Berlin'', ent_start_char = 7, ent_end_char = 13\<rparr>]))
     \<lparr>msg_text = ''Ann in Berlin'', msg_data = [(''entities'', ARRAY [])], msg_output_properties = []\<rparr> =
   Inr \<lparr>msg_text = ''Ann in Berlin'',
        msg_data = [(''entities'', ARRAY [tagged_entity
                      \<lparr>ent_label = ''GPE'', ent_text = ''Berlin'', ent_start_char = 7, ent_end_char = 13\<rparr>])],
        msg_output_properties = [''entities'']\<rparr>"
  using spacy_process_appends [of "[''GPE'']" "\<lparr>msg_text = ''Ann in Berlin'', msg_data = [(''entities'', ARRAY [])],
    msg_output_properties = []\<rparr>" "[]"]
  by simp

end
