(* ===== verification/Cli.thy ===== *)
theory Cli
  imports Prelude
begin

text \<open>
  The command line entry point (\<open>src/rasa/__main__.py\<close>). \<open>create_argument_parser\<close> is
  modelled by the parser it configures: its program name, the \<open>--version\<close> flag, the shared
  logging options and the command modules whose \<open>add_subparser\<close> it calls, in order.
  Parsing itself is \<open>argparse\<close>'s: \<open>main\<close> takes the parsed namespace and is modelled by the
  sequence of effects it performs, ending in the subcommand, the version line, or the help text
  and \<open>exit(1)\<close>.
\<close>

record arg_parser =
  parser_prog :: string
  parser_flags :: "string list"
  parser_parent_logging :: bool
  parser_subcommand_modules :: "string list"

definition create_argument_parser :: arg_parser where
  "create_argument_parser =
     \<lparr>parser_prog = ''rasa'', parser_flags = [''--version''], parser_parent_logging = True,
      parser_subcommand_modules =
        [''scaffold'', ''run'', ''shell'', ''train'', ''interactive'', ''test'', ''visualize'', ''data'', ''x'']\<rparr>"

text \<open>The parsed namespace: the handler set by a subcommand (\<open>func\<close>), whether \<open>--version\<close>
  was given (its default is suppressed, so the attribute exists only then), and the
  \<open>loglevel\<close> attribute (absent, or present with a possibly empty value).\<close>

record cmdline_arguments =
  arg_func :: "string option"
  arg_version :: bool
  arg_loglevel :: "string option option"

datatype main_effect =
    ParseModelPath
  | SetLogLevel "string option"
  | InsertSysPath
  | ConfigureColoredLogging "string option"
  | CallFunc string
  | Print string
  | LogError string
  | PrintHelp
  | Exit nat

definition print_version :: "string \<Rightarrow> main_effect" where
  "print_version version = Print (''Rasa '' @ version)"

definition main :: "string \<Rightarrow> cmdline_arguments \<Rightarrow> main_effect list" where
  "main version args =
     (let log_level = (case arg_loglevel args of Some lvl \<Rightarrow> lvl | None \<Rightarrow> None)
      in [ParseModelPath, SetLogLevel log_level, InsertSysPath] @
         (case arg_func args of
            Some f \<Rightarrow> [ConfigureColoredLogging log_level, CallFunc f]
          | None \<Rightarrow>
              if arg_version args then [print_version version]
              else [LogError ''No command specified.'', PrintHelp, Exit 1]))"

lemma main_exit_iff:
  "Exit 1 \<in> set (main version args) \<longleftrightarrow> arg_func args = None \<and> \<not> arg_version args"
  by (auto simp: main_def print_version_def split: option.splits)

end
