(* ===== verification/Spec2Isabelle.thy ===== *)
theory Spec2Isabelle
  imports EvaluationPlots DomainFiles DomainClean Slack SpacyExtractor Cli
begin

text \<open>
  \<^bold>\<open>A verification development for the rasa dialogue core.\<close>

  The dialogue core (\<open>src/rasa/core\<close>) has three parts. The policy ensemble
  (\<open>policies/ensemble.py\<close>) picks the next action. The domain (\<open>domain.py\<close>)
  supplies the action index space and encodes a tracker as a state vector. The
  evaluation engine (\<open>test.py\<close>) replays recorded stories through a processor that
  calls the ensemble. The dialogue state tracker and the policies are external
  collaborators: they are modelled from the specification as data and functions the
  sources call. Around the core sit the Slack channel (\<open>channels/slack.py\<close>), which
  turns Slack's HTTP callbacks into user messages for the processor and the bot's answers
  into Slack API calls, the spaCy entity extractor
  (\<open>src/rasa/nlu/extractors/spacy_entity_extractor.py\<close>), which adds entities to a
  message, and the command line entry point (\<open>src/rasa/__main__.py\<close>).

  \<^bold>\<open>Theories.\<close>
  \<^item> \<open>Prelude\<close>: the Python built-ins the sources use, as executable functions with
    shared lemmas. These are \<open>str(int)\<close>, \<open>endswith\<close>, \<open>list.index\<close> (\<open>py_index\<close>),
    \<open>Counter\<close> duplicates, a dict built from \<open>enumerate\<close>, \<open>sorted(set(..))\<close>
    (\<open>sorted_union\<close>), a loop that stops at the first raise (\<open>map_sum\<close>), and dicts
    as insertion-ordered association lists (\<open>dict_update\<close> is \<open>a.update(b)\<close>).
  \<^item> \<open>Tracker\<close>: an append-only event log. Every piece of current state the sources
    read is a fold of \<open>apply_event\<close> over it, and
    \<open>generate_all_prior_trackers\<close> gives the tracker of every prefix (spec-modelled).
  \<^item> \<open>Domain\<close>: \<open>Domain.__init__\<close> (\<open>make_domain\<close>, with
    \<open>collect_intent_properties\<close> and \<open>_check_domain_sanity\<close> returning
    \<open>InvalidDomain\<close> as \<open>Inl\<close>), the action index space, the state schema
    \<open>input_states\<close> and \<open>index_of_state\<close>, \<open>get_active_states\<close> and
    \<open>states_for_tracker_history\<close>, \<open>random_template_for\<close> as the set of outcomes
    \<open>np.random.choice\<close> can give,
    \<open>slots_for_entities\<close>, and the specification check
    (\<open>persist_specification\<close>, \<open>compare_with_specification\<close>). The invariant is
    \<open>wf_domain\<close>.
  \<^item> \<open>DomainMerge\<close>: the domain as a dict. It covers \<open>as_dict\<close>, \<open>from_dict\<close>
    (\<open>domain_from_dict\<close>, with \<open>collect_templates\<close>, \<open>collect_slots\<close> and
    \<open>_get_session_config\<close>), \<open>merge\<close>, and \<open>load\<close> and \<open>from_directory\<close> over
    parsed files. It also covers the slots added after construction, \<open>domain_warnings\<close>,
    \<open>check_missing_templates\<close> and \<open>is_empty\<close>. Because \<open>merge\<close> mutates its argument
    through the aliased actions list, it returns the argument afterwards beside its
    result.
  \<^item> \<open>DomainFiles\<close>: \<open>Domain.load\<close> (\<open>domain_load\<close>, \<open>load_fs_paths\<close>),
    \<open>from_path\<close>, \<open>from_file\<close>, \<open>from_yaml\<close> and \<open>from_directory\<close>
    (\<open>from_directory_fs\<close>) over a file system that maps a path to a file's text, a
    directory's files in \<open>os.walk\<close> order, or nothing. The YAML schema check, the YAML
    reader and \<open>rasa.data.is_domain_file\<close> are a record of functions
    (\<open>yaml_io\<close>). A missing path and a schema violation are constructors of
    \<open>domain_error\<close>.
  \<^item> \<open>DomainClean\<close>: \<open>cleaned_domain\<close> (\<open>clean_intent\<close>,
    \<open>clean_slot\<close>, \<open>clean_config\<close>) over \<open>as_dict\<close>, and the writers \<open>persist\<close>
    (\<open>persist_domain\<close>), \<open>persist_clean\<close> and \<open>as_yaml\<close> with the YAML writer as
    a parameter. Cleaning pops keys from the dicts \<open>as_dict\<close> shares with the
    domain's \<open>intent_properties\<close>; that mutation changes only what a later
    \<open>as_dict\<close> writes, not what any reader gets, and is not modelled.
  \<^item> \<open>Ensemble\<close>: \<open>SimplePolicyEnsemble.probabilities_using_best_policy\<close>. One
    iteration per policy is \<open>consider_policy\<close> (rejected action zeroed, \<open>np.max\<close>,
    the lexicographic (confidence, priority) comparison). The loop is \<open>best_loop\<close>,
    followed by the fallback override after \<open>action_listen\<close>
    (\<open>listen_override\<close>).
  \<^item> \<open>EnsemblePersistence\<close>: the rest of \<open>PolicyEnsemble\<close>. This is the
    constructor's priority check, training with the action fingerprints, \<open>persist\<close>
    and \<open>load\<close> over a file system record (metadata plus a map from artifact
    directories to policies; the metadata with \<open>_max_histories\<close> and
    \<open>_add_package_version_info\<close> over the running process, a \<open>persist_env\<close>), the version guard, \<open>from_dict\<close> of a policy
    configuration, \<open>continue_training\<close>, and
    \<open>check_domain_ensemble_compatibility\<close> over the policies' own checks.
  \<^item> \<open>Evaluation\<close>: the \<open>EvaluationStore\<close> (\<open>add_to_store\<close> with its truthiness
    test, \<open>merge_store\<close>, \<open>serialise\<close>), the replay of one story
    (\<open>_collect_user_uttered_predictions\<close>, \<open>_emulate_form_rejection\<close>,
    \<open>_collect_action_executed_predictions\<close>, \<open>_predict_tracker_actions\<close>), and
    \<open>collect_story_predictions\<close> with \<open>_in_training_data_fraction\<close>. The processor
    is a record of the functions the evaluation calls.
  \<^item> \<open>EvaluationRuns\<close>: the entry points around the story loop: \<open>test\<close> with the
    files it writes (\<open>log_failed_stories\<close>, the confusion-matrix plot),
    \<open>_evaluate_core_model\<close>, and \<open>compare_models\<close> and \<open>compare_models_in_dir\<close>
    with the results file. Agent loading, tracker generation, the metrics and directory
    listings are parameters. \<open>plot_story_evaluation\<close> is the confusion-matrix file.
    The marker events \<open>WronglyPredictedAction\<close> and
    \<open>WronglyClassifiedUserUtterance\<close> are modelled with their story lines.
  \<^item> \<open>EvaluationPlots\<close>: \<open>_plot_curve\<close> with \<open>plot_nlu_results\<close> and
    \<open>plot_core_results\<close>. The figure is a record of what is drawn: per configuration of
    the results file, the mean count per x value (\<open>np.mean\<close> along the first axis) and
    the band of one population standard deviation (\<open>np.std\<close>). A ragged results file
    and a mean of the wrong length are the errors numpy and matplotlib raise.
  \<^item> \<open>PyLib\<close>: the Python runtime the channel and the extractor rely on. JSON values
    (\<open>json\<close>), the built-in exceptions (\<open>py_error\<close>), truthiness, \<open>dict.get\<close>,
    subscripts and \<open>in\<close>; \<open>str.split\<close>, \<open>join\<close>, \<open>replace\<close>, \<open>strip\<close>; and
    \<open>re.sub\<close>/\<open>re.search\<close> (\<open>re_sub\<close>, \<open>re_search\<close>) over a matcher, a function
    giving the length of the match at the start of the rest of the subject.
  \<^item> \<open>Slack\<close>: \<open>SlackBot\<close>, each send method as the list of \<open>chat.postMessage\<close>
    calls it makes; \<open>SlackInput\<close>: \<open>from_credentials\<close> and \<open>__init__\<close>
    (\<open>slack_input_init\<close>), \<open>_sanitize_user_message\<close> (\<open>remove_mention\<close> for the
    three mention patterns, \<open>match_link\<close> for the greedy link pattern,
    \<open>replace_link\<close>), the payload tests, \<open>process_message\<close> with its retry guard,
    the routes of \<open>blueprint\<close>, and the \<open>webhook\<close> route (\<open>handle_interactive\<close>
    for form payloads, \<open>handle_event\<close> for JSON events). A route returns the HTTP response together with
    the list of \<open>UserMessage\<close>s it hands to \<open>on_new_message\<close>.
  \<^item> \<open>SpacyExtractor\<close>: \<open>process\<close> and \<open>extract_entities\<close>, with the spaCy
    pipeline as a parameter.
  \<^item> \<open>Cli\<close>: \<open>main\<close> as the sequence of its effects on a parsed namespace, and the
    configuration \<open>create_argument_parser\<close> builds.

  The root theory itself defines the processor the evaluation drives
  (\<open>ensemble_processor\<close>, the spec-modelled \<open>MessageProcessor.predict_next_action\<close>:
  the ensemble's distribution, its first maximal index as \<open>np.argmax\<close> does, and
  the action at that index). It holds the property that spans the evaluation, the
  ensemble and the domain.

  Every operation that changes state takes the state and returns it updated. An
  operation that raises returns \<open>Inl\<close> of the component's error datatype
  (\<open>domain_error\<close>, \<open>ens_error\<close>, \<open>load_error\<close>, \<open>config_error\<close>,
  \<open>eval_error\<close>, \<open>py_error\<close>). Every loop of the sources runs over a finite list and
  is a structurally recursive \<open>fun\<close> or a \<open>fold\<close>. The scans of \<open>re.sub\<close> and
  \<open>str.split\<close> jump over a match and are \<open>function\<close>s whose termination is proved
  with the length of the rest of the subject as measure. So no fuel is needed and every
  definition is total and executable. The examples of each theory are evaluated by
  \<open>code_simp\<close>.

  \<^bold>\<open>What the lemmas show.\<close>
  \<^item> The ensemble's arbitration meets its contract: the first policy with the greatest
    (confidence, priority) wins, and the first fallback policy's scores replace its
    distribution exactly when it predicts \<open>action_listen\<close> after
    \<open>action_listen\<close>, is not a memoization policy, and the ensemble has a fallback
    policy. The duplicate-priority warnings name exactly the policies sharing a
    priority, and the action fingerprints list exactly the slots set after an action.
    The theory also shows where it raises, that it always answers,
    and that a rejected action is zeroed unless the fallback overrides it.
  \<^item> Persisting an ensemble and loading it back gives the same policies, and the
    version guard rejects exactly the models older than the minimum.
  \<^item> \<open>merge\<close> refines its field-by-field description, is idempotent on merge
    results, and round-trips through \<open>as_dict\<close>/\<open>from_dict\<close>. It mutates its
    argument, and it is order-dependent: when one domain's form is a custom action of the
    other, merging one way drops the action and the other way always fails.
    \<open>Domain.load\<close> takes the session configuration of the first file that sets
    one, \<open>from_directory\<close> that of the last.
  \<^item> A constructed domain is well formed. Every domain \<open>Domain.load\<close> returns,
    from files, directories or both, is in merged normal form.
    Construction accepts a domain whatever the intents' use/ignore entity lists are;
    the ambiguity warning of \<open>_get_featurized_entities\<close> names exactly the entities
    both included and ignored. Reading a cleaned domain back gives the domain again, with slot types by their
    type names. \<open>index_of_state\<close> (a dict lookup) equals \<open>list.index\<close> on
    \<open>input_states\<close>, the entity features follow the include/exclude rules, and action
    index and name round-trip.
  \<^item> Without end-to-end evaluation, a replay records exactly one prediction per gold
    action, and a story fails exactly when a predicted action differs. The story
    loop concatenates the per-story stores in order. The error paths of a turn are
    characterised. \<open>serialise\<close> concatenates the categories and pads only the end
    of the shorter list, so entity lists of different turns can misalign; within a
    story they can also cancel (both shown on examples). \<open>_evaluate_core_model\<close> counts exactly the stories
    without a mismatch, and \<open>compare_models\<close> groups the counts by model file name.
    Each plotted curve of a model comparison is the mean of the runs' counts per x
    value with the band of one population standard deviation around it, and plotting
    raises exactly when a run has the wrong number of counts.
  \<^item> Slack: with the default configuration the retry guard drops exactly the
    \<open>http_timeout\<close> retries, and an empty \<open>errors_ignore_retry\<close> cannot turn it off;
    bot messages never reach the processor; button clicks are routed by their value.
    The sanitiser never raises for plain user ids and never lengthens the text; it
    removes every mention of the last id and turns one well-formed link into its label,
    but garbles two links on one line. The posted parts of a text join back to it.
  \<^item> spaCy: \<open>process\<close> keeps a message's entities and appends the spans of the
    requested dimensions, tagged with the extractor's name.
  \<^item> Across components: once \<open>_emulate_form_rejection\<close> keeps the rejection of the
    active form, the ensemble-backed re-prediction cannot be that form unless the
    fallback policy's override produced it.

  \<^bold>\<open>Not modelled.\<close>
  \<^item> Libraries the channel, the extractor and the entry point call: the Slack
    client's network call, Sanic's request
    parsing (a body that is not JSON, form decoding), \<open>json.loads\<close> (a parameter),
    \<open>UserMessage\<close>'s own processing, the spaCy pipeline (a parameter), \<open>argparse\<close>
    and logging. User ids with regular-expression syntax, which the source interpolates
    into its patterns unescaped, and user ids that are not strings, which it would format
    with \<open>str\<close>, give \<open>Unsupported\<close> instead of a pattern; strings are
    8-bit, so \<open>str.isspace\<close> and header case-folding are modelled on Latin-1 and ASCII.
  \<^item> In the modelled files: YAML and JSON reading and writing (the YAML parser and
    schema validator \<open>from_yaml\<close> calls, the YAML writer), story file parsing
    (\<open>_generate_trackers\<close>), the sklearn metrics and reports, the evaluation
    table written to the log (\<open>log_evaluation_table\<close>), and the pixels of the
    plots. These are I/O or library calls; the definitions start from the parsed
    data they produce.
  \<^item> The tracker, the policies' predictions, \<open>FormPolicy.state_is_unhappy\<close>, the
    processor's \<open>predict_next_action\<close> and \<open>MarkdownWriter.generate_entity_md\<close> live
    outside the sources. They are parameters or spec-modelled definitions.
  \<^item> The tracker's \<open>active_form["rejected"]\<close> flag is not part of the tracker model,
    so the reset after an emulated rejection is invisible here. The spec-modelled
    tracker's \<open>latest_message\<close> is \<open>None\<close> before the first user message.
  \<^item> Simplifications of what the code records: the \<open>WronglyClassifiedUserUtterance\<close>
    marker of \<open>_collect_user_uttered_predictions\<close> is modelled as a
    \<open>UserUttered\<close> of the predicted parse data, not of the gold intent and
    entities; the persisted metadata's JSON round trip is the identity; slot types that
    fail to resolve are dropped by \<open>collect_slots\<close> and \<open>from_dict\<close> rather than
    raising; \<open>check_domain_sanity\<close> reads \<open>triggers: null\<close> as no trigger; and
    \<open>as_dict\<close> writes the slot records rather than \<open>persistence_info\<close>.
  \<^item> Aliasing the model does not track: \<open>cleaned_domain\<close> pops keys from the intent
    dicts it shares with the domain (visible only in a later \<open>as_dict\<close>). Also not
    modelled: \<open>Domain.__hash__\<close> (a hash of the JSON dump), the action objects of
    \<open>action_for_name\<close> (they need the action endpoint), and \<open>load\<close>'s choice of
    the ensemble class by name (\<open>SimplePolicyEnsemble\<close> is the only one in the
    sources).
\<close>

section \<open>The processor the evaluation drives\<close>

text \<open>\<open>MessageProcessor.predict_next_action\<close> (\<open>rasa.core.processor\<close>, outside the
  sources) over the ensemble: the distribution and policy name of
  \<open>probabilities_using_best_policy\<close>, the first index of its maximum
  (\<open>np.argmax\<close>), the action at that index and its confidence. The evaluation's
  processor is this one, with the ensemble's policies and \<open>FormPolicy.state_is_unhappy\<close>
  as a parameter.\<close>

definition ensemble_processor ::
  "policy list \<Rightarrow> domain \<Rightarrow> (policy \<Rightarrow> tracker \<Rightarrow> bool) \<Rightarrow> (string \<times> real list) list \<Rightarrow> processor" where
  "ensemble_processor ps d unhappy sl =
     \<lparr>proc_policies = ps,
      predict_next_action = (\<lambda>t.
        case probabilities_using_best_policy ps t d of
          Inl e \<Rightarrow> Inl e
        | Inr (Some r, Some n) \<Rightarrow>
            (case np_max r of
               Inl e \<Rightarrow> Inl e
             | Inr m \<Rightarrow>
                 (case py_index r m of
                    None \<Rightarrow> Inl ValueError
                  | Some i \<Rightarrow>
                      (case action_for_index d (int i) of
                         Inl e \<Rightarrow> Inl (DomainErr e)
                       | Inr a \<Rightarrow> Inr (a, Some n, r ! i))))
        | Inr _ \<Rightarrow> Inl EmptyMaxError),
      state_is_unhappy = unhappy, proc_slots = sl\<rparr>"

section \<open>Examples\<close>

text \<open>A form policy that puts all its probability on \<open>restaurant_form\<close> of the domain
  read from file \<open>a\<close>, which always finds an unhappy path, and a tracker with that form
  active.\<close>

definition ex_form_onehot :: policy where
  "ex_form_onehot =
     \<lparr>pclass = FormPolicy, priority = 5,
      predict = (\<lambda>t d. map (\<lambda>a. if a = ''restaurant_form'' then 1 else 0) (action_names d)),
      fallback_scores = (\<lambda>d. [])\<rparr>"

definition ex_retry_proc :: processor where
  "ex_retry_proc = ensemble_processor [ex_form_onehot] ex_dom_a (\<lambda>p t. True) []"

definition ex_retry_tracker :: tracker where
  "ex_retry_tracker = \<lparr>events = [Form (Some ''restaurant_form'')], slot_features = []\<rparr>"

section \<open>Lemmas\<close>

lemma fold_rejections:
  assumes "fold (\<lambda>p t. if C p then (let t' = tracker_update t (ActionExecutionRejected f) in if U p t' then t' else t) else t) ps t0 = t1"
  shows "t1 = t0 \<or> last_rejected (events t1) = Some f"
  using assms
proof (induction ps arbitrary: t0)
  case (Cons p ps)
  show ?case
  proof (cases "C p \<and> U p (tracker_update t0 (ActionExecutionRejected f))")
    case True
    with Cons.prems have "fold (\<lambda>p t. if C p then (let t' = tracker_update t (ActionExecutionRejected f) in if U p t' then t' else t) else t) ps
                           (tracker_update t0 (ActionExecutionRejected f)) = t1" by (simp add: Let_def)
    from Cons.IH [OF this] show ?thesis by auto
  next
    case False
    with Cons.prems have "fold (\<lambda>p t. if C p then (let t' = tracker_update t (ActionExecutionRejected f) in if U p t' then t' else t) else t) ps t0 = t1"
      by (auto simp: Let_def)
    from Cons.IH [OF this] show ?thesis .
  qed
qed simp

lemma emulate_form_rejection_kept:
  assumes "emulate_form_rejection proc t \<noteq> t"
  shows "\<exists>f. active_form t = Some f \<and> last_rejected (events (emulate_form_rejection proc t)) = Some f"
proof -
  obtain f where f: "active_form t = Some f" "f \<noteq> []"
    using assms by (auto simp: emulate_form_rejection_def split: option.splits if_splits)
  then have "emulate_form_rejection proc t =
               fold (\<lambda>p t. if is_instance_of (pclass p) FormPolicy then
                              (let t' = tracker_update t (ActionExecutionRejected f)
                               in if state_is_unhappy proc p t' then t' else t) else t) (proc_policies proc) t"
    by (simp add: emulate_form_rejection_def)
  from fold_rejections [OF this [symmetric]] assms f show ?thesis by auto
qed

lemma ensemble_processor_predict:
  assumes "predict_next_action (ensemble_processor ps d u sl) t = Inr (a, pol, c)"
  shows "\<exists>r n i. probabilities_using_best_policy ps t d = Inr (Some r, Some n) \<and> pol = Some n \<and>
           r \<noteq> [] \<and> py_index r (Max (set r)) = Some i \<and> i < num_actions d \<and> action_names d ! i = a"
  using assms unfolding ensemble_processor_def
  by (auto simp: np_max_Inr action_for_index_Inr split: sum.splits option.splits prod.splits)

lemma ex_retry:
  "predict_next_action ex_retry_proc ex_retry_tracker = Inr (''restaurant_form'', Some ''policy_0_FormPolicy'', 1)"
  "emulate_form_rejection ex_retry_proc ex_retry_tracker \<noteq> ex_retry_tracker"
  "predict_next_action ex_retry_proc (emulate_form_rejection ex_retry_proc ex_retry_tracker) =
     Inr (''action_listen'', Some ''policy_0_FormPolicy'', 0)"
  "\<forall>p\<in>set [ex_form_onehot]. \<forall>x\<in>set (predict p (emulate_form_rejection ex_retry_proc ex_retry_tracker) ex_dom_a). 0 \<le> x"
  "''restaurant_form'' \<in> set (form_names ex_dom_a)"
  by code_simp+

section \<open>Properties across components\<close>

text \<open>C13. Suppose evaluation runs on the ensemble-backed processor, and
  _emulate_form_rejection keeps the rejection of the active form, a form of a well-formed
  domain. If the policies' scores are non-negative, the re-prediction is not that form
  unless the fallback policy's override produced it.\<close>

theorem retry_avoids_rejected_form:
  assumes wf: "wf_domain d"
    and form: "active_form t = Some f" "f \<in> set (form_names d)"
    and kept: "emulate_form_rejection (ensemble_processor ps d u sl) t \<noteq> t"
    and nn: "\<forall>p\<in>set ps. \<forall>x\<in>set (predict p (emulate_form_rejection (ensemble_processor ps d u sl) t) d). 0 \<le> x"
    and pred: "predict_next_action (ensemble_processor ps d u sl) (emulate_form_rejection (ensemble_processor ps d u sl) t) =
                 Inr (a, pol, c)"
  shows "a \<noteq> f \<or> (\<exists>fi fp rest. fallback_idx_policy ps = (fi, fp) # rest \<and> pol = Some (policy_name fi fp))"
proof -
  let ?t = "emulate_form_rejection (ensemble_processor ps d u sl) t"
  have rej: "last_rejected (events ?t) = Some f"
    using emulate_form_rejection_kept [OF kept] form(1) by auto
  obtain r n i where pu: "probabilities_using_best_policy ps ?t d = Inr (Some r, Some n)" and pol: "pol = Some n"
    and ne: "r \<noteq> []" and i: "py_index r (Max (set r)) = Some i" "i < num_actions d" "action_names d ! i = a"
    using ensemble_processor_predict [OF pred] by blast
  from probabilities_using_best_policy_Some [OF pu] obtain w r0 c0 where w: "w < length ps"
    and o: "policy_outcome d ?t (ps ! w) = Inr (r0, c0)"
    and cases: "(r = r0 \<and> n = policy_name w (ps ! w)) \<or>
      (\<exists>fi fp rest li. fallback_idx_policy ps = (fi, fp) # rest \<and>
         index_for_action d ACTION_LISTEN_NAME = Inr li \<and> py_index r0 c0 = Some li \<and>
         latest_action_name ?t = Some ACTION_LISTEN_NAME \<and> is_not_memo_policy (policy_name w (ps ! w)) \<and>
         r = fallback_scores fp d \<and> n = policy_name fi fp)"
    by blast
  show ?thesis
  proof (cases "r = r0")
    case False
    with cases pol show ?thesis by blast
  next
    case True
    show ?thesis
    proof (rule disjI1, rule notI)
      assume af: "a = f"
      from policy_outcome_Inr [OF o] have z: "zero_rejected d ?t (predict (ps ! w) ?t d) = Inr r0" by simp
      from zero_rejected_Inr [OF z] rej obtain k where k: "index_for_action d f = Inr k" "k < length r0"
        "r0 = (predict (ps ! w) ?t d)[k := 0]" by auto
      from index_for_action_nth [OF wf i(2)] i(3) af k(1) have ki: "k = i" by simp
      have "ps ! w \<in> set ps" using w by simp
      then have nonneg: "\<forall>x\<in>set r. 0 \<le> x"
        using zero_rejected_nonneg [OF z] nn True by blast
      from py_index_Some [OF i(1)] have ri: "r ! i = Max (set r)" and before: "\<forall>j<i. r ! j \<noteq> Max (set r)" by auto
      have "r ! i = 0" using k(2,3) ki True by simp
      then have mx: "Max (set r) = 0" using ri by simp
      have "i = 0"
      proof (rule ccontr)
        assume "i \<noteq> 0"
        then have "r ! 0 \<noteq> 0" using before mx by auto
        moreover have "r ! 0 \<in> set r" using ne by (cases r) auto
        ultimately have "0 < r ! 0" using nonneg by force
        moreover have "r ! 0 \<le> Max (set r)" using \<open>r ! 0 \<in> set r\<close> by simp
        ultimately show False using mx by simp
      qed
      then have "f = ACTION_LISTEN_NAME" using i(3) af wf_action_listen_first [OF wf] by simp
      moreover have "ACTION_LISTEN_NAME \<in> set default_action_names" by (simp add: default_action_names_def)
      ultimately show False using wf_forms_not_default [OF wf form(2)] by simp
    qed
  qed
qed

theorem retry_avoids_rejected_form_witness:
  "predict_next_action ex_retry_proc ex_retry_tracker = Inr (''restaurant_form'', Some ''policy_0_FormPolicy'', 1) \<and>
   (\<exists>a pol c. predict_next_action ex_retry_proc (emulate_form_rejection ex_retry_proc ex_retry_tracker) =
                 Inr (a, pol, c) \<and> a \<noteq> ''restaurant_form'')"
proof -
  have "active_form ex_retry_tracker = Some ''restaurant_form''"
    by (simp add: ex_retry_tracker_def active_form_def replay_def init_tracker_state_def)
  moreover have "fallback_idx_policy [ex_form_onehot] = []"
    by (simp add: fallback_idx_policy_def ex_form_onehot_def)
  ultimately have "''action_listen'' \<noteq> ''restaurant_form''"
    using retry_avoids_rejected_form [OF conjunct1 [OF ex_wf_ab] _ ex_retry(5) ex_retry(2) [unfolded ex_retry_proc_def]
            ex_retry(4) [unfolded ex_retry_proc_def] ex_retry(3) [unfolded ex_retry_proc_def]]
    by simp
  with ex_retry(1,3) show ?thesis by blast
qed

end
